(* ===== verification/Prelude.thy ===== *)
theory Prelude
  imports Main "HOL-Library.AList" "HOL-Library.Multiset"
begin

text \<open>
  Shared vocabulary of the development.

  \<^item> Go maps. A \<^verbatim>\<open>map[K]V\<close> is an association list with distinct keys
    (\<open>gm_wf\<close>). The order of the list is the order in which a \<^verbatim>\<open>range\<close>
    loop visits the entries, which Go leaves unspecified; a fact about a loop that may not
    depend on it is stated for every list with the same multiset of entries.
    A map of pointers is a map of the values pointed to; a write through the pointer found
    under a key is \<open>gm_adjust\<close>, and a loop that writes through every pointer is \<open>map_ran\<close>.
  \<^item> Go errors. \<open>go_error\<close> is what the code can observe of an \<^verbatim>\<open>error\<close>: its
    text, or the gRPC code of a remote failure. A \<^verbatim>\<open>nil\<close> error is \<open>None\<close>.
  \<^item> Run-time panics are values too: \<open>Panic\<close> of the type \<open>'a outcome\<close>; \<open>Blocked\<close> is a call that
    still waits when the modelled sequence of external events ends.
  \<^item> Strings are byte strings (\<open>char list\<close>), as in Go; \<open>len\<close> counts bytes.
\<close>

named_theorems gomap_simps \<open>lookup equations of the operations on Go maps\<close>
named_theorems gomap_wf \<open>preservation of the distinct-keys invariant of Go maps\<close>

section \<open>Errors and panics\<close>

text \<open>
  The constructors keep apart the libraries an error comes from: \<^verbatim>\<open>errors.New\<close> and
  \<^verbatim>\<open>fmt.Errorf\<close>, the typed errors of \<^verbatim>\<open>derrors\<close>, a gRPC status with its code, and a
  failed call of the Kubernetes API with the reason the code asks for (\<^verbatim>\<open>IsNotFound\<close>).
\<close>

datatype derror_type =
    InvalidArgument | Internal | NotFound | Generic | UnauthenticatedError | AlreadyExists

datatype api_reason = ApiNotFound | ApiAlreadyExists | ApiOther

datatype go_error =
    GoError string
  | DError derror_type string
  | RpcError nat string
  | ApiError api_reason string

text \<open>\<^verbatim>\<open>codes.Unauthenticated\<close> of gRPC.\<close>

definition codes_Unauthenticated :: nat where
  "codes_Unauthenticated = 16"

definition is_unauthenticated :: "go_error \<Rightarrow> bool" where
  "is_unauthenticated e = (case e of RpcError c m \<Rightarrow> c = codes_Unauthenticated | _ \<Rightarrow> False)"

definition is_not_found :: "go_error option \<Rightarrow> bool" where
  "is_not_found e = (case e of Some (ApiError r m) \<Rightarrow> r = ApiNotFound | _ \<Rightarrow> False)"

datatype 'a outcome =
    Done 'a
  | Panic string
  | Blocked

fun bind_outcome :: "'a outcome \<Rightarrow> ('a \<Rightarrow> 'b outcome) \<Rightarrow> 'b outcome" where
  "bind_outcome (Done x) f = f x"
| "bind_outcome (Panic m) f = Panic m"
| "bind_outcome Blocked f = Blocked"

fun err_text :: "go_error \<Rightarrow> string" where
  "err_text (GoError m) = m"
| "err_text (DError t m) = m"
| "err_text (RpcError c m) = m"
| "err_text (ApiError r m) = m"

lemma bind_outcome_Done_iff:
  "bind_outcome x f = Done y \<longleftrightarrow> (\<exists>z. x = Done z \<and> f z = Done y)"
  by (cases x) auto

lemma bind_outcome_eqI: "(\<And>z. x = Done z \<Longrightarrow> f z = g z) \<Longrightarrow> bind_outcome x f = bind_outcome x g"
  by (cases x) auto

lemma bind_outcome_assoc:
  "bind_outcome (bind_outcome x f) g = bind_outcome x (\<lambda>y. bind_outcome (f y) g)"
  by (cases x) auto

section \<open>Go maps\<close>

type_synonym ('k, 'v) gomap = "('k \<times> 'v) list"

abbreviation gm_get :: "('k, 'v) gomap \<Rightarrow> 'k \<Rightarrow> 'v option" where
  "gm_get \<equiv> map_of"

abbreviation gm_put :: "'k \<Rightarrow> 'v \<Rightarrow> ('k, 'v) gomap \<Rightarrow> ('k, 'v) gomap" where
  "gm_put \<equiv> AList.update"

abbreviation gm_delete :: "'k \<Rightarrow> ('k, 'v) gomap \<Rightarrow> ('k, 'v) gomap" where
  "gm_delete \<equiv> AList.delete"

abbreviation gm_adjust :: "'k \<Rightarrow> ('v \<Rightarrow> 'v) \<Rightarrow> ('k, 'v) gomap \<Rightarrow> ('k, 'v) gomap" where
  "gm_adjust \<equiv> AList.map_entry"

abbreviation gm_wf :: "('k, 'v) gomap \<Rightarrow> bool" where
  "gm_wf m \<equiv> distinct (map fst m)"

abbreviation gm_values :: "('k, 'v) gomap \<Rightarrow> 'v list" where
  "gm_values m \<equiv> map snd m"

text \<open>Reading a missing key of a \<^verbatim>\<open>map[string]string\<close> gives the empty string.\<close>

definition gm_str :: "(string, string) gomap \<Rightarrow> string \<Rightarrow> string" where
  "gm_str m k = (case gm_get m k of None \<Rightarrow> [] | Some v \<Rightarrow> v)"

lemma get_put [gomap_simps]: "gm_get (gm_put k v m) k' = (if k' = k then Some v else gm_get m k')"
  by (simp add: update_conv')

lemma get_delete [gomap_simps]: "gm_get (gm_delete k m) k' = (if k' = k then None else gm_get m k')"
  by (simp add: delete_conv')

lemma get_adjust [gomap_simps]:
  "gm_get (gm_adjust k f m) k' = (if k' = k then map_option f (gm_get m k) else gm_get m k')"
  by (auto simp: map_of_map_entry split: option.splits)

lemma get_map_ran [gomap_simps]: "gm_get (map_ran f m) k = map_option (f k) (gm_get m k)"
  by (rule map_ran_conv)

lemma wf_put [gomap_wf]: "gm_wf m \<Longrightarrow> gm_wf (gm_put k v m)"
  by (rule distinct_update)

lemma wf_delete [gomap_wf]: "gm_wf m \<Longrightarrow> gm_wf (gm_delete k m)"
  by (rule distinct_delete)

lemma wf_adjust [gomap_wf]: "gm_wf m \<Longrightarrow> gm_wf (gm_adjust k f m)"
  by (rule distinct_map_entry)

lemma wf_map_ran [gomap_wf]: "gm_wf m \<Longrightarrow> gm_wf (map_ran f m)"
  by (rule distinct_map_ran)

lemma get_mem: "gm_get m k = Some v \<Longrightarrow> (k, v) \<in> set m"
  by (rule map_of_SomeD)

lemma mem_get: "gm_wf m \<Longrightarrow> (k, v) \<in> set m \<Longrightarrow> gm_get m k = Some v"
  by simp

lemma mem_values_iff: "gm_wf m \<Longrightarrow> v \<in> set (gm_values m) \<longleftrightarrow> (\<exists>k. gm_get m k = Some v)"
  by (auto intro: rev_image_eqI)

text \<open>Two lists with the same entries are the same map.\<close>

lemma get_mset_eq: "gm_wf m \<Longrightarrow> mset m = mset m' \<Longrightarrow> gm_get m = gm_get m'"
proof -
  assume wf: "gm_wf m" and eq: "mset m = mset m'"
  have "mset (map fst m) = mset (map fst m')"
    using eq by (simp add: mset_map)
  then have "gm_wf m'"
    using wf by (metis mset_eq_imp_distinct_iff)
  moreover have "set m = set m'"
    using eq by (metis set_mset_mset)
  ultimately show ?thesis
    using wf by (simp add: map_of_inject_set)
qed

lemma values_mset_eq: "mset m = mset m' \<Longrightarrow> mset (gm_values m) = mset (gm_values m')"
  by (simp add: mset_map)

text \<open>
  Changing the value under one key changes a sum over the values by the difference of that
  value's contribution; adding a fresh key adds one contribution.
\<close>

lemma sum_put_fresh:
  fixes f :: "'v \<Rightarrow> 'n :: comm_monoid_add"
  assumes "gm_get m k = None"
  shows "sum_list (map (f \<circ> snd) (gm_put k v m)) = sum_list (map (f \<circ> snd) m) + f v"
  using assms by (induction m) (auto simp: ac_simps split: if_splits)

lemma sum_adjust:
  fixes f :: "'v \<Rightarrow> int"
  assumes "gm_get m k = Some v"
  shows "sum_list (map (f \<circ> snd) (gm_adjust k g m)) = sum_list (map (f \<circ> snd) m) - f v + f (g v)"
  using assms by (induction m) (auto split: if_splits)

lemma length_put_fresh: "gm_get m k = None \<Longrightarrow> length (gm_put k v m) = Suc (length m)"
  by (induction m) (auto split: if_splits)

lemma length_adjust [simp]: "length (gm_adjust k f m) = length m"
  by (induction m) auto

lemma keys_adjust [simp]: "map fst (gm_adjust k f m) = map fst m"
  by (induction m) auto

lemma values_map_ran: "gm_values (map_ran f m) = map (\<lambda>(k, v). f k v) m"
  by (induction m) auto

lemma values_map_ran_image: "set (gm_values (map_ran (\<lambda>_. f) m)) = f ` set (gm_values m)"
  unfolding values_map_ran by force

lemma adjust_absent: "gm_get m k = None \<Longrightarrow> gm_adjust k f m = m"
  by (induction m) (auto split: if_splits)

subsection \<open>Predicates on all entries of a map\<close>

text \<open>
  \<open>gm_all P m\<close>: the keys are distinct and every entry satisfies \<open>P\<close>. The invariants of the
  components are nested uses of it, and the rules of \<open>gm_all_intros\<close> carry them through the
  operations.
\<close>

definition gm_all :: "('k \<Rightarrow> 'v \<Rightarrow> bool) \<Rightarrow> ('k, 'v) gomap \<Rightarrow> bool" where
  "gm_all P m \<longleftrightarrow> gm_wf m \<and> (\<forall>(k, v) \<in> set m. P k v)"

lemma gm_all_wf: "gm_all P m \<Longrightarrow> gm_wf m"
  by (simp add: gm_all_def)

lemma gm_all_get: "gm_all P m \<Longrightarrow> gm_get m k = Some v \<Longrightarrow> P k v"
  by (auto simp: gm_all_def dest: get_mem)

lemma gm_all_mem: "gm_all P m \<Longrightarrow> (k, v) \<in> set m \<Longrightarrow> P k v"
  by (auto simp: gm_all_def)

lemma gm_all_iff: "gm_all P m \<longleftrightarrow> gm_wf m \<and> (\<forall>k v. gm_get m k = Some v \<longrightarrow> P k v)"
  by (auto simp: gm_all_def dest: get_mem)

lemma gm_all_mono: "gm_all P m \<Longrightarrow> (\<And>k v. P k v \<Longrightarrow> Q k v) \<Longrightarrow> gm_all Q m"
  by (auto simp: gm_all_def)

lemma gm_all_empty: "gm_all P []"
  by (simp add: gm_all_def)

lemma gm_all_put: "gm_all P m \<Longrightarrow> P k v \<Longrightarrow> gm_all P (gm_put k v m)"
  by (auto simp: gm_all_iff gomap_simps intro: gomap_wf)

lemma gm_all_delete: "gm_all P m \<Longrightarrow> gm_all P (gm_delete k m)"
  by (auto simp: gm_all_iff gomap_simps intro: gomap_wf split: if_splits)

lemma gm_all_adjust:
  "gm_all P m \<Longrightarrow> (\<And>v. gm_get m k = Some v \<Longrightarrow> P k v \<Longrightarrow> P k (f v)) \<Longrightarrow> gm_all P (gm_adjust k f m)"
  by (auto simp: gm_all_iff gomap_simps intro: gomap_wf split: if_splits)

lemma gm_all_map_ran:
  "gm_all P m \<Longrightarrow> (\<And>k v. P k v \<Longrightarrow> P k (f k v)) \<Longrightarrow> gm_all P (map_ran f m)"
  by (auto simp: gm_all_iff gomap_simps intro: gomap_wf)

lemmas gm_all_intros = gm_all_empty gm_all_put gm_all_delete gm_all_adjust gm_all_map_ran

lemma set_values_ran: "gm_wf m \<Longrightarrow> set (gm_values m) = ran (gm_get m)"
  by (simp add: ran_distinct)

subsection \<open>The contract of a keyed store\<close>

text \<open>
  What the components rely on when they keep their state in a Go map: a write is read back,
  leaves the other keys alone, and a deleted key is gone.
\<close>

locale keyed_store =
  fixes get :: "'m \<Rightarrow> 'k \<Rightarrow> 'v option"
    and put :: "'k \<Rightarrow> 'v \<Rightarrow> 'm \<Rightarrow> 'm"
    and del :: "'k \<Rightarrow> 'm \<Rightarrow> 'm"
    and wf :: "'m \<Rightarrow> bool"
  assumes put_law: "get (put k v m) k' = (if k' = k then Some v else get m k')"
    and del_law: "get (del k m) k' = (if k' = k then None else get m k')"
    and put_wf: "wf m \<Longrightarrow> wf (put k v m)"
    and del_wf: "wf m \<Longrightarrow> wf (del k m)"
begin

lemma put_same: "get (put k v m) k = Some v"
  by (simp add: put_law)

lemma del_put: "get (del k (put k v m)) = get (del k m)"
  by (auto simp: put_law del_law)

lemma put_swap: "k \<noteq> l \<Longrightarrow> get (put k v (put l w m)) = get (put l w (put k v m))"
  by (auto simp: put_law)

lemma del_absent: "get m k = None \<Longrightarrow> get (del k m) = get m"
  by (auto simp: del_law)

text \<open>Deleting the keys of a list, in any order, removes exactly those keys.\<close>

lemma del_fold: "get (fold del ks m) k = (if k \<in> set ks then None else get m k)"
  by (induction ks arbitrary: m) (auto simp: del_law)

lemma del_fold_wf: "wf m \<Longrightarrow> wf (fold del ks m)"
  by (induction ks arbitrary: m) (auto intro: del_wf)

end

interpretation gm: keyed_store gm_get gm_put gm_delete gm_wf
  by unfold_locales (auto simp: gomap_simps intro: gomap_wf)

section \<open>Strings\<close>

text \<open>\<^verbatim>\<open>strings.Replace(s, old, new, -1)\<close> for a one-byte \<^verbatim>\<open>old\<close>.\<close>

fun replace_char :: "char \<Rightarrow> string \<Rightarrow> string \<Rightarrow> string" where
  "replace_char c r [] = []"
| "replace_char c r (x # xs) = (if x = c then r @ replace_char c r xs else x # replace_char c r xs)"

text \<open>\<^verbatim>\<open>strings.ToLower\<close> on the ASCII range; other bytes are left alone.\<close>

definition lower_char :: "char \<Rightarrow> char" where
  "lower_char c = (if 65 \<le> (of_char c :: nat) \<and> (of_char c :: nat) \<le> 90
     then char_of ((of_char c :: nat) + 32) else c)"

definition to_lower :: "string \<Rightarrow> string" where
  "to_lower s = map lower_char s"

fun has_prefix :: "string \<Rightarrow> string \<Rightarrow> bool" where
  "has_prefix s [] = True"
| "has_prefix [] (p # ps) = False"
| "has_prefix (c # s) (p # ps) = (c = p \<and> has_prefix s ps)"

text \<open>\<^verbatim>\<open>strings.Split\<close> and \<^verbatim>\<open>strings.Join\<close> with a one-byte separator.\<close>

fun split_on :: "char \<Rightarrow> string \<Rightarrow> string list" where
  "split_on c [] = [[]]"
| "split_on c (x # xs) =
     (if x = c then [] # split_on c xs
      else (case split_on c xs of [] \<Rightarrow> [[x]] | w # ws \<Rightarrow> (x # w) # ws))"

fun join_with :: "string \<Rightarrow> string list \<Rightarrow> string" where
  "join_with sep [] = []"
| "join_with sep [w] = w"
| "join_with sep (w # v # ws) = w @ sep @ join_with sep (v # ws)"

text \<open>\<^verbatim>\<open>filepath.Clean\<close> and \<^verbatim>\<open>filepath.Join\<close> for slash-separated paths; \<open>clean_part\<close> keeps the parts in reverse.\<close>

definition clean_part :: "bool \<Rightarrow> string \<Rightarrow> string list \<Rightarrow> string list" where
  "clean_part rooted p acc =
     (if p = [] \<or> p = ''.'' then acc
      else if p = ''..'' then
        (case acc of
           [] \<Rightarrow> if rooted then [] else [''..'']
         | q # rest \<Rightarrow> if q = ''..'' then ''..'' # acc else rest)
      else p # acc)"

definition path_clean :: "string \<Rightarrow> string" where
  "path_clean path =
     (let rooted = has_prefix path ''/'';
          body = join_with ''/'' (rev (fold (clean_part rooted) (split_on CHR ''/'' path) []))
      in if rooted then ''/'' @ body else if body = [] then ''.'' else body)"

definition path_join :: "string list \<Rightarrow> string" where
  "path_join elems =
     (case dropWhile (\<lambda>e. e = []) elems of [] \<Rightarrow> [] | es \<Rightarrow> path_clean (join_with ''/'' es))"

text \<open>\<^verbatim>\<open>%d\<close> of a non-negative and of a signed integer.\<close>

fun show_nat :: "nat \<Rightarrow> string" where
  "show_nat n = (if n < 10 then [char_of (48 + n)] else show_nat (n div 10) @ [char_of (48 + n mod 10)])"

declare show_nat.simps [simp del]

definition show_int :: "int \<Rightarrow> string" where
  "show_int i = (if i < 0 then ''-'' @ show_nat (nat (- i)) else show_nat (nat i))"

definition show_bool :: "bool \<Rightarrow> string" where
  "show_bool b = (if b then ''true'' else ''false'')"

text \<open>The last \<open>n\<close> bytes, \<^verbatim>\<open>s[len(s)-n:]\<close>, when the string is longer than \<open>n\<close>.\<close>

definition keep_last :: "nat \<Rightarrow> string \<Rightarrow> string" where
  "keep_last n s = (if n < length s then drop (length s - n) s else s)"

definition keep_first :: "nat \<Rightarrow> string \<Rightarrow> string" where
  "keep_first n s = (if n < length s then take n s else s)"

text \<open>\<^verbatim>\<open>s[0:n]\<close>: a panic when the string is shorter.\<close>

definition slice_to :: "nat \<Rightarrow> string \<Rightarrow> string outcome" where
  "slice_to n s = (if n \<le> length s then Done (take n s) else Panic ''slice bounds out of range'')"

lemma length_keep_last: "length (keep_last n s) = min n (length s)"
  by (auto simp: keep_last_def)

lemma length_keep_first: "length (keep_first n s) = min n (length s)"
  by (auto simp: keep_first_def)

lemma keep_last_short [simp]: "length s \<le> n \<Longrightarrow> keep_last n s = s"
  by (simp add: keep_last_def)

lemma replace_char_notin: "c \<notin> set r \<Longrightarrow> c \<notin> set (replace_char c r s)"
  by (induction s) auto

lemma replace_char_absent: "c \<notin> set s \<Longrightarrow> replace_char c r s = s"
  by (induction s) auto

lemma replace_char_empty: "replace_char c [] s = filter (\<lambda>x. x \<noteq> c) s"
  by (induction s) auto

lemma split_on_nonempty: "split_on c s \<noteq> []"
  by (induction s) (auto split: list.splits)

lemma join_split: "join_with [c] (split_on c s) = s"
proof (induction s)
  case (Cons x xs)
  then show ?case
    by (cases "split_on c xs" rule: list.exhaust; cases "tl (split_on c xs)")
      (auto simp: split_on_nonempty)
qed simp

text \<open>A digit string has no sign, is not empty, and determines the number.\<close>

definition is_digit :: "char \<Rightarrow> bool" where
  "is_digit c \<longleftrightarrow> 48 \<le> (of_char c :: nat) \<and> (of_char c :: nat) \<le> 57"

lemma of_char_digit: "n < 10 \<Longrightarrow> (of_char (char_of (48 + n :: nat) :: char) :: nat) = 48 + n"
  by simp

lemma is_digit_char: "n < 10 \<Longrightarrow> is_digit (char_of (48 + n :: nat))"
  by (simp add: is_digit_def)

lemma show_nat_digits: "\<forall>c \<in> set (show_nat n). is_digit c"
proof (induction n rule: show_nat.induct)
  case (1 n)
  show ?case
    using 1 by (subst show_nat.simps) (auto simp: is_digit_char)
qed

lemma hyphen_not_digit: "\<not> is_digit CHR ''-''"
  by (simp add: is_digit_def)

lemma hyphen_notin_show_nat: "CHR ''-'' \<notin> set (show_nat n)"
  using show_nat_digits hyphen_not_digit by blast

lemma show_nat_nonempty: "show_nat n \<noteq> []"
  by (subst show_nat.simps) simp

definition digits_value :: "string \<Rightarrow> nat" where
  "digits_value s = foldl (\<lambda>acc c. 10 * acc + ((of_char c :: nat) - 48)) 0 s"

lemma digits_value_snoc: "digits_value (s @ [c]) = 10 * digits_value s + ((of_char c :: nat) - 48)"
  by (simp add: digits_value_def)

lemma digits_value_show_nat: "digits_value (show_nat n) = n"
proof (induction n rule: show_nat.induct)
  case (1 n)
  show ?case
  proof (cases "n < 10")
    case True
    then show ?thesis by (subst show_nat.simps) (simp add: digits_value_def)
  next
    case False
    then show ?thesis
      using 1 by (subst show_nat.simps) (simp add: digits_value_snoc)
  qed
qed

lemma show_nat_inj: "show_nat m = show_nat n \<longleftrightarrow> m = n"
  by (metis digits_value_show_nat)

section \<open>Sequences of calls\<close>

text \<open>
  A piece of the program that changes a state and may panic or block is a function from the
  state to an outcome with the result and the new state. \<open>and_then\<close> is the sequence of two
  statements; \<open>with_state\<close> reads the state;
  \<open>on_ok\<close> is a call followed by \<^verbatim>\<open>if err != nil { return err }\<close>; \<open>for_each\<close> is
  \<^verbatim>\<open>for _, x := range xs { if err := step(x); err != nil { return err } }\<close>.
\<close>

type_synonym ('a, 's) prog = "'s \<Rightarrow> ('a \<times> 's) outcome"

definition ret :: "'a \<Rightarrow> ('a, 's) prog" where
  "ret x s = Done (x, s)"

definition panic :: "string \<Rightarrow> ('a, 's) prog" where
  "panic m s = Panic m"

definition and_then :: "('a, 's) prog \<Rightarrow> ('a \<Rightarrow> ('b, 's) prog) \<Rightarrow> ('b, 's) prog" where
  "and_then p f s = bind_outcome (p s) (\<lambda>(x, s'). f x s')"

definition lift_outcome :: "'a outcome \<Rightarrow> ('a, 's) prog" where
  "lift_outcome r s = bind_outcome r (\<lambda>x. Done (x, s))"

definition with_state :: "('s \<Rightarrow> ('a, 's) prog) \<Rightarrow> ('a, 's) prog" where
  "with_state f s = f s s"

definition on_ok :: "(go_error option, 's) prog \<Rightarrow> (go_error option, 's) prog \<Rightarrow> (go_error option, 's) prog" where
  "on_ok p q = and_then p (\<lambda>err. case err of Some e \<Rightarrow> ret (Some e) | None \<Rightarrow> q)"

fun for_each :: "('a \<Rightarrow> (go_error option, 's) prog) \<Rightarrow> 'a list \<Rightarrow> (go_error option, 's) prog" where
  "for_each step [] = ret None"
| "for_each step (x # xs) = on_ok (step x) (for_each step xs)"

lemma ret_apply: "ret x s = Done (x, s)"
  by (simp add: ret_def)

lemma and_then_ret [simp]: "and_then (ret x) f = f x"
  by (rule ext) (simp add: and_then_def ret_def)

lemma and_then_assoc: "and_then (and_then p f) g = and_then p (\<lambda>x. and_then (f x) g)"
proof
  fix s show "and_then (and_then p f) g s = and_then p (\<lambda>x. and_then (f x) g) s"
    by (cases "p s") (auto simp: and_then_def)
qed

lemma and_then_Done_iff:
  "and_then p f s = Done (y, t) \<longleftrightarrow> (\<exists>x s'. p s = Done (x, s') \<and> f x s' = Done (y, t))"
  by (auto simp: and_then_def bind_outcome_Done_iff)

lemma on_ok_assoc: "on_ok (on_ok p q) r = on_ok p (on_ok q r)"
  unfolding on_ok_def and_then_assoc
  by (intro arg_cong [of _ _ "and_then p"] ext) (simp split: option.splits)

lemma on_ok_ret_None [simp]: "on_ok (ret None) q = q"
  by (simp add: on_ok_def)

lemma on_ok_ret_Some [simp]: "on_ok (ret (Some e)) q = ret (Some e)"
  by (simp add: on_ok_def)

lemma on_ok_apply:
  "on_ok p q s = (case p s of Done (Some e, s') \<Rightarrow> Done (Some e, s') | Done (None, s') \<Rightarrow> q s'
     | Panic m \<Rightarrow> Panic m | Blocked \<Rightarrow> Blocked)"
  by (cases "p s") (auto simp: on_ok_def and_then_def ret_def split: option.splits)

lemma on_ok_None_iff:
  "on_ok p q s = Done (None, t) \<longleftrightarrow> (\<exists>s'. p s = Done (None, s') \<and> q s' = Done (None, t))"
  by (auto simp: on_ok_apply split: outcome.splits option.splits)

lemma for_each_append: "for_each step (xs @ ys) = on_ok (for_each step xs) (for_each step ys)"
  by (induction xs) (simp_all add: on_ok_assoc)

lemma for_each_concat:
  "for_each (\<lambda>(k, xs). for_each step xs) m = for_each step (concat (gm_values m))"
  by (induction m) (auto simp: for_each_append)

lemma for_each_map: "for_each step (map f xs) = for_each (step \<circ> f) xs"
  by (induction xs) auto

text \<open>
  \<open>keeps I p\<close>: every result of \<open>p\<close> from a state with \<open>I\<close> has \<open>I\<close> again.
\<close>

definition keeps :: "('s \<Rightarrow> bool) \<Rightarrow> ('a, 's) prog \<Rightarrow> bool" where
  "keeps I p \<longleftrightarrow> (\<forall>s x s'. I s \<longrightarrow> p s = Done (x, s') \<longrightarrow> I s')"

named_theorems keeps_intros \<open>preservation of a state predicate by the parts of a program\<close>

lemma keepsD: "keeps I p \<Longrightarrow> I s \<Longrightarrow> p s = Done (x, s') \<Longrightarrow> I s'"
  by (auto simp: keeps_def)

lemma keeps_ret [keeps_intros]: "keeps I (ret x)"
  by (auto simp: keeps_def ret_def)

lemma keeps_panic [keeps_intros]: "keeps I (panic m)"
  by (auto simp: keeps_def panic_def)

lemma keeps_lift [keeps_intros]: "keeps I (lift_outcome r)"
  by (auto simp: keeps_def lift_outcome_def bind_outcome_Done_iff)

lemma keeps_and_then [keeps_intros]:
  "keeps I p \<Longrightarrow> (\<And>x. keeps I (f x)) \<Longrightarrow> keeps I (and_then p f)"
  unfolding keeps_def and_then_Done_iff by metis

lemma keeps_with_state [keeps_intros]: "(\<And>s. keeps I (f s)) \<Longrightarrow> keeps I (with_state f)"
  unfolding keeps_def with_state_def by blast

lemma keeps_on_ok [keeps_intros]: "keeps I p \<Longrightarrow> keeps I q \<Longrightarrow> keeps I (on_ok p q)"
  unfolding on_ok_def by (rule keeps_and_then) (auto split: option.split intro: keeps_ret)

lemma keeps_for_each [keeps_intros]:
  "(\<And>x. x \<in> set xs \<Longrightarrow> keeps I (step x)) \<Longrightarrow> keeps I (for_each step xs)"
  by (induction xs) (auto intro!: keeps_intros)

text \<open>\<open>returns p\<close>: the program neither panics nor blocks.\<close>

definition returns :: "('s \<Rightarrow> bool) \<Rightarrow> ('a, 's) prog \<Rightarrow> bool" where
  "returns I p \<longleftrightarrow> (\<forall>s. I s \<longrightarrow> (\<exists>x s'. p s = Done (x, s')))"

lemma returns_and_then:
  "returns I p \<Longrightarrow> keeps I p \<Longrightarrow> (\<And>x. returns I (f x)) \<Longrightarrow> returns I (and_then p f)"
  unfolding returns_def keeps_def and_then_def by (metis bind_outcome.simps(1) case_prod_conv)

lemma returns_ret: "returns I (ret x)"
  by (simp add: returns_def ret_def)

lemma returns_on_ok: "returns I p \<Longrightarrow> keeps I p \<Longrightarrow> returns I q \<Longrightarrow> returns I (on_ok p q)"
  unfolding on_ok_def by (rule returns_and_then) (auto split: option.split intro: returns_ret)

lemma returns_for_each:
  assumes "\<And>x. x \<in> set xs \<Longrightarrow> returns I (step x)" and "\<And>x. x \<in> set xs \<Longrightarrow> keeps I (step x)"
  shows "returns I (for_each step xs)"
  using assms by (induction xs) (auto intro!: returns_on_ok returns_ret)

end
