(* ===== verification/Common.thy ===== *)
theory Common
  imports Prelude
begin

text \<open>
  The helpers shared by all packages: names and limits of \<^verbatim>\<open>pkg/common/common.go\<close>, the labels and
  variables of \<^verbatim>\<open>pkg/utils/variables.go\<close>, \<^verbatim>\<open>pkg/network/utils.go\<close>, and \<open>ReformatLabel\<close> of
  \<^verbatim>\<open>pkg/kubernetes/kubernetes_utils.go\<close>. The lemmas show when generated names are short enough and
  distinct.
\<close>

named_theorems go_constants \<open>the constants of the program\<close>

section \<open>Constants\<close>

definition MaxNameLength :: nat where [go_constants]: "MaxNameLength = 63"
definition NamespaceLength :: nat where [go_constants]: "NamespaceLength = 63"
definition AllServices :: string where [go_constants]: "AllServices = ''all''"

definition NALEJ_ANNOTATION_ZT_NETWORK_ID :: string where
  [go_constants]: "NALEJ_ANNOTATION_ZT_NETWORK_ID = ''nalej-zt-network-id''"
definition NALEJ_ANNOTATION_IS_PROXY :: string where
  [go_constants]: "NALEJ_ANNOTATION_IS_PROXY = ''nalej-is-proxy''"
definition NALEJ_ANNOTATION_DEPLOYMENT_ID :: string where
  [go_constants]: "NALEJ_ANNOTATION_DEPLOYMENT_ID = ''nalej-deployment-id''"
definition NALEJ_ANNOTATION_DEPLOYMENT_FRAGMENT :: string where
  [go_constants]: "NALEJ_ANNOTATION_DEPLOYMENT_FRAGMENT = ''nalej-deployment-fragment''"
definition NALEJ_ANNOTATION_ORGANIZATION_ID :: string where
  [go_constants]: "NALEJ_ANNOTATION_ORGANIZATION_ID = ''nalej-organization''"
definition NALEJ_ANNOTATION_ORGANIZATION_NAME :: string where
  [go_constants]: "NALEJ_ANNOTATION_ORGANIZATION_NAME = ''nalej-organization-name''"
definition NALEJ_ANNOTATION_APP_DESCRIPTOR :: string where
  [go_constants]: "NALEJ_ANNOTATION_APP_DESCRIPTOR = ''nalej-app-descriptor''"
definition NALEJ_ANNOTATION_APP_DESCRIPTOR_NAME :: string where
  [go_constants]: "NALEJ_ANNOTATION_APP_DESCRIPTOR_NAME = ''nalej-app-descriptor-name''"
definition NALEJ_ANNOTATION_APP_NAME :: string where
  [go_constants]: "NALEJ_ANNOTATION_APP_NAME = ''nalej-app-name''"
definition NALEJ_ANNOTATION_APP_INSTANCE_ID :: string where
  [go_constants]: "NALEJ_ANNOTATION_APP_INSTANCE_ID = ''nalej-app-instance-id''"
definition NALEJ_ANNOTATION_STAGE_ID :: string where
  [go_constants]: "NALEJ_ANNOTATION_STAGE_ID = ''nalej-stage-id''"
definition NALEJ_ANNOTATION_SERVICE_NAME :: string where
  [go_constants]: "NALEJ_ANNOTATION_SERVICE_NAME = ''nalej-service-name''"
definition NALEJ_ANNOTATION_SERVICE_FQDN :: string where
  [go_constants]: "NALEJ_ANNOTATION_SERVICE_FQDN = ''nalej-service-fqdn''"
definition NALEJ_ANNOTATION_SERVICE_ID :: string where
  [go_constants]: "NALEJ_ANNOTATION_SERVICE_ID = ''nalej-service-id''"
definition NALEJ_ANNOTATION_SERVICE_INSTANCE_ID :: string where
  [go_constants]: "NALEJ_ANNOTATION_SERVICE_INSTANCE_ID = ''nalej-service-instance-id''"
definition NALEJ_ANNOTATION_SERVICE_GROUP_ID :: string where
  [go_constants]: "NALEJ_ANNOTATION_SERVICE_GROUP_ID = ''nalej-service-group-id''"
definition NALEJ_ANNOTATION_SERVICE_GROUP_NAME :: string where
  [go_constants]: "NALEJ_ANNOTATION_SERVICE_GROUP_NAME = ''nalej-service-group-name''"
definition NALEJ_ANNOTATION_SERVICE_GROUP_INSTANCE_ID :: string where
  [go_constants]: "NALEJ_ANNOTATION_SERVICE_GROUP_INSTANCE_ID = ''nalej-service-group-instance-id''"
definition NALEJ_ANNOTATION_STORAGE_TYPE :: string where
  [go_constants]: "NALEJ_ANNOTATION_STORAGE_TYPE = ''nalej-storage-type''"
definition NALEJ_ANNOTATION_INGRESS_ENDPOINT :: string where
  [go_constants]: "NALEJ_ANNOTATION_INGRESS_ENDPOINT = ''nalej-endpoint''"
definition NALEJ_ANNOTATION_SECURITY_RULE_ID :: string where
  [go_constants]: "NALEJ_ANNOTATION_SECURITY_RULE_ID = ''nalej-security-rule-id''"
definition NALEJ_ANNOTATION_SERVICE_PURPOSE :: string where
  [go_constants]: "NALEJ_ANNOTATION_SERVICE_PURPOSE = ''nalej-service-purpose''"
definition NALEJ_ANNOTATION_VALUE_DEVICE_GROUP_SERVICE :: string where
  [go_constants]: "NALEJ_ANNOTATION_VALUE_DEVICE_GROUP_SERVICE = ''device-group''"
definition NALEJ_ANNOTATION_VALUE_LOAD_BALANCER_SERVICE :: string where
  [go_constants]: "NALEJ_ANNOTATION_VALUE_LOAD_BALANCER_SERVICE = ''load-balancer''"
definition NALEJ_ANNOTATION_DG_SECRETS :: string where
  [go_constants]: "NALEJ_ANNOTATION_DG_SECRETS = ''NALEJ_DG_SHARED_SECRETS''"

definition NALEJ_ENV_CLUSTER_ID :: string where
  [go_constants]: "NALEJ_ENV_CLUSTER_ID = ''CLUSTER_ID''"
definition NALEJ_ENV_IS_PROXY :: string where
  [go_constants]: "NALEJ_ENV_IS_PROXY = ''NALEJ_IS_PROXY''"
definition NALEJ_ENV_MANAGER_ADDR :: string where
  [go_constants]: "NALEJ_ENV_MANAGER_ADDR = ''NALEJ_MANAGER_ADDR''"
definition NALEJ_ENV_DEPLOYMENT_ID :: string where
  [go_constants]: "NALEJ_ENV_DEPLOYMENT_ID = ''NALEJ_DEPLOYMENT_ID''"
definition NALEJ_ENV_DEPLOYMENT_FRAGMENT :: string where
  [go_constants]: "NALEJ_ENV_DEPLOYMENT_FRAGMENT = ''NALEJ_DEPLOYMENT_FRAGMENT''"
definition NALEJ_ENV_ORGANIZATION_ID :: string where
  [go_constants]: "NALEJ_ENV_ORGANIZATION_ID = ''NALEJ_ORGANIZATION''"
definition NALEJ_ENV_ORGANIZATION_NAME :: string where
  [go_constants]: "NALEJ_ENV_ORGANIZATION_NAME = ''NALEJ_ORGANIZATION_NAME''"
definition NALEJ_ENV_APP_DESCRIPTOR :: string where
  [go_constants]: "NALEJ_ENV_APP_DESCRIPTOR = ''NALEJ_APP_DESCRIPTOR''"
definition NALEJ_ENV_APP_NAME :: string where
  [go_constants]: "NALEJ_ENV_APP_NAME = ''NALEJ_APP_NAME''"
definition NALEJ_ENV_APP_INSTANCE_ID :: string where
  [go_constants]: "NALEJ_ENV_APP_INSTANCE_ID = ''NALEJ_APP_INSTANCE_ID''"
definition NALEJ_ENV_STAGE_ID :: string where
  [go_constants]: "NALEJ_ENV_STAGE_ID = ''NALEJ_STAGE_ID''"
definition NALEJ_ENV_SERVICE_NAME :: string where
  [go_constants]: "NALEJ_ENV_SERVICE_NAME = ''NALEJ_SERVICE_NAME''"
definition NALEJ_ENV_SERVICE_FQDN :: string where
  [go_constants]: "NALEJ_ENV_SERVICE_FQDN = ''NALEJ_SERVICE_FQDN''"
definition NALEJ_ENV_SERVICE_ID :: string where
  [go_constants]: "NALEJ_ENV_SERVICE_ID = ''NALEJ_SERVICE_ID''"
definition NALEJ_ENV_SERVICE_INSTANCE_ID :: string where
  [go_constants]: "NALEJ_ENV_SERVICE_INSTANCE_ID = ''NALEJ_SERVICE_INSTANCE_ID''"
definition NALEJ_ENV_SERVICE_GROUP_ID :: string where
  [go_constants]: "NALEJ_ENV_SERVICE_GROUP_ID = ''NALEJ_SERVICE_GROUP_ID''"
definition NALEJ_ENV_SERVICE_GROUP_INSTANCE_ID :: string where
  [go_constants]: "NALEJ_ENV_SERVICE_GROUP_INSTANCE_ID = ''NALEJ_SERVICE_GROUP_INSTANCE_ID''"

section \<open>Names\<close>

definition GetNamespace :: "string \<Rightarrow> string \<Rightarrow> int \<Rightarrow> string outcome" where
  "GetNamespace organizationId appInstanceId numRetry =
     bind_outcome (slice_to 18 organizationId)
       (\<lambda>org. Done (keep_last NamespaceLength (org @ ''-'' @ appInstanceId)))"

definition FormatName :: "string \<Rightarrow> string" where
  "FormatName name = replace_char CHR '' '' [] (to_lower name)"

definition FormatNameWithHyphen :: "string \<Rightarrow> string" where
  "FormatNameWithHyphen name = replace_char CHR '' '' ''-'' name"

definition GeneratePVCName :: "string \<Rightarrow> string \<Rightarrow> string \<Rightarrow> string" where
  "GeneratePVCName groupId serviceId index =
     keep_last MaxNameLength (groupId @ serviceId @ ''-'' @ index)"

text \<open>The characters the regular expression \<^verbatim>\<open>[^-.a-zA-Z0-9]+\<close> keeps.\<close>

definition pvc_char :: "char \<Rightarrow> bool" where
  "pvc_char c = (let n = (of_char c :: nat)
     in n = 45 \<or> n = 46 \<or> (97 \<le> n \<and> n \<le> 122) \<or> (65 \<le> n \<and> n \<le> 90) \<or> (48 \<le> n \<and> n \<le> 57))"

definition GetNamePVC :: "string \<Rightarrow> string \<Rightarrow> string \<Rightarrow> string" where
  "GetNamePVC name ident index =
     (let id' = filter pvc_char (to_lower ident)
      in keep_first (NamespaceLength - 2) id' @ ''-'' @ index)"

definition GetServiceFQDN :: "string \<Rightarrow> string \<Rightarrow> string \<Rightarrow> string outcome" where
  "GetServiceFQDN serviceName organizationId appInstanceId =
     bind_outcome (slice_to 10 organizationId) (\<lambda>org.
     bind_outcome (slice_to 10 appInstanceId) (\<lambda>app.
       Done (FormatName serviceName @ ''-'' @ org @ ''-'' @ app)))"

definition GetNetworkingName :: "string \<Rightarrow> string \<Rightarrow> string \<Rightarrow> string outcome" where
  "GetNetworkingName serviceName organizationId appInstanceId =
     bind_outcome (slice_to 10 organizationId) (\<lambda>org.
     bind_outcome (slice_to 10 appInstanceId) (\<lambda>app.
       Done (FormatName serviceName @ ''-'' @ org @ ''-'' @ app)))"

text \<open>
  The literal prefix of the expression of \<open>ReformatLabel\<close> is not the whole expression, so the
  early return is never taken; what is left is the removal of the characters outside
  \<^verbatim>\<open>[-a-z0-9]\<close>.
\<close>

definition label_char :: "char \<Rightarrow> bool" where
  "label_char c = (let n = (of_char c :: nat) in n = 45 \<or> (97 \<le> n \<and> n \<le> 122) \<or> (48 \<le> n \<and> n \<le> 57))"

definition ReformatLabel :: "string \<Rightarrow> string" where
  "ReformatLabel input = filter label_char input"

section \<open>Lemmas\<close>

lemma length_GeneratePVCName: "length (GeneratePVCName g s i) \<le> MaxNameLength"
  by (simp add: GeneratePVCName_def length_keep_last)

lemma keep_last_suffix:
  assumes "length y \<le> n" shows "\<exists>z. keep_last n (x @ y) = z @ y"
proof (cases "n < length (x @ y)")
  case True
  then have "keep_last n (x @ y) = drop (length x - (n - length y)) x @ y"
    using assms by (simp add: keep_last_def)
  then show ?thesis by blast
qed (simp add: keep_last_def)

lemma show_nat_length: "0 < k \<Longrightarrow> n < 10 ^ k \<Longrightarrow> length (show_nat n) \<le> k"
proof (induction k arbitrary: n)
  case (Suc k)
  show ?case
  proof (cases "n < 10")
    case False
    then have "0 < k" using Suc.prems by (cases k) auto
    moreover have "n div 10 < 10 ^ k" using Suc.prems(2) by (simp add: less_mult_imp_div_less mult.commute)
    ultimately have "length (show_nat (n div 10)) \<le> k" by (rule Suc.IH)
    then show ?thesis using False by (subst show_nat.simps) simp
  qed (subst show_nat.simps, simp)
qed simp

text \<open>The last hyphen of a generated name is the one before the index.\<close>

lemma takeWhile_rev_index:
  "takeWhile (\<lambda>c. c \<noteq> CHR ''-'') (rev (z @ ''-'' @ show_nat i)) = rev (show_nat i)"
proof -
  have "\<forall>c \<in> set (rev (show_nat i)). c \<noteq> CHR ''-''"
    using hyphen_notin_show_nat by auto
  then show ?thesis by (simp add: takeWhile_append)
qed

lemma GeneratePVCName_inj:
  assumes "GeneratePVCName g s (show_nat i) = GeneratePVCName g' s' (show_nat j)"
    and "i < 10 ^ 62" and "j < 10 ^ 62"
  shows "i = j"
proof -
  have suffix: "\<exists>z. GeneratePVCName a b (show_nat n) = z @ ''-'' @ show_nat n" if "n < 10 ^ 62" for a b n
  proof -
    have "length (''-'' @ show_nat n) \<le> MaxNameLength"
      using show_nat_length [of 62 n] that by (simp add: MaxNameLength_def)
    from keep_last_suffix [OF this, of "a @ b"] show ?thesis
      by (simp add: GeneratePVCName_def)
  qed
  obtain z z' where "z @ ''-'' @ show_nat i = z' @ ''-'' @ show_nat j"
    using suffix [OF assms(2), of g s] suffix [OF assms(3), of g' s'] assms(1) by metis
  then have "rev (show_nat i) = rev (show_nat j)"
    using takeWhile_rev_index by metis
  then show ?thesis by (simp add: show_nat_inj)
qed

lemma ReformatLabel_chars: "set (ReformatLabel s) \<subseteq> {c. label_char c}"
  by (auto simp: ReformatLabel_def)

lemma ReformatLabel_idem: "ReformatLabel (ReformatLabel s) = ReformatLabel s"
  by (simp add: ReformatLabel_def)

lemma GetNetworkingName_FQDN: "GetNetworkingName s o' a = GetServiceFQDN s o' a"
  by (simp add: GetNetworkingName_def GetServiceFQDN_def)

section \<open>Properties\<close>

text \<open>The namespace of an application is at most 63 characters long, and two applications with
  identifiers of the same length, at most 44 characters, get the same namespace only when
  the identifiers and the first 18 characters of the organizations are the same. The code
  panics exactly on an organization identifier of fewer than 18 characters.\<close>

theorem GetNamespace_unique:
  assumes "length app = length app'" and "length app \<le> 44"
    and "18 \<le> length org" and "18 \<le> length org'"
  shows "\<exists>ns ns'. GetNamespace org app r = Done ns \<and> GetNamespace org' app' r' = Done ns' \<and>
    length ns \<le> 63 \<and> (ns = ns' \<longleftrightarrow> take 18 org = take 18 org' \<and> app = app')"
  using assms by (auto simp: GetNamespace_def slice_to_def NamespaceLength_def)

theorem GetNamespace_unique_witness:
  "GetNamespace ''0123456789abcdef01-org'' ''app-1'' 0 = Done ''0123456789abcdef01-app-1'' \<and>
   GetNamespace ''0123456789abcdef01-org'' ''app-1'' 0 \<noteq> GetNamespace ''0123456789abcdef01-org'' ''app-2'' 0"
  using GetNamespace_unique [of "''app-1''" "''app-2''" "''0123456789abcdef01-org''" "''0123456789abcdef01-org''" 0 0]
  by (auto simp: GetNamespace_def slice_to_def NamespaceLength_def)

text \<open>The names generated for the persistent volume claims of a service fit the limit of
  Kubernetes, and claims with different indexes never share a name, whatever part of the
  group and service identifiers the limit cuts off.\<close>

theorem GeneratePVCName_distinct:
  assumes "i \<noteq> j" and "i < 2 ^ 31" and "j < 2 ^ 31"
  shows "length (GeneratePVCName g s (show_nat i)) \<le> 63 \<and>
    GeneratePVCName g s (show_nat i) \<noteq> GeneratePVCName g' s' (show_nat j)"
proof -
  have "i < 10 ^ 62" "j < 10 ^ 62"
    using assms(2,3) by simp_all
  then show ?thesis
    using assms(1) length_GeneratePVCName [of g s "show_nat i"] GeneratePVCName_inj
    by (auto simp: MaxNameLength_def)
qed

end
