(* ===== verification/Config.thy ===== *)
theory Config
  imports Prelude
begin

text \<open>
  The configuration of the deployment manager, \<^verbatim>\<open>pkg/config/config.go\<close>: the network type, the
  resolution and validation of the values, and the global instance that the rest of the
  program reads with \<open>GetConfig\<close>. The enumeration of target platforms belongs to a
  third-party package; the table from names to platforms is a parameter of \<open>Validate\<close>.
\<close>

definition EnvClusterId :: string where "EnvClusterId = ''CLUSTER_ID''"

datatype network_type = NetworkTypeError | NetworkTypeZt | NetworkTypeIstio

definition NetworkTypeFromString :: "string \<Rightarrow> network_type \<times> go_error option" where
  "NetworkTypeFromString net =
     (if net = ''zt'' then (NetworkTypeZt, None)
      else if net = ''istio'' then (NetworkTypeIstio, None)
      else (NetworkTypeError, Some (DError InvalidArgument ''unknown network type'')))"

text \<open>The platforms the program tells apart; the others are kept by their number.\<close>

datatype platform = Platform_AZURE | Platform_MINIKUBE | Platform_other nat

record image_credentials =
  ic_Username :: string
  ic_Password :: string
  ic_Email :: string
  ic_DockerRepository :: string

record config =
  cfg_Debug :: bool
  cfg_Port :: nat
  cfg_MetricsPort :: nat
  cfg_ClusterAPIHostname :: string
  cfg_ClusterAPIPort :: nat
  cfg_UseTLSForClusterAPI :: bool
  cfg_LoginHostname :: string
  cfg_LoginPort :: nat
  cfg_UseTLSForLogin :: bool
  cfg_ClusterPublicHostname :: string
  cfg_ManagementHostname :: string
  cfg_DeploymentMgrAddress :: string
  cfg_Local :: bool
  cfg_Email :: string
  cfg_Password :: string
  cfg_DNS :: string
  cfg_TargetPlatformName :: string
  cfg_TargetPlatform :: platform
  cfg_ClusterId :: string
  cfg_PublicCredentials :: image_credentials
  cfg_ZTSidecarPort :: nat
  cfg_ZTNalejImage :: string
  cfg_CACertPath :: string
  cfg_ClientCertPath :: string
  cfg_SkipServerCertValidation :: bool
  cfg_NetworkType :: network_type
  cfg_UnifiedLoggingAddress :: string
  cfg_StorageFabricAddress :: string

text \<open>The environment is a Go map; an unset variable reads as the empty string.\<close>

definition envOrElse :: "(string, string) gomap \<Rightarrow> string \<Rightarrow> string \<Rightarrow> string" where
  "envOrElse env envName paramValue =
     (if paramValue \<noteq> [] then paramValue
      else (let fromEnv = gm_str env envName in if fromEnv \<noteq> [] then fromEnv else []))"

definition Resolve :: "(string, string) gomap \<Rightarrow> config \<Rightarrow> go_error option \<times> config" where
  "Resolve env conf = (None, conf\<lparr>cfg_ClusterId := envOrElse env EnvClusterId (cfg_ClusterId conf)\<rparr>)"

text \<open>Reading a missing name of the table \<^verbatim>\<open>Platform_value\<close> gives zero, the first platform.\<close>

definition platform_of_name :: "(string, platform) gomap \<Rightarrow> platform \<Rightarrow> string \<Rightarrow> platform" where
  "platform_of_name table zero name = (case gm_get table name of Some p \<Rightarrow> p | None \<Rightarrow> zero)"

definition Validate ::
  "(string, platform) gomap \<Rightarrow> platform \<Rightarrow> config \<Rightarrow> go_error option \<times> config" where
  "Validate table zero conf =
     (if cfg_Port conf \<le> 0 then (Some (DError InvalidArgument ''port must be valid''), conf)
      else if cfg_MetricsPort conf \<le> 0 then (Some (DError InvalidArgument ''metricsPort must be valid''), conf)
      else if cfg_ClusterAPIHostname conf = [] \<or> cfg_ClusterAPIPort conf \<le> 0
        then (Some (DError InvalidArgument ''clusterAPIHostname and clusterAPIPort must me set''), conf)
      else if cfg_LoginHostname conf = [] \<or> cfg_LoginPort conf \<le> 0
        then (Some (DError InvalidArgument ''loginHostname and loginPort must be set''), conf)
      else if cfg_DeploymentMgrAddress conf = []
        then (Some (DError InvalidArgument ''depMgrAddress must be set''), conf)
      else if cfg_Email conf = [] \<or> cfg_Password conf = []
        then (Some (DError InvalidArgument ''email and password must be set''), conf)
      else if cfg_ClusterPublicHostname conf = []
        then (Some (DError InvalidArgument ''clusterPublicHostname must be set''), conf)
      else if cfg_ManagementHostname conf = []
        then (Some (DError InvalidArgument ''managementHostname must be set''), conf)
      else if cfg_DNS conf = [] then (Some (DError InvalidArgument ''dns list must be set''), conf)
      else if cfg_TargetPlatformName conf = []
        then (Some (DError InvalidArgument ''targetPlatform must be set''), conf)
      else if cfg_UnifiedLoggingAddress conf = []
        then (Some (DError InvalidArgument ''UnifiedLoggingAddress must be set''), conf)
      else if cfg_StorageFabricAddress conf = []
        then (Some (DError InvalidArgument ''StorageFabricAddress must be set''), conf)
      else if cfg_NetworkType conf = NetworkTypeZt \<and> cfg_ZTNalejImage conf = []
        then (Some (DError InvalidArgument ''ZTNalejImage must be set''), conf)
      else (None, conf\<lparr>cfg_TargetPlatform := platform_of_name table zero (cfg_TargetPlatformName conf)\<rparr>))"

section \<open>The global instance\<close>

text \<open>
  \<^verbatim>\<open>once.Do\<close> copies \<^verbatim>\<open>appConfig\<close> into \<^verbatim>\<open>instance\<close> at the first call of \<open>GetConfig\<close> only. The
  pointers are options; a missing configuration is the nil pointer.
\<close>

record config_globals =
  cg_appConfig :: "config option"
  cg_instance :: "config option"
  cg_done :: bool

definition initial_globals :: config_globals where
  "initial_globals = \<lparr>cg_appConfig = None, cg_instance = None, cg_done = False\<rparr>"

definition SetGlobalConfig :: "config \<Rightarrow> config_globals \<Rightarrow> config_globals" where
  "SetGlobalConfig cfg g = g\<lparr>cg_appConfig := Some cfg\<rparr>"

definition GetConfig :: "config_globals \<Rightarrow> config option \<times> config_globals" where
  "GetConfig g =
     (let g' = (if cg_done g then g else g\<lparr>cg_instance := cg_appConfig g, cg_done := True\<rparr>)
      in (cg_instance g', g'))"

section \<open>Properties\<close>

text \<open>A configuration every value of which is set; the witnesses below use it.\<close>

definition sample_config :: config where
  "sample_config = \<lparr>cfg_Debug = False, cfg_Port = 5200, cfg_MetricsPort = 5201,
     cfg_ClusterAPIHostname = ''cluster.example'', cfg_ClusterAPIPort = 8000, cfg_UseTLSForClusterAPI = True,
     cfg_LoginHostname = ''login.example'', cfg_LoginPort = 443, cfg_UseTLSForLogin = True,
     cfg_ClusterPublicHostname = ''app.example'', cfg_ManagementHostname = ''mgmt.example'',
     cfg_DeploymentMgrAddress = ''dm:5200'', cfg_Local = False, cfg_Email = ''e'', cfg_Password = ''p'',
     cfg_DNS = ''10.0.0.1'', cfg_TargetPlatformName = ''MINIKUBE'', cfg_TargetPlatform = Platform_AZURE,
     cfg_ClusterId = ''c1'',
     cfg_PublicCredentials = \<lparr>ic_Username = ''u'', ic_Password = ''p'', ic_Email = ''e'', ic_DockerRepository = ''r''\<rparr>,
     cfg_ZTSidecarPort = 1576, cfg_ZTNalejImage = ''nalej/zt-agent'', cfg_CACertPath = [],
     cfg_ClientCertPath = [], cfg_SkipServerCertValidation = False, cfg_NetworkType = NetworkTypeZt,
     cfg_UnifiedLoggingAddress = ''ul:8322'', cfg_StorageFabricAddress = ''sf:8000''\<rparr>"

lemma rejects: "fst (if c then (Some e, x) else r) = None \<longleftrightarrow> \<not> c \<and> fst r = None"
  by simp

lemma snd_if_Pair: "snd (if c then (e, x) else r) = (if c then x else snd r)"
  by simp

lemma if_negated: "(if \<not> c \<and> d then x else y) = (if c then y else if d then x else y)"
  "(if \<not> c then x else y) = (if c then y else x)"
  by simp_all

text \<open>The conditions of \<open>Validate\<close> in its order, none of them met.\<close>

definition accepted :: "config \<Rightarrow> bool" where
  "accepted conf \<longleftrightarrow> \<not> cfg_Port conf \<le> 0 \<and> \<not> cfg_MetricsPort conf \<le> 0 \<and>
     \<not> (cfg_ClusterAPIHostname conf = [] \<or> cfg_ClusterAPIPort conf \<le> 0) \<and>
     \<not> (cfg_LoginHostname conf = [] \<or> cfg_LoginPort conf \<le> 0) \<and>
     \<not> cfg_DeploymentMgrAddress conf = [] \<and> \<not> (cfg_Email conf = [] \<or> cfg_Password conf = []) \<and>
     \<not> cfg_ClusterPublicHostname conf = [] \<and> \<not> cfg_ManagementHostname conf = [] \<and> \<not> cfg_DNS conf = [] \<and>
     \<not> cfg_TargetPlatformName conf = [] \<and> \<not> cfg_UnifiedLoggingAddress conf = [] \<and>
     \<not> cfg_StorageFabricAddress conf = [] \<and> \<not> (cfg_NetworkType conf = NetworkTypeZt \<and> cfg_ZTNalejImage conf = [])"

text \<open>Validation succeeds exactly on the configurations in which every required value is set,
  and then sets the target platform from its name; an unknown name silently becomes the first
  platform of the enumeration. A rejected configuration is not changed.\<close>

theorem Validate_spec:
  "(fst (Validate table zero conf) = None \<longleftrightarrow>
     cfg_Port conf > 0 \<and> cfg_MetricsPort conf > 0 \<and>
     cfg_ClusterAPIHostname conf \<noteq> [] \<and> cfg_ClusterAPIPort conf > 0 \<and>
     cfg_LoginHostname conf \<noteq> [] \<and> cfg_LoginPort conf > 0 \<and>
     [] \<notin> {cfg_DeploymentMgrAddress conf, cfg_Email conf, cfg_Password conf, cfg_ClusterPublicHostname conf,
       cfg_ManagementHostname conf, cfg_DNS conf, cfg_TargetPlatformName conf, cfg_UnifiedLoggingAddress conf,
       cfg_StorageFabricAddress conf} \<and>
     \<not> (cfg_NetworkType conf = NetworkTypeZt \<and> cfg_ZTNalejImage conf = [])) \<and>
   snd (Validate table zero conf) =
     (if fst (Validate table zero conf) = None
      then conf\<lparr>cfg_TargetPlatform := (if gm_get table (cfg_TargetPlatformName conf) = None then zero
        else the (gm_get table (cfg_TargetPlatformName conf)))\<rparr>
      else conf)"
proof -
  have platform: "platform_of_name table zero name =
      (if gm_get table name = None then zero else the (gm_get table name))" for name
    by (auto simp: platform_of_name_def split: option.splits)
  have ok: "fst (Validate table zero conf) = None \<longleftrightarrow> accepted conf"
    unfolding Validate_def rejects accepted_def by (simp only: fst_conv simp_thms)
  have "snd (Validate table zero conf) = (if accepted conf
      then conf\<lparr>cfg_TargetPlatform := platform_of_name table zero (cfg_TargetPlatformName conf)\<rparr> else conf)"
    unfolding accepted_def Validate_def snd_if_Pair by (simp only: if_negated fst_conv snd_conv if_True)
  then show ?thesis
    unfolding ok platform by (auto simp: accepted_def)
qed

text \<open>The configuration is frozen by the first \<open>GetConfig\<close>: whatever is set later, every later
  call returns the same pointer, the nil pointer when nothing had been set before.\<close>

theorem GetConfig_frozen:
  "fst (GetConfig (fold SetGlobalConfig cfgs (snd (GetConfig g)))) = fst (GetConfig g)"
proof -
  have inst: "cg_done (fold SetGlobalConfig cs h) = cg_done h \<and> cg_instance (fold SetGlobalConfig cs h) = cg_instance h"
    for cs h by (induction cs arbitrary: h) (simp_all add: SetGlobalConfig_def)
  show ?thesis
    by (auto simp: GetConfig_def Let_def inst)
qed

end
