(* ===== verification/Entities.thy ===== *)
theory Entities
  imports Prelude
begin

text \<open>
  The entities of \<^verbatim>\<open>internal/entities\<close>: the status enumerations with their translation
  tables, the Kubernetes deployment status translation, endpoints, the request validators, and
  the records of a monitored fragment, its services and their platform resources
  (\<^verbatim>\<open>monitor.go\<close>) with the operations that keep their counters.
\<close>

section \<open>Status enumerations\<close>

datatype nalej_service_status =
    NALEJ_SERVICE_SCHEDULED
  | NALEJ_SERVICE_WAITING
  | NALEJ_SERVICE_DEPLOYING
  | NALEJ_SERVICE_RUNNING
  | NALEJ_SERVICE_ERROR
  | NALEJ_SERVICE_TERMINATING

text \<open>The integers \<^verbatim>\<open>iota\<close> gives the constants; the code compares statuses with \<^verbatim>\<open><\<close>.\<close>

fun service_status_iota :: "nalej_service_status \<Rightarrow> nat" where
  "service_status_iota NALEJ_SERVICE_SCHEDULED = 0"
| "service_status_iota NALEJ_SERVICE_WAITING = 1"
| "service_status_iota NALEJ_SERVICE_DEPLOYING = 2"
| "service_status_iota NALEJ_SERVICE_RUNNING = 3"
| "service_status_iota NALEJ_SERVICE_ERROR = 4"
| "service_status_iota NALEJ_SERVICE_TERMINATING = 5"

lemma service_status_iota_inj [simp]:
  "service_status_iota a = service_status_iota b \<longleftrightarrow> a = b"
  by (cases a; cases b) simp_all

instantiation nalej_service_status :: linorder
begin

definition less_eq_nalej_service_status :: "nalej_service_status \<Rightarrow> nalej_service_status \<Rightarrow> bool" where
  "less_eq_nalej_service_status a b = (service_status_iota a \<le> service_status_iota b)"

definition less_nalej_service_status :: "nalej_service_status \<Rightarrow> nalej_service_status \<Rightarrow> bool" where
  "less_nalej_service_status a b = (service_status_iota a < service_status_iota b)"

instance
  by standard (auto simp: less_eq_nalej_service_status_def less_nalej_service_status_def)

end

lemmas status_order_defs = less_eq_nalej_service_status_def less_nalej_service_status_def

datatype fragment_status =
    FRAGMENT_WAITING
  | FRAGMENT_DEPLOYING
  | FRAGMENT_DONE
  | FRAGMENT_ERROR
  | FRAGMENT_RETRYING
  | FRAGMENT_TERMINATING

datatype pb_service_status =
    ServiceStatus_SERVICE_SCHEDULED
  | ServiceStatus_SERVICE_WAITING
  | ServiceStatus_SERVICE_DEPLOYING
  | ServiceStatus_SERVICE_RUNNING
  | ServiceStatus_SERVICE_ERROR
  | ServiceStatus_SERVICE_TERMINATING

datatype pb_fragment_status =
    DeploymentFragmentStatus_WAITING
  | DeploymentFragmentStatus_DEPLOYING
  | DeploymentFragmentStatus_DONE
  | DeploymentFragmentStatus_ERROR
  | DeploymentFragmentStatus_RETRYING
  | DeploymentFragmentStatus_TERMINATING

fun ServiceStatusToGRPC :: "nalej_service_status \<Rightarrow> pb_service_status" where
  "ServiceStatusToGRPC NALEJ_SERVICE_SCHEDULED = ServiceStatus_SERVICE_SCHEDULED"
| "ServiceStatusToGRPC NALEJ_SERVICE_WAITING = ServiceStatus_SERVICE_WAITING"
| "ServiceStatusToGRPC NALEJ_SERVICE_DEPLOYING = ServiceStatus_SERVICE_DEPLOYING"
| "ServiceStatusToGRPC NALEJ_SERVICE_RUNNING = ServiceStatus_SERVICE_RUNNING"
| "ServiceStatusToGRPC NALEJ_SERVICE_ERROR = ServiceStatus_SERVICE_ERROR"
| "ServiceStatusToGRPC NALEJ_SERVICE_TERMINATING = ServiceStatus_SERVICE_TERMINATING"

fun ServicesToFragmentStatus :: "nalej_service_status \<Rightarrow> fragment_status" where
  "ServicesToFragmentStatus NALEJ_SERVICE_SCHEDULED = FRAGMENT_WAITING"
| "ServicesToFragmentStatus NALEJ_SERVICE_WAITING = FRAGMENT_WAITING"
| "ServicesToFragmentStatus NALEJ_SERVICE_DEPLOYING = FRAGMENT_DEPLOYING"
| "ServicesToFragmentStatus NALEJ_SERVICE_RUNNING = FRAGMENT_DONE"
| "ServicesToFragmentStatus NALEJ_SERVICE_ERROR = FRAGMENT_ERROR"
| "ServicesToFragmentStatus NALEJ_SERVICE_TERMINATING = FRAGMENT_TERMINATING"

fun FragmentStatusToNalejServiceStatus :: "fragment_status \<Rightarrow> nalej_service_status" where
  "FragmentStatusToNalejServiceStatus FRAGMENT_WAITING = NALEJ_SERVICE_WAITING"
| "FragmentStatusToNalejServiceStatus FRAGMENT_TERMINATING = NALEJ_SERVICE_TERMINATING"
| "FragmentStatusToNalejServiceStatus FRAGMENT_RETRYING = NALEJ_SERVICE_DEPLOYING"
| "FragmentStatusToNalejServiceStatus FRAGMENT_DEPLOYING = NALEJ_SERVICE_DEPLOYING"
| "FragmentStatusToNalejServiceStatus FRAGMENT_ERROR = NALEJ_SERVICE_ERROR"
| "FragmentStatusToNalejServiceStatus FRAGMENT_DONE = NALEJ_SERVICE_RUNNING"

fun FragmentStatusToGRPC :: "fragment_status \<Rightarrow> pb_fragment_status" where
  "FragmentStatusToGRPC FRAGMENT_WAITING = DeploymentFragmentStatus_WAITING"
| "FragmentStatusToGRPC FRAGMENT_DEPLOYING = DeploymentFragmentStatus_DEPLOYING"
| "FragmentStatusToGRPC FRAGMENT_DONE = DeploymentFragmentStatus_DONE"
| "FragmentStatusToGRPC FRAGMENT_ERROR = DeploymentFragmentStatus_ERROR"
| "FragmentStatusToGRPC FRAGMENT_RETRYING = DeploymentFragmentStatus_RETRYING"
| "FragmentStatusToGRPC FRAGMENT_TERMINATING = DeploymentFragmentStatus_TERMINATING"

section \<open>Kubernetes deployment status\<close>

datatype deployment_condition_type =
    DeploymentAvailable
  | DeploymentProgressing
  | OtherCondition string

record deployment_condition =
  dc_Type :: deployment_condition_type
  dc_text :: string

text \<open>
  The loop of \<^verbatim>\<open>KubernetesDeploymentStatusTranslation\<close> counts the conditions by type; the
  counters are \<open>(running, progressing, error)\<close>.
\<close>

fun count_conditions :: "deployment_condition list \<Rightarrow> nat \<times> nat \<times> nat \<Rightarrow> nat \<times> nat \<times> nat" where
  "count_conditions [] cs = cs"
| "count_conditions (c # rest) (running, progressing, err) =
     (case dc_Type c of
        DeploymentAvailable \<Rightarrow> count_conditions rest (running + 1, progressing, err)
      | DeploymentProgressing \<Rightarrow> count_conditions rest (running, progressing + 1, err)
      | OtherCondition _ \<Rightarrow> count_conditions rest (running, progressing, err + 1))"

definition KubernetesDeploymentStatusTranslation :: "deployment_condition list \<Rightarrow> nalej_service_status" where
  "KubernetesDeploymentStatusTranslation conditions =
     (case count_conditions conditions (0, 0, 0) of (running, progressing, err) \<Rightarrow>
        if err > 0 then NALEJ_SERVICE_ERROR
        else if length conditions = 0 then NALEJ_SERVICE_DEPLOYING
        else if running = length conditions then NALEJ_SERVICE_RUNNING
        else if progressing > 0 then NALEJ_SERVICE_DEPLOYING
        else NALEJ_SERVICE_WAITING)"

section \<open>Endpoints\<close>

datatype endpoint_type =
    ENDPOINT_TYPE_IS_ALIVE
  | ENDPOINT_TYPE_REST
  | ENDPOINT_TYPE_WEB
  | ENDPOINT_TYPE_PROMETHEUS
  | ENDPOINT_TYPE_INGESTION

datatype pb_endpoint_type =
    EndpointType_IS_ALIVE
  | EndpointType_REST
  | EndpointType_WEB
  | EndpointType_PROMETHEUS
  | EndpointType_INGESTION

fun EndpointTypeToGRPC :: "endpoint_type \<Rightarrow> pb_endpoint_type" where
  "EndpointTypeToGRPC ENDPOINT_TYPE_IS_ALIVE = EndpointType_IS_ALIVE"
| "EndpointTypeToGRPC ENDPOINT_TYPE_REST = EndpointType_REST"
| "EndpointTypeToGRPC ENDPOINT_TYPE_WEB = EndpointType_WEB"
| "EndpointTypeToGRPC ENDPOINT_TYPE_PROMETHEUS = EndpointType_PROMETHEUS"
| "EndpointTypeToGRPC ENDPOINT_TYPE_INGESTION = EndpointType_INGESTION"

record endpoint_instance =
  ei_EndpointInstanceId :: string
  ei_EndpointType :: endpoint_type
  ei_FQDN :: string
  ei_Port :: int

record pb_endpoint_instance =
  pei_EndpointInstanceId :: string
  pei_Type :: pb_endpoint_type
  pei_Fqdn :: string
  pei_Port :: int

definition endpoint_ToGRPC :: "endpoint_instance \<Rightarrow> pb_endpoint_instance" where
  "endpoint_ToGRPC ei = \<lparr>
     pei_EndpointInstanceId = ei_EndpointInstanceId ei,
     pei_Type = EndpointTypeToGRPC (ei_EndpointType ei),
     pei_Fqdn = ei_FQDN ei,
     pei_Port = ei_Port ei\<rparr>"

section \<open>Request validators\<close>

record authorize_zt_request =
  azr_OrganizationId :: string
  azr_AppInstanceId :: string
  azr_MemberId :: string
  azr_NetworkId :: string

definition ValidateAuthorizeZTConnectionRequest :: "authorize_zt_request \<Rightarrow> go_error option" where
  "ValidateAuthorizeZTConnectionRequest request =
     (if azr_OrganizationId request = [] then Some (DError InvalidArgument ''organization_id cannot be empty'')
      else if azr_AppInstanceId request = [] then Some (DError InvalidArgument ''app_instance_id cannot be empty'')
      else if azr_MemberId request = [] then Some (DError InvalidArgument ''member_id cannot be empty'')
      else if azr_NetworkId request = [] then Some (DError InvalidArgument ''network_id cannot be empty'')
      else None)"

text \<open>Join and leave requests have the same fields.\<close>

record zt_network_request =
  zr_OrganizationId :: string
  zr_AppInstanceId :: string
  zr_ServiceId :: string
  zr_NetworkId :: string
  zr_IsInbound :: bool

definition ValidateJoinZTNetworkRequest :: "zt_network_request \<Rightarrow> go_error option" where
  "ValidateJoinZTNetworkRequest request =
     (if zr_OrganizationId request = [] then Some (DError InvalidArgument ''organization_id cannot be empty'')
      else if zr_AppInstanceId request = [] then Some (DError InvalidArgument ''app_instance_id cannot be empty'')
      else if zr_ServiceId request = [] then Some (DError InvalidArgument ''service_id cannot be empty'')
      else if zr_NetworkId request = [] then Some (DError InvalidArgument ''network_id cannot be empty'')
      else None)"

definition ValidateLeaveZTNetworkRequest :: "zt_network_request \<Rightarrow> go_error option" where
  "ValidateLeaveZTNetworkRequest request =
     (if zr_OrganizationId request = [] then Some (DError InvalidArgument ''organization_id cannot be empty'')
      else if zr_AppInstanceId request = [] then Some (DError InvalidArgument ''app_instance_id cannot be empty'')
      else if zr_ServiceId request = [] then Some (DError InvalidArgument ''service_id cannot be empty'')
      else if zr_NetworkId request = [] then Some (DError InvalidArgument ''network_id cannot be empty'')
      else None)"

section \<open>Monitored entries\<close>

record monitored_platform_resource =
  mpr_FragmentId :: string
  mpr_AppID :: string
  mpr_AppInstanceID :: string
  mpr_ServiceGroupID :: string
  mpr_ServiceGroupInstanceID :: string
  mpr_ServiceID :: string
  mpr_ServiceInstanceID :: string
  mpr_UID :: string
  mpr_Info :: string
  mpr_Pending :: bool
  mpr_Status :: nalej_service_status

definition NewMonitoredPlatformResource ::
  "string \<Rightarrow> string \<Rightarrow> string \<Rightarrow> string \<Rightarrow> string \<Rightarrow> string \<Rightarrow> string \<Rightarrow> string \<Rightarrow> string \<Rightarrow> monitored_platform_resource" where
  "NewMonitoredPlatformResource fragmentId uid appDescriptorId appInstanceId serviceGroupId
     serviceGroupInstanceId serviceId serviceInstanceId info = \<lparr>
     mpr_FragmentId = fragmentId,
     mpr_AppID = appDescriptorId,
     mpr_AppInstanceID = appInstanceId,
     mpr_ServiceGroupID = serviceGroupId,
     mpr_ServiceGroupInstanceID = serviceGroupInstanceId,
     mpr_ServiceID = serviceId,
     mpr_ServiceInstanceID = serviceInstanceId,
     mpr_UID = uid,
     mpr_Info = info,
     mpr_Pending = True,
     mpr_Status = NALEJ_SERVICE_SCHEDULED\<rparr>"

record monitored_service_entry =
  mse_OrganizationId :: string
  mse_AppDescriptorId :: string
  mse_AppInstanceId :: string
  mse_ServiceGroupId :: string
  mse_ServiceGroupInstanceId :: string
  mse_FragmentId :: string
  mse_ServiceID :: string
  mse_ServiceName :: string
  mse_ServiceInstanceID :: string
  mse_NumPendingChecks :: int
  mse_Resources :: "(string, monitored_platform_resource) gomap"
  mse_Status :: nalej_service_status
  mse_NewStatus :: bool
  mse_Info :: string
  mse_Endpoints :: "endpoint_instance list"

definition service_AddPendingResource ::
  "monitored_platform_resource \<Rightarrow> monitored_service_entry \<Rightarrow> monitored_service_entry" where
  "service_AddPendingResource toAdd m =
     (case gm_get (mse_Resources m) (mpr_UID toAdd) of
        Some _ \<Rightarrow> m
      | None \<Rightarrow> m\<lparr>
          mse_Resources := gm_put (mpr_UID toAdd) (toAdd\<lparr>mpr_Pending := True\<rparr>) (mse_Resources m),
          mse_NumPendingChecks := mse_NumPendingChecks m + 1\<rparr>)"

definition service_RemovePendingResource ::
  "string \<Rightarrow> monitored_service_entry \<Rightarrow> monitored_service_entry" where
  "service_RemovePendingResource uid m =
     (case gm_get (mse_Resources m) uid of
        None \<Rightarrow> m
      | Some _ \<Rightarrow> m\<lparr>
          mse_Resources := gm_adjust uid (\<lambda>res. res\<lparr>mpr_Pending := False\<rparr>) (mse_Resources m),
          mse_NumPendingChecks := mse_NumPendingChecks m - 1\<rparr>)"

record monitored_app_entry =
  mae_OrganizationId :: string
  mae_AppDescriptorId :: string
  mae_AppInstanceId :: string
  mae_DeploymentId :: string
  mae_Status :: fragment_status
  mae_FragmentId :: string
  mae_Services :: "(string, monitored_service_entry) gomap"
  mae_NumPendingChecks :: int
  mae_Info :: string
  mae_TotalServices :: int
  mae_NewStatus :: bool
  mae_Namespace :: string

definition append_service :: "monitored_service_entry \<Rightarrow> monitored_app_entry \<Rightarrow> monitored_app_entry" where
  "append_service serv m =
     (case gm_get (mae_Services m) (mse_ServiceInstanceID serv) of
        Some _ \<Rightarrow> m
      | None \<Rightarrow> m\<lparr>
          mae_Services := gm_put (mse_ServiceInstanceID serv) serv (mae_Services m),
          mae_NumPendingChecks := mae_NumPendingChecks m + 1,
          mae_TotalServices := mae_TotalServices m + 1\<rparr>)"

definition AppendServices :: "monitored_app_entry \<Rightarrow> monitored_app_entry \<Rightarrow> monitored_app_entry" where
  "AppendServices new m = fold append_service (gm_values (mae_Services new)) m"

end
