(* ===== verification/K8sTypes.thy ===== *)
theory K8sTypes
  imports Common Config Entities
begin

text \<open>
  The data the deployables work on: the fields the code reads of the protocol buffers of a
  deployment request (fragments, stages, service instances and security rules), the deployment
  metadata of \<^verbatim>\<open>internal/entities/entities.go\<close>, the Kubernetes objects with the fields the code
  sets, and the Kubernetes client. The client, the storage fabric client and the base64 encoder
  are parameters: functions on a cluster state of any type.
\<close>

section \<open>Deployment requests\<close>

type_synonym labels = "(string, string) gomap"

datatype pb_endpoint_kind = Endpoint_WEB | Endpoint_REST | Endpoint_other

record pb_endpoint =
  pe_Type :: pb_endpoint_kind
  pe_Path :: string
  pe_Options :: "(string, string) gomap"

record pb_port =
  pp_Name :: string
  pp_InternalPort :: int
  pp_ExposedPort :: int
  pp_Endpoints :: "pb_endpoint list"

datatype storage_type =
    StorageType_EPHEMERAL
  | StorageType_CLUSTER_LOCAL
  | StorageType_CLUSTER_REPLICA
  | StorageType_EXPERIMENTAL_CLUSTER_REPLICA
  | StorageType_other string

fun StorageType_String :: "storage_type \<Rightarrow> string" where
  "StorageType_String StorageType_EPHEMERAL = ''EPHEMERAL''"
| "StorageType_String StorageType_CLUSTER_LOCAL = ''CLUSTER_LOCAL''"
| "StorageType_String StorageType_CLUSTER_REPLICA = ''CLUSTER_REPLICA''"
| "StorageType_String StorageType_EXPERIMENTAL_CLUSTER_REPLICA = ''EXPERIMENTAL_CLUSTER_REPLICA''"
| "StorageType_String (StorageType_other name) = name"

record pb_storage =
  ps_Size :: int
  ps_MountPath :: string
  ps_Type :: storage_type

record pb_config_file =
  cf_ConfigFileId :: string
  cf_MountPath :: string
  cf_Content :: string

text \<open>
  A nil slice or map and an empty one are the same here: the code only ranges over them. The specification of a
  service is a pointer that may be nil; of its fields the code reads the number of replicas only.
\<close>

record deploy_specs =
  specs_Replicas :: int

record service_instance =
  si_OrganizationId :: string
  si_AppDescriptorId :: string
  si_AppInstanceId :: string
  si_ServiceGroupId :: string
  si_ServiceGroupInstanceId :: string
  si_ServiceGroupName :: string
  si_ServiceId :: string
  si_ServiceInstanceId :: string
  si_ServiceName :: string
  si_Image :: string
  si_Credentials :: "image_credentials option"
  si_Specs :: "deploy_specs option"
  si_Storage :: "pb_storage list"
  si_ExposedPorts :: "pb_port list"
  si_EnvironmentVariables :: "(string, string) gomap"
  si_Configs :: "pb_config_file list"
  si_Labels :: labels
  si_RunArguments :: "string list"

record device_group_rule =
  dgr_RuleId :: string
  dgr_TargetPort :: int
  dgr_TargetServiceGroupInstanceId :: string
  dgr_TargetServiceId :: string
  dgr_TargetServiceInstanceId :: string
  dgr_DeviceGroupJwtSecrets :: "string list"

record public_rule =
  pr_ServiceName :: string
  pr_TargetPort :: int
  pr_TargetServiceGroupInstanceId :: string
  pr_TargetServiceInstanceId :: string

record deployment_stage =
  ds_StageId :: string
  ds_FragmentId :: string
  ds_Services :: "service_instance list"
  ds_DeviceGroupRules :: "device_group_rule list"
  ds_PublicRules :: "public_rule list"

record deployment_fragment =
  df_OrganizationId :: string
  df_OrganizationName :: string
  df_AppInstanceId :: string
  df_AppInstanceName :: string
  df_AppDescriptorId :: string
  df_AppDescriptorName :: string
  df_DeploymentId :: string
  df_FragmentId :: string
  df_NalejVariables :: "(string, string) gomap"
  df_Stages :: "deployment_stage list"

record deployment_metadata =
  dm_FragmentId :: string
  dm_Stage :: deployment_stage
  dm_Namespace :: string
  dm_NalejVariables :: "(string, string) gomap"
  dm_ZtNetworkId :: string
  dm_OrganizationId :: string
  dm_OrganizationName :: string
  dm_DeploymentId :: string
  dm_AppDescriptorId :: string
  dm_AppDescriptorName :: string
  dm_AppInstanceId :: string
  dm_AppName :: string
  dm_ClusterPublicHostname :: string
  dm_DNSHosts :: "string list"
  dm_PublicCredentials :: image_credentials

text \<open>The zero value of a stage, \<^verbatim>\<open>pbConductor.DeploymentStage{}\<close>.\<close>

definition empty_stage :: deployment_stage where
  "empty_stage = \<lparr>ds_StageId = [], ds_FragmentId = [], ds_Services = [], ds_DeviceGroupRules = [], ds_PublicRules = []\<rparr>"

section \<open>Kubernetes objects\<close>

record env_var =
  env_Name :: string
  env_Value :: string

record key_to_path =
  ktp_Key :: string
  ktp_Path :: string

datatype volume_source =
    VolConfigMap string "key_to_path list"
  | VolEmptyDir int
  | VolPVC string
  | VolHostPath string

record volume =
  vol_Name :: string
  vol_Source :: volume_source

record volume_mount =
  vm_Name :: string
  vm_ReadOnly :: bool
  vm_MountPath :: string

record container_port =
  cp_Name :: string
  cp_ContainerPort :: int

record security_context =
  sc_RunAsUser :: int
  sc_Privileged :: bool
  sc_Capabilities :: "string list"

record exec_probe =
  probe_InitialDelaySeconds :: int
  probe_PeriodSeconds :: int
  probe_TimeoutSeconds :: int
  probe_Command :: "string list"

record container =
  c_Name :: string
  c_Image :: string
  c_Args :: "string list"
  c_Env :: "env_var list"
  c_Ports :: "container_port list"
  c_VolumeMounts :: "volume_mount list"
  c_LivenessProbe :: "exec_probe option"
  c_SecurityContext :: "security_context option"

record pod_spec =
  pod_Containers :: "container list"
  pod_Volumes :: "volume list"
  pod_ImagePullSecrets :: "string list"
  pod_EnableServiceLinks :: "bool option"
  pod_AutomountServiceAccountToken :: "bool option"
  pod_DNSPolicyNone :: bool
  pod_DNSNameservers :: "string list"

text \<open>
  The code uses one map object for the labels of a deployment and of its pod template, so they
  are one field. The image pull policy is always \<^verbatim>\<open>Always\<close>.
\<close>

record k8s_deployment =
  dep_Name :: string
  dep_Namespace :: string
  dep_Labels :: labels
  dep_Replicas :: int
  dep_Selector :: labels
  dep_Annotations :: "(string, string) gomap"
  dep_Pod :: pod_spec

datatype service_kind = ClusterIP | NodePort | LoadBalancer

record service_port =
  sp_Name :: string
  sp_Port :: int
  sp_TargetPort :: int
  sp_NodePort :: int

record k8s_service =
  svc_Name :: string
  svc_Namespace :: string
  svc_Labels :: labels
  svc_ExternalName :: string
  svc_Ports :: "service_port list"
  svc_Type :: service_kind
  svc_Selector :: labels
  svc_LocalTrafficPolicy :: bool

record ingress_path =
  ip_ServiceName :: string
  ip_ServicePort :: int

record ingress_rule =
  ir_Host :: string
  ir_Paths :: "ingress_path list"

record k8s_ingress =
  ing_Name :: string
  ing_Namespace :: string
  ing_Labels :: labels
  ing_Annotations :: "(string, string) gomap"
  ing_Rules :: "ingress_rule list"

record k8s_configmap =
  cm_Name :: string
  cm_Namespace :: string
  cm_Labels :: labels
  cm_BinaryData :: "(string, string) gomap"

record k8s_secret =
  sec_Name :: string
  sec_Namespace :: string
  sec_Labels :: labels
  sec_Data :: "(string, string) gomap"

text \<open>
  The storage class of a claim is a pointer into the deployable that built it, so it is not a
  field of the claim: it is the value the deployable holds when the claim is sent.
\<close>

record k8s_pvc =
  pvc_Name :: string
  pvc_Namespace :: string
  pvc_Labels :: labels
  pvc_Size :: int

record k8s_namespace =
  ns_Name :: string
  ns_Labels :: labels

datatype k8s_object =
    ODeployment k8s_deployment
  | OService k8s_service
  | OIngress k8s_ingress
  | OConfigMap k8s_configmap
  | OSecret k8s_secret
  | OPVC k8s_pvc string
  | ONamespace k8s_namespace

datatype k8s_kind =
    KDeployment | KReplicaSet | KService | KIngress | KConfigMap | KSecret | KPVC | KNamespace | KEndpoints | KJob

section \<open>The Kubernetes client\<close>

text \<open>
  \<open>create\<close> returns the stored object: its uid and its labels. \<open>get\<close>, \<open>delete\<close> and \<open>update\<close>
  address an object by kind, namespace and name. A listed namespace is its name and whether its
  phase is active.
\<close>

record created_object =
  co_UID :: string
  co_Labels :: labels

record namespace_item =
  ni_Name :: string
  ni_Active :: bool

record 'w kube =
  kube_create :: "k8s_object \<Rightarrow> 'w \<Rightarrow> (go_error + created_object) \<times> 'w"
  kube_get :: "k8s_kind \<Rightarrow> string \<Rightarrow> string \<Rightarrow> 'w \<Rightarrow> go_error + k8s_object"
  kube_update :: "k8s_object \<Rightarrow> 'w \<Rightarrow> go_error option \<times> 'w"
  kube_delete :: "k8s_kind \<Rightarrow> string \<Rightarrow> string \<Rightarrow> 'w \<Rightarrow> go_error option \<times> 'w"
  kube_list_namespaces :: "labels \<Rightarrow> 'w \<Rightarrow> go_error + namespace_item list"
  kube_list_services :: "string \<Rightarrow> labels \<Rightarrow> 'w \<Rightarrow> go_error + string list"
  kube_delete_collection :: "k8s_kind \<Rightarrow> string \<Rightarrow> labels \<Rightarrow> 'w \<Rightarrow> go_error option \<times> 'w"
  kube_num_nodes :: "'w \<Rightarrow> nat"

fun object_kind :: "k8s_object \<Rightarrow> k8s_kind" where
  "object_kind (ODeployment _) = KDeployment"
| "object_kind (OService _) = KService"
| "object_kind (OIngress _) = KIngress"
| "object_kind (OConfigMap _) = KConfigMap"
| "object_kind (OSecret _) = KSecret"
| "object_kind (OPVC _ _) = KPVC"
| "object_kind (ONamespace _) = KNamespace"

fun object_name :: "k8s_object \<Rightarrow> string" where
  "object_name (ODeployment d) = dep_Name d"
| "object_name (OService s) = svc_Name s"
| "object_name (OIngress i) = ing_Name i"
| "object_name (OConfigMap c) = cm_Name c"
| "object_name (OSecret s) = sec_Name s"
| "object_name (OPVC p _) = pvc_Name p"
| "object_name (ONamespace n) = ns_Name n"

fun object_labels :: "k8s_object \<Rightarrow> labels" where
  "object_labels (ODeployment d) = dep_Labels d"
| "object_labels (OService s) = svc_Labels s"
| "object_labels (OIngress i) = ing_Labels i"
| "object_labels (OConfigMap c) = cm_Labels c"
| "object_labels (OSecret s) = sec_Labels s"
| "object_labels (OPVC p _) = pvc_Labels p"
| "object_labels (ONamespace n) = ns_Labels n"

fun object_namespace :: "k8s_object \<Rightarrow> string" where
  "object_namespace (ODeployment d) = dep_Namespace d"
| "object_namespace (OService s) = svc_Namespace s"
| "object_namespace (OIngress i) = ing_Namespace i"
| "object_namespace (OConfigMap c) = cm_Namespace c"
| "object_namespace (OSecret s) = sec_Namespace s"
| "object_namespace (OPVC p _) = pvc_Namespace p"
| "object_namespace (ONamespace n) = []"

end
