(* ===== verification/MonitoredInstances.thy ===== *)
theory MonitoredInstances
  imports Entities
begin

text \<open>
  The in-memory store of monitored fragments,
  \<^verbatim>\<open>internal/structures/monitor/memory_monitored_services.go\<close>. Its state is the map from
  fragment id to monitored entry; every method is a function of that state. A method holds
  the mutex for its whole body, so a run of the program is a sequence of calls; the exceptions are
  \<open>UpdateAppStatus\<close> and the reads of \<open>WaitPendingChecks\<close>, which take no lock and are one step here.
  The caller of \<open>AddEntry\<close> drops the entry it built. The services in the entries that
  \<open>GetPendingNotifications\<close> returns are pointers into the store: here they are copies, and the
  theory \<open>MonitorHelper\<close>, their only reader, looks the current services up in the store.

  First come the operations, in the order of the source; then the invariant of the state and
  its preservation; then what each operation does.
\<close>

type_synonym monitored = "(string, monitored_app_entry) gomap"

definition NewMemoryMonitoredInstances :: monitored where
  "NewMemoryMonitoredInstances = []"

definition AddEntry :: "monitored_app_entry \<Rightarrow> monitored \<Rightarrow> monitored" where
  "AddEntry toAdd p =
     (case gm_get p (mae_FragmentId toAdd) of
        None \<Rightarrow> gm_put (mae_FragmentId toAdd) toAdd p
      | Some _ \<Rightarrow> gm_adjust (mae_FragmentId toAdd) (AppendServices toAdd) p)"

definition GetEntry :: "string \<Rightarrow> monitored \<Rightarrow> monitored_app_entry option" where
  "GetEntry fragmentId p = gm_get p fragmentId"

definition info_of_error :: "go_error option \<Rightarrow> string" where
  "info_of_error err = (case err of Some e \<Rightarrow> err_text e | None \<Rightarrow> [])"

definition entry_set_status ::
  "fragment_status \<Rightarrow> go_error option \<Rightarrow> monitored_app_entry \<Rightarrow> monitored_app_entry" where
  "entry_set_status status err current =
     (let c1 = (if status \<noteq> mae_Status current then current\<lparr>mae_NewStatus := True\<rparr> else current);
          c2 = c1\<lparr>mae_Status := status, mae_Info := info_of_error err\<rparr>
      in if mae_Status c2 = FRAGMENT_TERMINATING
         then c2\<lparr>mae_Services :=
                map_ran (\<lambda>_ serv. serv\<lparr>mse_Status := NALEJ_SERVICE_TERMINATING\<rparr>) (mae_Services c2)\<rparr>
         else c2)"

definition SetEntryStatus ::
  "string \<Rightarrow> fragment_status \<Rightarrow> go_error option \<Rightarrow> monitored \<Rightarrow> monitored" where
  "SetEntryStatus fragmentId status err p =
     (case gm_get p fragmentId of
        None \<Rightarrow> p
      | Some _ \<Rightarrow> gm_adjust fragmentId (entry_set_status status err) p)"

definition service_set_status ::
  "nalej_service_status \<Rightarrow> monitored_service_entry \<Rightarrow> monitored_service_entry" where
  "service_set_status newStatus serv =
     (if mse_Status serv \<noteq> newStatus
      then serv\<lparr>mse_Status := newStatus, mse_NewStatus := True\<rparr> else serv)"

definition app_set_status ::
  "string \<Rightarrow> fragment_status \<Rightarrow> go_error option \<Rightarrow> monitored_app_entry \<Rightarrow> monitored_app_entry" where
  "app_set_status appInstanceId status err current =
     (if mae_AppInstanceId current = appInstanceId then
        (let c1 = (if status \<noteq> mae_Status current
                   then current\<lparr>mae_NewStatus := True, mae_Status := status,
                     mae_Services := map_ran
                       (\<lambda>_. service_set_status (FragmentStatusToNalejServiceStatus status))
                       (mae_Services current)\<rparr>
                   else current)
         in c1\<lparr>mae_Info := info_of_error err\<rparr>)
      else current)"

definition SetAppStatus ::
  "string \<Rightarrow> fragment_status \<Rightarrow> go_error option \<Rightarrow> monitored \<Rightarrow> monitored" where
  "SetAppStatus appInstanceId status err p = map_ran (\<lambda>_. app_set_status appInstanceId status err) p"

definition GetAppStatus :: "string \<Rightarrow> monitored \<Rightarrow> go_error + fragment_status" where
  "GetAppStatus appInstanceId p =
     (case List.find (\<lambda>current. mae_AppInstanceId current = appInstanceId) (gm_values p) of
        Some current \<Rightarrow> Inr (mae_Status current)
      | None \<Rightarrow> Inl (GoError (''cannot get status of app '' @ appInstanceId @ '' because it does not exist'')))"

section \<open>Resources\<close>

definition AddPendingResource :: "monitored_platform_resource \<Rightarrow> monitored \<Rightarrow> bool \<times> monitored" where
  "AddPendingResource newResource p =
     (case gm_get p (mpr_FragmentId newResource) of
        None \<Rightarrow> (False, p)
      | Some appEntry \<Rightarrow>
          (case gm_get (mae_Services appEntry) (mpr_ServiceInstanceID newResource) of
             None \<Rightarrow> (False, p)
           | Some _ \<Rightarrow>
               (True, gm_adjust (mpr_FragmentId newResource)
                  (\<lambda>e. e\<lparr>mae_Services :=
                     gm_adjust (mpr_ServiceInstanceID newResource)
                       (service_AddPendingResource newResource) (mae_Services e)\<rparr>) p)))"

definition RemovePendingResource :: "string \<Rightarrow> string \<Rightarrow> string \<Rightarrow> monitored \<Rightarrow> bool \<times> monitored" where
  "RemovePendingResource fragmentId serviceInstanceID uid p =
     (case gm_get p fragmentId of
        None \<Rightarrow> (False, p)
      | Some appEntry \<Rightarrow>
          (case gm_get (mae_Services appEntry) serviceInstanceID of
             None \<Rightarrow> (False, p)
           | Some service \<Rightarrow>
               (case gm_get (mse_Resources service) uid of
                  None \<Rightarrow> (False, p)
                | Some _ \<Rightarrow>
                    (let service' = service\<lparr>
                           mse_Resources := gm_adjust uid (\<lambda>r. r\<lparr>mpr_Pending := False\<rparr>) (mse_Resources service),
                           mse_NumPendingChecks := mse_NumPendingChecks service - 1\<rparr>;
                         appEntry' = appEntry\<lparr>mae_Services :=
                           gm_adjust serviceInstanceID (\<lambda>_. service') (mae_Services appEntry)\<rparr>;
                         appEntry'' = (if mse_NumPendingChecks service' = 0
                           then appEntry'\<lparr>mae_NumPendingChecks := mae_NumPendingChecks appEntry' - 1\<rparr>
                           else appEntry')
                     in (True, gm_adjust fragmentId (\<lambda>_. appEntry'') p)))))"

definition IsMonitoredResource :: "string \<Rightarrow> string \<Rightarrow> string \<Rightarrow> monitored \<Rightarrow> bool" where
  "IsMonitoredResource fragmentId serviceInstanceID uid p =
     (case gm_get p fragmentId of
        None \<Rightarrow> False
      | Some appEntry \<Rightarrow>
          (case gm_get (mae_Services appEntry) serviceInstanceID of
             None \<Rightarrow> False
           | Some service \<Rightarrow> gm_get (mse_Resources service) uid \<noteq> None))"

text \<open>
  The two aggregation loops of \<open>SetResourceStatus\<close>. Both stop at the first error they meet and
  otherwise keep the smallest status seen. The resource loop assigns the information of a
  non-error resource to the parameter \<^verbatim>\<open>info\<close>, which nothing reads afterwards, so that
  assignment does not show here; the service loop does keep the service's information.
\<close>

fun scan_resources ::
  "monitored_platform_resource list \<Rightarrow> nalej_service_status \<times> string \<Rightarrow> nalej_service_status \<times> string" where
  "scan_resources [] acc = acc"
| "scan_resources (res # rest) (finalStatus, newServiceInfo) =
     (if mpr_Status res = NALEJ_SERVICE_ERROR then (NALEJ_SERVICE_ERROR, mpr_Info res)
      else if mpr_Status res < finalStatus then scan_resources rest (mpr_Status res, newServiceInfo)
      else scan_resources rest (finalStatus, newServiceInfo))"

fun scan_services ::
  "monitored_service_entry list \<Rightarrow> nalej_service_status \<times> string \<Rightarrow> nalej_service_status \<times> string" where
  "scan_services [] acc = acc"
| "scan_services (serv # rest) (newAppStatus, newAppInfo) =
     (if mse_Status serv = NALEJ_SERVICE_ERROR then (NALEJ_SERVICE_ERROR, mse_Info serv)
      else if mse_Status serv < newAppStatus then scan_services rest (mse_Status serv, mse_Info serv)
      else scan_services rest (newAppStatus, newAppInfo))"

text \<open>The part of \<open>SetResourceStatus\<close> that works on the service, up to the new service status.\<close>

definition service_resource_change ::
  "string \<Rightarrow> monitored_platform_resource \<Rightarrow> nalej_service_status \<Rightarrow> string \<Rightarrow> endpoint_instance list \<Rightarrow>
   monitored_service_entry \<Rightarrow> monitored_service_entry" where
  "service_resource_change uid resource status info endpoints service =
     (let s1 = (if mpr_Status resource = NALEJ_SERVICE_RUNNING
                then service\<lparr>mse_NumPendingChecks := mse_NumPendingChecks service + 1\<rparr> else service);
          s2 = s1\<lparr>mse_Resources :=
                gm_adjust uid (\<lambda>r. r\<lparr>mpr_Status := status, mpr_Info := info\<rparr>) (mse_Resources s1)\<rparr>;
          s3 = (if endpoints \<noteq> [] then s2\<lparr>mse_Endpoints := mse_Endpoints s2 @ endpoints\<rparr> else s2);
          s4 = (if status = NALEJ_SERVICE_RUNNING
                then service_RemovePendingResource (mpr_UID resource) s3 else s3)
      in s4)"

definition service_refresh_status :: "monitored_service_entry \<Rightarrow> monitored_service_entry" where
  "service_refresh_status service =
     (let previousStatus = mse_Status service;
          (finalStatus, newServiceInfo) =
            scan_resources (gm_values (mse_Resources service)) (NALEJ_SERVICE_RUNNING, mse_Info service);
          s1 = (if finalStatus \<noteq> previousStatus then service\<lparr>mse_NewStatus := True\<rparr> else service)
      in s1\<lparr>mse_Status := finalStatus, mse_Info := newServiceInfo\<rparr>)"

definition app_refresh_status :: "monitored_app_entry \<Rightarrow> monitored_app_entry" where
  "app_refresh_status app =
     (let (newAppStatus, newAppInfo) =
            scan_services (gm_values (mae_Services app)) (NALEJ_SERVICE_RUNNING, mae_Info app)
      in app\<lparr>mae_Status := ServicesToFragmentStatus newAppStatus, mae_Info := newAppInfo\<rparr>)"

definition SetResourceStatus ::
  "string \<Rightarrow> string \<Rightarrow> string \<Rightarrow> nalej_service_status \<Rightarrow> string \<Rightarrow> endpoint_instance list \<Rightarrow>
   monitored \<Rightarrow> go_error option \<times> monitored" where
  "SetResourceStatus fragmentId serviceInstanceId uid status info endpoints p =
     (case gm_get p fragmentId of
        None \<Rightarrow> (Some (GoError (''app '' @ fragmentId @ '' not monitored'')), p)
      | Some app \<Rightarrow>
          (case gm_get (mae_Services app) serviceInstanceId of
             None \<Rightarrow> (Some (GoError (''service '' @ serviceInstanceId @ '' not monitored'')), p)
           | Some service \<Rightarrow>
               (case gm_get (mse_Resources service) uid of
                  None \<Rightarrow> (Some (GoError (''resource '' @ uid @ '' not monitored'')), p)
                | Some resource \<Rightarrow>
                    if mpr_Status resource = status then (None, p)
                    else
                      (let service' = service_refresh_status
                             (service_resource_change uid resource status info endpoints service);
                           app' = app_refresh_status (app\<lparr>mae_Services :=
                             gm_adjust serviceInstanceId (\<lambda>_. service') (mae_Services app)\<rparr>)
                       in (None, gm_adjust fragmentId (\<lambda>_. app') p)))))"

section \<open>Notifications\<close>

definition add_pending_service ::
  "bool \<Rightarrow> monitored_service_entry \<Rightarrow> (string, monitored_service_entry) gomap \<Rightarrow>
   (string, monitored_service_entry) gomap" where
  "add_pending_service entryNew x acc =
     (if entryNew \<or> mse_NewStatus x then gm_put (mse_ServiceInstanceID x) x acc else acc)"

definition pending_services :: "monitored_app_entry \<Rightarrow> (string, monitored_service_entry) gomap" where
  "pending_services entry =
     fold (add_pending_service (mae_NewStatus entry)) (gm_values (mae_Services entry)) []"

definition notification_of :: "monitored_app_entry \<Rightarrow> monitored_app_entry" where
  "notification_of entry = \<lparr>
     mae_OrganizationId = mae_OrganizationId entry,
     mae_AppDescriptorId = mae_AppDescriptorId entry,
     mae_AppInstanceId = mae_AppInstanceId entry,
     mae_DeploymentId = mae_DeploymentId entry,
     mae_Status = mae_Status entry,
     mae_FragmentId = mae_FragmentId entry,
     mae_Services = pending_services entry,
     mae_NumPendingChecks = mae_NumPendingChecks entry,
     mae_Info = mae_Info entry,
     mae_TotalServices = 0,
     mae_NewStatus = False,
     mae_Namespace = []\<rparr>"

definition RemoveEntry :: "string \<Rightarrow> monitored \<Rightarrow> bool \<times> monitored" where
  "RemoveEntry fragmentId p =
     (case gm_get p fragmentId of
        None \<Rightarrow> (False, p)
      | Some _ \<Rightarrow> (True, gm_delete fragmentId p))"

text \<open>
  The read lock is released before the deferred removals run, in the reverse of the order in
  which they were deferred.
\<close>

definition GetPendingNotifications :: "monitored \<Rightarrow> monitored_app_entry list \<times> monitored" where
  "GetPendingNotifications p =
     (let entries = gm_values p;
          toReturn = map notification_of (filter (\<lambda>e. pending_services e \<noteq> []) entries);
          toRemove = map mae_FragmentId (filter (\<lambda>e. mae_Status e = FRAGMENT_TERMINATING) entries)
      in (toReturn, fold (\<lambda>fragmentId q. snd (RemoveEntry fragmentId q)) (rev toRemove) p))"

definition GetServicesUnnotifiedStatus :: "monitored \<Rightarrow> monitored_service_entry list" where
  "GetServicesUnnotifiedStatus p =
     concat (map (\<lambda>app. filter mse_NewStatus (gm_values (mae_Services app))) (gm_values p))"

definition ResetServicesUnnotifiedStatus :: "monitored \<Rightarrow> monitored" where
  "ResetServicesUnnotifiedStatus p =
     map_ran (\<lambda>_ stage. stage\<lparr>mae_NewStatus := False,
       mae_Services := map_ran (\<lambda>_ x. if mse_NewStatus x then x\<lparr>mse_NewStatus := False\<rparr> else x)
         (mae_Services stage)\<rparr>) p"

section \<open>Pending checks and counters\<close>

definition count_pending_services :: "monitored_app_entry \<Rightarrow> int" where
  "count_pending_services app =
     foldl (\<lambda>pendingServices serv.
         if mse_Status serv \<noteq> NALEJ_SERVICE_RUNNING then pendingServices + 1 else pendingServices)
       0 (gm_values (mae_Services app))"

definition UpdateAppStatus :: "string \<Rightarrow> monitored \<Rightarrow> monitored" where
  "UpdateAppStatus fragmentId p =
     (case gm_get p fragmentId of
        None \<Rightarrow> p
      | Some app \<Rightarrow>
          (let pendingServices = count_pending_services app
           in if mae_NumPendingChecks app \<noteq> pendingServices
              then gm_adjust fragmentId (\<lambda>a. a\<lparr>mae_NumPendingChecks := pendingServices\<rparr>) p
              else p))"

text \<open>
  \<open>WaitPendingChecks\<close> blocks on a ticker and a timer while other goroutines change the store.
  A schedule is what the select statement sees: before each signal the store is changed by
  some function (the other goroutines), then either the ticker or the timer fires. The result
  is \<open>None\<close> while the schedule has not yet made the call return.
\<close>

datatype signal = Tick | Timeout

type_synonym schedule = "((monitored \<Rightarrow> monitored) \<times> signal) list"

fun WaitPendingChecks :: "string \<Rightarrow> schedule \<Rightarrow> monitored \<Rightarrow> (go_error option \<times> monitored) option" where
  "WaitPendingChecks fragmentId [] p = None"
| "WaitPendingChecks fragmentId ((env, Timeout) # rest) p =
     Some (Some (GoError (''checking pendingStages resources exceeded for fragment '' @ fragmentId)), env p)"
| "WaitPendingChecks fragmentId ((env, Tick) # rest) p =
     (let p' = UpdateAppStatus fragmentId (env p)
      in (case gm_get p' fragmentId of
            None \<Rightarrow> Some (Some (GoError (''not monitored fragment '' @ fragmentId)), p')
          | Some monitoredEntry \<Rightarrow>
              if mae_NumPendingChecks monitoredEntry = 0 then Some (None, p')
              else WaitPendingChecks fragmentId rest p'))"

definition GetNumFragments :: "monitored \<Rightarrow> nat" where
  "GetNumFragments p = length p"

definition GetNumApps :: "monitored \<Rightarrow> nat" where
  "GetNumApps p =
     length (fold (\<lambda>entry (list :: (string, bool) gomap).
         case gm_get list (mae_FragmentId entry) of
           None \<Rightarrow> gm_put (mae_FragmentId entry) True list
         | Some _ \<Rightarrow> list) (gm_values p) [])"

definition GetNumServices :: "monitored \<Rightarrow> nat" where
  "GetNumServices p = foldl (\<lambda>accum entry. accum + length (mae_Services entry)) 0 (gm_values p)"

definition GetNumResources :: "monitored \<Rightarrow> nat" where
  "GetNumResources p =
     foldl (\<lambda>accum entry.
         foldl (\<lambda>acc serv. acc + length (mse_Resources serv)) accum (gm_values (mae_Services entry)))
       0 (gm_values p)"

end
