(* ===== verification/Deployables.thy ===== *)
theory Deployables
  imports K8sTypes MonitoredInstances
begin

text \<open>
  What all deployables share (\<^verbatim>\<open>kubernetes_deployable.go\<close>, \<^verbatim>\<open>kubernetes_controller.go\<close>): the state
  they act on, which is the monitored store together with the cluster, the creation of an
  object with and without registering it for monitoring, and the deletion by name. Then the
  deployables without a network decorator whose objects are not monitored: configuration maps
  (\<^verbatim>\<open>kubernetes_configmaps.go\<close>), image secrets (\<^verbatim>\<open>kubernetes_secrets.go\<close>) and the public registry
  secret of a namespace (\<^verbatim>\<open>kubernetes_nalej_secret.go\<close>).
\<close>

section \<open>Objects of the cluster\<close>

type_synonym 'w st = "monitored \<times> 'w"

definition AddMonitoredResource :: "monitored_platform_resource \<Rightarrow> 'w st \<Rightarrow> 'w st" where
  "AddMonitoredResource resource s = (snd (AddPendingResource resource (fst s)), snd s)"

text \<open>The resource a deployable registers is read off the labels of the stored object.\<close>

definition created_resource :: "created_object \<Rightarrow> monitored_platform_resource" where
  "created_resource c = NewMonitoredPlatformResource
     (gm_str (co_Labels c) NALEJ_ANNOTATION_DEPLOYMENT_FRAGMENT) (co_UID c)
     (gm_str (co_Labels c) NALEJ_ANNOTATION_APP_DESCRIPTOR) (gm_str (co_Labels c) NALEJ_ANNOTATION_APP_INSTANCE_ID)
     (gm_str (co_Labels c) NALEJ_ANNOTATION_SERVICE_GROUP_ID) (gm_str (co_Labels c) NALEJ_ANNOTATION_SERVICE_GROUP_INSTANCE_ID)
     (gm_str (co_Labels c) NALEJ_ANNOTATION_SERVICE_ID) (gm_str (co_Labels c) NALEJ_ANNOTATION_SERVICE_INSTANCE_ID) []"

definition create_monitored :: "'w kube \<Rightarrow> k8s_object \<Rightarrow> (go_error option, 'w st) prog" where
  "create_monitored k obj s =
     (case kube_create k obj (snd s) of
        (Inl e, w) \<Rightarrow> Done (Some e, (fst s, w))
      | (Inr c, w) \<Rightarrow> Done (None, AddMonitoredResource (created_resource c) (fst s, w)))"

definition create_object :: "'w kube \<Rightarrow> k8s_object \<Rightarrow> (go_error option, 'w st) prog" where
  "create_object k obj s =
     (case kube_create k obj (snd s) of
        (Inl e, w) \<Rightarrow> Done (Some e, (fst s, w))
      | (Inr c, w) \<Rightarrow> Done (None, (fst s, w)))"

definition delete_object :: "'w kube \<Rightarrow> k8s_kind \<Rightarrow> string \<Rightarrow> string \<Rightarrow> (go_error option, 'w st) prog" where
  "delete_object k kind ns name s = (let (e, w) = kube_delete k kind ns name (snd s) in Done (e, (fst s, w)))"

text \<open>\<^verbatim>\<open>errors.IsNotFound\<close> of the error of a read, which is nil when the object is there.\<close>

definition get_not_found :: "go_error + k8s_object \<Rightarrow> bool" where
  "get_not_found r = (case r of Inl e \<Rightarrow> is_not_found (Some e) | Inr _ \<Rightarrow> False)"

text \<open>The labels most objects of a service carry.\<close>

definition service_labels :: "deployment_metadata \<Rightarrow> service_instance \<Rightarrow> labels" where
  "service_labels data service = [
     (NALEJ_ANNOTATION_DEPLOYMENT_FRAGMENT, dm_FragmentId data),
     (NALEJ_ANNOTATION_ORGANIZATION_ID, dm_OrganizationId data),
     (NALEJ_ANNOTATION_APP_DESCRIPTOR, dm_AppDescriptorId data),
     (NALEJ_ANNOTATION_APP_INSTANCE_ID, dm_AppInstanceId data),
     (NALEJ_ANNOTATION_STAGE_ID, ds_StageId (dm_Stage data)),
     (NALEJ_ANNOTATION_SERVICE_ID, si_ServiceId service),
     (NALEJ_ANNOTATION_SERVICE_INSTANCE_ID, si_ServiceInstanceId service),
     (NALEJ_ANNOTATION_SERVICE_GROUP_ID, si_ServiceGroupId service),
     (NALEJ_ANNOTATION_SERVICE_GROUP_INSTANCE_ID, si_ServiceGroupInstanceId service)]"

section \<open>Configuration maps\<close>

record deployable_configmaps =
  dcm_data :: deployment_metadata
  dcm_configmaps :: "(string, k8s_configmap list) gomap"

definition NewDeployableConfigMaps :: "deployment_metadata \<Rightarrow> deployable_configmaps" where
  "NewDeployableConfigMaps data = \<lparr>dcm_data = data, dcm_configmaps = []\<rparr>"

definition GetConfigMapPath :: "string \<Rightarrow> string \<times> string" where
  "GetConfigMapPath mountPath =
     (if CHR ''/'' \<notin> set mountPath then (''/'', mountPath)
      else (let file = rev (takeWhile (\<lambda>c. c \<noteq> CHR ''/'') (rev mountPath))
            in (take (length mountPath - length file) mountPath, file)))"

definition configmap_name :: "service_instance \<Rightarrow> string" where
  "configmap_name service = ''config-map-'' @ si_ServiceId service @ ''-'' @ si_ServiceInstanceId service"

definition generateConsolidateConfigMap ::
  "deployable_configmaps \<Rightarrow> service_instance \<Rightarrow> pb_config_file list \<Rightarrow> k8s_configmap option" where
  "generateConsolidateConfigMap dc service cf =
     (if cf = [] then None
      else Some \<lparr>
        cm_Name = configmap_name service,
        cm_Namespace = dm_Namespace (dcm_data dc),
        cm_Labels = service_labels (dcm_data dc) service,
        cm_BinaryData = fold (\<lambda>config. gm_put (cf_ConfigFileId config) (cf_Content config)) cf []\<rparr>)"

definition ConfigMaps_Build :: "deployable_configmaps \<Rightarrow> deployable_configmaps" where
  "ConfigMaps_Build dc = fold (\<lambda>service d.
     (case generateConsolidateConfigMap d service (si_Configs service) of
        None \<Rightarrow> d
      | Some toAdd \<Rightarrow> d\<lparr>dcm_configmaps := gm_put (si_ServiceId service)
          ((case gm_get (dcm_configmaps d) (si_ServiceId service) of None \<Rightarrow> [] | Some l \<Rightarrow> l) @ [toAdd])
          (dcm_configmaps d)\<rparr>)) (ds_Services (dm_Stage (dcm_data dc))) dc"

definition ConfigMaps_Deploy :: "'w kube \<Rightarrow> deployable_configmaps \<Rightarrow> (go_error option, 'w st) prog" where
  "ConfigMaps_Deploy k dc =
     for_each (\<lambda>(serviceId, configmaps). for_each (\<lambda>cm. create_object k (OConfigMap cm)) configmaps)
       (dcm_configmaps dc)"

definition ConfigMaps_Undeploy :: "'w kube \<Rightarrow> deployable_configmaps \<Rightarrow> (go_error option, 'w st) prog" where
  "ConfigMaps_Undeploy k dc =
     for_each (\<lambda>(serviceId, configmaps).
         for_each (\<lambda>cm. delete_object k KConfigMap (dm_Namespace (dcm_data dc)) (cm_Name cm)) configmaps)
       (dcm_configmaps dc)"

section \<open>Image secrets\<close>

text \<open>Standard base64 with padding, byte by byte.\<close>

definition b64_char :: "nat \<Rightarrow> char" where
  "b64_char n = (if n < 26 then char_of (65 + n) else if n < 52 then char_of (71 + n)
     else if n < 62 then char_of (n - 4) else if n = 62 then CHR ''+'' else CHR ''/'')"

fun base64 :: "string \<Rightarrow> string" where
  "base64 [] = []"
| "base64 [a] = (let x = (of_char a :: nat) in
     [b64_char (x div 4), b64_char (x mod 4 * 16), CHR ''='', CHR ''=''])"
| "base64 [a, b] = (let x = (of_char a :: nat); y = (of_char b :: nat) in
     [b64_char (x div 4), b64_char (x mod 4 * 16 + y div 16), b64_char (y mod 16 * 4), CHR ''=''])"
| "base64 (a # b # c # rest) = (let x = (of_char a :: nat); y = (of_char b :: nat); z = (of_char c :: nat) in
     b64_char (x div 4) # b64_char (x mod 4 * 16 + y div 16) # b64_char (y mod 16 * 4 + z div 64) #
     b64_char (z mod 64) # base64 rest)"

record deployable_secrets =
  dse_data :: deployment_metadata
  dse_secrets :: "(string, k8s_secret list) gomap"

definition NewDeployableSecrets :: "deployment_metadata \<Rightarrow> deployable_secrets" where
  "NewDeployableSecrets data = \<lparr>dse_data = data, dse_secrets = []\<rparr>"

definition getAuth :: "string \<Rightarrow> string \<Rightarrow> string" where
  "getAuth username password = base64 (username @ '':'' @ password)"

definition quoted :: "string \<Rightarrow> string" where
  "quoted s = CHR 0x22 # s @ [CHR 0x22]"

text \<open>The template puts the values between quotes as they are, without escaping them.\<close>

definition getDockerConfigJSON :: "image_credentials \<Rightarrow> string" where
  "getDockerConfigJSON ic =
     ''{'' @ quoted ''auths'' @ '':{'' @ quoted (ic_DockerRepository ic) @ '':{'' @
     quoted ''username'' @ '':'' @ quoted (ic_Username ic) @ '','' @
     quoted ''password'' @ '':'' @ quoted (ic_Password ic) @ '','' @
     quoted ''email'' @ '':'' @ quoted (ic_Email ic) @ '','' @
     quoted ''auth'' @ '':'' @ quoted (getAuth (ic_Username ic) (ic_Password ic)) @ ''}}}''"

definition generateDockerSecret ::
  "deployable_secrets \<Rightarrow> service_instance \<Rightarrow> image_credentials \<Rightarrow> k8s_secret" where
  "generateDockerSecret ds service credentials = \<lparr>
     sec_Name = si_ServiceName service,
     sec_Namespace = dm_Namespace (dse_data ds),
     sec_Labels = service_labels (dse_data ds) service,
     sec_Data = [(''.dockerconfigjson'', getDockerConfigJSON credentials)]\<rparr>"

definition BuildSecretsForService :: "deployable_secrets \<Rightarrow> service_instance \<Rightarrow> k8s_secret list" where
  "BuildSecretsForService ds service =
     (case si_Credentials service of
        None \<Rightarrow> []
      | Some credentials \<Rightarrow> [generateDockerSecret ds service credentials])"

definition Secrets_Build :: "deployable_secrets \<Rightarrow> deployable_secrets" where
  "Secrets_Build ds = fold (\<lambda>service d.
     (let toAdd = BuildSecretsForService d service
      in if toAdd \<noteq> [] then d\<lparr>dse_secrets := gm_put (si_ServiceId service) toAdd (dse_secrets d)\<rparr> else d))
     (ds_Services (dm_Stage (dse_data ds))) ds"

definition Secrets_Deploy :: "'w kube \<Rightarrow> deployable_secrets \<Rightarrow> (go_error option, 'w st) prog" where
  "Secrets_Deploy k ds =
     for_each (\<lambda>(serviceId, secrets). for_each (\<lambda>sec. create_object k (OSecret sec)) secrets) (dse_secrets ds)"

definition Secrets_Undeploy :: "'w kube \<Rightarrow> deployable_secrets \<Rightarrow> (go_error option, 'w st) prog" where
  "Secrets_Undeploy k ds =
     for_each (\<lambda>(serviceId, secrets).
         for_each (\<lambda>sec. delete_object k KSecret (dm_Namespace (dse_data ds)) (sec_Name sec)) secrets)
       (dse_secrets ds)"

section \<open>The public registry secret\<close>

definition NalejPublicRegistryName :: string where
  "NalejPublicRegistryName = ''nalej-public-registry''"

record deployable_nalej_secret =
  dns_data :: deployment_metadata
  dns_secrets :: "(string, k8s_secret) gomap"

definition NewDeployableNalejSecret :: "deployment_metadata \<Rightarrow> deployable_nalej_secret" where
  "NewDeployableNalejSecret data = \<lparr>dns_data = data, dns_secrets = []\<rparr>"

definition BuildNalejPublicRegistry :: "deployable_nalej_secret \<Rightarrow> k8s_secret" where
  "BuildNalejPublicRegistry ds = \<lparr>
     sec_Name = NalejPublicRegistryName,
     sec_Namespace = dm_Namespace (dns_data ds),
     sec_Labels = [
       (NALEJ_ANNOTATION_DEPLOYMENT_FRAGMENT, dm_FragmentId (dns_data ds)),
       (NALEJ_ANNOTATION_ORGANIZATION_ID, dm_OrganizationId (dns_data ds)),
       (NALEJ_ANNOTATION_APP_DESCRIPTOR, dm_AppDescriptorId (dns_data ds)),
       (NALEJ_ANNOTATION_APP_INSTANCE_ID, dm_AppInstanceId (dns_data ds))],
     sec_Data = [(''.dockerconfigjson'', getDockerConfigJSON (dm_PublicCredentials (dns_data ds)))]\<rparr>"

definition NalejSecret_Build :: "deployable_nalej_secret \<Rightarrow> deployable_nalej_secret" where
  "NalejSecret_Build ds = ds\<lparr>dns_secrets := gm_put NalejPublicRegistryName (BuildNalejPublicRegistry ds) (dns_secrets ds)\<rparr>"

definition NalejSecret_Deploy :: "'w kube \<Rightarrow> deployable_nalej_secret \<Rightarrow> (go_error option, 'w st) prog" where
  "NalejSecret_Deploy k ds = for_each (\<lambda>(serviceId, sec). create_object k (OSecret sec)) (dns_secrets ds)"

definition NalejSecret_Undeploy :: "'w kube \<Rightarrow> deployable_nalej_secret \<Rightarrow> (go_error option, 'w st) prog" where
  "NalejSecret_Undeploy k ds =
     for_each (\<lambda>(serviceId, sec). delete_object k KSecret (dm_Namespace (dns_data ds)) (sec_Name sec)) (dns_secrets ds)"

section \<open>Lemmas\<close>

lemma GetConfigMapPath_append: "CHR ''/'' \<in> set p \<Longrightarrow> fst (GetConfigMapPath p) @ snd (GetConfigMapPath p) = p"
proof -
  assume slash: "CHR ''/'' \<in> set p"
  let ?f = "takeWhile (\<lambda>c. c \<noteq> CHR ''/'') (rev p)"
  have "rev p = ?f @ dropWhile (\<lambda>c. c \<noteq> CHR ''/'') (rev p)" by simp
  then have p: "p = rev (dropWhile (\<lambda>c. c \<noteq> CHR ''/'') (rev p)) @ rev ?f"
    by (metis rev_append rev_rev_ident)
  then have "take (length p - length ?f) p = rev (dropWhile (\<lambda>c. c \<noteq> CHR ''/'') (rev p))"
    by (metis append_eq_conv_conj diff_add_inverse2 length_append length_rev)
  then show ?thesis
    using slash p by (simp add: GetConfigMapPath_def Let_def)
qed

lemma GetConfigMapPath_file: "CHR ''/'' \<notin> set (snd (GetConfigMapPath p))"
  by (auto simp: GetConfigMapPath_def Let_def dest: set_takeWhileD)

text \<open>Decoding base64, to state that nothing is lost.\<close>

definition b64_value :: "char \<Rightarrow> nat" where
  "b64_value c = (let n = (of_char c :: nat) in
     if 65 \<le> n \<and> n \<le> 90 then n - 65 else if 97 \<le> n \<and> n \<le> 122 then n - 71
     else if 48 \<le> n \<and> n \<le> 57 then n + 4 else if n = 43 then 62 else 63)"

fun unbase64 :: "string \<Rightarrow> string" where
  "unbase64 (p # q # r # s # rest) =
     (if r = CHR ''='' then [char_of (b64_value p * 4 + b64_value q div 16)]
      else if s = CHR ''='' then
        [char_of (b64_value p * 4 + b64_value q div 16),
         char_of (b64_value q mod 16 * 16 + b64_value r div 4)]
      else char_of (b64_value p * 4 + b64_value q div 16) #
        char_of (b64_value q mod 16 * 16 + b64_value r div 4) #
        char_of (b64_value r mod 4 * 64 + b64_value s) # unbase64 rest)"
| "unbase64 _ = []"

lemma b64_value_char: "n < 64 \<Longrightarrow> b64_value (b64_char n) = n"
  by (auto simp: b64_value_def b64_char_def Let_def)

lemma b64_char_pad: "n < 64 \<Longrightarrow> b64_char n \<noteq> CHR ''=''"
proof
  assume n: "n < 64" and eq: "b64_char n = CHR ''=''"
  have "(of_char (b64_char n) :: nat) = 61" using eq by simp
  then show False using n by (auto simp: b64_char_def split: if_splits)
qed

text \<open>The pieces of three bytes, put together again.\<close>

lemma byte_pieces:
  fixes x y z :: nat
  assumes "x < 256" "y < 256" "z < 256"
  shows "x div 4 < 64" "x mod 4 * 16 + y div 16 < 64" "y mod 16 * 4 + z div 64 < 64" "z mod 64 < 64"
    "x mod 4 * 16 < 64" "y mod 16 * 4 < 64"
    "x div 4 * 4 + (x mod 4 * 16 + y div 16) div 16 = x"
    "x div 4 * 4 + x mod 4 * 16 div 16 = x"
    "(x mod 4 * 16 + y div 16) mod 16 * 16 + (y mod 16 * 4 + z div 64) div 4 = y"
    "(x mod 4 * 16 + y div 16) mod 16 * 16 + y mod 16 * 4 div 4 = y"
    "(y mod 16 * 4 + z div 64) mod 4 * 64 + z mod 64 = z"
proof -
  have y: "y div 16 < 16" and z: "z div 64 < 4" using assms by simp_all
  have xm: "x mod 4 < 4" and ym: "y mod 16 < 16" by simp_all
  show "x div 4 < 64" "z mod 64 < 64" "x mod 4 * 16 < 64" "y mod 16 * 4 < 64"
    using assms xm ym by simp_all
  show "x mod 4 * 16 + y div 16 < 64" using xm y by linarith
  show "y mod 16 * 4 + z div 64 < 64" using ym z by linarith
  have "(x mod 4 * 16 + y div 16) div 16 = x mod 4" using y by simp
  then show "x div 4 * 4 + (x mod 4 * 16 + y div 16) div 16 = x" by simp
  show "x div 4 * 4 + x mod 4 * 16 div 16 = x" by simp
  have q: "(x mod 4 * 16 + y div 16) mod 16 = y div 16" using y by simp
  have "(y mod 16 * 4 + z div 64) div 4 = y mod 16" using z by simp
  then show "(x mod 4 * 16 + y div 16) mod 16 * 16 + (y mod 16 * 4 + z div 64) div 4 = y"
    using q by simp
  show "(x mod 4 * 16 + y div 16) mod 16 * 16 + y mod 16 * 4 div 4 = y"
    using q by simp
  have "(y mod 16 * 4 + z div 64) mod 4 = z div 64" using z by simp
  then show "(y mod 16 * 4 + z div 64) mod 4 * 64 + z mod 64 = z" by simp
qed

lemma unbase64_base64: "unbase64 (base64 s) = s"
proof (induction s rule: base64.induct)
  case (2 a)
  have "(of_char a :: nat) < 256" by simp
  from byte_pieces [OF this this this] show ?case
    by (simp add: Let_def b64_value_char b64_char_pad)
next
  case (3 a b)
  have a: "(of_char a :: nat) < 256" and b: "(of_char b :: nat) < 256" by simp_all
  from byte_pieces [OF a b b] show ?case
    by (simp add: Let_def b64_value_char b64_char_pad)
next
  case (4 a b c rest)
  have a: "(of_char a :: nat) < 256" and b: "(of_char b :: nat) < 256" and c: "(of_char c :: nat) < 256"
    by simp_all
  from byte_pieces [OF a b c] 4 show ?case
    by (simp add: Let_def b64_value_char b64_char_pad)
qed simp

section \<open>Properties\<close>

text \<open>The authentication entry of an image secret decodes to the user name, a colon and the password:
  nothing of the credentials is lost in the encoding.\<close>

theorem getAuth_roundtrip:
  "unbase64 (getAuth username password) = username @ '':'' @ password"
  by (simp add: getAuth_def unbase64_base64)

end
