(* ===== verification/Targets.thy ===== *)
theory Targets
  imports Deployables
begin

text \<open>
  The deployables that a network decorator may change, and the interface of network decorators
  (\<^verbatim>\<open>pkg/executor/decorator.go\<close>). A decorator gets a deployable behind an interface and switches on
  its type, so the deployables are one datatype here. Building may panic, deploying and undeploying
  act on the monitored store and the cluster.
\<close>

record deployable_deployments =
  dd_Data :: deployment_metadata
  dd_Deployments :: "k8s_deployment list"

record service_info =
  sinf_ServiceId :: string
  sinf_ServiceInstanceId :: string
  sinf_Service :: k8s_service

record deployable_services =
  dsv_Data :: deployment_metadata
  dsv_Services :: "service_info list"

record ingresses_info =
  ii_ServiceId :: string
  ii_ServiceInstanceId :: string
  ii_Ingresses :: "k8s_ingress list"

record deployable_ingress =
  di_Data :: deployment_metadata
  di_Ingresses :: "ingresses_info list"

record deployable_namespace =
  dn_data :: deployment_metadata
  dn_Namespace :: k8s_namespace

datatype target =
    TDeployments deployable_deployments
  | TServices deployable_services
  | TIngress deployable_ingress
  | TNamespace deployable_namespace

record 'w network_decorator =
  nd_Build :: "target \<Rightarrow> (go_error option \<times> target) outcome"
  nd_Deploy :: "target \<Rightarrow> (go_error option, 'w st) prog"
  nd_Undeploy :: "target \<Rightarrow> (go_error option, 'w st) prog"

text \<open>
  The decorator works on the deployable through a pointer, so the caller sees the changed
  deployable of the same type.
\<close>

fun as_deployments :: "deployable_deployments \<Rightarrow> target \<Rightarrow> deployable_deployments" where
  "as_deployments d (TDeployments d') = d'"
| "as_deployments d _ = d"

fun as_services :: "deployable_services \<Rightarrow> target \<Rightarrow> deployable_services" where
  "as_services d (TServices d') = d'"
| "as_services d _ = d"

fun as_ingress :: "deployable_ingress \<Rightarrow> target \<Rightarrow> deployable_ingress" where
  "as_ingress d (TIngress d') = d'"
| "as_ingress d _ = d"

fun as_namespace :: "deployable_namespace \<Rightarrow> target \<Rightarrow> deployable_namespace" where
  "as_namespace d (TNamespace d') = d'"
| "as_namespace d _ = d"

end
