(* ===== verification/Storage.thy ===== *)
theory Storage
  imports Deployables
begin

text \<open>
  The persistent volume claims of a stage, \<^verbatim>\<open>kubernetes_storages.go\<close>. Every claim points to the
  field \<^verbatim>\<open>class\<close> of the deployable for its storage class, so a claim is sent with the value the
  field has when the stage is deployed. The storage fabric client is a parameter; the
  goroutines that call it run where they are started, and their errors are dropped. The number
  \<^verbatim>\<open>pvc.Spec.Size()\<close> is computed by generated code and is a parameter too.
\<close>

definition DefaultStorageAllocationSize :: int where
  "DefaultStorageAllocationSize = 100 * 1024 * 1024"

definition STORAGE_CLASS_AZURE_CLUSTER_LOCAL :: string where
  "STORAGE_CLASS_AZURE_CLUSTER_LOCAL = ''managed-premium''"
definition STORAGE_CLASS_AZURE_CLUSTER_REPLICA :: string where
  "STORAGE_CLASS_AZURE_CLUSTER_REPLICA = ''managed-premium''"
definition STORAGE_CLASS_NALEJ_CLUSTER_LOCAL :: string where
  "STORAGE_CLASS_NALEJ_CLUSTER_LOCAL = ''nalej-sc-local''"
definition STORAGE_CLASS_NALEJ_CLUSTER_REPLICA :: string where
  "STORAGE_CLASS_NALEJ_CLUSTER_REPLICA = ''nalej-sc-local-replica''"
definition DefaultReplicas :: int where "DefaultReplicas = 3"

lemmas storage_class_names = STORAGE_CLASS_AZURE_CLUSTER_LOCAL_def STORAGE_CLASS_AZURE_CLUSTER_REPLICA_def
  STORAGE_CLASS_NALEJ_CLUSTER_LOCAL_def STORAGE_CLASS_NALEJ_CLUSTER_REPLICA_def

record storage_class_request =
  scr_OrganizationId :: string
  scr_AppInstanceId :: string
  scr_ServiceInstanceId :: string
  scr_StorageClassName :: string
  scr_Replicas :: int
  scr_Size :: int

record 'w storage_fabric =
  sf_Create :: "storage_class_request \<Rightarrow> 'w \<Rightarrow> go_error option \<times> 'w"
  sf_Remove :: "string \<Rightarrow> 'w \<Rightarrow> go_error option \<times> 'w"
  sf_SpecSize :: "k8s_pvc \<Rightarrow> string \<Rightarrow> int"

record deployable_storage =
  dst_data :: deployment_metadata
  dst_class :: string
  dst_nodes :: nat
  dst_pvcs :: "(string, k8s_pvc list) gomap"

definition NewDeployableStorage :: "'w kube \<Rightarrow> 'w \<Rightarrow> deployment_metadata \<Rightarrow> deployable_storage" where
  "NewDeployableStorage k w data = \<lparr>dst_data = data, dst_class = [], dst_nodes = kube_num_nodes k w, dst_pvcs = []\<rparr>"

definition effective_size :: "pb_storage \<Rightarrow> int" where
  "effective_size st = (if ps_Size st = 0 then DefaultStorageAllocationSize else ps_Size st)"

definition generatePVC ::
  "deployable_storage \<Rightarrow> string \<Rightarrow> service_instance \<Rightarrow> pb_storage \<Rightarrow> k8s_pvc" where
  "generatePVC ds storageId service st = \<lparr>
     pvc_Name = storageId,
     pvc_Namespace = dm_Namespace (dst_data ds),
     pvc_Labels = [
       (NALEJ_ANNOTATION_DEPLOYMENT_FRAGMENT, dm_FragmentId (dst_data ds)),
       (NALEJ_ANNOTATION_ORGANIZATION_ID, dm_OrganizationId (dst_data ds)),
       (NALEJ_ANNOTATION_APP_DESCRIPTOR, dm_AppDescriptorId (dst_data ds)),
       (NALEJ_ANNOTATION_APP_INSTANCE_ID, dm_AppInstanceId (dst_data ds)),
       (NALEJ_ANNOTATION_STAGE_ID, ds_StageId (dm_Stage (dst_data ds))),
       (NALEJ_ANNOTATION_SERVICE_ID, storageId),
       (NALEJ_ANNOTATION_SERVICE_INSTANCE_ID, si_ServiceInstanceId service),
       (NALEJ_ANNOTATION_SERVICE_GROUP_ID, si_ServiceGroupId service),
       (NALEJ_ANNOTATION_SERVICE_GROUP_INSTANCE_ID, si_ServiceGroupInstanceId service),
       (NALEJ_ANNOTATION_STORAGE_TYPE, StorageType_String (ps_Type st))],
     pvc_Size = effective_size st\<rparr>"

definition createExperimentalStorageClassName :: "string \<Rightarrow> string \<Rightarrow> string \<Rightarrow> string" where
  "createExperimentalStorageClassName organizationId appInstanceId serviceInstanceId =
     replace_char CHR ''-'' [] organizationId @ replace_char CHR ''-'' [] appInstanceId @
     replace_char CHR ''-'' [] serviceInstanceId"

definition GetStorageClass :: "config \<Rightarrow> storage_type \<Rightarrow> string \<Rightarrow> string \<Rightarrow> string \<Rightarrow> string" where
  "GetStorageClass cfg stype organizationId appInstanceId serviceInstanceId =
     (case cfg_TargetPlatform cfg of
        Platform_AZURE \<Rightarrow>
          (case stype of
             StorageType_CLUSTER_LOCAL \<Rightarrow> STORAGE_CLASS_AZURE_CLUSTER_LOCAL
           | StorageType_CLUSTER_REPLICA \<Rightarrow> STORAGE_CLASS_AZURE_CLUSTER_REPLICA
           | StorageType_EXPERIMENTAL_CLUSTER_REPLICA \<Rightarrow>
               createExperimentalStorageClassName organizationId appInstanceId serviceInstanceId
           | _ \<Rightarrow> [])
      | Platform_MINIKUBE \<Rightarrow>
          (case stype of
             StorageType_CLUSTER_LOCAL \<Rightarrow> STORAGE_CLASS_NALEJ_CLUSTER_LOCAL
           | StorageType_CLUSTER_REPLICA \<Rightarrow> STORAGE_CLASS_NALEJ_CLUSTER_REPLICA
           | _ \<Rightarrow> [])
      | Platform_other _ \<Rightarrow> [])"

definition storage_supported :: "storage_type \<Rightarrow> bool" where
  "storage_supported t \<longleftrightarrow> t = StorageType_CLUSTER_LOCAL \<or> t = StorageType_CLUSTER_REPLICA \<or>
     t = StorageType_EXPERIMENTAL_CLUSTER_REPLICA"

definition service_storage_class :: "config \<Rightarrow> service_instance \<Rightarrow> pb_storage \<Rightarrow> string" where
  "service_storage_class cfg service st =
     GetStorageClass cfg (ps_Type st) (si_OrganizationId service) (si_AppInstanceId service) (si_ServiceInstanceId service)"

text \<open>The loop over the storage of a service; the field \<open>dst_class\<close> is assigned on the way.\<close>

fun build_storage_loop ::
  "config \<Rightarrow> service_instance \<Rightarrow> nat \<Rightarrow> pb_storage list \<Rightarrow> deployable_storage \<Rightarrow> k8s_pvc list \<Rightarrow>
   deployable_storage \<times> k8s_pvc list" where
  "build_storage_loop cfg service index [] ds pvcs = (ds, pvcs)"
| "build_storage_loop cfg service index (st # rest) ds pvcs =
     (if ps_Type st = StorageType_EPHEMERAL then build_storage_loop cfg service (index + 1) rest ds pvcs
      else if \<not> storage_supported (ps_Type st) then build_storage_loop cfg service (index + 1) rest ds pvcs
      else (let ds' = ds\<lparr>dst_class := service_storage_class cfg service st\<rparr>
            in if dst_class ds' = [] then build_storage_loop cfg service (index + 1) rest ds' pvcs
               else (let pvcId = GeneratePVCName (si_ServiceGroupInstanceId service) (si_ServiceId service) (show_nat index)
                     in build_storage_loop cfg service (index + 1) rest ds'
                          (pvcs @ [generatePVC ds' pvcId service st]))))"

definition BuildStorageForServices ::
  "config \<Rightarrow> service_instance \<Rightarrow> deployable_storage \<Rightarrow> deployable_storage \<times> k8s_pvc list" where
  "BuildStorageForServices cfg service ds = build_storage_loop cfg service 0 (si_Storage service) ds []"

definition storage_step :: "config \<Rightarrow> service_instance \<Rightarrow> deployable_storage \<Rightarrow> deployable_storage" where
  "storage_step cfg service d =
     (case BuildStorageForServices cfg service d of (d', toAdd) \<Rightarrow>
        if toAdd \<noteq> [] then d'\<lparr>dst_pvcs := gm_put (si_ServiceId service) toAdd (dst_pvcs d')\<rparr> else d')"

definition Storage_Build :: "config \<Rightarrow> deployable_storage \<Rightarrow> deployable_storage" where
  "Storage_Build cfg ds = fold (storage_step cfg) (ds_Services (dm_Stage (dst_data ds))) ds"

definition createExperimentalStorage ::
  "'w storage_fabric \<Rightarrow> deployable_storage \<Rightarrow> k8s_pvc \<Rightarrow> 'w st \<Rightarrow> go_error option \<times> 'w st" where
  "createExperimentalStorage sf ds pvc s =
     (case gm_get (pvc_Labels pvc) NALEJ_ANNOTATION_SERVICE_INSTANCE_ID of
        None \<Rightarrow> (Some (DError InvalidArgument ''serviceInstanceId not found creating Experimental Storage''), s)
      | Some serviceInstanceId \<Rightarrow>
          (None, (fst s, snd (sf_Create sf \<lparr>
             scr_OrganizationId = dm_OrganizationId (dst_data ds),
             scr_AppInstanceId = dm_AppInstanceId (dst_data ds),
             scr_ServiceInstanceId = serviceInstanceId,
             scr_StorageClassName = createExperimentalStorageClassName (dm_OrganizationId (dst_data ds))
               (dm_AppInstanceId (dst_data ds)) serviceInstanceId,
             scr_Replicas = DefaultReplicas,
             scr_Size = sf_SpecSize sf pvc (dst_class ds)\<rparr> (snd s)))))"

definition removeExperimentalStorage ::
  "'w storage_fabric \<Rightarrow> k8s_pvc \<Rightarrow> 'w st \<Rightarrow> go_error option \<times> 'w st" where
  "removeExperimentalStorage sf pvc s =
     (case gm_get (pvc_Labels pvc) NALEJ_ANNOTATION_ORGANIZATION_ID of
        None \<Rightarrow> (Some (DError InvalidArgument ''organizationId not found creating Experimental Storage''), s)
      | Some organizationId \<Rightarrow>
     (case gm_get (pvc_Labels pvc) NALEJ_ANNOTATION_APP_INSTANCE_ID of
        None \<Rightarrow> (Some (DError InvalidArgument ''appInstanceId not found creating Experimental Storage''), s)
      | Some appInstanceId \<Rightarrow>
     (case gm_get (pvc_Labels pvc) NALEJ_ANNOTATION_SERVICE_INSTANCE_ID of
        None \<Rightarrow> (Some (DError InvalidArgument ''serviceInstanceId not found creating Experimental Storage''), s)
      | Some serviceInstanceId \<Rightarrow>
          (None, (fst s, snd (sf_Remove sf
             (createExperimentalStorageClassName organizationId appInstanceId serviceInstanceId) (snd s)))))))"

definition is_experimental :: "k8s_pvc \<Rightarrow> bool" where
  "is_experimental pvc \<longleftrightarrow> gm_get (pvc_Labels pvc) NALEJ_ANNOTATION_STORAGE_TYPE =
     Some (StorageType_String StorageType_EXPERIMENTAL_CLUSTER_REPLICA)"

definition spawn :: "('w st \<Rightarrow> go_error option \<times> 'w st) \<Rightarrow> (unit, 'w st) prog" where
  "spawn f s = Done ((), snd (f s))"

definition Storage_Deploy ::
  "'w kube \<Rightarrow> 'w storage_fabric \<Rightarrow> deployable_storage \<Rightarrow> (go_error option, 'w st) prog" where
  "Storage_Deploy k sf ds =
     for_each (\<lambda>(serviceId, pvcs). for_each (\<lambda>pvc.
         and_then (if is_experimental pvc then spawn (createExperimentalStorage sf ds pvc) else ret ())
           (\<lambda>_. create_object k (OPVC pvc (dst_class ds)))) pvcs)
       (dst_pvcs ds)"

definition Storage_Undeploy ::
  "'w kube \<Rightarrow> 'w storage_fabric \<Rightarrow> deployable_storage \<Rightarrow> (go_error option, 'w st) prog" where
  "Storage_Undeploy k sf ds =
     for_each (\<lambda>(serviceId, pvcs). for_each (\<lambda>pvc.
         and_then (if is_experimental pvc then spawn (removeExperimentalStorage sf pvc) else ret ())
           (\<lambda>_. delete_object k KPVC (dm_Namespace (dst_data ds)) (pvc_Name pvc))) pvcs)
       (dst_pvcs ds)"

section \<open>Which claims are built\<close>

text \<open>The storage entries that get a claim, with their index in the service.\<close>

definition claimed :: "config \<Rightarrow> service_instance \<Rightarrow> pb_storage \<Rightarrow> bool" where
  "claimed cfg service st \<longleftrightarrow> storage_supported (ps_Type st) \<and> service_storage_class cfg service st \<noteq> []"

definition claim_name :: "service_instance \<Rightarrow> nat \<Rightarrow> string" where
  "claim_name service index = GeneratePVCName (si_ServiceGroupInstanceId service) (si_ServiceId service) (show_nat index)"

lemma not_supported_ephemeral: "storage_supported t \<Longrightarrow> t \<noteq> StorageType_EPHEMERAL"
  by (auto simp: storage_supported_def)

lemma generatePVC_class [simp]: "generatePVC (ds\<lparr>dst_class := c\<rparr>) i s st = generatePVC ds i s st"
  by (simp add: generatePVC_def)

lemma build_storage_loop_claims:
  "snd (build_storage_loop cfg service index sts ds pvcs) =
    pvcs @ map (\<lambda>(i, st). generatePVC ds (claim_name service i) service st)
      (filter (\<lambda>(i, st). claimed cfg service st) (enumerate index sts))"
proof (induction sts arbitrary: index ds pvcs)
  case (Cons st sts)
  show ?case
    using Cons.IH [of "Suc index"]
    by (auto simp: Let_def claimed_def claim_name_def not_supported_ephemeral)
qed simp

lemma build_storage_loop_state:
  "fst (build_storage_loop cfg service index sts ds pvcs) =
    (let sup = filter (\<lambda>st. storage_supported (ps_Type st)) sts
     in if sup = [] then ds else ds\<lparr>dst_class := service_storage_class cfg service (last sup)\<rparr>)"
proof (induction sts arbitrary: index ds pvcs)
  case (Cons st sts)
  then show ?case
    by (auto simp: Let_def not_supported_ephemeral)
qed simp

text \<open>The storage of a stage for which a class is computed, in the order of the loops.\<close>

definition stage_storage :: "service_instance list \<Rightarrow> (service_instance \<times> pb_storage) list" where
  "stage_storage services = concat (map (\<lambda>s.
     map (\<lambda>st. (s, st)) (filter (\<lambda>st. storage_supported (ps_Type st)) (si_Storage s))) services)"

lemma BuildStorage_class:
  "dst_class (fst (BuildStorageForServices cfg s ds)) =
    (if stage_storage [s] = [] then dst_class ds
     else service_storage_class cfg (fst (last (stage_storage [s]))) (snd (last (stage_storage [s]))))"
  by (simp add: BuildStorageForServices_def build_storage_loop_state stage_storage_def Let_def last_map)

lemma storage_step_class: "dst_class (storage_step cfg s ds) = dst_class (fst (BuildStorageForServices cfg s ds))"
  by (simp add: storage_step_def split: prod.splits)

lemma storage_steps_class:
  "dst_class (fold (storage_step cfg) services ds) =
    (if stage_storage services = [] then dst_class ds
     else service_storage_class cfg (fst (last (stage_storage services))) (snd (last (stage_storage services))))"
proof (induction services arbitrary: ds)
  case Nil
  show ?case by (simp add: stage_storage_def)
next
  case (Cons s services)
  have split: "stage_storage (s # services) = stage_storage [s] @ stage_storage services"
    by (simp add: stage_storage_def)
  show ?case
    using Cons.IH by (auto simp: split storage_step_class BuildStorage_class)
qed

section \<open>Properties\<close>

text \<open>C37: All claims of a stage are sent with one storage class, that of the last supported storage
  entry of the stage, whatever storage types the other entries ask for.\<close>

theorem storage_class_of_last_entry:
  assumes "stage_storage (ds_Services (dm_Stage (dst_data ds))) \<noteq> []"
  shows "Storage_Deploy k sf (Storage_Build cfg ds) =
    (let built = Storage_Build cfg ds;
         (service, st) = last (stage_storage (ds_Services (dm_Stage (dst_data ds))));
         class = GetStorageClass cfg (ps_Type st) (si_OrganizationId service) (si_AppInstanceId service)
           (si_ServiceInstanceId service)
     in for_each (\<lambda>(pvc, c).
          and_then (if is_experimental pvc then spawn (createExperimentalStorage sf built pvc) else ret ())
            (\<lambda>_. create_object k (OPVC pvc c)))
        (map (\<lambda>pvc. (pvc, class)) (concat (gm_values (dst_pvcs built)))))"
proof -
  have "dst_class (Storage_Build cfg ds) =
      service_storage_class cfg (fst (last (stage_storage (ds_Services (dm_Stage (dst_data ds))))))
        (snd (last (stage_storage (ds_Services (dm_Stage (dst_data ds))))))"
    using assms by (simp add: Storage_Build_def storage_steps_class)
  then show ?thesis
    unfolding Storage_Deploy_def for_each_concat
    by (simp add: service_storage_class_def Let_def case_prod_beta for_each_map comp_def cong del: if_weak_cong)
qed

definition sample_storage_service :: service_instance where
  "sample_storage_service = \<lparr>si_OrganizationId = ''o'', si_AppDescriptorId = ''d'', si_AppInstanceId = ''a'',
     si_ServiceGroupId = ''g'', si_ServiceGroupInstanceId = ''gi'', si_ServiceGroupName = ''group'',
     si_ServiceId = ''svc'', si_ServiceInstanceId = ''s'', si_ServiceName = ''db'', si_Image = ''img'',
     si_Credentials = None, si_Specs = Some \<lparr>specs_Replicas = 1\<rparr>,
     si_Storage = [\<lparr>ps_Size = 0, ps_MountPath = ''/fast'', ps_Type = StorageType_CLUSTER_LOCAL\<rparr>,
       \<lparr>ps_Size = 0, ps_MountPath = ''/safe'', ps_Type = StorageType_CLUSTER_REPLICA\<rparr>],
     si_ExposedPorts = [], si_EnvironmentVariables = [], si_Configs = [], si_Labels = [], si_RunArguments = []\<rparr>"

definition sample_metadata :: "service_instance list \<Rightarrow> deployment_metadata" where
  "sample_metadata services = \<lparr>dm_FragmentId = ''f'',
     dm_Stage = empty_stage\<lparr>ds_StageId := ''st'', ds_FragmentId := ''f'', ds_Services := services\<rparr>,
     dm_Namespace = ''ns'', dm_NalejVariables = [], dm_ZtNetworkId = ''zt'', dm_OrganizationId = ''organization'',
     dm_OrganizationName = ''org'', dm_DeploymentId = ''dep'', dm_AppDescriptorId = ''d'',
     dm_AppDescriptorName = ''desc'', dm_AppInstanceId = ''a'', dm_AppName = ''app'',
     dm_ClusterPublicHostname = ''host'', dm_DNSHosts = [],
     dm_PublicCredentials = \<lparr>ic_Username = [], ic_Password = [], ic_Email = [], ic_DockerRepository = []\<rparr>\<rparr>"

definition sample_storage :: deployable_storage where
  "sample_storage = \<lparr>dst_data = sample_metadata [sample_storage_service], dst_class = [], dst_nodes = 1, dst_pvcs = []\<rparr>"

definition minikube_config :: config where
  "minikube_config = sample_config\<lparr>cfg_TargetPlatform := Platform_MINIKUBE\<rparr>"

text \<open>The claim of the local storage is sent with the class of the replicated one.\<close>

theorem storage_class_of_last_entry_witness:
  "GetStorageClass minikube_config StorageType_CLUSTER_LOCAL ''o'' ''a'' ''s'' = ''nalej-sc-local'' \<and>
   (\<forall>k :: unit kube. \<forall>sf. Storage_Deploy k sf (Storage_Build minikube_config sample_storage) =
      for_each (\<lambda>(pvc, c).
          and_then (if is_experimental pvc
              then spawn (createExperimentalStorage sf (Storage_Build minikube_config sample_storage) pvc) else ret ())
            (\<lambda>_. create_object k (OPVC pvc c)))
        (map (\<lambda>pvc. (pvc, ''nalej-sc-local-replica''))
          (concat (gm_values (dst_pvcs (Storage_Build minikube_config sample_storage))))))"
proof -
  have st: "stage_storage (ds_Services (dm_Stage (dst_data sample_storage))) =
      map (Pair sample_storage_service) (si_Storage sample_storage_service)"
    by (simp add: stage_storage_def sample_storage_def sample_metadata_def sample_storage_service_def
        storage_supported_def)
  have last: "last (stage_storage (ds_Services (dm_Stage (dst_data sample_storage)))) =
      (sample_storage_service, \<lparr>ps_Size = 0, ps_MountPath = ''/safe'', ps_Type = StorageType_CLUSTER_REPLICA\<rparr>)"
    unfolding st by (simp add: sample_storage_service_def)
  have ne: "stage_storage (ds_Services (dm_Stage (dst_data sample_storage))) \<noteq> []"
    unfolding st by (simp add: sample_storage_service_def)
  have classes: "GetStorageClass minikube_config StorageType_CLUSTER_LOCAL x y z = ''nalej-sc-local''"
    "GetStorageClass minikube_config StorageType_CLUSTER_REPLICA x y z = ''nalej-sc-local-replica''" for x y z
    by (simp_all add: GetStorageClass_def minikube_config_def storage_class_names)
  show ?thesis
    by (simp add: storage_class_of_last_entry [OF ne] last Let_def classes)
qed

end
