(* ===== verification/Deployments.thy ===== *)
theory Deployments
  imports Targets Storage
begin

text \<open>
  The Kubernetes deployments of a stage, \<^verbatim>\<open>kubernetes_deployment.go\<close>: the volumes for configuration
  files and storage, the environment of the user container, labels and selectors, and the calls on
  the cluster. The order of the environment variables is the order of Go's map loops.
\<close>

definition NalejServicePrefix :: string where "NalejServicePrefix = ''NALEJ_SERV_''"

definition NewDeployableDeployment :: "deployment_metadata \<Rightarrow> deployable_deployments" where
  "NewDeployableDeployment data = \<lparr>dd_Data = data, dd_Deployments = []\<rparr>"

section \<open>Volumes of configuration files\<close>

text \<open>
  \<^verbatim>\<open>strings.TrimSpace\<close> on the bytes of a string: the white space of Unicode in UTF-8, removed from both ends. Since
  no encoding of a character ends within another one, the last character is found from the end.
\<close>

definition white_space :: "string list" where
  "white_space = map (map char_of) ([[9], [10], [11], [12], [13], [32], [0xC2, 0x85], [0xC2, 0xA0], [0xE1, 0x9A, 0x80]] @
     map (\<lambda>n. [0xE2, 0x80, n]) [0x80, 0x81, 0x82, 0x83, 0x84, 0x85, 0x86, 0x87, 0x88, 0x89, 0x8A, 0xA8, 0xA9, 0xAF] @
     [[0xE2, 0x81, 0x9F], [0xE3, 0x80, 0x80 :: nat]])"

text \<open>The number of bytes of the first of the given strings that begins the text, zero when there is none.\<close>

definition leading_width :: "string list \<Rightarrow> string \<Rightarrow> nat" where
  "leading_width ws s = (case List.find (has_prefix s) ws of None \<Rightarrow> 0 | Some w \<Rightarrow> length w)"

fun trim_leading :: "string list \<Rightarrow> string \<Rightarrow> string" where
  "trim_leading ws [] = []"
| "trim_leading ws (c # s) =
     (let n = leading_width ws (c # s)
      in if n = 0 then c # s else trim_leading ws (drop (n - 1) s))"

definition trim_space :: "string \<Rightarrow> string" where
  "trim_space s = rev (trim_leading (map rev white_space) (rev (trim_leading white_space s)))"

definition createVolumeName :: "string \<Rightarrow> string outcome" where
  "createVolumeName name =
     (if name = [] then Done []
      else (let res = trim_space name
            in if res = [] then Panic ''index out of range''
               else (let res1 = (if hd res = CHR ''/'' then tl res else res)
                     in if res1 = [] then Panic ''index out of range''
                        else (let res2 = (if last res1 = CHR ''/'' then butlast res1 else res1)
                              in Done (ReformatLabel res2)))))"

text \<open>Append a key to the first volume with the given name.\<close>

fun add_key_path :: "string \<Rightarrow> key_to_path \<Rightarrow> volume list \<Rightarrow> volume list" where
  "add_key_path name kp [] = []"
| "add_key_path name kp (v # vs) =
     (if vol_Name v = name
      then (case vol_Source v of
              VolConfigMap cm items \<Rightarrow> v\<lparr>vol_Source := VolConfigMap cm (items @ [kp])\<rparr> # vs
            | _ \<Rightarrow> v # vs)
      else v # add_key_path name kp vs)"

fun volumes_loop ::
  "string \<Rightarrow> pb_config_file list \<Rightarrow> volume list \<Rightarrow> string list \<Rightarrow> volume_mount list \<Rightarrow>
   (volume list \<times> volume_mount list) outcome" where
  "volumes_loop cmName [] volumes pathAdded mounts = Done (volumes, mounts)"
| "volumes_loop cmName (config # rest) volumes pathAdded mounts =
     (case GetConfigMapPath (cf_MountPath config) of (path, file) \<Rightarrow>
        bind_outcome (createVolumeName path) (\<lambda>clearPath.
          let kp = \<lparr>ktp_Key = cf_ConfigFileId config, ktp_Path = file\<rparr>
          in if clearPath \<notin> set pathAdded
             then volumes_loop cmName rest
                    (volumes @ [\<lparr>vol_Name = clearPath, vol_Source = VolConfigMap cmName [kp]\<rparr>])
                    (clearPath # pathAdded)
                    (mounts @ [\<lparr>vm_Name = clearPath, vm_ReadOnly = True, vm_MountPath = path\<rparr>])
             else volumes_loop cmName rest (add_key_path clearPath kp volumes) pathAdded mounts))"

definition generateAllVolumes ::
  "string \<Rightarrow> string \<Rightarrow> pb_config_file list \<Rightarrow> (volume list \<times> volume_mount list) outcome" where
  "generateAllVolumes serviceId serviceInstanceId configFiles =
     volumes_loop (''config-map-'' @ serviceId @ ''-'' @ serviceInstanceId) configFiles [] [] []"

section \<open>Environment variables\<close>

text \<open>
  \<^verbatim>\<open>strings.Replace(s, old, new, -1)\<close>: non-overlapping matches from the left. The counter skips the
  rest of a match. An empty \<open>old\<close> matches before every byte and at the end.
\<close>

fun replace_scan :: "string \<Rightarrow> string \<Rightarrow> nat \<Rightarrow> string \<Rightarrow> string" where
  "replace_scan old new n [] = []"
| "replace_scan old new (Suc n) (c # s) = replace_scan old new n s"
| "replace_scan old new 0 (c # s) =
     (if has_prefix (c # s) old then new @ replace_scan old new (length old - 1) s
      else c # replace_scan old new 0 s)"

definition replace_all :: "string \<Rightarrow> string \<Rightarrow> string \<Rightarrow> string" where
  "replace_all s old new =
     (if old = [] then concat (map (\<lambda>c. new @ [c]) s) @ new else replace_scan old new 0 s)"

definition replace_variables :: "(string, string) gomap \<Rightarrow> string \<Rightarrow> string" where
  "replace_variables nalejVariables v = foldl (\<lambda>newValue (k, w). replace_all newValue k w) v nalejVariables"

definition getEnvVariables ::
  "config \<Rightarrow> (string, string) gomap \<Rightarrow> (string, string) gomap \<Rightarrow> env_var list" where
  "getEnvVariables cfg nalejVariables variables =
     [\<lparr>env_Name = NALEJ_ENV_CLUSTER_ID, env_Value = cfg_ClusterId cfg\<rparr>] @
     map (\<lambda>(k, v). \<lparr>env_Name = k, env_Value = replace_variables nalejVariables v\<rparr>)
       (filter (\<lambda>(k, v). \<not> has_prefix k NalejServicePrefix) variables) @
     map (\<lambda>(k, v). \<lparr>env_Name = k, env_Value = v\<rparr>) nalejVariables"

fun addDeviceGroupEnvVariables ::
  "device_group_rule list \<Rightarrow> env_var list \<Rightarrow> string \<Rightarrow> string \<Rightarrow> env_var list" where
  "addDeviceGroupEnvVariables [] previous serviceGroupInstanceId serviceInstanceId = previous"
| "addDeviceGroupEnvVariables (sr # rules) previous serviceGroupInstanceId serviceInstanceId =
     (if dgr_TargetServiceGroupInstanceId sr = serviceGroupInstanceId \<and>
         dgr_TargetServiceInstanceId sr = serviceInstanceId
      then previous @ [\<lparr>env_Name = NALEJ_ANNOTATION_DG_SECRETS,
             env_Value = join_with '','' (dgr_DeviceGroupJwtSecrets sr)\<rparr>]
      else addDeviceGroupEnvVariables rules previous serviceGroupInstanceId serviceInstanceId)"

definition getContainerPorts :: "pb_port list \<Rightarrow> container_port list" where
  "getContainerPorts ports = map (\<lambda>p. \<lparr>cp_Name = pp_Name p, cp_ContainerPort = pp_ExposedPort p\<rparr>) ports"

section \<open>The deployment of a service\<close>

text \<open>The user's labels are the map the code writes its own labels into.\<close>

definition deployment_labels :: "deployment_metadata \<Rightarrow> service_instance \<Rightarrow> labels" where
  "deployment_labels data service = fold (\<lambda>(k, v). gm_put k v) [
     (NALEJ_ANNOTATION_DEPLOYMENT_FRAGMENT, dm_FragmentId data),
     (NALEJ_ANNOTATION_ORGANIZATION_ID, dm_OrganizationId data),
     (NALEJ_ANNOTATION_ORGANIZATION_NAME, FormatNameWithHyphen (dm_OrganizationName data)),
     (NALEJ_ANNOTATION_APP_DESCRIPTOR, dm_AppDescriptorId data),
     (NALEJ_ANNOTATION_APP_DESCRIPTOR_NAME, FormatNameWithHyphen (dm_AppDescriptorName data)),
     (NALEJ_ANNOTATION_APP_INSTANCE_ID, dm_AppInstanceId data),
     (NALEJ_ANNOTATION_APP_NAME, FormatNameWithHyphen (dm_AppName data)),
     (NALEJ_ANNOTATION_STAGE_ID, ds_StageId (dm_Stage data)),
     (NALEJ_ANNOTATION_SERVICE_ID, si_ServiceId service),
     (NALEJ_ANNOTATION_SERVICE_NAME, FormatNameWithHyphen (si_ServiceName service)),
     (NALEJ_ANNOTATION_SERVICE_INSTANCE_ID, si_ServiceInstanceId service),
     (NALEJ_ANNOTATION_SERVICE_GROUP_ID, si_ServiceGroupId service),
     (NALEJ_ANNOTATION_SERVICE_GROUP_NAME, FormatNameWithHyphen (si_ServiceGroupName service)),
     (NALEJ_ANNOTATION_SERVICE_GROUP_INSTANCE_ID, si_ServiceGroupInstanceId service),
     (NALEJ_ANNOTATION_IS_PROXY, ''false'')] (si_Labels service)"

definition selector_labels :: "deployment_metadata \<Rightarrow> service_instance \<Rightarrow> labels" where
  "selector_labels data service = [
     (NALEJ_ANNOTATION_APP_INSTANCE_ID, dm_AppInstanceId data),
     (NALEJ_ANNOTATION_ORGANIZATION_ID, si_OrganizationId service),
     (NALEJ_ANNOTATION_SERVICE_NAME, FormatName (si_ServiceName service))]"

definition storage_volume :: "service_instance \<Rightarrow> nat \<Rightarrow> pb_storage \<Rightarrow> volume" where
  "storage_volume service i st =
     (if ps_Type st = StorageType_EPHEMERAL
      then \<lparr>vol_Name = ''vol-1'' @ show_nat i, vol_Source = VolEmptyDir (effective_size st)\<rparr>
      else \<lparr>vol_Name = ''vol-1'' @ show_nat i, vol_Source =
             VolPVC (GeneratePVCName (si_ServiceGroupInstanceId service) (si_ServiceId service) (show_nat i))\<rparr>)"

definition storage_mount :: "service_instance \<Rightarrow> nat \<Rightarrow> pb_storage \<Rightarrow> volume_mount" where
  "storage_mount service i st =
     \<lparr>vm_Name = vol_Name (storage_volume service i st), vm_ReadOnly = False, vm_MountPath = ps_MountPath st\<rparr>"

definition getBool :: "bool \<Rightarrow> bool option" where
  "getBool value = Some value"

text \<open>The specification of the service is read before the volumes are made.\<close>

definition service_deployment ::
  "config \<Rightarrow> deployment_metadata \<Rightarrow> service_instance \<Rightarrow> k8s_deployment outcome" where
  "service_deployment cfg data service =
     (let environmentVariables = addDeviceGroupEnvVariables (ds_DeviceGroupRules (dm_Stage data))
            (getEnvVariables cfg (dm_NalejVariables data) (si_EnvironmentVariables service))
            (si_ServiceGroupInstanceId service) (si_ServiceInstanceId service)
      in case si_Specs service of
        None \<Rightarrow> Panic ''invalid memory address or nil pointer dereference''
      | Some specs \<Rightarrow> bind_outcome (generateAllVolumes (si_ServiceId service) (si_ServiceInstanceId service) (si_Configs service))
        (\<lambda>(configVolumes, cmVolumeMounts).
          Done \<lparr>
            dep_Name = FormatName (si_ServiceName service),
            dep_Namespace = dm_Namespace data,
            dep_Labels = deployment_labels data service,
            dep_Replicas = specs_Replicas specs,
            dep_Selector = selector_labels data service,
            dep_Annotations = [],
            dep_Pod = \<lparr>
              pod_Containers = [\<lparr>
                c_Name = FormatName (si_ServiceName service),
                c_Image = si_Image service,
                c_Args = si_RunArguments service,
                c_Env = environmentVariables,
                c_Ports = getContainerPorts (si_ExposedPorts service),
                c_VolumeMounts = cmVolumeMounts @
                  map (\<lambda>(i, st). storage_mount service i st) (enumerate 0 (si_Storage service)),
                c_LivenessProbe = None,
                c_SecurityContext = None\<rparr>],
              pod_Volumes = configVolumes @
                map (\<lambda>(i, st). storage_volume service i st) (enumerate 0 (si_Storage service)),
              pod_ImagePullSecrets = (if si_Credentials service \<noteq> None then [si_ServiceName service] else []),
              pod_EnableServiceLinks = getBool False,
              pod_AutomountServiceAccountToken = getBool False,
              pod_DNSPolicyNone = False,
              pod_DNSNameservers = []\<rparr>\<rparr>))"

fun build_deployments ::
  "config \<Rightarrow> service_instance list \<Rightarrow> deployable_deployments \<Rightarrow> deployable_deployments outcome" where
  "build_deployments cfg [] d = Done d"
| "build_deployments cfg (service # rest) d =
     bind_outcome (service_deployment cfg (dd_Data d) service)
       (\<lambda>dep. build_deployments cfg rest (d\<lparr>dd_Deployments := dd_Deployments d @ [dep]\<rparr>))"

definition decorate_deployments ::
  "'w network_decorator \<Rightarrow> deployable_deployments \<Rightarrow> (go_error option \<times> deployable_deployments) outcome" where
  "decorate_deployments nd d =
     bind_outcome (nd_Build nd (TDeployments d)) (\<lambda>(e, t). Done (e, as_deployments d t))"

text \<open>
  \<^verbatim>\<open>extendedLabels\<close> is the service's own label map when the user gave labels, so the labels written
  during the build stay in the service instance and are seen by the decorator. A service without
  labels arrives with a nil map, here the empty one, and keeps it.
\<close>

definition write_labels :: "deployment_metadata \<Rightarrow> service_instance \<Rightarrow> service_instance" where
  "write_labels data service =
     (if si_Labels service \<noteq> [] then service\<lparr>si_Labels := deployment_labels data service\<rparr> else service)"

definition labelled_data :: "deployment_metadata \<Rightarrow> deployment_metadata" where
  "labelled_data data = data\<lparr>dm_Stage := (dm_Stage data)\<lparr>
     ds_Services := map (write_labels data) (ds_Services (dm_Stage data))\<rparr>\<rparr>"

definition Deployments_Build ::
  "config \<Rightarrow> 'w network_decorator \<Rightarrow> deployable_deployments \<Rightarrow>
   (go_error option \<times> deployable_deployments) outcome" where
  "Deployments_Build cfg nd d =
     bind_outcome (build_deployments cfg (ds_Services (dm_Stage (dd_Data d))) d)
       (\<lambda>d'. decorate_deployments nd (d'\<lparr>dd_Data := labelled_data (dd_Data d)\<rparr>))"

text \<open>
  After the deployments were created, the code calls the decorator's \<^verbatim>\<open>Build\<close> a second time (not
  its \<^verbatim>\<open>Deploy\<close>), so the deployable itself may change and is returned.
\<close>

definition Deployments_Deploy ::
  "'w kube \<Rightarrow> 'w network_decorator \<Rightarrow> deployable_deployments \<Rightarrow>
   (go_error option \<times> deployable_deployments, 'w st) prog" where
  "Deployments_Deploy k nd d =
     and_then (for_each (\<lambda>dep. create_monitored k (ODeployment dep)) (dd_Deployments d))
       (\<lambda>err. case err of
          Some e \<Rightarrow> ret (Some e, d)
        | None \<Rightarrow> lift_outcome (decorate_deployments nd d))"

definition Deployments_Undeploy ::
  "'w kube \<Rightarrow> deployable_deployments \<Rightarrow> (go_error option, 'w st) prog" where
  "Deployments_Undeploy k d =
     for_each (\<lambda>dep. delete_object k KDeployment (dm_Namespace (dd_Data d)) (dep_Name dep)) (dd_Deployments d)"

section \<open>Lemmas\<close>

text \<open>The mounts built for configuration files name volumes that were built.\<close>

lemma add_key_path_names: "map vol_Name (add_key_path n kp vs) = map vol_Name vs"
  by (induction vs) (auto split: volume_source.splits)

lemma volumes_loop_names:
  assumes "volumes_loop cm cfs vols added mounts = Done (vols', mounts')"
    and "map vol_Name vols = map vm_Name mounts" and "set added = vm_Name ` set mounts"
    and "distinct (map vol_Name vols)"
  shows "map vol_Name vols' = map vm_Name mounts' \<and> distinct (map vol_Name vols')"
  using assms
proof (induction cfs arbitrary: vols added mounts)
  case (Cons c cfs)
  obtain path fname where p: "GetConfigMapPath (cf_MountPath c) = (path, fname)"
    by (cases "GetConfigMapPath (cf_MountPath c)")
  obtain clear where clear: "createVolumeName path = Done clear"
    using Cons.prems(1) p by (cases "createVolumeName path") auto
  let ?kp = "\<lparr>ktp_Key = cf_ConfigFileId c, ktp_Path = fname\<rparr>"
  show ?case
  proof (cases "clear \<in> set added")
    case True
    have loop: "volumes_loop cm cfs (add_key_path clear ?kp vols) added mounts = Done (vols', mounts')"
      using Cons.prems(1) p clear True by (simp add: Let_def)
    have names: "map vol_Name (add_key_path clear ?kp vols) = map vm_Name mounts"
      by (simp only: add_key_path_names Cons.prems(2))
    have "distinct (map vol_Name (add_key_path clear ?kp vols))"
      using Cons.prems(4) by (simp only: add_key_path_names)
    from Cons.IH [OF loop names Cons.prems(3) this] show ?thesis .
  next
    case False
    let ?v = "\<lparr>vol_Name = clear, vol_Source = VolConfigMap cm [?kp]\<rparr>"
    let ?m = "\<lparr>vm_Name = clear, vm_ReadOnly = True, vm_MountPath = path\<rparr>"
    have loop: "volumes_loop cm cfs (vols @ [?v]) (clear # added) (mounts @ [?m]) = Done (vols', mounts')"
      using Cons.prems(1) p clear False by (simp add: Let_def)
    have fresh: "clear \<notin> set (map vol_Name vols)"
      using False Cons.prems(2,3) by (metis set_map)
    have names: "map vol_Name (vols @ [?v]) = map vm_Name (mounts @ [?m])"
      "set (clear # added) = vm_Name ` set (mounts @ [?m])"
      using Cons.prems(2,3) by simp_all
    have "distinct (map vol_Name (vols @ [?v]))"
      using fresh Cons.prems(4) by simp
    from Cons.IH [OF loop names this] show ?thesis .
  qed
qed simp

lemma generateAllVolumes_names:
  "generateAllVolumes i j cfs = Done (vols, mounts) \<Longrightarrow> map vol_Name vols = map vm_Name mounts"
  unfolding generateAllVolumes_def by (drule volumes_loop_names) simp_all

lemma service_deployment_Done:
  assumes "service_deployment cfg data s = Done dep"
  obtains vols mounts where
    "generateAllVolumes (si_ServiceId s) (si_ServiceInstanceId s) (si_Configs s) = Done (vols, mounts)"
    "pod_Volumes (dep_Pod dep) = vols @ map (\<lambda>(i, st). storage_volume s i st) (enumerate 0 (si_Storage s))"
    "map c_VolumeMounts (pod_Containers (dep_Pod dep)) =
      [mounts @ map (\<lambda>(i, st). storage_mount s i st) (enumerate 0 (si_Storage s))]"
    "dep_Labels dep = deployment_labels data s" "dep_Selector dep = selector_labels data s"
    "dep_Name dep = FormatName (si_ServiceName s)" "dep_Namespace dep = dm_Namespace data"
  using assms by (auto simp: service_deployment_def Let_def bind_outcome_Done_iff split: option.splits)

text \<open>What the labels of a deployment say, whatever labels the user defined.\<close>

lemma deployment_labels_get:
  "gm_get (deployment_labels data s) NALEJ_ANNOTATION_DEPLOYMENT_FRAGMENT = Some (dm_FragmentId data)"
  "gm_get (deployment_labels data s) NALEJ_ANNOTATION_APP_DESCRIPTOR = Some (dm_AppDescriptorId data)"
  "gm_get (deployment_labels data s) NALEJ_ANNOTATION_APP_INSTANCE_ID = Some (dm_AppInstanceId data)"
  "gm_get (deployment_labels data s) NALEJ_ANNOTATION_ORGANIZATION_ID = Some (dm_OrganizationId data)"
  "gm_get (deployment_labels data s) NALEJ_ANNOTATION_SERVICE_ID = Some (si_ServiceId s)"
  "gm_get (deployment_labels data s) NALEJ_ANNOTATION_SERVICE_INSTANCE_ID = Some (si_ServiceInstanceId s)"
  "gm_get (deployment_labels data s) NALEJ_ANNOTATION_SERVICE_GROUP_ID = Some (si_ServiceGroupId s)"
  "gm_get (deployment_labels data s) NALEJ_ANNOTATION_SERVICE_GROUP_INSTANCE_ID = Some (si_ServiceGroupInstanceId s)"
  "gm_get (deployment_labels data s) NALEJ_ANNOTATION_SERVICE_NAME = Some (FormatNameWithHyphen (si_ServiceName s))"
  by (simp_all add: deployment_labels_def gomap_simps go_constants)

lemma deployment_resource:
  assumes "co_Labels c = deployment_labels data s"
  shows "created_resource c = NewMonitoredPlatformResource (dm_FragmentId data) (co_UID c)
    (dm_AppDescriptorId data) (dm_AppInstanceId data) (si_ServiceGroupId s) (si_ServiceGroupInstanceId s)
    (si_ServiceId s) (si_ServiceInstanceId s) []"
  by (simp add: created_resource_def assms gm_str_def deployment_labels_get)

section \<open>Properties\<close>

text \<open>C35: In every deployment built for a service, each volume mount of the container names a volume
  of the pod, and each storage entry for which a claim is built is mounted through a volume
  that refers to that claim by its name.\<close>

theorem deployment_volumes_consistent:
  assumes "service_deployment cfg data s = Done dep"
  shows "(\<forall>c \<in> set (pod_Containers (dep_Pod dep)). \<forall>m \<in> set (c_VolumeMounts c).
      vm_Name m \<in> vol_Name ` set (pod_Volumes (dep_Pod dep))) \<and>
    (\<forall>pvc \<in> set (snd (BuildStorageForServices cfg s ds)). \<exists>v \<in> set (pod_Volumes (dep_Pod dep)).
      vol_Source v = VolPVC (pvc_Name pvc) \<and>
      (\<forall>c \<in> set (pod_Containers (dep_Pod dep)). vol_Name v \<in> vm_Name ` set (c_VolumeMounts c)))"
proof -
  obtain vols mounts where gen: "generateAllVolumes (si_ServiceId s) (si_ServiceInstanceId s) (si_Configs s) = Done (vols, mounts)"
    and v: "pod_Volumes (dep_Pod dep) = vols @ map (\<lambda>(i, st). storage_volume s i st) (enumerate 0 (si_Storage s))"
    and m: "map c_VolumeMounts (pod_Containers (dep_Pod dep)) =
      [mounts @ map (\<lambda>(i, st). storage_mount s i st) (enumerate 0 (si_Storage s))]"
    using assms by (rule service_deployment_Done)
  have cont: "c_VolumeMounts c = mounts @ map (\<lambda>(i, st). storage_mount s i st) (enumerate 0 (si_Storage s))"
    if "c \<in> set (pod_Containers (dep_Pod dep))" for c
    using m that by (cases "pod_Containers (dep_Pod dep)") auto
  have names: "vm_Name ` set mounts = vol_Name ` set vols"
    using generateAllVolumes_names [OF gen] by (metis set_map)
  have claims: "\<exists>i st. (i, st) \<in> set (enumerate 0 (si_Storage s)) \<and> claimed cfg s st \<and> pvc_Name pvc = claim_name s i"
    if "pvc \<in> set (snd (BuildStorageForServices cfg s ds))" for pvc
    using that by (auto simp: BuildStorageForServices_def build_storage_loop_claims generatePVC_def) blast
  have src: "vol_Source (storage_volume s i st) = VolPVC (claim_name s i)" if "claimed cfg s st" for i st
    using that by (auto simp: storage_volume_def claim_name_def claimed_def dest: not_supported_ephemeral)
  have mounted: "vm_Name (storage_mount s i st) = vol_Name (storage_volume s i st)" for i st
    by (simp add: storage_mount_def)
  have vol: "storage_volume s i st \<in> set (pod_Volumes (dep_Pod dep))"
    and mnt: "c \<in> set (pod_Containers (dep_Pod dep)) \<Longrightarrow> storage_mount s i st \<in> set (c_VolumeMounts c)"
    if "(i, st) \<in> set (enumerate 0 (si_Storage s))" for i st c
    using that unfolding v by (auto simp: cont intro: rev_image_eqI)
  show ?thesis
  proof (intro conjI ballI)
    fix c m assume c: "c \<in> set (pod_Containers (dep_Pod dep))" and m: "m \<in> set (c_VolumeMounts c)"
    then consider "m \<in> set mounts"
      | i st where "(i, st) \<in> set (enumerate 0 (si_Storage s))" "m = storage_mount s i st"
      by (auto simp: cont [OF c])
    then show "vm_Name m \<in> vol_Name ` set (pod_Volumes (dep_Pod dep))"
    proof cases
      case 1
      then have "vm_Name m \<in> vol_Name ` set vols" using names by blast
      then show ?thesis unfolding v by auto
    next
      case 2
      then show ?thesis using vol mounted by (metis image_eqI)
    qed
  next
    fix pvc assume "pvc \<in> set (snd (BuildStorageForServices cfg s ds))"
    then obtain i st where i: "(i, st) \<in> set (enumerate 0 (si_Storage s))" "claimed cfg s st"
      "pvc_Name pvc = claim_name s i" using claims by blast
    then show "\<exists>v \<in> set (pod_Volumes (dep_Pod dep)). vol_Source v = VolPVC (pvc_Name pvc) \<and>
        (\<forall>c \<in> set (pod_Containers (dep_Pod dep)). vol_Name v \<in> vm_Name ` set (c_VolumeMounts c))"
      using vol [OF i(1)] mnt [OF i(1)] mounted [of i st] src [OF i(2), of i] by (metis image_eqI)
  qed
qed

theorem deployment_volumes_consistent_witness:
  "\<exists>dep. service_deployment minikube_config (sample_metadata [sample_storage_service]) sample_storage_service = Done dep \<and>
    map pvc_Name (snd (BuildStorageForServices minikube_config sample_storage_service sample_storage)) = [''gisvc-0'', ''gisvc-1''] \<and>
    (\<forall>pvc \<in> set (snd (BuildStorageForServices minikube_config sample_storage_service sample_storage)).
      \<exists>v \<in> set (pod_Volumes (dep_Pod dep)). vol_Source v = VolPVC (pvc_Name pvc))"
proof -
  obtain dep where dep: "service_deployment minikube_config (sample_metadata [sample_storage_service]) sample_storage_service = Done dep"
    by (simp add: service_deployment_def generateAllVolumes_def sample_storage_service_def)
  have "map pvc_Name (snd (BuildStorageForServices minikube_config sample_storage_service sample_storage)) = [''gisvc-0'', ''gisvc-1'']"
    by code_simp
  moreover have "\<forall>pvc \<in> set (snd (BuildStorageForServices minikube_config sample_storage_service sample_storage)).
      \<exists>v \<in> set (pod_Volumes (dep_Pod dep)). vol_Source v = VolPVC (pvc_Name pvc)"
    using deployment_volumes_consistent [OF dep, of sample_storage] by fast
  ultimately show ?thesis
    using dep by (intro exI [of _ dep] conjI)
qed

text \<open>C36: The selector of a built deployment matches the labels of its own pod template exactly when
  the service belongs to the organization of the fragment and lower-casing its name and dropping
  the spaces gives the same as replacing the spaces by hyphens; so a name with a capital letter
  or a space gives a deployment that selects none of its pods.\<close>

theorem selector_matches_template:
  assumes "service_deployment cfg data s = Done dep"
  shows "(\<forall>(k, v) \<in> set (dep_Selector dep). gm_get (dep_Labels dep) k = Some v) \<longleftrightarrow>
    si_OrganizationId s = dm_OrganizationId data \<and>
    FormatName (si_ServiceName s) = FormatNameWithHyphen (si_ServiceName s)"
  using assms by (auto elim!: service_deployment_Done simp: selector_labels_def deployment_labels_get)

theorem selector_matches_template_witness:
  "\<exists>dep. service_deployment minikube_config (sample_metadata [])
      (sample_storage_service\<lparr>si_OrganizationId := ''organization'', si_ServiceName := ''My db''\<rparr>) = Done dep \<and>
    \<not> (\<forall>(k, v) \<in> set (dep_Selector dep). gm_get (dep_Labels dep) k = Some v)"
proof -
  let ?s = "sample_storage_service\<lparr>si_OrganizationId := ''organization'', si_ServiceName := ''My db''\<rparr>"
  obtain dep where dep: "service_deployment minikube_config (sample_metadata []) ?s = Done dep"
    by (simp add: service_deployment_def generateAllVolumes_def sample_storage_service_def)
  have "FormatName ''My db'' = ''mydb''"
    by code_simp
  moreover have "FormatNameWithHyphen ''My db'' = ''My-db''"
    by (simp add: FormatNameWithHyphen_def)
  ultimately show ?thesis
    using selector_matches_template [OF dep] dep by (intro exI [of _ dep]) simp
qed

lemma createVolumeName_Done:
  "(\<exists>r. createVolumeName name = Done r) \<longleftrightarrow> name = [] \<or> (trim_space name \<noteq> [] \<and> trim_space name \<noteq> ''/'')"
  by (cases "trim_space name") (auto simp: createVolumeName_def Let_def)

lemma volumes_loop_Done:
  "(\<exists>r. volumes_loop cm cfs vols added mounts = Done r) \<longleftrightarrow>
    (\<forall>c \<in> set cfs. \<exists>n. createVolumeName (fst (GetConfigMapPath (cf_MountPath c))) = Done n)"
proof (induction cfs arbitrary: vols added mounts)
  case (Cons c cfs)
  obtain path fname where p: "GetConfigMapPath (cf_MountPath c) = (path, fname)"
    by (cases "GetConfigMapPath (cf_MountPath c)")
  show ?case
    using Cons.IH p by (cases "createVolumeName path") (auto simp: Let_def)
qed simp

lemma GetConfigMapPath_nonempty: "fst (GetConfigMapPath p) \<noteq> []"
proof (cases "CHR ''/'' \<in> set p")
  case True
  have "CHR ''/'' \<in> set (fst (GetConfigMapPath p) @ snd (GetConfigMapPath p))"
    using True GetConfigMapPath_append by simp
  then show ?thesis using GetConfigMapPath_file [of p] by auto
qed (simp add: GetConfigMapPath_def)

text \<open>C34: Building the deployment of a service panics, and with it the whole process, exactly when the service
  comes without a specification, or one of its configuration files is mounted by a path whose
  directory is the root, is missing, or consists of white space.\<close>

theorem deployment_builds_iff:
  "(\<exists>dep. service_deployment cfg data s = Done dep) \<longleftrightarrow>
    si_Specs s \<noteq> None \<and> [c \<leftarrow> si_Configs s. trim_space (fst (GetConfigMapPath (cf_MountPath c))) \<in> {[], ''/''}] = []"
proof -
  have "(\<exists>dep. service_deployment cfg data s = Done dep) \<longleftrightarrow> si_Specs s \<noteq> None \<and>
      (\<exists>r. generateAllVolumes (si_ServiceId s) (si_ServiceInstanceId s) (si_Configs s) = Done r)"
    by (auto simp: service_deployment_def Let_def bind_outcome_Done_iff split: option.splits)
  also have "\<dots> \<longleftrightarrow> si_Specs s \<noteq> None \<and> (\<forall>c \<in> set (si_Configs s).
      \<exists>n. createVolumeName (fst (GetConfigMapPath (cf_MountPath c))) = Done n)"
    unfolding generateAllVolumes_def volumes_loop_Done ..
  finally show ?thesis
    by (simp add: createVolumeName_Done GetConfigMapPath_nonempty filter_empty_conv)
qed

text \<open>The replacement of the Nalej variables in a user variable depends on the order in which Go
  ranges over the map when one variable name is a prefix of another.\<close>

theorem replacement_depends_on_order:
  "\<exists>vars vars' v. gm_wf vars \<and> mset vars = mset vars' \<and> gm_get vars = gm_get vars' \<and>
    replace_variables vars v \<noteq> replace_variables vars' v"
proof (intro exI conjI)
  let ?m = "[(''SERV_A'', ''x''), (''SERV_AB'', ''y'')]" and ?m' = "[(''SERV_AB'', ''y''), (''SERV_A'', ''x'')]"
  show "gm_wf ?m" and eq: "mset ?m = mset ?m'" by simp_all
  then show "gm_get ?m = gm_get ?m'" by (rule get_mset_eq)
  show "replace_variables ?m ''SERV_AB'' \<noteq> replace_variables ?m' ''SERV_AB''"
    by (simp add: replace_variables_def replace_all_def)
qed

end
