(* ===== verification/ServiceObjects.thy ===== *)
theory ServiceObjects
  imports Deployments
begin

text \<open>
  The Kubernetes services of a stage (\<^verbatim>\<open>kubernetes_service.go\<close>), the load balancers of its public
  rules (\<^verbatim>\<open>kubernetes_loadbalancer.go\<close>), the services of its device group rules
  (\<^verbatim>\<open>kubernetes_devicegroups.go\<close>) and its ingresses (\<^verbatim>\<open>kubernetes_ingress.go\<close>).
\<close>

section \<open>Services\<close>

definition port_name :: "int \<Rightarrow> string" where
  "port_name p = ''port'' @ show_int p"

definition getServicePorts :: "pb_port list \<Rightarrow> service_port list option" where
  "getServicePorts ports =
     (let obtained = map (\<lambda>p. \<lparr>sp_Name = port_name (pp_ExposedPort p), sp_Port = pp_ExposedPort p,
            sp_TargetPort = pp_InternalPort p, sp_NodePort = 0\<rparr>) ports
      in if length obtained = 0 then None else Some obtained)"

definition NewDeployableService :: "deployment_metadata \<Rightarrow> deployable_services" where
  "NewDeployableService data = \<lparr>dsv_Data = data, dsv_Services = []\<rparr>"

definition service_of_instance :: "deployment_metadata \<Rightarrow> service_instance \<Rightarrow> service_port list \<Rightarrow> k8s_service" where
  "service_of_instance data service ports = \<lparr>
     svc_Name = FormatName (si_ServiceName service),
     svc_Namespace = dm_Namespace data,
     svc_Labels = [
       (NALEJ_ANNOTATION_ORGANIZATION_ID, dm_OrganizationId data),
       (NALEJ_ANNOTATION_APP_DESCRIPTOR, dm_AppDescriptorId data),
       (NALEJ_ANNOTATION_APP_INSTANCE_ID, dm_AppInstanceId data),
       (NALEJ_ANNOTATION_IS_PROXY, ''false'')],
     svc_ExternalName = FormatName (si_ServiceName service),
     svc_Ports = ports,
     svc_Type = ClusterIP,
     svc_Selector = selector_labels data service,
     svc_LocalTrafficPolicy = False\<rparr>"

text \<open>Reads of the cluster do not change it; the loop skips a service that is already there.\<close>

definition build_service :: "'w kube \<Rightarrow> 'w \<Rightarrow> service_instance \<Rightarrow> deployable_services \<Rightarrow> deployable_services" where
  "build_service k w service s =
     (if \<not> get_not_found (kube_get k KService (dm_Namespace (dsv_Data s)) (FormatName (si_ServiceName service)) w)
      then s
      else (case getServicePorts (si_ExposedPorts service) of
              None \<Rightarrow> s
            | Some ports \<Rightarrow> s\<lparr>dsv_Services := dsv_Services s @ [\<lparr>
                sinf_ServiceId = si_ServiceId service, sinf_ServiceInstanceId = si_ServiceInstanceId service,
                sinf_Service = service_of_instance (dsv_Data s) service ports\<rparr>]\<rparr>))"

definition Services_Build ::
  "'w kube \<Rightarrow> 'w network_decorator \<Rightarrow> 'w \<Rightarrow> deployable_services \<Rightarrow> (go_error option \<times> deployable_services) outcome" where
  "Services_Build k nd w s =
     (let s' = fold (build_service k w) (ds_Services (dm_Stage (dsv_Data s))) s
      in bind_outcome (nd_Build nd (TServices s')) (\<lambda>(e, t). Done (e, as_services s' t)))"

definition deploy_service :: "'w kube \<Rightarrow> deployable_services \<Rightarrow> service_info \<Rightarrow> (go_error option, 'w st) prog" where
  "deploy_service k s servInfo st =
     (if \<not> get_not_found (kube_get k KService (dm_Namespace (dsv_Data s)) (svc_Name (sinf_Service servInfo)) (snd st))
      then Done (None, st)
      else create_monitored k (OService (sinf_Service servInfo)) st)"

definition Services_Deploy ::
  "'w kube \<Rightarrow> 'w network_decorator \<Rightarrow> deployable_services \<Rightarrow> (go_error option, 'w st) prog" where
  "Services_Deploy k nd s =
     on_ok (for_each (deploy_service k s) (dsv_Services s)) (nd_Deploy nd (TServices s))"

definition Services_Undeploy ::
  "'w kube \<Rightarrow> 'w network_decorator \<Rightarrow> deployable_services \<Rightarrow> (go_error option, 'w st) prog" where
  "Services_Undeploy k nd s =
     on_ok (for_each (\<lambda>servInfo. delete_object k KService (dm_Namespace (dsv_Data s))
              (FormatName (svc_Name (sinf_Service servInfo)))) (dsv_Services s))
       (nd_Undeploy nd (TServices s))"

section \<open>Load balancers\<close>

record deployable_load_balancer =
  dlb_data :: deployment_metadata
  dlb_loadBalancers :: "service_info list"

definition NewDeployableLoadBalancer :: "deployment_metadata \<Rightarrow> deployable_load_balancer" where
  "NewDeployableLoadBalancer data = \<lparr>dlb_data = data, dlb_loadBalancers = []\<rparr>"

definition BuildLoadBalancerForServiceWithRule ::
  "deployment_metadata \<Rightarrow> service_instance \<Rightarrow> public_rule \<Rightarrow> k8s_service option" where
  "BuildLoadBalancerForServiceWithRule data service rule =
     (case List.find (\<lambda>port. pp_ExposedPort port = pr_TargetPort rule \<and> pp_Endpoints port = []) (si_ExposedPorts service) of
        None \<Rightarrow> None
      | Some port \<Rightarrow> Some \<lparr>
          svc_Name = ''lb'' @ FormatName (si_ServiceName service),
          svc_Namespace = dm_Namespace data,
          svc_Labels = service_labels data service @
            [(NALEJ_ANNOTATION_SERVICE_PURPOSE, NALEJ_ANNOTATION_VALUE_LOAD_BALANCER_SERVICE)],
          svc_ExternalName = ''lb'' @ FormatName (si_ServiceName service),
          svc_Ports = [\<lparr>sp_Name = port_name (pr_TargetPort rule), sp_Port = pp_ExposedPort port,
            sp_TargetPort = pr_TargetPort rule, sp_NodePort = 0\<rparr>],
          svc_Type = LoadBalancer,
          svc_Selector = selector_labels data service,
          svc_LocalTrafficPolicy = True\<rparr>)"

definition rule_targets :: "public_rule \<Rightarrow> service_instance \<Rightarrow> bool" where
  "rule_targets publicRule service \<longleftrightarrow>
     pr_TargetServiceGroupInstanceId publicRule = si_ServiceGroupInstanceId service \<and>
     pr_TargetServiceInstanceId publicRule = si_ServiceInstanceId service"

definition LoadBalancers_Build :: "deployable_load_balancer \<Rightarrow> deployable_load_balancer" where
  "LoadBalancers_Build dl =
     fold (\<lambda>publicRule d. fold (\<lambda>service d'.
         if rule_targets publicRule service
         then (case BuildLoadBalancerForServiceWithRule (dlb_data d') service publicRule of
                 None \<Rightarrow> d'
               | Some toAdd \<Rightarrow> d'\<lparr>dlb_loadBalancers := dlb_loadBalancers d' @ [\<lparr>
                   sinf_ServiceId = si_ServiceId service, sinf_ServiceInstanceId = si_ServiceInstanceId service,
                   sinf_Service = toAdd\<rparr>]\<rparr>)
         else d') (ds_Services (dm_Stage (dlb_data dl))) d)
       (ds_PublicRules (dm_Stage (dlb_data dl))) dl"

definition LoadBalancers_Deploy :: "'w kube \<Rightarrow> deployable_load_balancer \<Rightarrow> (go_error option, 'w st) prog" where
  "LoadBalancers_Deploy k dl =
     for_each (\<lambda>servInfo. create_monitored k (OService (sinf_Service servInfo))) (dlb_loadBalancers dl)"

definition LoadBalancers_Undeploy :: "'w kube \<Rightarrow> deployable_load_balancer \<Rightarrow> (go_error option, 'w st) prog" where
  "LoadBalancers_Undeploy k dl =
     for_each (\<lambda>servInfo. delete_object k KService (dm_Namespace (dlb_data dl))
         (FormatName (svc_Name (sinf_Service servInfo)))) (dlb_loadBalancers dl)"

section \<open>Device groups\<close>

record deployable_device_groups =
  ddg_data :: deployment_metadata
  ddg_platformType :: platform
  ddg_Services :: "service_info list"

definition NewDeployableDeviceGroups :: "config \<Rightarrow> deployment_metadata \<Rightarrow> deployable_device_groups" where
  "NewDeployableDeviceGroups cfg data =
     \<lparr>ddg_data = data, ddg_platformType = cfg_TargetPlatform cfg, ddg_Services = []\<rparr>"

definition getK8sService :: "deployable_device_groups \<Rightarrow> device_group_rule \<Rightarrow> k8s_service" where
  "getK8sService d sr = \<lparr>
     svc_Name = keep_first MaxNameLength (''dg-'' @ dgr_RuleId sr @ ''-'' @ dgr_TargetServiceInstanceId sr),
     svc_Namespace = dm_Namespace (ddg_data d),
     svc_Labels = [
       (NALEJ_ANNOTATION_DEPLOYMENT_FRAGMENT, dm_FragmentId (ddg_data d)),
       (NALEJ_ANNOTATION_ORGANIZATION_ID, dm_OrganizationId (ddg_data d)),
       (NALEJ_ANNOTATION_APP_DESCRIPTOR, dm_AppDescriptorId (ddg_data d)),
       (NALEJ_ANNOTATION_APP_INSTANCE_ID, dm_AppInstanceId (ddg_data d)),
       (NALEJ_ANNOTATION_STAGE_ID, ds_StageId (dm_Stage (ddg_data d))),
       (NALEJ_ANNOTATION_SECURITY_RULE_ID, dgr_RuleId sr),
       (NALEJ_ANNOTATION_SERVICE_ID, dgr_TargetServiceId sr),
       (NALEJ_ANNOTATION_SERVICE_INSTANCE_ID, dgr_TargetServiceInstanceId sr),
       (NALEJ_ANNOTATION_SERVICE_PURPOSE, NALEJ_ANNOTATION_VALUE_DEVICE_GROUP_SERVICE)],
     svc_ExternalName = [],
     svc_Ports = [\<lparr>sp_Name = ''dg-port'', sp_Port = dgr_TargetPort sr, sp_TargetPort = dgr_TargetPort sr, sp_NodePort = 0\<rparr>],
     svc_Type = (if ddg_platformType d = Platform_MINIKUBE then NodePort else LoadBalancer),
     svc_Selector = [
       (NALEJ_ANNOTATION_ORGANIZATION_ID, dm_OrganizationId (ddg_data d)),
       (NALEJ_ANNOTATION_APP_DESCRIPTOR, dm_AppDescriptorId (ddg_data d)),
       (NALEJ_ANNOTATION_APP_INSTANCE_ID, dm_AppInstanceId (ddg_data d)),
       (NALEJ_ANNOTATION_STAGE_ID, ds_StageId (dm_Stage (ddg_data d))),
       (NALEJ_ANNOTATION_SERVICE_ID, dgr_TargetServiceId sr),
       (NALEJ_ANNOTATION_SERVICE_INSTANCE_ID, dgr_TargetServiceInstanceId sr)],
     svc_LocalTrafficPolicy = False\<rparr>"

definition DeviceGroups_Build :: "deployable_device_groups \<Rightarrow> deployable_device_groups" where
  "DeviceGroups_Build d = fold (\<lambda>sr d'. d'\<lparr>ddg_Services := ddg_Services d' @ [\<lparr>
       sinf_ServiceId = dgr_TargetServiceId sr, sinf_ServiceInstanceId = dgr_TargetServiceInstanceId sr,
       sinf_Service = getK8sService d' sr\<rparr>]\<rparr>) (ds_DeviceGroupRules (dm_Stage (ddg_data d))) d"

definition DeviceGroups_Deploy :: "'w kube \<Rightarrow> deployable_device_groups \<Rightarrow> (go_error option, 'w st) prog" where
  "DeviceGroups_Deploy k d =
     for_each (\<lambda>servInfo. create_monitored k (OService (sinf_Service servInfo))) (ddg_Services d)"

definition DeviceGroups_Undeploy :: "'w kube \<Rightarrow> deployable_device_groups \<Rightarrow> (go_error option, 'w st) prog" where
  "DeviceGroups_Undeploy k d =
     for_each (\<lambda>servInfo. delete_object k KService (dm_Namespace (ddg_data d)) (svc_Name (sinf_Service servInfo)))
       (ddg_Services d)"

section \<open>Ingresses\<close>

definition InstPrefixLength :: nat where "InstPrefixLength = 6"
definition OrgPrefixLength :: nat where "OrgPrefixLength = 8"
definition ANNOTATION_PATH :: string where "ANNOTATION_PATH = ''nginx.ingress.kubernetes.io/app-root''"

definition NewDeployableIngress :: "deployment_metadata \<Rightarrow> deployable_ingress" where
  "NewDeployableIngress data = \<lparr>di_Data = data, di_Ingresses = []\<rparr>"

text \<open>The map of endpoints of the deployable; it panics on an ingress without rules.\<close>

fun ingress_hosts :: "k8s_ingress list \<Rightarrow> string list outcome" where
  "ingress_hosts [] = Done []"
| "ingress_hosts (ing # rest) =
     (case ing_Rules ing of
        [] \<Rightarrow> Panic ''index out of range''
      | rule # _ \<Rightarrow> bind_outcome (ingress_hosts rest) (\<lambda>hs. Done (ir_Host rule # hs)))"

fun ingresses_endpoints ::
  "ingresses_info list \<Rightarrow> (string, string list) gomap \<Rightarrow> (string, string list) gomap outcome" where
  "ingresses_endpoints [] result = Done result"
| "ingresses_endpoints (ings # rest) result =
     bind_outcome (ingress_hosts (ii_Ingresses ings))
       (\<lambda>endpoints. ingresses_endpoints rest (gm_put (ii_ServiceId ings) endpoints result))"

definition GetIngressesEndpoints :: "deployable_ingress \<Rightarrow> (string, string list) gomap outcome" where
  "GetIngressesEndpoints di = ingresses_endpoints (di_Ingresses di) []"

definition getNamePrefixes ::
  "deployment_metadata \<Rightarrow> service_instance \<Rightarrow> public_rule \<Rightarrow> string \<times> string \<times> string \<times> string" where
  "getNamePrefixes data service rule =
     (if pr_TargetPort rule \<noteq> 80 then si_ServiceName service @ ''-'' @ show_int (pr_TargetPort rule)
        else si_ServiceName service,
      keep_first InstPrefixLength (si_ServiceGroupInstanceId service),
      keep_first InstPrefixLength (si_AppInstanceId service),
      keep_first OrgPrefixLength (dm_OrganizationId data))"

text \<open>
  The nested loops stop at the first web or REST endpoint of a port with the rule's target port.
  A port without endpoints contributes nothing, whether its list is nil or empty.
\<close>

definition rule_endpoint :: "service_instance \<Rightarrow> public_rule \<Rightarrow> pb_endpoint option" where
  "rule_endpoint service rule =
     List.find (\<lambda>e. pe_Type e = Endpoint_WEB \<or> pe_Type e = Endpoint_REST)
       (concat (map pp_Endpoints (filter (\<lambda>p. pp_ExposedPort p = pr_TargetPort rule) (si_ExposedPorts service))))"

text \<open>
  The loop over the options of the endpoint: every host header option adds a rule, and only the first
  one is used; the client annotation is the last one seen. The keys of a map are distinct, so
  each of the two options occurs at most once.
\<close>

definition HOST_HEADER_CONFIGURATION :: string where
  "HOST_HEADER_CONFIGURATION = ''HOST_HEADER_CONFIGURATION''"
definition CLIENT_MAX_BODY_SIZE :: string where
  "CLIENT_MAX_BODY_SIZE = ''CLIENT_MAX_BODY_SIZE''"

definition scan_options ::
  "ingress_path list \<Rightarrow> (string, string) gomap \<Rightarrow> ingress_rule list \<times> string" where
  "scan_options paths options = foldl (\<lambda>(hostHeaderRules, clientAnnotation) (key, v).
       if key = HOST_HEADER_CONFIGURATION
       then (hostHeaderRules @ [\<lparr>ir_Host = v, ir_Paths = paths\<rparr>], clientAnnotation)
       else if key = CLIENT_MAX_BODY_SIZE then (hostHeaderRules, v)
       else (hostHeaderRules, clientAnnotation)) ([], []) options"

definition BuildIngressesForServiceWithRule ::
  "config \<Rightarrow> deployment_metadata \<Rightarrow> service_instance \<Rightarrow> public_rule \<Rightarrow> k8s_ingress option" where
  "BuildIngressesForServiceWithRule cfg data service rule =
     (case rule_endpoint service rule of
        None \<Rightarrow> None
      | Some endpoint \<Rightarrow>
          (let annotationPath = (if pe_Path endpoint \<noteq> ''/'' then pe_Path endpoint else []);
               paths = [\<lparr>ip_ServiceName = si_ServiceName service, ip_ServicePort = pr_TargetPort rule\<rparr>];
               (hostHeaderRules, clientAnnotation) = scan_options paths (pe_Options endpoint);
               (ingressName, serviceGroupInstPrefix, appInstPrefix, orgPrefix) = getNamePrefixes data service rule;
               ingressPrefixName = ingressName @ ''.'' @ serviceGroupInstPrefix @ ''.'' @ appInstPrefix;
               ingressGlobalFqdn = ingressPrefixName @ ''.'' @ orgPrefix @ ''.ep.'' @ cfg_ManagementHostname cfg;
               ingressHostname = ingressPrefixName @ ''.appcluster.'' @ cfg_ClusterPublicHostname cfg;
               a0 = [(''kubernetes.io/ingress.class'', ''nginx''),
                     (''nginx.ingress.kubernetes.io/service-upstream'', ''true''),
                     (''organizationId'', si_OrganizationId service),
                     (''appInstanceId'', dm_AppInstanceId data),
                     (''serviceId'', si_ServiceId service)];
               a1 = (if clientAnnotation \<noteq> []
                     then gm_put ''nginx.ingress.kubernetes.io/proxy-body-size'' clientAnnotation a0 else a0);
               a2 = (if annotationPath \<noteq> [] then gm_put ANNOTATION_PATH annotationPath a1 else a1)
           in Some \<lparr>
             ing_Name = ''ingress-'' @ si_ServiceId service @ ''-'' @ show_int (pr_TargetPort rule),
             ing_Namespace = dm_Namespace data,
             ing_Labels = [(''cluster'', ''application''), (''component'', ''ingress-nginx''),
               (NALEJ_ANNOTATION_INGRESS_ENDPOINT, ingressPrefixName)] @ service_labels data service,
             ing_Annotations = a2,
             ing_Rules = [\<lparr>ir_Host = ingressHostname, ir_Paths = paths\<rparr>,
               \<lparr>ir_Host = ingressGlobalFqdn, ir_Paths = paths\<rparr>] @ take 1 hostHeaderRules\<rparr>))"

definition Ingress_Build ::
  "config \<Rightarrow> 'w network_decorator \<Rightarrow> deployable_ingress \<Rightarrow> (go_error option \<times> deployable_ingress) outcome" where
  "Ingress_Build cfg nd di =
     (let di' = fold (\<lambda>publicRule d. fold (\<lambda>service d'.
            if rule_targets publicRule service
            then (case BuildIngressesForServiceWithRule cfg (di_Data d') service publicRule of
                    None \<Rightarrow> d'
                  | Some toAdd \<Rightarrow> d'\<lparr>di_Ingresses := di_Ingresses d' @ [\<lparr>
                      ii_ServiceId = si_ServiceId service, ii_ServiceInstanceId = si_ServiceInstanceId service,
                      ii_Ingresses = [toAdd]\<rparr>]\<rparr>)
            else d') (ds_Services (dm_Stage (di_Data di))) d)
          (ds_PublicRules (dm_Stage (di_Data di))) di
      in bind_outcome (nd_Build nd (TIngress di')) (\<lambda>(e, t). Done (e, as_ingress di' t)))"

definition Ingress_Deploy ::
  "'w kube \<Rightarrow> 'w network_decorator \<Rightarrow> deployable_ingress \<Rightarrow> (go_error option, 'w st) prog" where
  "Ingress_Deploy k nd di =
     on_ok (for_each (\<lambda>ingresses. for_each (\<lambda>ing. create_monitored k (OIngress ing)) (ii_Ingresses ingresses)) (di_Ingresses di))
       (nd_Deploy nd (TIngress di))"

definition Ingress_Undeploy ::
  "'w kube \<Rightarrow> 'w network_decorator \<Rightarrow> deployable_ingress \<Rightarrow> (go_error option, 'w st) prog" where
  "Ingress_Undeploy k nd di =
     on_ok (for_each (\<lambda>ingresses. for_each (\<lambda>ing. delete_object k KIngress (dm_Namespace (di_Data di)) (ing_Name ing))
              (ii_Ingresses ingresses)) (di_Ingresses di))
       (nd_Undeploy nd (TIngress di))"

section \<open>Lemmas\<close>

text \<open>The host header rules lead to the same backend as the others.\<close>

lemma scan_options_paths: "\<forall>r \<in> set (fst (scan_options paths options)). ir_Paths r = paths"
proof -
  let ?f = "\<lambda>(hs, c :: string) (key, v). if key = HOST_HEADER_CONFIGURATION
      then (hs @ [\<lparr>ir_Host = v, ir_Paths = paths\<rparr>], c)
      else if key = CLIENT_MAX_BODY_SIZE then (hs, v) else (hs, c)"
  have "\<forall>r \<in> set (fst (foldl ?f (hs, c) opts)). ir_Paths r = paths"
    if "\<forall>r \<in> set hs. ir_Paths r = paths" for hs c opts
    using that
  proof (induction opts arbitrary: hs c)
    case (Cons x opts)
    obtain a b where x: "x = (a, b)" by (cases x)
    obtain hs' c' where step: "?f (hs, c) x = (hs', c')" by (cases "?f (hs, c) x")
    have "\<forall>r \<in> set hs'. ir_Paths r = paths"
      using Cons.prems step x by (auto split: if_splits)
    from Cons.IH [OF this] show ?case by (simp only: foldl_Cons step)
  qed simp
  from this [of "[]" "[]"] show ?thesis by (simp add: scan_options_def)
qed

text \<open>
  What the labels of the services of a stage lack: the store of monitored fragments cannot file the
  resource, since the fragment reads as the empty string.
\<close>

lemma service_resource_fragment:
  assumes "co_Labels c = svc_Labels (service_of_instance data service ports)"
  shows "mpr_FragmentId (created_resource c) = [] \<and> mpr_ServiceInstanceID (created_resource c) = []"
  using assms
  by (simp add: created_resource_def NewMonitoredPlatformResource_def gm_str_def service_of_instance_def go_constants)

text \<open>\<open>returns_labels k\<close>: a created object is returned with the labels it was sent with.\<close>

definition returns_labels :: "'w kube \<Rightarrow> bool" where
  "returns_labels k \<longleftrightarrow> (\<forall>obj w c w'. kube_create k obj w = (Inr c, w') \<longrightarrow> co_Labels c = object_labels obj)"

lemma build_services_shape:
  assumes "info \<in> set (dsv_Services (fold (build_service k w) services s))"
    and "\<forall>i \<in> set (dsv_Services s). \<exists>si ports. sinf_Service i = service_of_instance (dsv_Data s) si ports"
  shows "\<exists>si ports. sinf_Service info = service_of_instance (dsv_Data s) si ports"
  using assms
proof (induction services arbitrary: s)
  case (Cons service services)
  have data: "dsv_Data (build_service k w service s) = dsv_Data s"
    by (simp add: build_service_def split: option.splits)
  have "\<forall>i \<in> set (dsv_Services (build_service k w service s)).
      \<exists>si ports. sinf_Service i = service_of_instance (dsv_Data s) si ports"
    using Cons.prems(2) by (auto simp: build_service_def split: option.splits)
  then show ?case
    using Cons.IH [of "build_service k w service s"] Cons.prems(1) by (simp add: data)
qed simp

lemma AddPendingResource_unknown: "gm_get p (mpr_FragmentId r) = None \<Longrightarrow> AddPendingResource r p = (False, p)"
  by (simp add: AddPendingResource_def)

lemma deploy_service_unmonitored:
  assumes "returns_labels k" and "gm_get p [] = None" and "sinf_Service info = service_of_instance data si ports"
  shows "keeps (\<lambda>st. fst st = p) (deploy_service k s info)"
proof -
  have "AddMonitoredResource (created_resource c) (p, w2) = (p, w2)"
    if "kube_create k (OService (sinf_Service info)) w1 = (Inr c, w2)" for c and w1 w2 :: 'a
  proof -
    have "co_Labels c = svc_Labels (service_of_instance data si ports)"
      using assms(1,3) that unfolding returns_labels_def by (metis object_labels.simps(2))
    then show ?thesis
      using assms(2) by (simp add: AddMonitoredResource_def AddPendingResource_unknown service_resource_fragment)
  qed
  then show ?thesis
    by (auto simp: keeps_def deploy_service_def create_monitored_def split: if_splits prod.splits sum.splits)
qed

text \<open>
  A cluster for the witnesses: the set of objects by kind, namespace and name. A created object
  gets a fresh uid; creating an object that is there and deleting or reading one that is not fail.
\<close>

type_synonym mem_cluster = "((k8s_kind \<times> string \<times> string) \<times> k8s_object) list"

definition object_key :: "k8s_object \<Rightarrow> k8s_kind \<times> string \<times> string" where
  "object_key obj = (object_kind obj, object_namespace obj, object_name obj)"

definition mem_kube :: "mem_cluster kube" where
  "mem_kube = \<lparr>
     kube_create = (\<lambda>obj w. if gm_get w (object_key obj) = None
       then (Inr \<lparr>co_UID = ''uid-'' @ show_nat (length w), co_Labels = object_labels obj\<rparr>, gm_put (object_key obj) obj w)
       else (Inl (ApiError ApiAlreadyExists ''already exists''), w)),
     kube_get = (\<lambda>kind ns name w. case gm_get w (kind, ns, name) of
       None \<Rightarrow> Inl (ApiError ApiNotFound ''not found'') | Some obj \<Rightarrow> Inr obj),
     kube_update = (\<lambda>obj w. (None, gm_put (object_key obj) obj w)),
     kube_delete = (\<lambda>kind ns name w. if gm_get w (kind, ns, name) = None
       then (Some (ApiError ApiNotFound ''not found''), w) else (None, gm_delete (kind, ns, name) w)),
     kube_list_namespaces = (\<lambda>sel w. Inr (map (\<lambda>(key, obj). \<lparr>ni_Name = object_name obj, ni_Active = True\<rparr>)
       (filter (\<lambda>(key, obj). object_kind obj = KNamespace \<and>
          (\<forall>(l, v) \<in> set sel. gm_get (object_labels obj) l = Some v)) w))),
     kube_list_services = (\<lambda>ns sel w. Inr (map (\<lambda>(key, obj). object_name obj)
       (filter (\<lambda>(key, obj). object_kind obj = KService \<and> object_namespace obj = ns \<and>
          (\<forall>(l, v) \<in> set sel. gm_get (object_labels obj) l = Some v)) w))),
     kube_delete_collection = (\<lambda>kind ns sel w. (None, filter (\<lambda>(key, obj). \<not> (object_kind obj = kind \<and>
       object_namespace obj = ns \<and> (\<forall>(l, v) \<in> set sel. gm_get (object_labels obj) l = Some v))) w)),
     kube_num_nodes = (\<lambda>_. 1)\<rparr>"

lemma mem_kube_labels: "returns_labels mem_kube"
  by (auto simp: returns_labels_def mem_kube_def split: if_splits)

definition sample_web_service :: service_instance where
  "sample_web_service = sample_storage_service\<lparr>si_Storage := [], si_ServiceName := ''web'',
     si_OrganizationId := ''organization'',
     si_ExposedPorts := [\<lparr>pp_Name = ''http'', pp_InternalPort = 80, pp_ExposedPort = 80, pp_Endpoints = []\<rparr>]\<rparr>"

section \<open>Properties\<close>

text \<open>An ingress sends its traffic to a service named by the service name as the user wrote it,
  while the Kubernetes service is named by the formatted name, so the backend of a built ingress
  exists exactly when formatting does not change the name. Every rule of the ingress has the port of
  the public rule, and there are two or three rules.\<close>

theorem ingress_backend_name:
  assumes "BuildIngressesForServiceWithRule cfg data service rule = Some ing"
  shows "(\<forall>r \<in> set (ing_Rules ing). ir_Paths r \<noteq> [] \<and> (\<forall>b \<in> set (ir_Paths r).
      ip_ServicePort b = pr_TargetPort rule \<and>
      (ip_ServiceName b = svc_Name (service_of_instance data service ports) \<longleftrightarrow>
        FormatName (si_ServiceName service) = si_ServiceName service))) \<and>
    length (ing_Rules ing) \<in> {2, 3}"
proof -
  obtain e where e: "rule_endpoint service rule = Some e"
    using assms by (auto simp: BuildIngressesForServiceWithRule_def split: option.splits)
  let ?paths = "[\<lparr>ip_ServiceName = si_ServiceName service, ip_ServicePort = pr_TargetPort rule\<rparr>]"
  have scan: "\<forall>r \<in> set (fst (scan_options ?paths opts)). ir_Paths r = ?paths" for opts
    by (rule scan_options_paths)
  have rules: "ing_Rules ing = [\<lparr>ir_Host = h1, ir_Paths = ?paths\<rparr>, \<lparr>ir_Host = h2, ir_Paths = ?paths\<rparr>] @
      take 1 (fst (scan_options ?paths (pe_Options e)))" if "h1 = ir_Host (ing_Rules ing ! 0)" "h2 = ir_Host (ing_Rules ing ! 1)" for h1 h2
    using assms e that
    by (auto simp: BuildIngressesForServiceWithRule_def Let_def getNamePrefixes_def split: prod.splits)
  have paths: "\<forall>r \<in> set (ing_Rules ing). ir_Paths r = ?paths"
    using scan by (subst rules [OF refl refl]) (auto dest: in_set_takeD)
  moreover have "length (ing_Rules ing) \<in> {2, 3}"
    by (subst rules [OF refl refl]) (cases "fst (scan_options ?paths (pe_Options e))"; simp)
  ultimately show ?thesis
    by (auto simp: service_of_instance_def)
qed

definition sample_public_service :: service_instance where
  "sample_public_service = sample_web_service\<lparr>si_ServiceName := ''Web'',
     si_ExposedPorts := [\<lparr>pp_Name = ''http'', pp_InternalPort = 80, pp_ExposedPort = 80,
       pp_Endpoints = [\<lparr>pe_Type = Endpoint_WEB, pe_Path = ''/'', pe_Options = []\<rparr>]\<rparr>]\<rparr>"

definition sample_rule :: public_rule where
  "sample_rule = \<lparr>pr_ServiceName = ''Web'', pr_TargetPort = 80, pr_TargetServiceGroupInstanceId = ''gi'',
     pr_TargetServiceInstanceId = ''s''\<rparr>"

theorem ingress_backend_name_witness:
  "\<exists>ing. BuildIngressesForServiceWithRule sample_config (sample_metadata []) sample_public_service sample_rule = Some ing \<and>
    (\<forall>r \<in> set (ing_Rules ing). \<forall>b \<in> set (ir_Paths r). ip_ServiceName b \<noteq> ''web'')"
proof -
  have "rule_endpoint sample_public_service sample_rule = Some \<lparr>pe_Type = Endpoint_WEB, pe_Path = ''/'', pe_Options = []\<rparr>"
    by (simp add: rule_endpoint_def sample_public_service_def sample_rule_def)
  then obtain ing where ing:
    "BuildIngressesForServiceWithRule sample_config (sample_metadata []) sample_public_service sample_rule = Some ing"
    by (simp add: BuildIngressesForServiceWithRule_def Let_def case_prod_beta)
  have name: "FormatName ''Web'' = ''web''" "si_ServiceName sample_public_service = ''Web''" by code_simp+
  show ?thesis
    using ingress_backend_name [OF ing, of "[]"] ing
    by (intro exI [of _ ing]) (auto simp: name service_of_instance_def)
qed

end
