(* ===== verification/KubernetesExecutor.thy ===== *)
theory KubernetesExecutor
  imports ServiceObjects
begin

text \<open>
  The namespace of an application (\<^verbatim>\<open>kubernetes_namespace.go\<close>), the stage as a deployable made of
  all others (\<^verbatim>\<open>kubernetes_deployable.go\<close>), and the executor (\<^verbatim>\<open>kubernetes_executor.go\<close>) as an
  instance of the executor interface of \<^verbatim>\<open>pkg/executor/executor.go\<close>.
\<close>

section \<open>The namespace\<close>

definition NewDeployableNamespace :: "deployment_metadata \<Rightarrow> deployable_namespace" where
  "NewDeployableNamespace data = \<lparr>dn_data = data, dn_Namespace = \<lparr>ns_Name = [], ns_Labels = []\<rparr>\<rparr>"

text \<open>An error of the decorator is only logged.\<close>

definition Namespace_Build ::
  "'w network_decorator \<Rightarrow> deployable_namespace \<Rightarrow> (go_error option \<times> deployable_namespace) outcome" where
  "Namespace_Build nd n =
     (let n' = n\<lparr>dn_Namespace := \<lparr>
            ns_Name = dm_Namespace (dn_data n),
            ns_Labels = [
              (NALEJ_ANNOTATION_DEPLOYMENT_FRAGMENT, dm_FragmentId (dn_data n)),
              (NALEJ_ANNOTATION_ORGANIZATION_ID, dm_OrganizationId (dn_data n)),
              (NALEJ_ANNOTATION_APP_DESCRIPTOR, dm_AppDescriptorId (dn_data n)),
              (NALEJ_ANNOTATION_APP_INSTANCE_ID, dm_AppInstanceId (dn_data n)),
              (NALEJ_ANNOTATION_STAGE_ID, ds_StageId (dm_Stage (dn_data n)))]\<rparr>\<rparr>
      in bind_outcome (nd_Build nd (TNamespace n')) (\<lambda>(netErr, t). Done (None, as_namespace n' t)))"

text \<open>
  After a successful creation the method calls itself, where the decorator was meant. The
  recursion is cut off by the fuel; two calls are enough on a cluster that either finds a created
  namespace or refuses to create it again (\<open>Namespace_Deploy_returns\<close>).
\<close>

fun Namespace_Deploy ::
  "'w kube \<Rightarrow> nat \<Rightarrow> deployable_namespace \<Rightarrow> (go_error option \<times> deployable_namespace, 'w st) prog" where
  "Namespace_Deploy k 0 n s = Blocked"
| "Namespace_Deploy k (Suc fuel) n s =
     (let create = (case kube_create k (ONamespace (dn_Namespace n)) (snd s) of
            (Inl e, w) \<Rightarrow> Done ((Some e, n), (fst s, w))
          | (Inr c, w) \<Rightarrow>
              bind_outcome (Namespace_Deploy k fuel
                  (n\<lparr>dn_Namespace := (dn_Namespace n)\<lparr>ns_Labels := co_Labels c\<rparr>\<rparr>) (fst s, w))
                (\<lambda>((netErr, n'), s'). Done ((None, n'), s')))
      in (case kube_get k KNamespace [] (dm_Namespace (dn_data n)) (snd s) of
            Inr (ONamespace retrieved) \<Rightarrow>
              if ns_Name retrieved \<noteq> [] then Done ((None, n\<lparr>dn_Namespace := retrieved\<rparr>), s) else create
          | _ \<Rightarrow> create))"

definition Namespace_exists :: "'w kube \<Rightarrow> deployable_namespace \<Rightarrow> 'w \<Rightarrow> bool" where
  "Namespace_exists k n w =
     (case kube_get k KNamespace [] (dm_Namespace (dn_data n)) w of Inl e \<Rightarrow> False | Inr obj \<Rightarrow> True)"

text \<open>A loop that logs the errors of its calls and goes on.\<close>

fun for_all_logged :: "('a \<Rightarrow> (go_error option, 's) prog) \<Rightarrow> 'a list \<Rightarrow> (go_error option, 's) prog" where
  "for_all_logged step [] = ret None"
| "for_all_logged step (x # xs) = and_then (step x) (\<lambda>_. for_all_logged step xs)"

definition Namespace_Undeploy :: "'w kube \<Rightarrow> deployable_namespace \<Rightarrow> (go_error option, 'w st) prog" where
  "Namespace_Undeploy k n = with_state (\<lambda>s.
     (case kube_list_namespaces k [(NALEJ_ANNOTATION_ORGANIZATION_ID, dm_OrganizationId (dn_data n)),
         (NALEJ_ANNOTATION_APP_INSTANCE_ID, dm_AppInstanceId (dn_data n))] (snd s) of
        Inl e \<Rightarrow> ret (Some (DError Generic ''impossible to undeploy Namespace''))
      | Inr items \<Rightarrow> for_all_logged (\<lambda>l. delete_object k KNamespace [] (ni_Name l)) items))"

section \<open>The stage\<close>

record deployable_stage =
  dks_data :: deployment_metadata
  dks_Deployments :: deployable_deployments
  dks_Services :: deployable_services
  dks_Ingresses :: deployable_ingress
  dks_Configmaps :: deployable_configmaps
  dks_Secrets :: deployable_secrets
  dks_Storage :: deployable_storage
  dks_DeviceGroupServices :: deployable_device_groups
  dks_LoadBalancers :: deployable_load_balancer

definition NewDeployableKubernetesStage ::
  "config \<Rightarrow> 'w kube \<Rightarrow> 'w \<Rightarrow> deployment_metadata \<Rightarrow> deployable_stage" where
  "NewDeployableKubernetesStage cfg k w data = \<lparr>
     dks_data = data,
     dks_Deployments = NewDeployableDeployment data,
     dks_Services = NewDeployableService data,
     dks_Ingresses = NewDeployableIngress data,
     dks_Configmaps = NewDeployableConfigMaps data,
     dks_Secrets = NewDeployableSecrets data,
     dks_Storage = NewDeployableStorage k w data,
     dks_DeviceGroupServices = NewDeployableDeviceGroups cfg data,
     dks_LoadBalancers = NewDeployableLoadBalancer data\<rparr>"

definition Stage_Build ::
  "config \<Rightarrow> 'w kube \<Rightarrow> 'w network_decorator \<Rightarrow> 'w \<Rightarrow> deployable_stage \<Rightarrow>
   (go_error option \<times> deployable_stage) outcome" where
  "Stage_Build cfg k nd w d =
     bind_outcome (Deployments_Build cfg nd (dks_Deployments d)) (\<lambda>(err, dep).
     let d1 = d\<lparr>dks_Deployments := dep\<rparr> in
     if err \<noteq> None then Done (err, d1) else
     bind_outcome (Services_Build k nd w (dks_Services d1)) (\<lambda>(err, svc).
     let d2 = d1\<lparr>dks_Services := svc\<rparr> in
     if err \<noteq> None then Done (err, d2) else
     let d3 = d2\<lparr>dks_DeviceGroupServices := DeviceGroups_Build (dks_DeviceGroupServices d2)\<rparr> in
     bind_outcome (Ingress_Build cfg nd (dks_Ingresses d3)) (\<lambda>(err, ing).
     let d4 = d3\<lparr>dks_Ingresses := ing\<rparr> in
     if err \<noteq> None then Done (err, d4) else
     Done (None, d4\<lparr>
       dks_Configmaps := ConfigMaps_Build (dks_Configmaps d4),
       dks_Secrets := Secrets_Build (dks_Secrets d4),
       dks_Storage := Storage_Build cfg (dks_Storage d4),
       dks_LoadBalancers := LoadBalancers_Build (dks_LoadBalancers d4)\<rparr>))))"

definition Stage_Deploy ::
  "'w kube \<Rightarrow> 'w storage_fabric \<Rightarrow> 'w network_decorator \<Rightarrow> deployable_stage \<Rightarrow>
   (go_error option \<times> deployable_stage, 'w st) prog" where
  "Stage_Deploy k sf nd d =
     and_then
       (on_ok (Secrets_Deploy k (dks_Secrets d))
       (on_ok (ConfigMaps_Deploy k (dks_Configmaps d))
         (Storage_Deploy k sf (dks_Storage d))))
     (\<lambda>err. case err of Some e \<Rightarrow> ret (Some e, d) | None \<Rightarrow>
     and_then (Deployments_Deploy k nd (dks_Deployments d)) (\<lambda>(err, dep).
     let d' = d\<lparr>dks_Deployments := dep\<rparr> in
     case err of Some e \<Rightarrow> ret (Some e, d') | None \<Rightarrow>
     and_then
       (on_ok (Services_Deploy k nd (dks_Services d))
       (on_ok (DeviceGroups_Deploy k (dks_DeviceGroupServices d))
       (on_ok (Ingress_Deploy k nd (dks_Ingresses d))
         (LoadBalancers_Deploy k (dks_LoadBalancers d)))))
       (\<lambda>err. ret (err, d'))))"

text \<open>The storage is undeployed twice and the load balancers not at all.\<close>

definition Stage_Undeploy ::
  "'w kube \<Rightarrow> 'w storage_fabric \<Rightarrow> 'w network_decorator \<Rightarrow> deployable_stage \<Rightarrow> (go_error option, 'w st) prog" where
  "Stage_Undeploy k sf nd d =
     on_ok (Deployments_Undeploy k (dks_Deployments d))
     (on_ok (Services_Undeploy k nd (dks_Services d))
     (on_ok (DeviceGroups_Undeploy k (dks_DeviceGroupServices d))
     (on_ok (Ingress_Undeploy k nd (dks_Ingresses d))
     (on_ok (ConfigMaps_Undeploy k (dks_Configmaps d))
     (on_ok (Secrets_Undeploy k (dks_Secrets d))
     (on_ok (Storage_Undeploy k sf (dks_Storage d))
       (Storage_Undeploy k sf (dks_Storage d))))))))"

section \<open>The executor\<close>

text \<open>
  The interface the handler calls: \<open>'p\<close> is the prepared environment, \<open>'d\<close> the deployable of a stage.
  Deploying and undeploying a deployable are methods of the deployable.
\<close>

record ('p, 'd, 'w) executor =
  ex_GetApplicationNamespace :: "string \<Rightarrow> string \<Rightarrow> int \<Rightarrow> (go_error + string, 'w st) prog"
  ex_PrepareEnvironmentForDeployment :: "deployment_metadata \<Rightarrow> ('p option \<times> go_error option, 'w st) prog"
  ex_BuildNativeDeployable :: "deployment_metadata \<Rightarrow> (go_error + 'd, 'w st) prog"
  ex_DeployStage :: "'d \<Rightarrow> (go_error option \<times> 'd, 'w st) prog"
  ex_Undeploy :: "'d \<Rightarrow> (go_error option, 'w st) prog"
  ex_UndeployPrepared :: "'p \<Rightarrow> (go_error option, 'w st) prog"
  ex_UndeployFragment :: "string \<Rightarrow> string \<Rightarrow> (go_error option, 'w st) prog"
  ex_UndeployNamespace :: "string \<Rightarrow> string \<Rightarrow> (go_error option, 'w st) prog"

definition GetApplicationNamespace ::
  "'w kube \<Rightarrow> string \<Rightarrow> string \<Rightarrow> int \<Rightarrow> (go_error + string, 'w st) prog" where
  "GetApplicationNamespace k organizationId appInstanceId numRetry = with_state (\<lambda>s.
     (case kube_list_namespaces k [(NALEJ_ANNOTATION_ORGANIZATION_ID, organizationId),
         (NALEJ_ANNOTATION_APP_INSTANCE_ID, appInstanceId)] (snd s) of
        Inl e \<Rightarrow> ret (Inl e)
      | Inr items \<Rightarrow>
          (case List.find ni_Active items of
             Some potentialTarget \<Rightarrow> ret (Inr (ni_Name potentialTarget))
           | None \<Rightarrow> and_then (lift_outcome (GetNamespace organizationId appInstanceId numRetry)) (\<lambda>ns. ret (Inr ns)))))"

definition BuildNativeDeployable ::
  "config \<Rightarrow> 'w kube \<Rightarrow> 'w network_decorator \<Rightarrow> deployment_metadata \<Rightarrow> (go_error + deployable_stage, 'w st) prog" where
  "BuildNativeDeployable cfg k nd metadata = with_state (\<lambda>s.
     and_then (lift_outcome (Stage_Build cfg k nd (snd s) (NewDeployableKubernetesStage cfg k (snd s) metadata)))
       (\<lambda>(err, resources). ret (case err of Some e \<Rightarrow> Inl e | None \<Rightarrow> Inr resources)))"

definition namespace_fuel :: nat where "namespace_fuel = 2"

definition PrepareEnvironmentForDeployment ::
  "'w kube \<Rightarrow> 'w network_decorator \<Rightarrow> deployment_metadata \<Rightarrow>
   (deployable_namespace option \<times> go_error option, 'w st) prog" where
  "PrepareEnvironmentForDeployment k nd metadata =
     and_then (lift_outcome (Namespace_Build nd (NewDeployableNamespace metadata))) (\<lambda>(err, n).
     if err \<noteq> None then ret (None, err)
     else with_state (\<lambda>s. if \<not> Namespace_exists k n (snd s)
       then and_then (Namespace_Deploy k namespace_fuel n) (\<lambda>(err, n').
            if err \<noteq> None then ret (None, err)
            else and_then (NalejSecret_Deploy k (NalejSecret_Build (NewDeployableNalejSecret metadata)))
              (\<lambda>err. if err \<noteq> None then ret (None, err) else ret (Some n', None)))
       else ret (Some n, None)))"

definition UndeployFragment :: "'w kube \<Rightarrow> string \<Rightarrow> string \<Rightarrow> (go_error option, 'w st) prog" where
  "UndeployFragment k namespace fragmentId =
     (let selector = [(''nalej-deployment-fragment'', fragmentId)] in
      and_then
        (for_all_logged (\<lambda>kind s. let (e, w) = kube_delete_collection k kind namespace selector (snd s)
             in Done (e, (fst s, w)))
           [KDeployment, KReplicaSet, KConfigMap, KEndpoints, KPVC, KSecret, KJob])
        (\<lambda>_. with_state (\<lambda>s. case kube_list_services k namespace selector (snd s) of
             Inl e \<Rightarrow> ret None
           | Inr names \<Rightarrow> for_all_logged (\<lambda>name. delete_object k KService namespace name) names)))"

definition UndeployNamespace ::
  "'w kube \<Rightarrow> 'w network_decorator \<Rightarrow> string \<Rightarrow> string \<Rightarrow> (go_error option, 'w st) prog" where
  "UndeployNamespace k nd organizationId appInstanceId =
     (let metadata = \<lparr>dm_FragmentId = [], dm_Stage = empty_stage, dm_Namespace = [], dm_NalejVariables = [],
            dm_ZtNetworkId = [], dm_OrganizationId = organizationId, dm_OrganizationName = [], dm_DeploymentId = [],
            dm_AppDescriptorId = [], dm_AppDescriptorName = [], dm_AppInstanceId = appInstanceId, dm_AppName = [],
            dm_ClusterPublicHostname = [], dm_DNSHosts = [],
            dm_PublicCredentials = \<lparr>ic_Username = [], ic_Password = [], ic_Email = [], ic_DockerRepository = []\<rparr>\<rparr>
      in and_then (lift_outcome (Namespace_Build nd (NewDeployableNamespace metadata)))
        (\<lambda>(err, n). if err \<noteq> None then ret err else Namespace_Undeploy k n))"

text \<open>The three methods that act on the deployable of a stage.\<close>

definition DeployStage ::
  "'w kube \<Rightarrow> 'w storage_fabric \<Rightarrow> 'w network_decorator \<Rightarrow> deployable_stage \<Rightarrow>
   (go_error option \<times> deployable_stage, 'w st) prog" where
  "DeployStage k sf nd toDeploy = Stage_Deploy k sf nd toDeploy"

definition UndeployStage ::
  "'w kube \<Rightarrow> 'w storage_fabric \<Rightarrow> 'w network_decorator \<Rightarrow> deployable_stage \<Rightarrow> (go_error option, 'w st) prog" where
  "UndeployStage k sf nd toUndeploy = Stage_Undeploy k sf nd toUndeploy"

definition StageRollback ::
  "'w kube \<Rightarrow> 'w storage_fabric \<Rightarrow> 'w network_decorator \<Rightarrow> deployable_stage \<Rightarrow> (go_error option, 'w st) prog" where
  "StageRollback k sf nd deployed = Stage_Undeploy k sf nd deployed"

definition KubernetesExecutor ::
  "config \<Rightarrow> 'w kube \<Rightarrow> 'w storage_fabric \<Rightarrow> 'w network_decorator \<Rightarrow>
   (deployable_namespace, deployable_stage, 'w) executor" where
  "KubernetesExecutor cfg k sf nd = \<lparr>
     ex_GetApplicationNamespace = GetApplicationNamespace k,
     ex_PrepareEnvironmentForDeployment = PrepareEnvironmentForDeployment k nd,
     ex_BuildNativeDeployable = BuildNativeDeployable cfg k nd,
     ex_DeployStage = DeployStage k sf nd,
     ex_Undeploy = Stage_Undeploy k sf nd,
     ex_UndeployPrepared = Namespace_Undeploy k,
     ex_UndeployFragment = UndeployFragment k,
     ex_UndeployNamespace = UndeployNamespace k nd\<rparr>"

end
