(* ===== verification/ExecutorTheorems.thy ===== *)
theory ExecutorTheorems
  imports KubernetesExecutor
begin

text \<open>
  The creation of a namespace: that it returns although it calls itself, and what is on the cluster when it
  reports no error.
\<close>

section \<open>Creating a namespace\<close>

text \<open>What the creation relies on: a namespace that was just created is found under its name.\<close>

definition namespaces_found :: "'w kube \<Rightarrow> bool" where
  "namespaces_found k \<longleftrightarrow> (\<forall>ns w c w'. kube_create k (ONamespace ns) w = (Inr c, w') \<longrightarrow>
     (\<exists>r. kube_get k KNamespace [] (ns_Name ns) w' = Inr (ONamespace r) \<and> ns_Name r \<noteq> []))"

lemma Namespace_Deploy_found:
  assumes "kube_get k KNamespace [] (dm_Namespace (dn_data n)) (snd s) = Inr (ONamespace r)" and "ns_Name r \<noteq> []"
  shows "Namespace_Deploy k (Suc fuel) n s = Done ((None, n\<lparr>dn_Namespace := r\<rparr>), s)"
  using assms by simp

lemma Namespace_Deploy_missing:
  assumes "\<nexists>r. kube_get k KNamespace [] (dm_Namespace (dn_data n)) (snd s) = Inr (ONamespace r) \<and> ns_Name r \<noteq> []"
  shows "Namespace_Deploy k (Suc fuel) n s = (case kube_create k (ONamespace (dn_Namespace n)) (snd s) of
            (Inl e, w) \<Rightarrow> Done ((Some e, n), (fst s, w))
          | (Inr c, w) \<Rightarrow>
              bind_outcome (Namespace_Deploy k fuel
                  (n\<lparr>dn_Namespace := (dn_Namespace n)\<lparr>ns_Labels := co_Labels c\<rparr>\<rparr>) (fst s, w))
                (\<lambda>((netErr, n'), s'). Done ((None, n'), s')))"
  using assms by (auto simp: Let_def split: sum.split k8s_object.split)

text \<open>What a deployment that ended with \<open>err\<close>, \<open>n'\<close> and \<open>s'\<close> has done: at most one creation.\<close>

definition namespace_deployed :: "'w kube \<Rightarrow> deployable_namespace \<Rightarrow> 'w st \<Rightarrow> go_error option \<Rightarrow> deployable_namespace \<Rightarrow> 'w st \<Rightarrow> bool" where
  "namespace_deployed k n s err n' s' \<longleftrightarrow> fst s' = fst s \<and>
    (case err of
       None \<Rightarrow> kube_get k KNamespace [] (dm_Namespace (dn_data n)) (snd s') = Inr (ONamespace (dn_Namespace n')) \<and>
         ns_Name (dn_Namespace n') \<noteq> [] \<and>
         (s' = s \<or> (\<exists>c. kube_create k (ONamespace (dn_Namespace n)) (snd s) = (Inr c, snd s')))
     | Some e \<Rightarrow> n' = n \<and> kube_create k (ONamespace (dn_Namespace n)) (snd s) = (Inl e, snd s'))"

lemma Namespace_Deploy_result:
  assumes "namespaces_found k" and "ns_Name (dn_Namespace n) = dm_Namespace (dn_data n)"
  shows "\<exists>err n' s'. (\<forall>fuel. Namespace_Deploy k (Suc (Suc fuel)) n s = Done ((err, n'), s')) \<and>
    namespace_deployed k n s err n' s'"
proof (cases "\<exists>r. kube_get k KNamespace [] (dm_Namespace (dn_data n)) (snd s) = Inr (ONamespace r) \<and> ns_Name r \<noteq> []")
  case True
  then obtain r where r: "kube_get k KNamespace [] (dm_Namespace (dn_data n)) (snd s) = Inr (ONamespace r)"
    "ns_Name r \<noteq> []"
    by blast
  show ?thesis
    by (rule exI [of _ None], rule exI [of _ "n\<lparr>dn_Namespace := r\<rparr>"], rule exI [of _ s])
      (simp add: namespace_deployed_def Namespace_Deploy_found [OF r] r del: Namespace_Deploy.simps)
next
  case False
  obtain res w where create: "kube_create k (ONamespace (dn_Namespace n)) (snd s) = (res, w)"
    by (cases "kube_create k (ONamespace (dn_Namespace n)) (snd s)")
  show ?thesis
  proof (cases res)
    case (Inl e)
    show ?thesis
      by (rule exI [of _ "Some e"], rule exI [of _ n], rule exI [of _ "(fst s, w)"])
        (simp add: namespace_deployed_def Namespace_Deploy_missing [OF False] create Inl del: Namespace_Deploy.simps)
  next
    case (Inr c)
    let ?n = "n\<lparr>dn_Namespace := (dn_Namespace n)\<lparr>ns_Labels := co_Labels c\<rparr>\<rparr>"
    obtain r where "kube_get k KNamespace [] (ns_Name (dn_Namespace n)) w = Inr (ONamespace r)" "ns_Name r \<noteq> []"
      using assms(1) create Inr unfolding namespaces_found_def by blast
    then have r: "kube_get k KNamespace [] (dm_Namespace (dn_data ?n)) (snd (fst s, w)) = Inr (ONamespace r)" "ns_Name r \<noteq> []"
      using assms(2) by simp_all
    show ?thesis
      by (rule exI [of _ None], rule exI [of _ "?n\<lparr>dn_Namespace := r\<rparr>"], rule exI [of _ "(fst s, w)"])
        (use r in \<open>simp add: namespace_deployed_def Namespace_Deploy_missing [OF False] create Inr Namespace_Deploy_found [OF r]
          del: Namespace_Deploy.simps\<close>)
  qed
qed

text \<open>A cluster whose world is the list of its namespaces; it creates each name once.\<close>

definition namespace_kube :: "k8s_namespace list kube" where
  "namespace_kube = \<lparr>
     kube_create = (\<lambda>obj w. (case obj of
        ONamespace ns \<Rightarrow> if ns_Name ns = [] \<or> ns_Name ns \<in> set (map ns_Name w) then (Inl (ApiError ApiAlreadyExists []), w)
          else (Inr \<lparr>co_UID = ''u'', co_Labels = ns_Labels ns\<rparr>, ns # w)
      | _ \<Rightarrow> (Inl (ApiError ApiOther []), w))),
     kube_get = (\<lambda>kind ns n w. (case List.find (\<lambda>x. ns_Name x = n) w of
        Some x \<Rightarrow> Inr (ONamespace x) | None \<Rightarrow> Inl (ApiError ApiNotFound []))),
     kube_update = (\<lambda>obj w. (None, w)), kube_delete = (\<lambda>kind ns n w. (None, w)),
     kube_list_namespaces = (\<lambda>sel w. Inr []), kube_list_services = (\<lambda>ns sel w. Inr []),
     kube_delete_collection = (\<lambda>kind ns sel w. (None, w)), kube_num_nodes = (\<lambda>w. 1)\<rparr>"

lemma namespace_kube_found: "namespaces_found namespace_kube"
  by (simp add: namespaces_found_def namespace_kube_def)

end
