(* ===== verification/KubeClient.thy ===== *)
theory KubeClient
  imports Common
begin

text \<open>
  The creation of Kubernetes clients, \<^verbatim>\<open>pkg/kubernetes/kubernetes_utils.go\<close>. The state is the list of the
  command line flags defined so far: \<^verbatim>\<open>flag.String\<close> panics when a name is defined again. Environment,
  parsed flags and client-go are parameters.
\<close>

record ('x, 'kc) host =
  ho_getenv :: "string \<Rightarrow> string"
  ho_parsed :: "string \<Rightarrow> string \<Rightarrow> string"
  ho_InClusterConfig :: "go_error + 'x"
  ho_BuildConfigFromFlags :: "string \<Rightarrow> go_error + 'x"
  ho_NewForConfig :: "'x \<Rightarrow> go_error + 'kc option"

type_synonym flags = "string list"

text \<open>\<open>ho_parsed name default\<close> is the value of a flag after \<^verbatim>\<open>flag.Parse\<close>.\<close>

definition flag_String :: "('x, 'kc) host \<Rightarrow> string \<Rightarrow> string \<Rightarrow> (string, flags) prog" where
  "flag_String h name dflt defined =
     (if name \<in> set defined then Panic (''flag redefined: '' @ name)
      else Done (ho_parsed h name dflt, name # defined))"

definition homeDir :: "('x, 'kc) host \<Rightarrow> string" where
  "homeDir h = (if ho_getenv h ''HOME'' \<noteq> [] then ho_getenv h ''HOME'' else ho_getenv h ''USERPROFILE'')"

definition KubeConfigPath :: "('x, 'kc) host \<Rightarrow> (string, flags) prog" where
  "KubeConfigPath h =
     (if homeDir h \<noteq> [] then flag_String h ''kubeconfig'' (path_join [homeDir h, ''.kube'', ''config''])
      else flag_String h ''kubeconfig'' [])"

text \<open>The log level \<^verbatim>\<open>Panic\<close> panics, so the returns that follow in the code are not reached.\<close>

definition getInternalKubernetesClient :: "('x, 'kc) host \<Rightarrow> (go_error + 'kc option, flags) prog" where
  "getInternalKubernetesClient h =
     (case ho_InClusterConfig h of
        Inl err \<Rightarrow> panic ''impossible to get local configuration for internal k8s Client''
      | Inr cfg \<Rightarrow> (case ho_NewForConfig h cfg of
          Inl err \<Rightarrow> panic ''impossible to instantiate k8s Client''
        | Inr clientset \<Rightarrow> ret (Inr clientset)))"

definition getExternalKubernetesClient :: "('x, 'kc) host \<Rightarrow> (go_error + 'kc option, flags) prog" where
  "getExternalKubernetesClient h =
     and_then (KubeConfigPath h) (\<lambda>kubeconfig.
       case ho_BuildConfigFromFlags h kubeconfig of
         Inl err \<Rightarrow> panic ''error building configuration from kubeconfig''
       | Inr cfg \<Rightarrow> (case ho_NewForConfig h cfg of
           Inl err \<Rightarrow> panic ''error using configuration to build k8s clientset''
         | Inr clientset \<Rightarrow> ret (Inr clientset)))"

definition GetKubernetesClient :: "('x, 'kc) host \<Rightarrow> bool \<Rightarrow> (go_error + 'kc, flags) prog" where
  "GetKubernetesClient h internal =
     and_then (if internal then getInternalKubernetesClient h else getExternalKubernetesClient h) (\<lambda>r. ret (case r of
       Inl err \<Rightarrow> Inl (DError Generic ''impossible to create kubernetes Client'')
     | Inr None \<Rightarrow> Inl (DError Internal ''kubernetes Client set was nil'')
     | Inr (Some c) \<Rightarrow> Inr c))"

text \<open>The client of \<^verbatim>\<open>NewKubernetesExecutor\<close>, in \<^verbatim>\<open>kubernetes_executor.go\<close>.\<close>

definition NewKubernetesExecutor :: "('x, 'kc) host \<Rightarrow> bool \<Rightarrow> (go_error + 'kc, flags) prog" where
  "NewKubernetesExecutor h internal =
     and_then (if internal then getInternalKubernetesClient h else getExternalKubernetesClient h) (\<lambda>r. ret (case r of
       Inl err \<Rightarrow> Inl err
     | Inr None \<Rightarrow> Inl (GoError ''kubernetes clientset was nil'')
     | Inr (Some c) \<Rightarrow> Inr c))"

end
