(* ===== verification/Login.thy ===== *)
theory Login
  imports Common
begin

text \<open>
  The login to the cluster API, \<^verbatim>\<open>pkg/login-helper\<close>: the connection, the credentials and their files,
  the login with its retries, and the calls made with the credentials. The state is the login helper
  together with an unknown world; the network, the files and the gRPC client are parameters.
  The helper \<open>call_with_relogin\<close> is the sequence that the packages \<^verbatim>\<open>proxy\<close>, \<^verbatim>\<open>network\<close> and \<^verbatim>\<open>monitor\<close>
  write out for each of their calls; \<^verbatim>\<open>AuthenticatedGrpcCall\<close> is the version of this package.
\<close>

section \<open>Connections\<close>

record connection =
  cn_Hostname :: string
  cn_Port :: int
  cn_UseTLS :: bool
  cn_CACertPath :: string
  cn_ClientCertPath :: string
  cn_SkipCAValidation :: bool

definition NewConnection :: "string \<Rightarrow> int \<Rightarrow> bool \<Rightarrow> string \<Rightarrow> string \<Rightarrow> bool \<Rightarrow> connection" where
  "NewConnection hostname port useTLS caCertPath clientCertPath skipCAValidation =
     \<lparr>cn_Hostname = hostname, cn_Port = port, cn_UseTLS = useTLS, cn_CACertPath = caCertPath,
      cn_ClientCertPath = clientCertPath, cn_SkipCAValidation = skipCAValidation\<rparr>"

text \<open>The fields of \<^verbatim>\<open>tls.Config\<close> that the code sets.\<close>

record 'k tls_config =
  tls_ServerName :: string
  tls_RootCAs :: "string option"
  tls_Certificates :: "'k list"
  tls_InsecureSkipVerify :: bool

record ('k, 'c, 'v) dial_tools =
  dt_ReadFile :: "string \<Rightarrow> (go_error + string, 'v) prog"
  dt_AppendCertsFromPEM :: "string \<Rightarrow> bool"
  dt_LoadX509KeyPair :: "string \<Rightarrow> string \<Rightarrow> (go_error + 'k, 'v) prog"
  dt_Dial :: "string \<Rightarrow> 'k tls_config option \<Rightarrow> (go_error + 'c, 'v) prog"

definition target_address :: "string \<Rightarrow> int \<Rightarrow> string" where
  "target_address hostname port = hostname @ '':'' @ show_int port"

definition GetInsecureConnection ::
  "('k, 'c, 'v) dial_tools \<Rightarrow> connection \<Rightarrow> (go_error + 'c, 'v) prog" where
  "GetInsecureConnection t c =
     and_then (dt_Dial t (target_address (cn_Hostname c) (cn_Port c)) None) (\<lambda>r. ret (case r of
       Inl err \<Rightarrow> Inl (DError Generic ''cannot create connection with the public api'')
     | Inr conn \<Rightarrow> Inr conn))"

definition load_ca ::
  "('k, 'c, 'v) dial_tools \<Rightarrow> string \<Rightarrow> 'k tls_config \<Rightarrow> (go_error + 'k tls_config, 'v) prog" where
  "load_ca t path cfg =
     (if path = [] then ret (Inr cfg)
      else and_then (dt_ReadFile t path) (\<lambda>r. case r of
        Inl err \<Rightarrow> ret (Inl (DError Internal ''Error loading CA certificate''))
      | Inr caCert \<Rightarrow>
          if dt_AppendCertsFromPEM t caCert then ret (Inr (cfg\<lparr>tls_RootCAs := Some caCert\<rparr>))
          else ret (Inl (DError Internal ''cannot add CA certificate to the pool''))))"

definition load_client_cert ::
  "('k, 'c, 'v) dial_tools \<Rightarrow> string \<Rightarrow> 'k tls_config \<Rightarrow> (go_error + 'k tls_config, 'v) prog" where
  "load_client_cert t path cfg =
     (if path = [] then ret (Inr cfg)
      else and_then (dt_LoadX509KeyPair t (path @ ''/tls.crt'') (path @ ''/tls.key'')) (\<lambda>r. case r of
        Inl err \<Rightarrow> ret (Inl (DError Internal ''Error loading client certificate''))
      | Inr clientCert \<Rightarrow> ret (Inr (cfg\<lparr>tls_Certificates := [clientCert]\<rparr>))))"

definition GetSecureConnection ::
  "('k, 'c, 'v) dial_tools \<Rightarrow> connection \<Rightarrow> (go_error + 'c, 'v) prog" where
  "GetSecureConnection t c =
     and_then (load_ca t (cn_CACertPath c)
         \<lparr>tls_ServerName = cn_Hostname c, tls_RootCAs = None, tls_Certificates = [], tls_InsecureSkipVerify = False\<rparr>)
       (\<lambda>r1. case r1 of Inl err \<Rightarrow> ret (Inl err) | Inr cfg1 \<Rightarrow>
     and_then (load_client_cert t (cn_ClientCertPath c) cfg1)
       (\<lambda>r2. case r2 of Inl err \<Rightarrow> ret (Inl err) | Inr cfg2 \<Rightarrow>
     (let cfg3 = (if cn_SkipCAValidation c then cfg2\<lparr>tls_InsecureSkipVerify := True\<rparr> else cfg2)
      in and_then (dt_Dial t (target_address (cn_Hostname c) (cn_Port c)) (Some cfg3)) (\<lambda>r3. ret (case r3 of
           Inl err \<Rightarrow> Inl (DError Generic ''cannot create connection with the signup service'')
         | Inr conn \<Rightarrow> Inr conn)))))"

definition GetConnection ::
  "('k, 'c, 'v) dial_tools \<Rightarrow> connection \<Rightarrow> (go_error + 'c, 'v) prog" where
  "GetConnection t c = (if cn_UseTLS c then GetSecureConnection t c else GetInsecureConnection t c)"

section \<open>Credentials\<close>

definition DefaultTimeout :: nat where "DefaultTimeout = 60"
definition DefaultPath :: string where "DefaultPath = ''/tmp/''"
definition TokenFileName :: string where "TokenFileName = ''token''"
definition RefreshTokenFileName :: string where "RefreshTokenFileName = ''refresh_token''"
definition AuthHeader :: string where "AuthHeader = ''Authorization''"

record credentials =
  crd_BasePath :: string
  crd_Token :: string
  crd_RefreshToken :: string

definition NewCredentials :: "string \<Rightarrow> string \<Rightarrow> string \<Rightarrow> credentials" where
  "NewCredentials basePath token refreshToken =
     \<lparr>crd_BasePath = basePath, crd_Token = token, crd_RefreshToken = refreshToken\<rparr>"

text \<open>
  The files: \<open>ft_HomeDir\<close> is \<open>None\<close> when the current user is unknown, \<open>ft_Getwd\<close> is what
  \<^verbatim>\<open>filepath.Abs("./")\<close> returns, the empty string with an error.
\<close>

record 'v file_tools =
  ft_HomeDir :: "'v \<Rightarrow> string option"
  ft_Getwd :: "'v \<Rightarrow> string"
  ft_MkdirAll :: "string \<Rightarrow> 'v \<Rightarrow> 'v"
  ft_WriteFile :: "string \<Rightarrow> string \<Rightarrow> (go_error option, 'v) prog"

definition resolvePath :: "'v file_tools \<Rightarrow> string \<Rightarrow> (string, 'v) prog" where
  "resolvePath t path = with_state (\<lambda>v.
     if has_prefix path ''~'' then
       (case ft_HomeDir t v of None \<Rightarrow> panic ''nil pointer dereference'' | Some home \<Rightarrow> ret (home @ drop 1 path))
     else if has_prefix path ''.'' then ret (ft_Getwd t v @ drop 1 path)
     else ret path)"

definition Credentials_Store :: "'v file_tools \<Rightarrow> credentials \<Rightarrow> (go_error option, 'v) prog" where
  "Credentials_Store t c =
     and_then (resolvePath t (crd_BasePath c)) (\<lambda>rPath.
     and_then (\<lambda>v. Done ((), ft_MkdirAll t rPath v)) (\<lambda>_.
     and_then (resolvePath t (crd_BasePath c)) (\<lambda>p1.
     and_then (resolvePath t (crd_BasePath c)) (\<lambda>p2.
     and_then (ft_WriteFile t (path_join [p1, TokenFileName]) (crd_Token c)) (\<lambda>err.
       if err \<noteq> None then ret (Some (DError Generic ''cannot write token file''))
       else and_then (ft_WriteFile t (path_join [p2, RefreshTokenFileName]) (crd_RefreshToken c)) (\<lambda>err2.
         if err2 \<noteq> None then ret (Some (DError Generic ''cannot write refresh token file''))
         else ret None))))))"

text \<open>A context: the outgoing metadata, whose keys gRPC writes in lower case, and the time limit in seconds.\<close>

record rpc_context =
  cx_metadata :: "(string, string) gomap"
  cx_timeout :: nat

definition Credentials_GetContext :: "credentials \<Rightarrow> nat list \<Rightarrow> rpc_context" where
  "Credentials_GetContext c timeout =
     (let md = gm_put (to_lower AuthHeader) (crd_Token c) []
      in if timeout = [] then \<lparr>cx_metadata = md, cx_timeout = DefaultTimeout\<rparr>
         else \<lparr>cx_metadata = md, cx_timeout = hd timeout\<rparr>)"

section \<open>Login\<close>

definition MaxAuthRetries :: nat where "MaxAuthRetries = 10"

record login_helper =
  lh_Connection :: connection
  lh_useTLS :: bool
  lh_email :: string
  lh_password :: string
  lh_Credentials :: "credentials option"

definition NewLogin ::
  "string \<Rightarrow> int \<Rightarrow> bool \<Rightarrow> string \<Rightarrow> string \<Rightarrow> string \<Rightarrow> string \<Rightarrow> bool \<Rightarrow> login_helper" where
  "NewLogin hostname port useTLS email password caCertPath clientCertPath skipCAValidation =
     \<lparr>lh_Connection = NewConnection hostname port useTLS caCertPath clientCertPath skipCAValidation,
      lh_useTLS = False, lh_email = email, lh_password = password, lh_Credentials = None\<rparr>"

type_synonym 'v session = "login_helper \<times> 'v"

record ('k, 'c, 'v) login_tools =
  lt_dial :: "('k, 'c, 'v) dial_tools"
  lt_files :: "'v file_tools"
  lt_LoginWithBasicCredentials :: "'c \<Rightarrow> string \<Rightarrow> string \<Rightarrow> (go_error + string \<times> string, 'v) prog"
  lt_Close :: "'c \<Rightarrow> 'v \<Rightarrow> 'v"
  lt_ToDerror :: "go_error \<Rightarrow> go_error"

definition outside :: "('a, 'v) prog \<Rightarrow> ('a, 'h \<times> 'v) prog" where
  "outside m s = bind_outcome (m (snd s)) (\<lambda>(x, v). Done (x, (fst s, v)))"

definition set_credentials :: "credentials \<Rightarrow> (unit, 'v session) prog" where
  "set_credentials c s = Done ((), ((fst s)\<lparr>lh_Credentials := Some c\<rparr>, snd s))"

definition login_request ::
  "('k, 'c, 'v) login_tools \<Rightarrow> 'c \<Rightarrow> (go_error option, 'v session) prog" where
  "login_request t c = with_state (\<lambda>s.
     and_then (outside (lt_LoginWithBasicCredentials t c (lh_email (fst s)) (lh_password (fst s)))) (\<lambda>r. case r of
       Inl lErr \<Rightarrow> ret (Some (lt_ToDerror t lErr))
     | Inr (token, refreshToken) \<Rightarrow>
         and_then (set_credentials (NewCredentials DefaultPath token refreshToken)) (\<lambda>_.
         outside (Credentials_Store (lt_files t) (NewCredentials DefaultPath token refreshToken)))))"

definition Login :: "('k, 'c, 'v) login_tools \<Rightarrow> (go_error option, 'v session) prog" where
  "Login t = with_state (\<lambda>s.
     and_then (outside (GetConnection (lt_dial t) (lh_Connection (fst s)))) (\<lambda>r. case r of
       Inl err \<Rightarrow> ret (Some err)
     | Inr c \<Rightarrow> and_then (login_request t c) (\<lambda>err.
         and_then (outside (\<lambda>v. Done ((), lt_Close t c v))) (\<lambda>_. ret err))))"

text \<open>\<open>Credentials\<close> is \<^verbatim>\<open>nil\<close> until the first login.\<close>

definition LoginHelper_GetContext :: "(rpc_context, 'v session) prog" where
  "LoginHelper_GetContext = with_state (\<lambda>s.
     case lh_Credentials (fst s) of
       None \<Rightarrow> panic ''nil pointer dereference''
     | Some c \<Rightarrow> ret (Credentials_GetContext c []))"

function rerun_loop :: "('k, 'c, 'v) login_tools \<Rightarrow> nat \<Rightarrow> (bool, 'v session) prog" where
  "rerun_loop t retries =
     (if retries < MaxAuthRetries then
        and_then (Login t) (\<lambda>loginError.
          if loginError \<noteq> None then rerun_loop t (retries + 1) else ret True)
      else ret False)"
  by pat_completeness auto

termination
  by (relation "measure (\<lambda>(t, retries). MaxAuthRetries - retries)") simp_all

declare rerun_loop.simps [simp del]

definition RerunAuthentication :: "('k, 'c, 'v) login_tools \<Rightarrow> (go_error option, 'v session) prog" where
  "RerunAuthentication t = and_then (rerun_loop t 0) (\<lambda>authenticated.
     if authenticated then ret None
     else ret (Some (DError UnauthenticatedError ''authenticated, failed after reaching max retries'')))"

section \<open>Calls with credentials\<close>

definition AuthenticatedGrpcCall ::
  "('k, 'c, 'v) login_tools \<Rightarrow> (rpc_context \<Rightarrow> (go_error + 'a, 'v) prog) \<Rightarrow> (go_error + 'a, 'v session) prog" where
  "AuthenticatedGrpcCall t call =
     and_then LoginHelper_GetContext (\<lambda>ctx.
     and_then (outside (call ctx)) (\<lambda>answer. case answer of
       Inr a \<Rightarrow> ret (Inr a)
     | Inl err \<Rightarrow>
         if is_unauthenticated err then
           and_then (RerunAuthentication t) (\<lambda>authError. case authError of
             Some e \<Rightarrow> ret (Inl e)
           | None \<Rightarrow> and_then LoginHelper_GetContext (\<lambda>ctx2. outside (call ctx2)))
         else ret (Inl err)))"

text \<open>
  The sequence of the other packages: the result of the second login is only logged and the call is
  made again in any case.
\<close>

definition call_with_relogin ::
  "('k, 'c, 'v) login_tools \<Rightarrow> (rpc_context \<Rightarrow> (go_error + 'a, 'v) prog) \<Rightarrow> (go_error + 'a, 'v session) prog" where
  "call_with_relogin t call =
     and_then LoginHelper_GetContext (\<lambda>ctx.
     and_then (outside (call ctx)) (\<lambda>answer. case answer of
       Inr a \<Rightarrow> ret (Inr a)
     | Inl err \<Rightarrow>
         if is_unauthenticated err then
           and_then (RerunAuthentication t) (\<lambda>errLogin.
           and_then LoginHelper_GetContext (\<lambda>ctx2. outside (call ctx2)))
         else ret (Inl err)))"

end
