(* ===== verification/MonitorInvariant.thy ===== *)
theory MonitorInvariant
  imports MonitoredInstances
begin

text \<open>
  The invariant of the store of monitored fragments and its preservation by every operation.
  Every entry is filed under its own identifier (fragment, service instance, resource uid),
  and a service counts as pending exactly its resources that are not running. The methods are
  collected in a step function, and the invariant holds in every reachable store.
\<close>

section \<open>The invariant\<close>

definition pending_weight :: "monitored_platform_resource \<Rightarrow> int" where
  "pending_weight r = (if mpr_Status r = NALEJ_SERVICE_RUNNING then 0 else 1)"

definition not_running :: "monitored_service_entry \<Rightarrow> int" where
  "not_running s = sum_list (map (pending_weight \<circ> snd) (mse_Resources s))"

definition service_inv :: "string \<Rightarrow> monitored_service_entry \<Rightarrow> bool" where
  "service_inv sid s \<longleftrightarrow> mse_ServiceInstanceID s = sid \<and>
     gm_all (\<lambda>uid r. mpr_UID r = uid) (mse_Resources s) \<and>
     mse_NumPendingChecks s = not_running s"

definition entry_inv :: "string \<Rightarrow> monitored_app_entry \<Rightarrow> bool" where
  "entry_inv fid e \<longleftrightarrow> mae_FragmentId e = fid \<and> gm_all service_inv (mae_Services e)"

definition monitored_inv :: "monitored \<Rightarrow> bool" where
  "monitored_inv p \<longleftrightarrow> gm_all entry_inv p"

lemma not_running_cong:
  "mse_Resources s = mse_Resources t \<Longrightarrow> not_running s = not_running t"
  by (simp add: not_running_def)

lemma not_running_nonneg: "0 \<le> not_running s"
  by (auto simp: not_running_def pending_weight_def intro!: sum_list_nonneg split: if_splits)

lemma service_inv_status:
  "service_inv sid (s\<lparr>mse_Status := st\<rparr>) = service_inv sid s"
  "service_inv sid (s\<lparr>mse_NewStatus := b\<rparr>) = service_inv sid s"
  "service_inv sid (s\<lparr>mse_Info := i\<rparr>) = service_inv sid s"
  "service_inv sid (s\<lparr>mse_Endpoints := eps\<rparr>) = service_inv sid s"
  by (auto simp: service_inv_def not_running_def)

lemma entry_inv_status [simp]:
  "entry_inv fid (e\<lparr>mae_Status := st\<rparr>) = entry_inv fid e"
  "entry_inv fid (e\<lparr>mae_NewStatus := b\<rparr>) = entry_inv fid e"
  "entry_inv fid (e\<lparr>mae_Info := i\<rparr>) = entry_inv fid e"
  "entry_inv fid (e\<lparr>mae_NumPendingChecks := n\<rparr>) = entry_inv fid e"
  "entry_inv fid (e\<lparr>mae_TotalServices := n\<rparr>) = entry_inv fid e"
  by (auto simp: entry_inv_def)

lemma entry_inv_services:
  "entry_inv fid e \<Longrightarrow> gm_all service_inv ss \<Longrightarrow> entry_inv fid (e\<lparr>mae_Services := ss\<rparr>)"
  by (simp add: entry_inv_def)

section \<open>Preservation, service by service\<close>

lemma service_AddPendingResource_inv:
  assumes "service_inv sid s" and "mpr_Status r \<noteq> NALEJ_SERVICE_RUNNING"
  shows "service_inv sid (service_AddPendingResource r s)"
proof (cases "gm_get (mse_Resources s) (mpr_UID r)")
  case None
  have "not_running (service_AddPendingResource r s) = not_running s + 1"
    using None assms(2)
    by (simp add: service_AddPendingResource_def not_running_def sum_put_fresh pending_weight_def)
  then show ?thesis
    using assms(1) None
    by (auto simp: service_inv_def service_AddPendingResource_def intro: gm_all_put)
next
  case (Some a)
  then show ?thesis using assms(1) by (simp add: service_AddPendingResource_def)
qed

lemma service_RemovePendingResource_resources:
  "mse_Resources (service_RemovePendingResource uid s) =
    gm_adjust uid (\<lambda>res. res\<lparr>mpr_Pending := False\<rparr>) (mse_Resources s)"
  by (auto simp: service_RemovePendingResource_def adjust_absent split: option.splits)

text \<open>
  The counter moves with the status of the resource that changes: from running to anything
  else adds one, to running takes one away, and any other change leaves it.
\<close>

lemma service_resource_change_inv:
  assumes inv: "service_inv sid s"
    and res: "gm_get (mse_Resources s) uid = Some resource"
    and change: "mpr_Status resource \<noteq> status"
  shows "service_inv sid (service_resource_change uid resource status info eps s)"
proof -
  have uid: "mpr_UID resource = uid"
    using inv res by (auto simp: service_inv_def dest: gm_all_get)
  let ?f = "\<lambda>r. r\<lparr>mpr_Status := status, mpr_Info := info\<rparr>"
  let ?g = "\<lambda>r :: monitored_platform_resource. r\<lparr>mpr_Pending := False\<rparr>"
  let ?m = "gm_adjust uid ?f (mse_Resources s)"
  have gm: "gm_get ?m uid = Some (?f resource)"
    using res by (simp add: gomap_simps)
  have sum1: "sum_list (map (pending_weight \<circ> snd) ?m) =
      not_running s - pending_weight resource + pending_weight (?f resource)"
    unfolding not_running_def by (rule sum_adjust [OF res])
  have sum2: "sum_list (map (pending_weight \<circ> snd) (gm_adjust uid ?g ?m)) =
      sum_list (map (pending_weight \<circ> snd) ?m)"
    using sum_adjust [OF gm, of pending_weight ?g] by (simp add: pending_weight_def)
  have keys1: "gm_all (\<lambda>u r. mpr_UID r = u) ?m"
    using inv by (auto simp: service_inv_def intro!: gm_all_adjust)
  have keys2: "gm_all (\<lambda>u r. mpr_UID r = u) (gm_adjust uid ?g ?m)"
    using keys1 by (auto intro!: gm_all_adjust)
  show ?thesis
    using inv sum1 sum2 keys1 keys2 gm uid change
    by (auto simp: service_inv_def service_resource_change_def service_RemovePendingResource_def
        not_running_def pending_weight_def Let_def)
qed

lemma service_refresh_status_inv: "service_inv sid (service_refresh_status s) = service_inv sid s"
  by (auto simp: service_refresh_status_def Let_def service_inv_status split: prod.splits)

section \<open>Preservation, entry by entry\<close>

lemma append_service_inv:
  assumes "entry_inv fid m" and "service_inv (mse_ServiceInstanceID serv) serv"
  shows "entry_inv fid (append_service serv m)"
  using assms by (auto simp: append_service_def entry_inv_def intro: gm_all_put split: option.splits)

lemma AppendServices_inv:
  assumes "entry_inv fid m" and "gm_all service_inv (mae_Services new)"
  shows "entry_inv fid (AppendServices new m)"
proof -
  have ok: "\<forall>serv \<in> set (gm_values (mae_Services new)). service_inv (mse_ServiceInstanceID serv) serv"
    using assms(2) by (auto simp: service_inv_def dest: gm_all_mem)
  have "entry_inv fid (fold append_service ss m)"
    if "\<forall>serv \<in> set ss. service_inv (mse_ServiceInstanceID serv) serv" for ss
    using that assms(1) by (induction ss arbitrary: m) (auto intro: append_service_inv)
  then show ?thesis
    using ok by (simp add: AppendServices_def)
qed

lemma entry_set_status_inv:
  assumes "entry_inv fid e" shows "entry_inv fid (entry_set_status st err e)"
  using assms
  by (auto simp: entry_set_status_def Let_def entry_inv_def service_inv_status
      intro!: gm_all_map_ran)

lemma app_set_status_inv:
  assumes "entry_inv fid e" shows "entry_inv fid (app_set_status app st err e)"
  using assms
  by (auto simp: app_set_status_def Let_def entry_inv_def service_set_status_def service_inv_status
      intro!: gm_all_map_ran)

lemma app_refresh_status_inv: "entry_inv fid (app_refresh_status e) = entry_inv fid e"
  by (auto simp: app_refresh_status_def Let_def split: prod.splits)

section \<open>Preservation by the operations of the store\<close>

lemma monitored_inv_get: "monitored_inv p \<Longrightarrow> gm_get p fid = Some e \<Longrightarrow> entry_inv fid e"
  by (auto simp: monitored_inv_def dest: gm_all_get)

lemma entry_inv_get: "entry_inv fid e \<Longrightarrow> gm_get (mae_Services e) sid = Some s \<Longrightarrow> service_inv sid s"
  by (auto simp: entry_inv_def dest: gm_all_get)

lemma monitored_inv_wf: "monitored_inv p \<Longrightarrow> gm_wf p"
  by (auto simp: monitored_inv_def dest: gm_all_wf)

lemma monitored_inv_adjust:
  assumes "monitored_inv p"
    and "\<And>e. gm_get p fid = Some e \<Longrightarrow> entry_inv fid e \<Longrightarrow> entry_inv fid (f e)"
  shows "monitored_inv (gm_adjust fid f p)"
  using assms by (auto simp: monitored_inv_def intro!: gm_all_adjust)

lemma AddEntry_inv:
  assumes "monitored_inv p" and "entry_inv (mae_FragmentId e) e"
  shows "monitored_inv (AddEntry e p)"
proof (cases "gm_get p (mae_FragmentId e)")
  case None
  then show ?thesis
    using assms by (auto simp: AddEntry_def monitored_inv_def intro: gm_all_put)
next
  case (Some c)
  have "gm_all service_inv (mae_Services e)"
    using assms(2) by (simp add: entry_inv_def)
  then show ?thesis
    using Some assms(1) by (auto simp: AddEntry_def intro!: monitored_inv_adjust AppendServices_inv)
qed

lemma SetEntryStatus_inv: "monitored_inv p \<Longrightarrow> monitored_inv (SetEntryStatus fid st err p)"
  by (auto simp: SetEntryStatus_def intro!: monitored_inv_adjust entry_set_status_inv split: option.splits)

lemma SetAppStatus_inv: "monitored_inv p \<Longrightarrow> monitored_inv (SetAppStatus app st err p)"
  by (auto simp: SetAppStatus_def monitored_inv_def intro!: gm_all_map_ran app_set_status_inv)

lemma AddPendingResource_inv:
  assumes "monitored_inv p" and "mpr_Status r \<noteq> NALEJ_SERVICE_RUNNING"
  shows "monitored_inv (snd (AddPendingResource r p))"
  using assms
  by (auto simp: AddPendingResource_def entry_inv_def
      intro!: monitored_inv_adjust gm_all_adjust service_AddPendingResource_inv split: option.splits)

lemma SetResourceStatus_inv:
  assumes inv: "monitored_inv p"
  shows "monitored_inv (snd (SetResourceStatus fid sid uid st info eps p))"
proof -
  have "entry_inv fid (app_refresh_status (app\<lparr>mae_Services :=
      gm_adjust sid (\<lambda>_. service_refresh_status (service_resource_change uid r st info eps s))
        (mae_Services app)\<rparr>))"
    if "gm_get p fid = Some app" "gm_get (mae_Services app) sid = Some s"
      "gm_get (mse_Resources s) uid = Some r" "mpr_Status r \<noteq> st" for app s r
  proof -
    have e: "entry_inv fid app" using inv that(1) by (rule monitored_inv_get)
    then have "service_inv sid s" using that(2) by (rule entry_inv_get)
    then have "service_inv sid (service_refresh_status (service_resource_change uid r st info eps s))"
      using that(3,4) by (simp add: service_refresh_status_inv service_resource_change_inv)
    then have "entry_inv fid (app\<lparr>mae_Services :=
        gm_adjust sid (\<lambda>_. service_refresh_status (service_resource_change uid r st info eps s))
          (mae_Services app)\<rparr>)"
      using e by (auto simp: entry_inv_def intro!: gm_all_adjust)
    then show ?thesis by (simp only: app_refresh_status_inv)
  qed
  then show ?thesis
    using inv
    by (auto simp: SetResourceStatus_def Let_def intro!: monitored_inv_adjust split: option.splits)
qed

lemma RemoveEntry_inv: "monitored_inv p \<Longrightarrow> monitored_inv (snd (RemoveEntry fid p))"
  by (auto simp: RemoveEntry_def monitored_inv_def intro: gm_all_delete split: option.splits)

lemma snd_RemoveEntry: "snd (RemoveEntry fid p) = gm_delete fid p"
  by (auto simp: RemoveEntry_def map_of_eq_None_iff split: option.splits)

lemma GetPendingNotifications_store:
  "snd (GetPendingNotifications p) =
    fold gm_delete (rev (map mae_FragmentId
      (filter (\<lambda>e. mae_Status e = FRAGMENT_TERMINATING) (gm_values p)))) p"
  by (simp add: GetPendingNotifications_def snd_RemoveEntry Let_def)

lemma GetPendingNotifications_inv:
  assumes "monitored_inv p" shows "monitored_inv (snd (GetPendingNotifications p))"
proof -
  have "monitored_inv (fold gm_delete ks q)" if "monitored_inv q" for ks q
    using that by (induction ks arbitrary: q) (auto simp: monitored_inv_def intro: gm_all_delete)
  with assms show ?thesis by (simp add: GetPendingNotifications_store)
qed

lemma ResetServicesUnnotifiedStatus_inv:
  "monitored_inv p \<Longrightarrow> monitored_inv (ResetServicesUnnotifiedStatus p)"
  by (auto simp: ResetServicesUnnotifiedStatus_def monitored_inv_def entry_inv_def service_inv_status
      intro!: gm_all_map_ran)

lemma UpdateAppStatus_inv: "monitored_inv p \<Longrightarrow> monitored_inv (UpdateAppStatus fid p)"
  by (auto simp: UpdateAppStatus_def Let_def intro!: monitored_inv_adjust split: option.splits)

lemmas operation_inv =
  AddEntry_inv SetEntryStatus_inv SetAppStatus_inv AddPendingResource_inv SetResourceStatus_inv
  RemoveEntry_inv GetPendingNotifications_inv ResetServicesUnnotifiedStatus_inv UpdateAppStatus_inv

section \<open>Reachable stores\<close>

text \<open>
  The calls the rest of the program makes on the store. \<open>RemovePendingResource\<close> is missing
  because no code calls it.
\<close>

datatype monitor_op =
    OpAddEntry monitored_app_entry
  | OpSetEntryStatus string fragment_status "go_error option"
  | OpSetAppStatus string fragment_status "go_error option"
  | OpAddPendingResource monitored_platform_resource
  | OpSetResourceStatus string string string nalej_service_status string "endpoint_instance list"
  | OpGetPendingNotifications
  | OpResetServicesUnnotifiedStatus
  | OpUpdateAppStatus string
  | OpRemoveEntry string

fun monitor_step :: "monitor_op \<Rightarrow> monitored \<Rightarrow> monitored" where
  "monitor_step (OpAddEntry e) p = AddEntry e p"
| "monitor_step (OpSetEntryStatus fid st err) p = SetEntryStatus fid st err p"
| "monitor_step (OpSetAppStatus app st err) p = SetAppStatus app st err p"
| "monitor_step (OpAddPendingResource r) p = snd (AddPendingResource r p)"
| "monitor_step (OpSetResourceStatus fid sid uid st info eps) p =
     snd (SetResourceStatus fid sid uid st info eps p)"
| "monitor_step OpGetPendingNotifications p = snd (GetPendingNotifications p)"
| "monitor_step OpResetServicesUnnotifiedStatus p = ResetServicesUnnotifiedStatus p"
| "monitor_step (OpUpdateAppStatus fid) p = UpdateAppStatus fid p"
| "monitor_step (OpRemoveEntry fid) p = snd (RemoveEntry fid p)"

text \<open>
  What the callers guarantee: entries come from \<open>getMonitoringData\<close>, so they are filed under
  their own identifiers and have no resources yet, and new resources come from
  \<open>NewMonitoredPlatformResource\<close>, so they are not running.
\<close>

fun op_ok :: "monitor_op \<Rightarrow> bool" where
  "op_ok (OpAddEntry e) = entry_inv (mae_FragmentId e) e"
| "op_ok (OpAddPendingResource r) = (mpr_Status r \<noteq> NALEJ_SERVICE_RUNNING)"
| "op_ok _ = True"

inductive monitor_reachable :: "monitored \<Rightarrow> bool" where
  start: "monitor_reachable NewMemoryMonitoredInstances"
| step: "monitor_reachable p \<Longrightarrow> op_ok oper \<Longrightarrow> monitor_reachable (monitor_step oper p)"

lemma monitor_step_inv: "monitored_inv p \<Longrightarrow> op_ok oper \<Longrightarrow> monitored_inv (monitor_step oper p)"
  by (cases oper) (auto intro: operation_inv)

lemma monitor_reachable_inv: "monitor_reachable p \<Longrightarrow> monitored_inv p"
proof (induction rule: monitor_reachable.induct)
  case start
  show ?case by (simp add: NewMemoryMonitoredInstances_def monitored_inv_def gm_all_empty)
next
  case (step p oper)
  then show ?case by (blast intro: monitor_step_inv)
qed

lemma NewMonitoredPlatformResource_ok: "op_ok (OpAddPendingResource
    (NewMonitoredPlatformResource f u a ai g gi s si i))"
  by (simp add: NewMonitoredPlatformResource_def)

end
