(* ===== verification/MonitorProps.thy ===== *)
theory MonitorProps
  imports MonitorInvariant
begin

text \<open>
  What the operations of the monitored store do: the aggregation of resource and service
  statuses and its independence of the order of Go's map loops, the notification round, the
  wait for pending checks, and an abstract view of the store (fragment, service and resource
  statuses as partial functions) that every operation refines.
\<close>

section \<open>Aggregation of statuses\<close>

definition worst_status :: "nalej_service_status set \<Rightarrow> nalej_service_status" where
  "worst_status S = (if NALEJ_SERVICE_ERROR \<in> S then NALEJ_SERVICE_ERROR
     else Min (insert NALEJ_SERVICE_RUNNING S))"

lemma status_finite [simp]: "finite (S :: nalej_service_status set)"
proof -
  have "S \<subseteq> {NALEJ_SERVICE_SCHEDULED, NALEJ_SERVICE_WAITING, NALEJ_SERVICE_DEPLOYING,
      NALEJ_SERVICE_RUNNING, NALEJ_SERVICE_ERROR, NALEJ_SERVICE_TERMINATING}"
    using nalej_service_status.exhaust by blast
  then show ?thesis by (rule finite_subset) simp
qed

lemma Min_insert_min:
  "finite S \<Longrightarrow> Min (insert (min a b) S) = Min (insert a (insert b S))" for a b :: "'a :: linorder"
  by (cases "S = {}") (simp_all add: min.assoc)

lemma scan_resources_worst:
  "fst (scan_resources rs (st, i)) =
    (if NALEJ_SERVICE_ERROR \<in> mpr_Status ` set rs then NALEJ_SERVICE_ERROR
     else Min (insert st (mpr_Status ` set rs)))"
proof (induction rs arbitrary: st)
  case Nil
  show ?case by simp
next
  case (Cons r rs)
  have step: "scan_resources (r # rs) (st, i) = scan_resources rs (min st (mpr_Status r), i)"
    if "mpr_Status r \<noteq> NALEJ_SERVICE_ERROR"
    using that by (cases "mpr_Status r < st") (auto simp: min.absorb2 min.absorb1 not_less)
  show ?case
    using Cons.IH [of "min st (mpr_Status r)"] step
    by (cases "mpr_Status r = NALEJ_SERVICE_ERROR") (auto simp: Min_insert_min)
qed

lemma scan_services_worst:
  "fst (scan_services ss (st, i)) =
    (if NALEJ_SERVICE_ERROR \<in> mse_Status ` set ss then NALEJ_SERVICE_ERROR
     else Min (insert st (mse_Status ` set ss)))"
proof (induction ss arbitrary: st i)
  case Nil
  show ?case by simp
next
  case (Cons s ss)
  have step: "fst (scan_services (s # ss) (st, i)) = fst (scan_services ss (min st (mse_Status s), i'))"
    if "mse_Status s \<noteq> NALEJ_SERVICE_ERROR" for i'
    using that Cons.IH by (cases "mse_Status s < st") (auto simp: min.absorb2 min.absorb1 not_less)
  show ?case
    using Cons.IH [of "min st (mse_Status s)"] step
    by (cases "mse_Status s = NALEJ_SERVICE_ERROR") (auto simp: Min_insert_min)
qed

lemma scan_resources_result:
  "fst (scan_resources rs (NALEJ_SERVICE_RUNNING, i)) = worst_status (mpr_Status ` set rs)"
  by (simp add: scan_resources_worst worst_status_def)

lemma scan_services_result:
  "fst (scan_services ss (NALEJ_SERVICE_RUNNING, i)) = worst_status (mse_Status ` set ss)"
  by (simp add: scan_services_worst worst_status_def)

lemma scan_resources_info:
  "NALEJ_SERVICE_ERROR \<notin> mpr_Status ` set rs \<Longrightarrow> snd (scan_resources rs (st, i)) = i"
  by (induction rs arbitrary: st) auto

lemma worst_status_not_terminating: "worst_status S \<noteq> NALEJ_SERVICE_TERMINATING"
proof
  assume t: "worst_status S = NALEJ_SERVICE_TERMINATING"
  then have "Min (insert NALEJ_SERVICE_RUNNING S) = NALEJ_SERVICE_TERMINATING"
    by (auto simp: worst_status_def split: if_splits)
  moreover have "Min (insert NALEJ_SERVICE_RUNNING S) \<le> NALEJ_SERVICE_RUNNING"
    by (rule Min_le) simp_all
  ultimately show False by (simp add: status_order_defs)
qed

lemma fragment_not_terminating: "ServicesToFragmentStatus (worst_status S) \<noteq> FRAGMENT_TERMINATING"
  using worst_status_not_terminating [of S] by (cases "worst_status S") simp_all

lemma worst_status_running_iff:
  "worst_status S = NALEJ_SERVICE_RUNNING \<longleftrightarrow> S \<subseteq> {NALEJ_SERVICE_RUNNING, NALEJ_SERVICE_TERMINATING}"
proof (cases "NALEJ_SERVICE_ERROR \<in> S")
  case False
  have "worst_status S = NALEJ_SERVICE_RUNNING \<longleftrightarrow> (\<forall>x \<in> S. NALEJ_SERVICE_RUNNING \<le> x)"
    using False by (auto simp: worst_status_def Min_eq_iff)
  also have "\<dots> \<longleftrightarrow> S \<subseteq> {NALEJ_SERVICE_RUNNING, NALEJ_SERVICE_TERMINATING}"
  proof -
    have "NALEJ_SERVICE_RUNNING \<le> x \<longleftrightarrow> x \<in> {NALEJ_SERVICE_RUNNING, NALEJ_SERVICE_TERMINATING}"
      if "x \<in> S" for x
      using that False by (cases x) (auto simp: status_order_defs)
    then show ?thesis by blast
  qed
  finally show ?thesis .
qed (auto simp: worst_status_def)

lemma service_refresh_fields:
  "mse_Status (service_refresh_status s) = worst_status (mpr_Status ` set (gm_values (mse_Resources s)))"
  "mse_Resources (service_refresh_status s) = mse_Resources s"
  "mse_ServiceInstanceID (service_refresh_status s) = mse_ServiceInstanceID s"
  "mse_NewStatus (service_refresh_status s) =
    (mse_NewStatus s \<or> worst_status (mpr_Status ` set (gm_values (mse_Resources s))) \<noteq> mse_Status s)"
  by (simp_all add: service_refresh_status_def Let_def case_prod_beta scan_resources_result del: set_map)

lemma service_refresh_info:
  assumes "NALEJ_SERVICE_ERROR \<notin> mpr_Status ` set (gm_values (mse_Resources s))"
  shows "mse_Info (service_refresh_status s) = mse_Info s"
  using scan_resources_info [OF assms, of NALEJ_SERVICE_RUNNING "mse_Info s"]
  by (auto simp: service_refresh_status_def Let_def split: prod.splits)

lemma app_refresh_fields:
  "mae_Status (app_refresh_status e) =
    ServicesToFragmentStatus (worst_status (mse_Status ` set (gm_values (mae_Services e))))"
  "mae_Services (app_refresh_status e) = mae_Services e"
  "mae_AppInstanceId (app_refresh_status e) = mae_AppInstanceId e"
  "mae_NewStatus (app_refresh_status e) = mae_NewStatus e"
  "mae_FragmentId (app_refresh_status e) = mae_FragmentId e"
  "mae_TotalServices (app_refresh_status e) = mae_TotalServices e"
  "mae_Namespace (app_refresh_status e) = mae_Namespace e"
  by (simp_all add: app_refresh_status_def Let_def case_prod_beta scan_services_result del: set_map)

lemma service_change_fields:
  "mse_Status (service_resource_change uid r st info eps s) = mse_Status s"
  "mse_Info (service_resource_change uid r st info eps s) = mse_Info s"
  "mse_NewStatus (service_resource_change uid r st info eps s) = mse_NewStatus s"
  "mse_ServiceInstanceID (service_resource_change uid r st info eps s) = mse_ServiceInstanceID s"
  "mse_Endpoints (service_resource_change uid r st info eps s) = mse_Endpoints s @ eps"
  by (auto simp: service_resource_change_def service_RemovePendingResource_def Let_def
      split: option.splits)

text \<open>The statuses of a service's resources after the change: one of them is replaced.\<close>

lemma service_change_statuses:
  assumes "gm_get (mse_Resources s) uid = Some r"
  shows "map_option mpr_Status (gm_get (mse_Resources (service_resource_change uid r st info eps s)) u) =
    (if u = uid then Some st else map_option mpr_Status (gm_get (mse_Resources s) u))"
  using assms
  by (auto simp: service_resource_change_def service_RemovePendingResource_def Let_def gomap_simps
      split: option.splits if_splits)

lemma status_image_ran:
  "gm_wf m \<Longrightarrow> f ` set (gm_values m) = ran (map_option f \<circ> gm_get m)"
  by (simp add: set_values_ran del: set_map) (auto simp: ran_def)

text \<open>The cases of a call of \<open>SetResourceStatus\<close>.\<close>

lemma SetResourceStatus_changed:
  assumes "gm_get p fid = Some e" and "gm_get (mae_Services e) sid = Some s"
    and "gm_get (mse_Resources s) uid = Some r" and "mpr_Status r \<noteq> st"
  shows "SetResourceStatus fid sid uid st info eps p =
    (None, gm_adjust fid (\<lambda>_. app_refresh_status (e\<lparr>mae_Services := gm_adjust sid
       (\<lambda>_. service_refresh_status (service_resource_change uid r st info eps s)) (mae_Services e)\<rparr>)) p)"
  using assms by (simp add: SetResourceStatus_def Let_def)

lemma SetResourceStatus_same:
  assumes "gm_get p fid = Some e" and "gm_get (mae_Services e) sid = Some s"
    and "gm_get (mse_Resources s) uid = Some r" and "mpr_Status r = st"
  shows "SetResourceStatus fid sid uid st info eps p = (None, p)"
  using assms by (simp add: SetResourceStatus_def)

section \<open>Notifications\<close>

lemma fold_add_pending:
  assumes "gm_wf (acc @ m)" and "\<forall>(k, s) \<in> set m. mse_ServiceInstanceID s = k"
  shows "fold (add_pending_service b) (gm_values m) acc =
    acc @ filter (\<lambda>(k, s). b \<or> mse_NewStatus s) m"
  using assms
proof (induction m arbitrary: acc)
  case (Cons x m)
  obtain k s where x: "x = (k, s)" by (cases x)
  have k: "mse_ServiceInstanceID s = k" using Cons.prems(2) x by simp
  have fresh: "k \<notin> fst ` set acc" using Cons.prems(1) x by auto
  have put: "gm_put k s acc = acc @ [(k, s)]"
    using fresh by (induction acc) auto
  show ?case
    using Cons.IH [of "acc @ [(k, s)]"] Cons.IH [of acc] Cons.prems x k put
    by (auto simp: add_pending_service_def)
qed simp

lemma pending_services_filter:
  assumes "entry_inv fid e"
  shows "pending_services e = filter (\<lambda>(k, s). mae_NewStatus e \<or> mse_NewStatus s) (mae_Services e)"
proof -
  have "gm_wf ([] @ mae_Services e)" "\<forall>(k, s) \<in> set (mae_Services e). mse_ServiceInstanceID s = k"
    using assms by (auto simp: entry_inv_def gm_all_def service_inv_def)
  from fold_add_pending [OF this] show ?thesis by (simp add: pending_services_def)
qed

lemma get_filter_wf:
  "gm_wf m \<Longrightarrow> gm_get (filter (\<lambda>(k, v). P k v) m) k =
    (case gm_get m k of None \<Rightarrow> None | Some v \<Rightarrow> if P k v then Some v else None)"
proof (induction m)
  case (Cons x m)
  obtain a b where x: "x = (a, b)" by (cases x)
  have "gm_get m a = None" using Cons.prems x by (auto simp: map_of_eq_None_iff)
  then show ?case using Cons x by (auto split: option.splits)
qed simp

lemma terminating_keys:
  assumes "monitored_inv p"
  shows "fid \<in> set (map mae_FragmentId (filter (\<lambda>e. mae_Status e = FRAGMENT_TERMINATING) (gm_values p)))
    \<longleftrightarrow> (\<exists>e. gm_get p fid = Some e \<and> mae_Status e = FRAGMENT_TERMINATING)"
proof -
  have wf: "gm_wf p" using assms by (rule monitored_inv_wf)
  have id: "mae_FragmentId e = k" if "gm_get p k = Some e" for k e
    using monitored_inv_get [OF assms that] by (simp add: entry_inv_def)
  have mem: "set (gm_values p) = {e. \<exists>k. gm_get p k = Some e}"
    using wf by (simp add: set_values_ran ran_def del: set_map)
  have "fid \<in> set (map mae_FragmentId (filter (\<lambda>e. mae_Status e = FRAGMENT_TERMINATING) (gm_values p)))
    \<longleftrightarrow> (\<exists>e \<in> set (gm_values p). mae_Status e = FRAGMENT_TERMINATING \<and> mae_FragmentId e = fid)"
    by (auto simp: image_iff)
  also have "\<dots> \<longleftrightarrow> (\<exists>e. gm_get p fid = Some e \<and> mae_Status e = FRAGMENT_TERMINATING)"
    unfolding mem using id by blast
  finally show ?thesis .
qed

lemma GetPendingNotifications_get:
  assumes "monitored_inv p"
  shows "gm_get (snd (GetPendingNotifications p)) fid =
    (case gm_get p fid of None \<Rightarrow> None
     | Some e \<Rightarrow> if mae_Status e = FRAGMENT_TERMINATING then None else Some e)"
  using terminating_keys [OF assms, of fid]
  by (auto simp: GetPendingNotifications_store gm.del_fold simp del: set_map split: option.splits)

lemma Reset_get:
  "gm_get (ResetServicesUnnotifiedStatus p) fid = map_option (\<lambda>e. e\<lparr>mae_NewStatus := False,
     mae_Services := map_ran (\<lambda>_ x. if mse_NewStatus x then x\<lparr>mse_NewStatus := False\<rparr> else x)
       (mae_Services e)\<rparr>) (gm_get p fid)"
  by (simp add: ResetServicesUnnotifiedStatus_def gomap_simps)

lemma Reset_no_news:
  "\<forall>e \<in> set (gm_values (ResetServicesUnnotifiedStatus p)). \<not> mae_NewStatus e \<and>
    (\<forall>s \<in> set (gm_values (mae_Services e)). \<not> mse_NewStatus s)"
proof -
  have srv: "\<forall>s \<in> set (gm_values (map_ran (\<lambda>_ x. if mse_NewStatus x then x\<lparr>mse_NewStatus := False\<rparr> else x) m)).
      \<not> mse_NewStatus s" for m :: "(string, monitored_service_entry) gomap"
    unfolding values_map_ran_image by auto
  show ?thesis
    unfolding ResetServicesUnnotifiedStatus_def values_map_ran_image
    using srv by (simp del: set_map)
qed

lemma no_news_no_pending:
  assumes "\<not> mae_NewStatus e" and "\<forall>s \<in> set (gm_values (mae_Services e)). \<not> mse_NewStatus s"
  shows "pending_services e = []"
proof -
  have "fold (add_pending_service False) ss [] = []" if "\<forall>s \<in> set ss. \<not> mse_NewStatus s" for ss
    using that by (induction ss) (auto simp: add_pending_service_def)
  then show ?thesis using assms by (simp add: pending_services_def)
qed

lemma Reset_no_pending: "fst (GetPendingNotifications (ResetServicesUnnotifiedStatus p)) = []"
proof -
  have "\<forall>e \<in> set (gm_values (ResetServicesUnnotifiedStatus p)). pending_services e = []"
    using Reset_no_news [of p] no_news_no_pending by blast
  then show ?thesis
    by (simp add: GetPendingNotifications_def Let_def filter_empty_conv del: set_map)
qed

section \<open>Counting pending services\<close>

lemma count_pending_services_eq:
  "count_pending_services e =
    int (length (filter (\<lambda>s. mse_Status s \<noteq> NALEJ_SERVICE_RUNNING) (gm_values (mae_Services e))))"
proof -
  have "foldl (\<lambda>n s. if mse_Status s \<noteq> NALEJ_SERVICE_RUNNING then n + 1 else n) a ss =
      a + int (length (filter (\<lambda>s. mse_Status s \<noteq> NALEJ_SERVICE_RUNNING) ss))" for ss and a :: int
    by (induction ss arbitrary: a) auto
  from this [of 0] show ?thesis by (simp only: count_pending_services_def add_0)
qed

definition all_running :: "monitored_app_entry \<Rightarrow> bool" where
  "all_running e \<longleftrightarrow> (\<forall>s \<in> set (gm_values (mae_Services e)). mse_Status s = NALEJ_SERVICE_RUNNING)"

lemma count_pending_zero: "count_pending_services e = 0 \<longleftrightarrow> all_running e"
  by (auto simp: count_pending_services_eq all_running_def filter_empty_conv)

lemma UpdateAppStatus_get:
  "gm_get (UpdateAppStatus fid p) f = (if f = fid
     then map_option (\<lambda>e. e\<lparr>mae_NumPendingChecks := count_pending_services e\<rparr>) (gm_get p fid)
     else gm_get p f)"
  by (auto simp: UpdateAppStatus_def Let_def gomap_simps split: option.splits)

lemma all_running_pending [simp]: "all_running (e\<lparr>mae_NumPendingChecks := n\<rparr>) = all_running e"
  by (simp add: all_running_def)

text \<open>One tick of the wait loop, in terms of the services of the fragment.\<close>

lemma WaitPendingChecks_tick:
  "WaitPendingChecks fid ((env, Tick) # rest) p =
    (case gm_get (env p) fid of
       None \<Rightarrow> Some (Some (GoError (''not monitored fragment '' @ fid)), env p)
     | Some e \<Rightarrow> if all_running e then Some (None, UpdateAppStatus fid (env p))
         else WaitPendingChecks fid rest (UpdateAppStatus fid (env p)))"
proof (cases "gm_get (env p) fid")
  case None
  then show ?thesis by (simp add: UpdateAppStatus_def)
next
  case (Some e)
  then show ?thesis
    by (simp add: Let_def UpdateAppStatus_get count_pending_zero)
qed

lemma int_card_weights:
  assumes "gm_wf m"
  shows "sum_list (map (pending_weight \<circ> snd) m) =
    int (card {uid. \<exists>r. gm_get m uid = Some r \<and> mpr_Status r \<noteq> NALEJ_SERVICE_RUNNING})"
proof -
  let ?P = "\<lambda>(u, r). mpr_Status r \<noteq> NALEJ_SERVICE_RUNNING"
  have "sum_list (map (pending_weight \<circ> snd) m) = int (length (filter ?P m))"
    by (induction m) (auto simp: pending_weight_def)
  also have "length (filter ?P m) = card (set (map fst (filter ?P m)))"
  proof -
    have "distinct (map fst (filter ?P m))" using assms by (rule distinct_map_filter)
    from distinct_card [OF this] show ?thesis by simp
  qed
  also have "set (map fst (filter ?P m)) =
      {uid. \<exists>r. gm_get m uid = Some r \<and> mpr_Status r \<noteq> NALEJ_SERVICE_RUNNING}"
    using assms by force
  finally show ?thesis .
qed

end
