(* ===== verification/MonitorHelper.thy ===== *)
theory MonitorHelper
  imports Login MonitorProps Config
begin

text \<open>
  The monitor helper, \<^verbatim>\<open>pkg/monitor/monitor_helper.go\<close>, which tells the conductor what changed in the
  monitored store. The state is the store together with the session of the login helper. The
  notifications hold pointers to the services, so what is sent of a service is its value at the time of
  sending; other goroutines may change the store before each entry and before the final reset, by the
  functions \<open>between 0\<close>, \<open>between 1\<close>, and so on.
\<close>

record service_update =
  su_ApplicationId :: string
  su_ApplicationInstanceId :: string
  su_ServiceGroupId :: string
  su_ServiceGroupInstanceId :: string
  su_ServiceId :: string
  su_ServiceName :: string
  su_ServiceInstanceId :: string
  su_OrganizationId :: string
  su_Status :: pb_service_status
  su_ClusterId :: string
  su_Endpoints :: "pb_endpoint_instance list"
  su_Info :: string

record service_update_request =
  sur_OrganizationId :: string
  sur_FragmentId :: string
  sur_ClusterId :: string
  sur_List :: "service_update list"

record fragment_update_request =
  fur_OrganizationId :: string
  fur_DeploymentId :: string
  fur_FragmentId :: string
  fur_Status :: pb_fragment_status
  fur_ClusterId :: string
  fur_AppInstanceId :: string
  fur_Info :: string

record 'v conductor_client =
  cc_UpdateServiceStatus :: "rpc_context \<Rightarrow> service_update_request \<Rightarrow> (go_error + unit, 'v) prog"
  cc_UpdateDeploymentFragmentStatus :: "rpc_context \<Rightarrow> fragment_update_request \<Rightarrow> (go_error + unit, 'v) prog"

section \<open>Sending\<close>

text \<open>Errors are only logged.\<close>

definition sendFragmentStatus ::
  "('k, 'c, 'v) login_tools \<Rightarrow> 'v conductor_client \<Rightarrow> fragment_update_request \<Rightarrow> (unit, 'v session) prog" where
  "sendFragmentStatus t client req =
     and_then (call_with_relogin t (\<lambda>ctx. cc_UpdateDeploymentFragmentStatus client ctx req)) (\<lambda>_. ret ())"

definition sendUpdateService ::
  "('k, 'c, 'v) login_tools \<Rightarrow> 'v conductor_client \<Rightarrow> service_update_request \<Rightarrow> (unit, 'v session) prog" where
  "sendUpdateService t client req =
     and_then (call_with_relogin t (\<lambda>ctx. cc_UpdateServiceStatus client ctx req)) (\<lambda>_. ret ())"

section \<open>One round\<close>

definition service_update_of :: "string \<Rightarrow> monitored_service_entry \<Rightarrow> service_update" where
  "service_update_of clusterId serv = \<lparr>
     su_ApplicationId = mse_AppDescriptorId serv,
     su_ApplicationInstanceId = mse_AppInstanceId serv,
     su_ServiceGroupId = mse_ServiceGroupId serv,
     su_ServiceGroupInstanceId = mse_ServiceGroupInstanceId serv,
     su_ServiceId = mse_ServiceID serv,
     su_ServiceName = mse_ServiceName serv,
     su_ServiceInstanceId = mse_ServiceInstanceID serv,
     su_OrganizationId = mse_OrganizationId serv,
     su_Status = ServiceStatusToGRPC (mse_Status serv),
     su_ClusterId = clusterId,
     su_Endpoints = map endpoint_ToGRPC (mse_Endpoints serv),
     su_Info = mse_Info serv\<rparr>"

text \<open>
  The services behind the pointers of a notification. The entry of a terminating fragment has left the
  store, so nobody changes its services any more; another entry stays in the store, from which only
  the helper itself removes.
\<close>

definition live_services :: "monitored \<Rightarrow> monitored_app_entry \<Rightarrow> monitored_service_entry list" where
  "live_services p entry =
     (if mae_Status entry = FRAGMENT_TERMINATING then gm_values (mae_Services entry)
      else map (\<lambda>(sid, snapshot).
        case gm_get p (mae_FragmentId entry) of
          None \<Rightarrow> snapshot
        | Some app \<Rightarrow> (case gm_get (mae_Services app) sid of None \<Rightarrow> snapshot | Some serv \<Rightarrow> serv))
        (mae_Services entry))"

definition service_request :: "string \<Rightarrow> monitored \<Rightarrow> monitored_app_entry \<Rightarrow> service_update_request" where
  "service_request clusterId p entry = \<lparr>
     sur_OrganizationId = mae_OrganizationId entry,
     sur_FragmentId = mae_FragmentId entry,
     sur_ClusterId = clusterId,
     sur_List = map (service_update_of clusterId) (live_services p entry)\<rparr>"

definition fragment_request :: "string \<Rightarrow> monitored_app_entry \<Rightarrow> fragment_update_request" where
  "fragment_request clusterId entry = \<lparr>
     fur_OrganizationId = mae_OrganizationId entry,
     fur_DeploymentId = mae_DeploymentId entry,
     fur_FragmentId = mae_FragmentId entry,
     fur_Status = FragmentStatusToGRPC (mae_Status entry),
     fur_ClusterId = clusterId,
     fur_AppInstanceId = mae_AppInstanceId entry,
     fur_Info = mae_Info entry\<rparr>"

definition on_monitored :: "(monitored \<Rightarrow> monitored) \<Rightarrow> (unit, monitored \<times> 'v) prog" where
  "on_monitored f s = Done ((), (f (fst s), snd s))"

definition pending_notifications :: "(monitored_app_entry list, monitored \<times> 'v) prog" where
  "pending_notifications s = (case GetPendingNotifications (fst s) of (list, p) \<Rightarrow> Done (list, (p, snd s)))"

definition notify_entry ::
  "('k, 'c, 'v) login_tools \<Rightarrow> 'v conductor_client \<Rightarrow> string \<Rightarrow> monitored_app_entry \<Rightarrow>
   (unit, monitored \<times> 'v session) prog" where
  "notify_entry t client clusterId entry = with_state (\<lambda>s.
     and_then (outside (sendUpdateService t client (service_request clusterId (fst s) entry))) (\<lambda>_.
     outside (sendFragmentStatus t client (fragment_request clusterId entry))))"

fun notify_loop ::
  "('k, 'c, 'v) login_tools \<Rightarrow> 'v conductor_client \<Rightarrow> string \<Rightarrow> (nat \<Rightarrow> monitored \<Rightarrow> monitored) \<Rightarrow> nat \<Rightarrow>
   monitored_app_entry list \<Rightarrow> (unit, monitored \<times> 'v session) prog" where
  "notify_loop t client clusterId between i [] = on_monitored (between i)"
| "notify_loop t client clusterId between i (entry # rest) =
     and_then (on_monitored (between i)) (\<lambda>_.
     and_then (notify_entry t client clusterId entry) (\<lambda>_.
     notify_loop t client clusterId between (i + 1) rest))"

definition UpdateStatus ::
  "('k, 'c, 'v) login_tools \<Rightarrow> 'v conductor_client \<Rightarrow> config \<Rightarrow> (nat \<Rightarrow> monitored \<Rightarrow> monitored) \<Rightarrow>
   (unit, monitored \<times> 'v session) prog" where
  "UpdateStatus t client cfg between =
     and_then pending_notifications (\<lambda>notificationPending.
       if notificationPending = [] then ret ()
       else and_then (notify_loop t client (cfg_ClusterId cfg) between 0 notificationPending) (\<lambda>_.
         on_monitored ResetServicesUnnotifiedStatus))"

text \<open>
  \<^verbatim>\<open>Run\<close>: a round at every tick; \<open>rounds\<close> gives for each tick what the other goroutines did before it and
  during it.
\<close>

fun Run ::
  "('k, 'c, 'v) login_tools \<Rightarrow> 'v conductor_client \<Rightarrow> config \<Rightarrow>
   ((monitored \<Rightarrow> monitored) \<times> (nat \<Rightarrow> monitored \<Rightarrow> monitored)) list \<Rightarrow> (unit, monitored \<times> 'v session) prog" where
  "Run t client cfg [] = ret ()"
| "Run t client cfg ((before, between) # rounds) =
     and_then (on_monitored before) (\<lambda>_.
     and_then (UpdateStatus t client cfg between) (\<lambda>_. Run t client cfg rounds))"

end
