(* ===== verification/Watched.thy ===== *)
theory Watched
  imports Deployables
begin

text \<open>
  The Kubernetes objects that the program watches, with the fields its event functions read, the
  kinds of \<^verbatim>\<open>pkg/kubernetes/kinds.go\<close> and the types of events. The event functions get an object
  as an untyped interface and assert its type; the objects are one datatype here and a failed
  assertion is a panic.
\<close>

record gvk =
  gvk_Group :: string
  gvk_Version :: string
  gvk_Kind :: string

definition DeploymentKind :: gvk where
  "DeploymentKind = \<lparr>gvk_Group = ''apps'', gvk_Version = ''v1'', gvk_Kind = ''Deployment''\<rparr>"
definition ServiceKind :: gvk where
  "ServiceKind = \<lparr>gvk_Group = [], gvk_Version = ''v1'', gvk_Kind = ''Service''\<rparr>"
definition IngressKind :: gvk where
  "IngressKind = \<lparr>gvk_Group = ''extensions'', gvk_Version = ''v1beta1'', gvk_Kind = ''Ingress''\<rparr>"
definition NamespaceKind :: gvk where
  "NamespaceKind = \<lparr>gvk_Group = [], gvk_Version = ''v1'', gvk_Kind = ''Namespace''\<rparr>"
definition PVCKind :: gvk where
  "PVCKind = \<lparr>gvk_Group = [], gvk_Version = ''v1'', gvk_Kind = ''PersistentVolumeClaim''\<rparr>"
definition PodKind :: gvk where
  "PodKind = \<lparr>gvk_Group = [], gvk_Version = ''v1'', gvk_Kind = ''Pod''\<rparr>"
definition EventKind :: gvk where
  "EventKind = \<lparr>gvk_Group = [], gvk_Version = ''v1'', gvk_Kind = ''Event''\<rparr>"

lemmas kind_defs = DeploymentKind_def ServiceKind_def IngressKind_def NamespaceKind_def PVCKind_def
  PodKind_def EventKind_def

section \<open>Objects\<close>

text \<open>A point in time is an integer; \<^verbatim>\<open>Before\<close> is the order of the integers.\<close>

record object_meta =
  om_Namespace :: string
  om_Name :: string
  om_UID :: string
  om_Labels :: labels
  om_CreationTimestamp :: int

record deployment_status =
  dst_AvailableReplicas :: int
  dst_UnavailableReplicas :: int
  dst_Conditions :: "deployment_condition list"

record load_balancer_ingress =
  lbi_IP :: string
  lbi_Hostname :: string

record service_state =
  sst_Type :: service_kind
  sst_Ports :: "service_port list"
  sst_Ingress :: "load_balancer_ingress list"

text \<open>\<^verbatim>\<open>HTTP\<close> of an ingress rule is a pointer, which may be nil.\<close>

record watched_rule =
  wr_Host :: string
  wr_HTTP :: "ingress_path list option"

record ingress_state =
  ist_Ingress :: "load_balancer_ingress list"
  ist_Rules :: "watched_rule list"

record object_reference =
  ref_Kind :: string
  ref_Namespace :: string
  ref_Name :: string
  ref_FieldPath :: string

record event_state =
  evs_Type :: string
  evs_LastTimestamp :: int
  evs_Count :: int
  evs_InvolvedObject :: object_reference

text \<open>
  A tombstone is what an informer hands to \<^verbatim>\<open>OnDelete\<close> when it missed the deletion itself: a
  key without the metadata of an object.
\<close>

datatype watched_object =
    WDeployment object_meta deployment_status
  | WService object_meta service_state
  | WIngress object_meta ingress_state
  | WNamespace object_meta
  | WPVC object_meta
  | WPod object_meta
  | WEvent object_meta event_state
  | WTombstone string

fun meta_Accessor :: "watched_object \<Rightarrow> go_error + object_meta" where
  "meta_Accessor (WDeployment m d) = Inr m"
| "meta_Accessor (WService m s) = Inr m"
| "meta_Accessor (WIngress m i) = Inr m"
| "meta_Accessor (WNamespace m) = Inr m"
| "meta_Accessor (WPVC m) = Inr m"
| "meta_Accessor (WPod m) = Inr m"
| "meta_Accessor (WEvent m e) = Inr m"
| "meta_Accessor (WTombstone key) = Inl (GoError ''object does not implement the Object interfaces'')"

fun object_gvk :: "watched_object \<Rightarrow> gvk option" where
  "object_gvk (WDeployment m d) = Some DeploymentKind"
| "object_gvk (WService m s) = Some ServiceKind"
| "object_gvk (WIngress m i) = Some IngressKind"
| "object_gvk (WNamespace m) = Some NamespaceKind"
| "object_gvk (WPVC m) = Some PVCKind"
| "object_gvk (WPod m) = Some PodKind"
| "object_gvk (WEvent m e) = Some EventKind"
| "object_gvk (WTombstone key) = None"

section \<open>Event types\<close>

datatype event_type = EventAdd | EventUpdate | EventDelete

fun EventType_String :: "event_type \<Rightarrow> string" where
  "EventType_String EventAdd = ''add''"
| "EventType_String EventUpdate = ''update''"
| "EventType_String EventDelete = ''delete''"

definition bad_assertion :: "('a, 's) prog" where
  "bad_assertion = panic ''interface conversion''"

end
