(* ===== verification/MonitorSpec.thy ===== *)
theory MonitorSpec
  imports MonitorProps
begin

text \<open>
  The abstract specification of the monitored store and the refinement. The view of a store
  forgets the order of Go's maps, the counters, the texts and the endpoints, and keeps as
  partial functions which fragments, services and resources exist, their statuses and the
  flags of unreported changes. Every operation of the store is the corresponding operation of
  the specification on the view, so what the deployment manager reports does not depend on
  the order in which Go ranges over its maps.
\<close>

section \<open>The view\<close>

record service_view =
  sv_Status :: nalej_service_status
  sv_New :: bool
  sv_Resources :: "string \<Rightarrow> nalej_service_status option"

record entry_view =
  ev_App :: string
  ev_Status :: fragment_status
  ev_New :: bool
  ev_Services :: "string \<Rightarrow> service_view option"

type_synonym store_view = "string \<Rightarrow> entry_view option"

definition view_service :: "monitored_service_entry \<Rightarrow> service_view" where
  "view_service s = \<lparr>sv_Status = mse_Status s, sv_New = mse_NewStatus s,
     sv_Resources = (\<lambda>uid. map_option mpr_Status (gm_get (mse_Resources s) uid))\<rparr>"

definition view_entry :: "monitored_app_entry \<Rightarrow> entry_view" where
  "view_entry e = \<lparr>ev_App = mae_AppInstanceId e, ev_Status = mae_Status e, ev_New = mae_NewStatus e,
     ev_Services = (\<lambda>sid. map_option view_service (gm_get (mae_Services e) sid))\<rparr>"

definition view :: "monitored \<Rightarrow> store_view" where
  "view p = (\<lambda>fid. map_option view_entry (gm_get p fid))"

section \<open>The specification\<close>

definition at_key :: "'k \<Rightarrow> ('v \<Rightarrow> 'v) \<Rightarrow> ('k \<Rightarrow> 'v option) \<Rightarrow> 'k \<Rightarrow> 'v option" where
  "at_key k f m = m(k := map_option f (m k))"

definition at_all :: "('v \<Rightarrow> 'v) \<Rightarrow> ('k \<Rightarrow> 'v option) \<Rightarrow> 'k \<Rightarrow> 'v option" where
  "at_all f m = (\<lambda>k. map_option f (m k))"

definition spec_add_entry :: "string \<Rightarrow> entry_view \<Rightarrow> store_view \<Rightarrow> store_view" where
  "spec_add_entry fid new v = v(fid \<mapsto> (case v fid of
       None \<Rightarrow> new
     | Some old \<Rightarrow> old\<lparr>ev_Services := ev_Services new ++ ev_Services old\<rparr>))"

definition spec_set_entry :: "fragment_status \<Rightarrow> entry_view \<Rightarrow> entry_view" where
  "spec_set_entry st e = e\<lparr>ev_Status := st, ev_New := ev_New e \<or> st \<noteq> ev_Status e,
     ev_Services := (if st = FRAGMENT_TERMINATING
       then at_all (\<lambda>s. s\<lparr>sv_Status := NALEJ_SERVICE_TERMINATING\<rparr>) (ev_Services e)
       else ev_Services e)\<rparr>"

definition spec_set_service :: "nalej_service_status \<Rightarrow> service_view \<Rightarrow> service_view" where
  "spec_set_service st s = s\<lparr>sv_Status := st, sv_New := sv_New s \<or> sv_Status s \<noteq> st\<rparr>"

definition spec_set_app :: "string \<Rightarrow> fragment_status \<Rightarrow> entry_view \<Rightarrow> entry_view" where
  "spec_set_app app st e = (if ev_App e = app \<and> ev_Status e \<noteq> st
     then e\<lparr>ev_Status := st, ev_New := True,
       ev_Services := at_all (spec_set_service (FragmentStatusToNalejServiceStatus st)) (ev_Services e)\<rparr>
     else e)"

definition spec_add_resource :: "string \<Rightarrow> nalej_service_status \<Rightarrow> service_view \<Rightarrow> service_view" where
  "spec_add_resource uid st s = (if sv_Resources s uid = None
     then s\<lparr>sv_Resources := (sv_Resources s)(uid \<mapsto> st)\<rparr> else s)"

text \<open>
  The status of a service is the worst of its resources, the status of a fragment comes from
  the worst of its services.
\<close>

definition spec_resource_status ::
  "string \<Rightarrow> nalej_service_status \<Rightarrow> service_view \<Rightarrow> service_view" where
  "spec_resource_status uid st s =
     (let rs = (sv_Resources s)(uid \<mapsto> st); w = worst_status (ran rs)
      in s\<lparr>sv_Resources := rs, sv_Status := w, sv_New := sv_New s \<or> w \<noteq> sv_Status s\<rparr>)"

definition spec_set_resource ::
  "string \<Rightarrow> string \<Rightarrow> nalej_service_status \<Rightarrow> entry_view \<Rightarrow> entry_view" where
  "spec_set_resource sid uid st e =
     (if \<exists>s old. ev_Services e sid = Some s \<and> sv_Resources s uid = Some old \<and> old \<noteq> st
      then (let ss = at_key sid (spec_resource_status uid st) (ev_Services e)
            in e\<lparr>ev_Services := ss,
                 ev_Status := ServicesToFragmentStatus (worst_status (sv_Status ` ran ss))\<rparr>)
      else e)"

definition spec_reset :: "entry_view \<Rightarrow> entry_view" where
  "spec_reset e = e\<lparr>ev_New := False, ev_Services := at_all (\<lambda>s. s\<lparr>sv_New := False\<rparr>) (ev_Services e)\<rparr>"

fun spec_step :: "monitor_op \<Rightarrow> store_view \<Rightarrow> store_view" where
  "spec_step (OpAddEntry e) v = spec_add_entry (mae_FragmentId e) (view_entry e) v"
| "spec_step (OpSetEntryStatus fid st err) v = at_key fid (spec_set_entry st) v"
| "spec_step (OpSetAppStatus app st err) v = at_all (spec_set_app app st) v"
| "spec_step (OpAddPendingResource r) v = at_key (mpr_FragmentId r)
     (\<lambda>e. e\<lparr>ev_Services := at_key (mpr_ServiceInstanceID r)
       (spec_add_resource (mpr_UID r) (mpr_Status r)) (ev_Services e)\<rparr>) v"
| "spec_step (OpSetResourceStatus fid sid uid st info eps) v = at_key fid (spec_set_resource sid uid st) v"
| "spec_step OpGetPendingNotifications v = (\<lambda>fid. case v fid of None \<Rightarrow> None
     | Some e \<Rightarrow> if ev_Status e = FRAGMENT_TERMINATING then None else Some e)"
| "spec_step OpResetServicesUnnotifiedStatus v = at_all spec_reset v"
| "spec_step (OpUpdateAppStatus fid) v = v"
| "spec_step (OpRemoveEntry fid) v = v(fid := None)"

section \<open>The refinement\<close>

lemmas view_defs = view_def view_entry_def view_service_def

lemma view_adjust: "view (gm_adjust fid f p) fid' =
    (if fid' = fid then map_option (view_entry \<circ> f) (gm_get p fid) else view p fid')"
  by (simp add: view_def gomap_simps option.map_comp)

lemma at_key_view: "at_key fid g (view p) fid' =
    (if fid' = fid then map_option (g \<circ> view_entry) (gm_get p fid) else view p fid')"
  by (simp add: at_key_def view_def option.map_comp)

lemma view_adjust_at_key:
  assumes "\<And>e. gm_get p fid = Some e \<Longrightarrow> view_entry (f e) = g (view_entry e)"
  shows "view (gm_adjust fid f p) = at_key fid g (view p)"
  using assms by (auto simp: view_adjust at_key_view intro!: ext option.map_cong)

lemma view_map_ran_at_all:
  assumes "\<And>e. view_entry (f e) = g (view_entry e)"
  shows "view (map_ran (\<lambda>_. f) p) = at_all g (view p)"
  using assms by (auto simp: view_def at_all_def gomap_simps option.map_comp intro!: ext option.map_cong)

lemma at_key_absent: "m k = None \<Longrightarrow> at_key k f m = m"
  by (auto simp: at_key_def)

lemma append_services_get:
  assumes "\<forall>(k, s) \<in> set ss. mse_ServiceInstanceID s = k" and "gm_wf ss"
  shows "gm_get (mae_Services (fold append_service (map snd ss) e)) =
    gm_get ss ++ gm_get (mae_Services e)"
  using assms
proof (induction ss arbitrary: e)
  case (Cons x ss)
  obtain k s where x: "x = (k, s)" by (cases x)
  have k: "mse_ServiceInstanceID s = k" and fresh: "gm_get ss k = None"
    using Cons.prems x by (auto simp: map_of_eq_None_iff)
  have "gm_get (mae_Services (append_service s e)) =
      (if gm_get (mae_Services e) k = None then (gm_get (mae_Services e))(k \<mapsto> s) else gm_get (mae_Services e))"
    using k by (auto simp: append_service_def gomap_simps split: option.splits)
  then show ?case
    using Cons x fresh by (auto simp: map_add_def split: option.splits)
qed simp

lemma append_service_rest:
  "mae_AppInstanceId (append_service s e) = mae_AppInstanceId e"
  "mae_Status (append_service s e) = mae_Status e"
  "mae_NewStatus (append_service s e) = mae_NewStatus e"
  by (auto simp: append_service_def split: option.splits)

lemma append_services_rest:
  "mae_AppInstanceId (fold append_service ss e) = mae_AppInstanceId e"
  "mae_Status (fold append_service ss e) = mae_Status e"
  "mae_NewStatus (fold append_service ss e) = mae_NewStatus e"
  by (induction ss arbitrary: e) (simp_all add: append_service_rest)

lemma AddEntry_view:
  assumes "entry_inv (mae_FragmentId e) e"
  shows "view (AddEntry e p) = spec_add_entry (mae_FragmentId e) (view_entry e) (view p)"
proof -
  have ids: "\<forall>(k, s) \<in> set (mae_Services e). mse_ServiceInstanceID s = k" "gm_wf (mae_Services e)"
    using assms by (auto simp: entry_inv_def gm_all_def service_inv_def)
  have "view_entry (AppendServices e c) =
      (view_entry c)\<lparr>ev_Services := ev_Services (view_entry e) ++ ev_Services (view_entry c)\<rparr>" for c
    by (auto simp: AppendServices_def view_entry_def append_services_rest append_services_get [OF ids]
        map_add_def intro!: ext split: option.splits)
  then show ?thesis
    by (auto simp: AddEntry_def spec_add_entry_def view_def gomap_simps intro!: ext split: option.splits)
qed

lemma entry_set_status_view: "view_entry (entry_set_status st err e) = spec_set_entry st (view_entry e)"
  by (auto simp: entry_set_status_def spec_set_entry_def view_entry_def view_service_def Let_def
      at_all_def gomap_simps option.map_comp intro!: ext option.map_cong)

lemma app_set_status_view: "view_entry (app_set_status app st err e) = spec_set_app app st (view_entry e)"
  by (auto simp: app_set_status_def spec_set_app_def view_entry_def view_service_def Let_def
      service_set_status_def spec_set_service_def at_all_def gomap_simps option.map_comp
      intro!: ext option.map_cong)

lemma add_resource_view:
  "view_service (service_AddPendingResource r s) =
    spec_add_resource (mpr_UID r) (mpr_Status r) (view_service s)"
  by (auto simp: service_AddPendingResource_def spec_add_resource_def view_service_def gomap_simps
      intro!: ext split: option.splits)

lemma AddPendingResource_view:
  "view (snd (AddPendingResource r p)) = spec_step (OpAddPendingResource r) (view p)"
proof (cases "gm_get p (mpr_FragmentId r)")
  case None
  then show ?thesis by (simp add: AddPendingResource_def at_key_absent view_def)
next
  case (Some e)
  have srv: "view_entry (e'\<lparr>mae_Services := gm_adjust (mpr_ServiceInstanceID r)
        (service_AddPendingResource r) (mae_Services e')\<rparr>) =
      (view_entry e')\<lparr>ev_Services := at_key (mpr_ServiceInstanceID r)
        (spec_add_resource (mpr_UID r) (mpr_Status r)) (ev_Services (view_entry e'))\<rparr>" for e'
    by (auto simp: view_entry_def at_key_def gomap_simps option.map_comp add_resource_view
        intro!: ext option.map_cong)
  show ?thesis
  proof (cases "gm_get (mae_Services e) (mpr_ServiceInstanceID r)")
    case None
    then have "e\<lparr>mae_Services := gm_adjust (mpr_ServiceInstanceID r)
        (service_AddPendingResource r) (mae_Services e)\<rparr> = e"
      by (simp add: adjust_absent)
    then show ?thesis
      using Some None srv [of e]
      by (auto simp: AddPendingResource_def at_key_def view_def intro!: ext)
  next
    case (Some s)
    then show ?thesis
      using \<open>gm_get p (mpr_FragmentId r) = Some e\<close>
      by (simp add: AddPendingResource_def) (rule view_adjust_at_key, rule srv)
  qed
qed

lemma view_service_ran:
  "gm_wf (mse_Resources s) \<Longrightarrow> ran (sv_Resources (view_service s)) = mpr_Status ` set (gm_values (mse_Resources s))"
  by (simp add: status_image_ran view_service_def comp_def del: set_map)

lemma view_entry_ran:
  "gm_wf (mae_Services e) \<Longrightarrow> sv_Status ` ran (ev_Services (view_entry e)) = mse_Status ` set (gm_values (mae_Services e))"
proof -
  assume "gm_wf (mae_Services e)"
  then have "mse_Status ` set (gm_values (mae_Services e)) = mse_Status ` ran (gm_get (mae_Services e))"
    by (simp add: set_values_ran del: set_map)
  also have "\<dots> = sv_Status ` ran (ev_Services (view_entry e))"
    by (force simp: view_entry_def view_service_def ran_def image_iff)
  finally show ?thesis by simp
qed

lemma service_change_wf:
  "service_inv sid s \<Longrightarrow> gm_wf (mse_Resources (service_resource_change uid r st info eps s))"
  by (auto simp: service_resource_change_def service_RemovePendingResource_resources Let_def
      service_inv_def intro!: gomap_wf dest: gm_all_wf)

lemma service_resource_view:
  assumes inv: "service_inv sid s" and res: "gm_get (mse_Resources s) uid = Some r"
  shows "view_service (service_refresh_status (service_resource_change uid r st info eps s)) =
    spec_resource_status uid st (view_service s)"
proof -
  let ?c = "service_resource_change uid r st info eps s"
  have rs: "sv_Resources (view_service ?c) = (sv_Resources (view_service s))(uid \<mapsto> st)"
    using service_change_statuses [OF res] by (auto simp: view_service_def intro!: ext)
  have w: "mpr_Status ` set (gm_values (mse_Resources ?c)) = ran ((sv_Resources (view_service s))(uid \<mapsto> st))"
    using view_service_ran [OF service_change_wf [OF inv], symmetric] by (simp only: rs)
  show ?thesis
    using rs
    by (simp add: view_service_def spec_resource_status_def Let_def service_refresh_fields
        service_change_fields w [unfolded view_service_def] del: set_map image_set)
qed

lemma SetResourceStatus_view:
  assumes inv: "monitored_inv p"
  shows "view (snd (SetResourceStatus fid sid uid st info eps p)) = at_key fid (spec_set_resource sid uid st) (view p)"
proof -
  consider (changed) e s r where "gm_get p fid = Some e" "gm_get (mae_Services e) sid = Some s"
      "gm_get (mse_Resources s) uid = Some r" "mpr_Status r \<noteq> st"
    | (same) "snd (SetResourceStatus fid sid uid st info eps p) = p"
      "\<forall>e s r. gm_get p fid = Some e \<longrightarrow> gm_get (mae_Services e) sid = Some s \<longrightarrow>
        gm_get (mse_Resources s) uid = Some r \<longrightarrow> mpr_Status r = st"
    by (fastforce simp: SetResourceStatus_def split: option.splits if_splits)
  then show ?thesis
  proof cases
    case changed
    have e: "entry_inv fid e" using inv changed(1) by (rule monitored_inv_get)
    then have s: "service_inv sid s" using changed(2) by (rule entry_inv_get)
    let ?s' = "service_refresh_status (service_resource_change uid r st info eps s)"
    let ?e' = "e\<lparr>mae_Services := gm_adjust sid (\<lambda>_. ?s') (mae_Services e)\<rparr>"
    have ss: "ev_Services (view_entry ?e') = at_key sid (spec_resource_status uid st) (ev_Services (view_entry e))"
      using changed(2) service_resource_view [OF s changed(3)]
      by (auto simp: view_entry_def at_key_def gomap_simps intro!: ext)
    have "gm_wf (mae_Services ?e')"
      using e by (auto simp: entry_inv_def intro!: gomap_wf dest: gm_all_wf)
    from view_entry_ran [OF this]
    have w: "mse_Status ` set (gm_values (mae_Services ?e')) =
        sv_Status ` ran (at_key sid (spec_resource_status uid st) (ev_Services (view_entry e)))"
      using ss by simp
    have "view_entry (app_refresh_status ?e') = spec_set_resource sid uid st (view_entry e)"
    proof -
      have "\<exists>t old. ev_Services (view_entry e) sid = Some t \<and> sv_Resources t uid = Some old \<and> old \<noteq> st"
        using changed by (auto simp: view_entry_def view_service_def)
      then show ?thesis
        using ss w
        by (simp add: spec_set_resource_def Let_def view_entry_def app_refresh_fields del: set_map image_set)
    qed
    then show ?thesis
      using changed by (auto simp: SetResourceStatus_changed [OF changed] view_adjust at_key_view)
  next
    case same
    have "spec_set_resource sid uid st (view_entry e) = view_entry e" if "gm_get p fid = Some e" for e
      using same(2) that
      by (auto simp: spec_set_resource_def view_entry_def view_service_def)
    then have "at_key fid (spec_set_resource sid uid st) (view p) = view p"
      by (cases "gm_get p fid") (simp_all add: at_key_def view_def fun_upd_idem)
    then show ?thesis by (simp only: same(1))
  qed
qed

lemma GetPendingNotifications_view:
  assumes "monitored_inv p"
  shows "view (snd (GetPendingNotifications p)) = spec_step OpGetPendingNotifications (view p)"
  by (auto simp: view_def GetPendingNotifications_get [OF assms] view_entry_def intro!: ext
      split: option.splits)

lemma Reset_view: "view (ResetServicesUnnotifiedStatus p) = at_all spec_reset (view p)"
  by (auto simp: view_def Reset_get at_all_def spec_reset_def view_entry_def view_service_def
      option.map_comp gomap_simps intro!: ext option.map_cong)

lemma UpdateAppStatus_view: "view (UpdateAppStatus fid p) = view p"
proof -
  have "view_entry (e\<lparr>mae_NumPendingChecks := n\<rparr>) = view_entry e" for e n
    by (simp add: view_entry_def)
  then show ?thesis
    by (auto simp: view_def UpdateAppStatus_get option.map_comp comp_def intro!: ext)
qed

lemma monitor_step_view:
  assumes "monitored_inv p" and "op_ok oper"
  shows "view (monitor_step oper p) = spec_step oper (view p)"
proof (cases oper)
  case (OpSetEntryStatus fid st err)
  then show ?thesis
    by (auto simp: SetEntryStatus_def at_key_absent view_def [of p]
        view_adjust_at_key [where g = "spec_set_entry st", OF entry_set_status_view]
        split: option.splits)
next
  case (OpSetAppStatus app st err)
  then show ?thesis
    by (simp add: SetAppStatus_def view_map_ran_at_all [where g = "spec_set_app app st", OF app_set_status_view])
next
  case (OpRemoveEntry fid)
  then show ?thesis by (auto simp: snd_RemoveEntry view_def gomap_simps intro!: ext)
next
  case (OpAddPendingResource r)
  then show ?thesis by (simp only: monitor_step.simps AddPendingResource_view)
next
  case OpGetPendingNotifications
  then show ?thesis using assms(1) by (simp only: monitor_step.simps GetPendingNotifications_view)
next
  case (OpAddEntry e)
  then show ?thesis using assms by (simp only: monitor_step.simps op_ok.simps AddEntry_view spec_step.simps)
next
  case (OpSetResourceStatus fid sid uid st info eps)
  then show ?thesis using assms by (simp only: monitor_step.simps SetResourceStatus_view spec_step.simps)
next
  case OpResetServicesUnnotifiedStatus
  then show ?thesis by (simp only: monitor_step.simps Reset_view spec_step.simps)
next
  case (OpUpdateAppStatus fid)
  then show ?thesis by (simp only: monitor_step.simps UpdateAppStatus_view spec_step.simps)
qed

end
