(* ===== verification/MonitoredInterface.thy ===== *)
theory MonitoredInterface
  imports MonitorSpec
begin

text \<open>
  The interface of the monitored store, \<^verbatim>\<open>internal/structures/monitor/monitored_services.go\<close>, as a record of
  operations on an unknown state, and the store in memory as its one implementation. The
  contract of the interface is a locale: an implementation refines the abstract specification
  of \<open>MonitorSpec\<close>, and what it answers is a function of the view. What the handler, the controller
  and the monitor helper rely on is proved once from the contract.
\<close>

section \<open>The interface\<close>

record 'p monitored_instances =
  mi_WaitPendingChecks :: "string \<Rightarrow> (('p \<Rightarrow> 'p) \<times> signal) list \<Rightarrow> 'p \<Rightarrow> (go_error option \<times> 'p) option"
  mi_AddEntry :: "monitored_app_entry \<Rightarrow> 'p \<Rightarrow> 'p"
  mi_GetEntry :: "string \<Rightarrow> 'p \<Rightarrow> monitored_app_entry option"
  mi_SetEntryStatus :: "string \<Rightarrow> fragment_status \<Rightarrow> go_error option \<Rightarrow> 'p \<Rightarrow> 'p"
  mi_SetAppStatus :: "string \<Rightarrow> fragment_status \<Rightarrow> go_error option \<Rightarrow> 'p \<Rightarrow> 'p"
  mi_GetAppStatus :: "string \<Rightarrow> 'p \<Rightarrow> go_error + fragment_status"
  mi_AddPendingResource :: "monitored_platform_resource \<Rightarrow> 'p \<Rightarrow> bool \<times> 'p"
  mi_RemovePendingResource :: "string \<Rightarrow> string \<Rightarrow> string \<Rightarrow> 'p \<Rightarrow> bool \<times> 'p"
  mi_IsMonitoredResource :: "string \<Rightarrow> string \<Rightarrow> string \<Rightarrow> 'p \<Rightarrow> bool"
  mi_SetResourceStatus :: "string \<Rightarrow> string \<Rightarrow> string \<Rightarrow> nalej_service_status \<Rightarrow> string \<Rightarrow> endpoint_instance list \<Rightarrow>
    'p \<Rightarrow> go_error option \<times> 'p"
  mi_GetPendingNotifications :: "'p \<Rightarrow> monitored_app_entry list \<times> 'p"
  mi_ResetServicesUnnotifiedStatus :: "'p \<Rightarrow> 'p"
  mi_UpdateAppStatus :: "string \<Rightarrow> 'p \<Rightarrow> 'p"
  mi_RemoveEntry :: "string \<Rightarrow> 'p \<Rightarrow> bool \<times> 'p"
  mi_GetNumFragments :: "'p \<Rightarrow> nat"
  mi_GetNumApps :: "'p \<Rightarrow> nat"
  mi_GetNumServices :: "'p \<Rightarrow> nat"
  mi_GetNumResources :: "'p \<Rightarrow> nat"

definition memory_instances :: "monitored monitored_instances" where
  "memory_instances = \<lparr>
     mi_WaitPendingChecks = WaitPendingChecks,
     mi_AddEntry = AddEntry,
     mi_GetEntry = GetEntry,
     mi_SetEntryStatus = SetEntryStatus,
     mi_SetAppStatus = SetAppStatus,
     mi_GetAppStatus = GetAppStatus,
     mi_AddPendingResource = AddPendingResource,
     mi_RemovePendingResource = RemovePendingResource,
     mi_IsMonitoredResource = IsMonitoredResource,
     mi_SetResourceStatus = SetResourceStatus,
     mi_GetPendingNotifications = GetPendingNotifications,
     mi_ResetServicesUnnotifiedStatus = ResetServicesUnnotifiedStatus,
     mi_UpdateAppStatus = UpdateAppStatus,
     mi_RemoveEntry = RemoveEntry,
     mi_GetNumFragments = GetNumFragments,
     mi_GetNumApps = GetNumApps,
     mi_GetNumServices = GetNumServices,
     mi_GetNumResources = GetNumResources\<rparr>"

text \<open>The operations that change the store; nothing in the program calls \<open>RemovePendingResource\<close>.\<close>

fun interface_step :: "'p monitored_instances \<Rightarrow> monitor_op \<Rightarrow> 'p \<Rightarrow> 'p" where
  "interface_step mi (OpAddEntry e) p = mi_AddEntry mi e p"
| "interface_step mi (OpSetEntryStatus fid st err) p = mi_SetEntryStatus mi fid st err p"
| "interface_step mi (OpSetAppStatus app st err) p = mi_SetAppStatus mi app st err p"
| "interface_step mi (OpAddPendingResource r) p = snd (mi_AddPendingResource mi r p)"
| "interface_step mi (OpSetResourceStatus fid sid uid st info eps) p =
     snd (mi_SetResourceStatus mi fid sid uid st info eps p)"
| "interface_step mi OpGetPendingNotifications p = snd (mi_GetPendingNotifications mi p)"
| "interface_step mi OpResetServicesUnnotifiedStatus p = mi_ResetServicesUnnotifiedStatus mi p"
| "interface_step mi (OpUpdateAppStatus fid) p = mi_UpdateAppStatus mi fid p"
| "interface_step mi (OpRemoveEntry fid) p = snd (mi_RemoveEntry mi fid p)"

section \<open>What the interface answers, on the view\<close>

definition spec_monitored :: "string \<Rightarrow> string \<Rightarrow> string \<Rightarrow> store_view \<Rightarrow> bool" where
  "spec_monitored fid sid uid v \<longleftrightarrow>
     (\<exists>e s. v fid = Some e \<and> ev_Services e sid = Some s \<and> sv_Resources s uid \<noteq> None)"

definition spec_pending_services :: "entry_view \<Rightarrow> string \<Rightarrow> nalej_service_status option" where
  "spec_pending_services e sid = (case ev_Services e sid of
     None \<Rightarrow> None
   | Some s \<Rightarrow> if ev_New e \<or> sv_New s then Some (sv_Status s) else None)"

definition spec_pending ::
  "store_view \<Rightarrow> (string \<times> fragment_status \<times> (string \<Rightarrow> nalej_service_status option)) set" where
  "spec_pending v = {(fid, ev_Status e, spec_pending_services e) |fid e.
     v fid = Some e \<and> (\<exists>sid. spec_pending_services e sid \<noteq> None)}"

text \<open>A notification: the fragment, its status, and the statuses of the services that are told with it.\<close>

definition view_notification ::
  "monitored_app_entry \<Rightarrow> string \<times> fragment_status \<times> (string \<Rightarrow> nalej_service_status option)" where
  "view_notification n = (mae_FragmentId n, mae_Status n,
     (\<lambda>sid. map_option mse_Status (gm_get (mae_Services n) sid)))"

definition reported ::
  "'p monitored_instances \<Rightarrow> 'p \<Rightarrow> (string \<times> fragment_status \<times> (string \<Rightarrow> nalej_service_status option)) set" where
  "reported mi p = view_notification ` set (fst (mi_GetPendingNotifications mi p))"

section \<open>Histories of the specification\<close>

text \<open>
  What the handler and the controller do between two rounds of the monitor helper: everything but what only the helper
  does, which is to ask for notifications and to remove entries and flags.
\<close>

fun between_rounds :: "monitor_op \<Rightarrow> bool" where
  "between_rounds OpGetPendingNotifications = False"
| "between_rounds OpResetServicesUnnotifiedStatus = False"
| "between_rounds (OpRemoveEntry fid) = False"
| "between_rounds oper = True"

text \<open>
  A fragment that is terminating already is set to terminating once more: that changes the services without flagging
  them.
\<close>

definition spec_terminates_again :: "string \<Rightarrow> monitor_op \<Rightarrow> store_view \<Rightarrow> bool" where
  "spec_terminates_again fid oper v \<longleftrightarrow> (case oper of
     OpSetEntryStatus k st err \<Rightarrow> k = fid \<and> st = FRAGMENT_TERMINATING \<and>
       map_option ev_Status (v fid) = Some FRAGMENT_TERMINATING
   | _ \<Rightarrow> False)"

fun spec_terminated_again :: "string \<Rightarrow> monitor_op list \<Rightarrow> store_view \<Rightarrow> bool" where
  "spec_terminated_again fid [] v = False"
| "spec_terminated_again fid (oper # ops) v =
     (spec_terminates_again fid oper v \<or> spec_terminated_again fid ops (spec_step oper v))"

text \<open>
  The service has its old status, or the next round tells its new one, or (\<open>again\<close>) it was set to terminating without
  a flag.
\<close>

definition news :: "nalej_service_status \<Rightarrow> bool \<Rightarrow> entry_view \<Rightarrow> service_view \<Rightarrow> bool" where
  "news st again e s \<longleftrightarrow> sv_Status s = st \<or> ev_New e \<or> sv_New s \<or> (again \<and> sv_Status s = NALEJ_SERVICE_TERMINATING)"

definition accounted :: "nalej_service_status \<Rightarrow> bool \<Rightarrow> string \<Rightarrow> string \<Rightarrow> store_view \<Rightarrow> bool" where
  "accounted st again fid sid v \<longleftrightarrow> (\<exists>e s. v fid = Some e \<and> ev_Services e sid = Some s \<and> news st again e s)"

lemma spec_add_resource_rest:
  "sv_Status (spec_add_resource uid st s) = sv_Status s" "sv_New (spec_add_resource uid st s) = sv_New s"
  by (simp_all add: spec_add_resource_def)

lemma accounted_mono: "accounted st again fid sid v \<Longrightarrow> (again \<Longrightarrow> again') \<Longrightarrow> accounted st again' fid sid v"
  unfolding accounted_def news_def by blast

lemma accounted_at_key:
  assumes "accounted st again fid sid v" and "again \<Longrightarrow> again'"
    and "\<And>e s. k = fid \<Longrightarrow> v fid = Some e \<Longrightarrow> ev_Services e sid = Some s \<Longrightarrow> news st again e s \<Longrightarrow>
      \<exists>s'. ev_Services (f e) sid = Some s' \<and> news st again' (f e) s'"
  shows "accounted st again' fid sid (at_key k f v)"
proof (cases "k = fid")
  case True
  obtain e s where e: "v fid = Some e" "ev_Services e sid = Some s" "news st again e s"
    using assms(1) unfolding accounted_def by blast
  show ?thesis using assms(3) [OF True e] e(1) True by (simp add: accounted_def at_key_def)
next
  case False
  then show ?thesis using accounted_mono [OF assms(1,2)] by (simp add: accounted_def at_key_def)
qed

lemma accounted_at_all:
  assumes "accounted st again fid sid v"
    and "\<And>e s. ev_Services e sid = Some s \<Longrightarrow> news st again e s \<Longrightarrow>
      \<exists>s'. ev_Services (f e) sid = Some s' \<and> news st again (f e) s'"
  shows "accounted st again fid sid (at_all f v)"
proof -
  obtain e s where e: "v fid = Some e" and s: "ev_Services e sid = Some s" "news st again e s"
    using assms(1) unfolding accounted_def by blast
  show ?thesis using e assms(2) [OF s] by (simp add: accounted_def at_all_def)
qed

lemma accounted_step:
  assumes "accounted st again fid sid v" and "between_rounds oper"
  shows "accounted st (again \<or> spec_terminates_again fid oper v) fid sid (spec_step oper v)"
proof (cases oper)
  case (OpAddEntry e)
  then show ?thesis
    using assms(1) by (auto simp: accounted_def spec_add_entry_def news_def split: option.splits)
next
  case (OpSetEntryStatus k st' err)
  show ?thesis
    unfolding OpSetEntryStatus spec_step.simps
    by (rule accounted_at_key [OF assms(1)])
      (auto simp: spec_set_entry_def at_all_def news_def spec_terminates_again_def)
next
  case (OpSetAppStatus app st' err)
  show ?thesis
    unfolding OpSetAppStatus spec_step.simps
    by (rule accounted_mono [OF accounted_at_all [OF assms(1)]])
      (auto simp: spec_set_app_def at_all_def spec_set_service_def news_def)
next
  case (OpAddPendingResource r)
  show ?thesis
    unfolding OpAddPendingResource spec_step.simps
    by (rule accounted_at_key [OF assms(1)]) (auto simp: at_key_def spec_add_resource_rest news_def)
next
  case (OpSetResourceStatus k sid' uid st' info eps)
  show ?thesis
    unfolding OpSetResourceStatus spec_step.simps
    by (rule accounted_at_key [OF assms(1)])
      (auto simp: at_key_def spec_set_resource_def spec_resource_status_def news_def Let_def)
next
  case (OpUpdateAppStatus k)
  then show ?thesis using accounted_mono [OF assms(1)] by simp
qed (use assms in simp_all)

lemma accounted_run:
  assumes "accounted st again fid sid v" and "list_all between_rounds ops"
  shows "accounted st (again \<or> spec_terminated_again fid ops v) fid sid (fold spec_step ops v)"
  using assms
proof (induction ops arbitrary: v again)
  case (Cons oper ops)
  have "accounted st (again \<or> spec_terminates_again fid oper v) fid sid (spec_step oper v)"
    using Cons.prems by (simp add: accounted_step)
  from Cons.IH [OF this] Cons.prems(2) show ?case by (simp add: disj_assoc)
qed simp

lemma pending_told:
  assumes "v fid = Some e" and "ev_Services e sid = Some s" and "ev_New e \<or> sv_New s"
  shows "\<exists>told. (fid, ev_Status e, told) \<in> spec_pending v \<and> told sid = Some (sv_Status s)"
  using assms unfolding spec_pending_def
  by (intro exI [of _ "spec_pending_services e"]) (auto simp: spec_pending_services_def intro!: exI [of _ sid])

lemma spec_reset_silent: "spec_pending (spec_step OpResetServicesUnnotifiedStatus v) = {}"
  by (auto simp: spec_pending_def at_all_def spec_reset_def spec_pending_services_def split: option.splits if_splits)

text \<open>A fragment that fails is reported with all its services, unless it had failed before.\<close>

lemma spec_failure_pending:
  assumes "v fid = Some e" and "ev_Status e \<noteq> st \<or> ev_New e" and "ev_Services e sid \<noteq> None"
    and "st \<noteq> FRAGMENT_TERMINATING"
  shows "(fid, st, \<lambda>sid. map_option sv_Status (ev_Services e sid)) \<in> spec_pending (spec_step (OpSetEntryStatus fid st err) v)"
proof -
  have "spec_pending_services (spec_set_entry st e) = (\<lambda>sid. map_option sv_Status (ev_Services e sid))"
    using assms by (auto simp: spec_pending_services_def spec_set_entry_def split: option.splits)
  then show ?thesis
    using assms unfolding spec_pending_def
    by (auto simp: at_key_def spec_set_entry_def intro!: exI [of _ "spec_set_entry st e"] exI [of _ sid])
qed

section \<open>The contract\<close>

locale monitored_contract =
  fixes mi :: "'p monitored_instances"
    and abs :: "'p \<Rightarrow> store_view"
    and ok :: "'p \<Rightarrow> bool"
  assumes step_ok: "ok p \<Longrightarrow> op_ok oper \<Longrightarrow> ok (interface_step mi oper p)"
    and step_refines: "ok p \<Longrightarrow> op_ok oper \<Longrightarrow> abs (interface_step mi oper p) = spec_step oper (abs p)"
    and entry_law: "ok p \<Longrightarrow> map_option view_entry (mi_GetEntry mi fid p) = abs p fid"
    and monitored_law: "ok p \<Longrightarrow> mi_IsMonitoredResource mi fid sid uid p = spec_monitored fid sid uid (abs p)"
    and status_law: "ok p \<Longrightarrow>
      fst (mi_SetResourceStatus mi fid sid uid st info eps p) = None \<longleftrightarrow> spec_monitored fid sid uid (abs p)"
    and pending_law: "ok p \<Longrightarrow> view_notification ` set (fst (mi_GetPendingNotifications mi p)) = spec_pending (abs p)"
    and fragments_law: "ok p \<Longrightarrow> mi_GetNumFragments mi p = card (dom (abs p))"
begin

lemma reported_view: "ok p \<Longrightarrow> reported mi p = spec_pending (abs p)"
  by (simp add: reported_def pending_law)

lemma run_refines:
  assumes "ok p" and "list_all op_ok ops"
  shows "ok (fold (interface_step mi) ops p) \<and> abs (fold (interface_step mi) ops p) = fold spec_step ops (abs p)"
  using assms by (induction ops arbitrary: p) (auto simp: step_ok step_refines)

lemma same_view_same_reports:
  assumes "ok p" and "ok q" and "abs p = abs q" and "list_all op_ok ops"
  shows "reported mi (fold (interface_step mi) ops p) = reported mi (fold (interface_step mi) ops q)"
  using run_refines [OF assms(1,4)] run_refines [OF assms(2,4)] assms(3)
  by (simp add: reported_view)

lemma changes_told:
  assumes "ok p" and "list_all op_ok ops" and "list_all between_rounds ops"
    and "abs p fid = Some e" and "ev_Services e sid = Some s"
  shows "\<exists>e' s'. abs (fold (interface_step mi) ops p) fid = Some e' \<and> ev_Services e' sid = Some s' \<and>
    (sv_Status s' = sv_Status s \<or>
     (\<exists>told. (fid, ev_Status e', told) \<in> reported mi (fold (interface_step mi) ops p) \<and> told sid = Some (sv_Status s')) \<or>
     (spec_terminated_again fid ops (abs p) \<and> sv_Status s' = NALEJ_SERVICE_TERMINATING))"
proof -
  have run: "ok (fold (interface_step mi) ops p)" "abs (fold (interface_step mi) ops p) = fold spec_step ops (abs p)"
    using run_refines [OF assms(1,2)] by simp_all
  have "accounted (sv_Status s) False fid sid (abs p)" using assms(4,5) by (auto simp: accounted_def news_def)
  from accounted_run [OF this assms(3)] obtain e' s' where "fold spec_step ops (abs p) fid = Some e'"
    "ev_Services e' sid = Some s'" "news (sv_Status s) (spec_terminated_again fid ops (abs p)) e' s'"
    unfolding accounted_def by auto
  then show ?thesis
    using pending_told unfolding run(2) reported_view [OF run(1)] news_def by blast
qed

lemma reset_silences:
  assumes "ok p"
  shows "reported mi (interface_step mi OpResetServicesUnnotifiedStatus p) = {}"
proof -
  have "ok (interface_step mi OpResetServicesUnnotifiedStatus p)" by (rule step_ok [OF assms]) simp
  then show ?thesis
    using step_refines [OF assms, of OpResetServicesUnnotifiedStatus] spec_reset_silent by (simp add: reported_view)
qed

lemma failure_told:
  assumes "ok p" and "abs p fid = Some e" and "ev_Status e \<noteq> st \<or> ev_New e" and "ev_Services e sid \<noteq> None"
    and "st \<noteq> FRAGMENT_TERMINATING"
  shows "(fid, st, \<lambda>sid. map_option sv_Status (ev_Services e sid)) \<in>
    reported mi (interface_step mi (OpSetEntryStatus fid st err) p)"
proof -
  have "ok (interface_step mi (OpSetEntryStatus fid st err) p)" by (rule step_ok [OF assms(1)]) simp
  then show ?thesis
    using step_refines [OF assms(1), of "OpSetEntryStatus fid st err"] spec_failure_pending [of "abs p" fid e st sid err] assms(2-5)
    by (simp add: reported_view)
qed

end

section \<open>The store in memory fulfils the contract\<close>

lemma memory_step: "interface_step memory_instances oper = monitor_step oper"
  by (cases oper) (auto simp: memory_instances_def)

lemma notification_view:
  assumes "entry_inv fid e"
  shows "view_notification (notification_of e) = (fid, mae_Status e, spec_pending_services (view_entry e))"
proof -
  have wf: "gm_wf (mae_Services e)" and id: "mae_FragmentId e = fid"
    using assms by (auto simp: entry_inv_def dest: gm_all_wf)
  have "map_option mse_Status (gm_get (pending_services e) sid) = spec_pending_services (view_entry e) sid" for sid
    unfolding pending_services_filter [OF assms] get_filter_wf [OF wf]
    by (auto simp: spec_pending_services_def view_entry_def view_service_def split: option.splits)
  then show ?thesis
    by (auto simp: view_notification_def notification_of_def id)
qed

lemma pending_services_empty:
  assumes "entry_inv fid e"
  shows "pending_services e \<noteq> [] \<longleftrightarrow> (\<exists>sid. spec_pending_services (view_entry e) sid \<noteq> None)"
proof -
  have "map_option mse_Status (gm_get (pending_services e) sid) = spec_pending_services (view_entry e) sid" for sid
    using notification_view [OF assms] by (simp add: view_notification_def notification_of_def fun_eq_iff)
  then have "(\<exists>sid. spec_pending_services (view_entry e) sid \<noteq> None) \<longleftrightarrow> (\<exists>sid. gm_get (pending_services e) sid \<noteq> None)"
    by (metis option.map_disc_iff)
  also have "\<dots> \<longleftrightarrow> pending_services e \<noteq> []"
    by (cases "pending_services e") auto
  finally show ?thesis by simp
qed

lemma memory_pending:
  assumes "monitored_inv p"
  shows "view_notification ` set (fst (GetPendingNotifications p)) = spec_pending (view p)"
proof -
  have inv: "entry_inv fid e" if "gm_get p fid = Some e" for fid e
    using assms that by (rule monitored_inv_get)
  have "set (fst (GetPendingNotifications p)) = {notification_of e |fid e. gm_get p fid = Some e \<and> pending_services e \<noteq> []}"
  proof -
    have "set (gm_values p) = {e. \<exists>fid. gm_get p fid = Some e}"
      using mem_values_iff [OF monitored_inv_wf [OF assms]] by blast
    then have "{e \<in> set (gm_values p). pending_services e \<noteq> []} = {e. \<exists>fid. gm_get p fid = Some e \<and> pending_services e \<noteq> []}"
      by blast
    then show ?thesis
      by (simp only: GetPendingNotifications_def Let_def fst_conv list.set_map set_filter) blast
  qed
  then have "view_notification ` set (fst (GetPendingNotifications p)) =
      {view_notification (notification_of e) |fid e. gm_get p fid = Some e \<and> pending_services e \<noteq> []}"
    by (simp only:) (auto simp only: image_iff mem_Collect_eq; blast)
  also have "\<dots> = {(fid, mae_Status e, spec_pending_services (view_entry e)) |fid e. gm_get p fid = Some e \<and>
      (\<exists>sid. spec_pending_services (view_entry e) sid \<noteq> None)}"
  proof -
    have "x = view_notification (notification_of e) \<and> gm_get p fid = Some e \<and> pending_services e \<noteq> [] \<longleftrightarrow>
        x = (fid, mae_Status e, spec_pending_services (view_entry e)) \<and> gm_get p fid = Some e \<and>
        (\<exists>sid. spec_pending_services (view_entry e) sid \<noteq> None)" for x fid e
      using notification_view [OF inv] pending_services_empty [OF inv] by metis
    then show ?thesis by simp
  qed
  also have "\<dots> = spec_pending (view p)"
  proof -
    have "ev_Status (view_entry e) = mae_Status e" for e by (simp add: view_entry_def)
    then show ?thesis unfolding spec_pending_def view_def by (auto; blast)
  qed
  finally show ?thesis .
qed

lemma memory_monitored: "IsMonitoredResource fid sid uid p = spec_monitored fid sid uid (view p)"
  by (auto simp: IsMonitoredResource_def spec_monitored_def view_defs split: option.splits)

interpretation memory: monitored_contract memory_instances view monitored_inv
proof
  fix p :: monitored and oper :: monitor_op
  assume inv: "monitored_inv p"
  show "monitored_inv (interface_step memory_instances oper p)" if "op_ok oper"
    using monitor_step_inv [OF inv that] by (simp add: memory_step)
  show "view (interface_step memory_instances oper p) = spec_step oper (view p)" if "op_ok oper"
    using monitor_step_view [OF inv that] by (simp add: memory_step)
next
  fix p :: monitored and fid sid uid st info eps
  assume inv: "monitored_inv p"
  show "map_option view_entry (mi_GetEntry memory_instances fid p) = view p fid"
    by (simp add: memory_instances_def GetEntry_def view_def)
  show "mi_IsMonitoredResource memory_instances fid sid uid p = spec_monitored fid sid uid (view p)"
    by (simp add: memory_instances_def memory_monitored)
  show "fst (mi_SetResourceStatus memory_instances fid sid uid st info eps p) = None \<longleftrightarrow> spec_monitored fid sid uid (view p)"
    unfolding memory_monitored [symmetric]
    by (auto simp: memory_instances_def SetResourceStatus_def IsMonitoredResource_def Let_def split: option.splits)
  show "view_notification ` set (fst (mi_GetPendingNotifications memory_instances p)) = spec_pending (view p)"
    using memory_pending [OF inv] by (simp add: memory_instances_def)
  have "dom (view p) = set (map fst p)" 
    using dom_map_of_conv_image_fst [of p] by (simp add: view_def dom_def)
  then show "mi_GetNumFragments memory_instances p = card (dom (view p))"
    using distinct_card [OF monitored_inv_wf [OF inv]] by (simp add: memory_instances_def GetNumFragments_def)
qed

lemma memory_steps: "interface_step memory_instances = monitor_step"
  by (rule ext)+ (simp add: memory_step)

lemma memory_reported: "reported memory_instances p = view_notification ` set (fst (GetPendingNotifications p))"
  by (simp add: reported_def memory_instances_def)

fun terminated_again :: "string \<Rightarrow> monitor_op list \<Rightarrow> monitored \<Rightarrow> bool" where
  "terminated_again fid [] p = False"
| "terminated_again fid (oper # ops) p =
     ((case oper of
         OpSetEntryStatus k st err \<Rightarrow> k = fid \<and> st = FRAGMENT_TERMINATING \<and>
           map_option mae_Status (gm_get p fid) = Some FRAGMENT_TERMINATING
       | _ \<Rightarrow> False) \<or> terminated_again fid ops (monitor_step oper p))"

lemma terminated_again_view:
  "monitored_inv p \<Longrightarrow> list_all op_ok ops \<Longrightarrow> terminated_again fid ops p = spec_terminated_again fid ops (view p)"
proof (induction ops arbitrary: p)
  case (Cons oper ops)
  have "terminated_again fid ops (monitor_step oper p) = spec_terminated_again fid ops (spec_step oper (view p))"
    using Cons.IH [of "monitor_step oper p"] Cons.prems monitor_step_inv monitor_step_view by simp
  moreover have "map_option ev_Status (view p fid) = map_option mae_Status (gm_get p fid)"
    by (cases "gm_get p fid") (simp_all add: view_def view_entry_def)
  ultimately show ?case
    by (auto simp: spec_terminates_again_def split: monitor_op.split)
qed simp

text \<open>The facts of the contract over the operations of the store.\<close>

lemmas memory_facts = memory.changes_told [unfolded memory_steps memory_reported]
  memory.same_view_same_reports [unfolded memory_steps memory_reported]
  memory.failure_told [unfolded memory_steps memory_reported]

end
