(* ===== verification/MonitorTheorems.thy ===== *)
theory MonitorTheorems
  imports MonitoredInterface
begin

text \<open>
  The properties of the monitored store, each with a concrete store at which it applies. The
  sample store is the one a deployment leaves behind: one fragment, one service and two
  Kubernetes resources waiting for their first status.
\<close>

section \<open>A sample store\<close>

definition sample_service :: monitored_service_entry where
  "sample_service = \<lparr>mse_OrganizationId = ''o'', mse_AppDescriptorId = ''d'', mse_AppInstanceId = ''a'',
     mse_ServiceGroupId = ''g'', mse_ServiceGroupInstanceId = ''gi'', mse_FragmentId = ''f'',
     mse_ServiceID = ''svc'', mse_ServiceName = ''nginx'', mse_ServiceInstanceID = ''s'',
     mse_NumPendingChecks = 0, mse_Resources = [], mse_Status = NALEJ_SERVICE_SCHEDULED,
     mse_NewStatus = True, mse_Info = [], mse_Endpoints = []\<rparr>"

definition sample_entry :: monitored_app_entry where
  "sample_entry = \<lparr>mae_OrganizationId = ''o'', mae_AppDescriptorId = ''d'', mae_AppInstanceId = ''a'',
     mae_DeploymentId = ''dep'', mae_Status = FRAGMENT_WAITING, mae_FragmentId = ''f'',
     mae_Services = [(''s'', sample_service)], mae_NumPendingChecks = 1, mae_Info = [],
     mae_TotalServices = 1, mae_NewStatus = False, mae_Namespace = ''ns''\<rparr>"

definition sample_resource :: "string \<Rightarrow> monitored_platform_resource" where
  "sample_resource uid = NewMonitoredPlatformResource ''f'' uid ''d'' ''a'' ''g'' ''gi'' ''svc'' ''s'' []"

definition sample_store :: monitored where
  "sample_store =
     monitor_step (OpAddPendingResource (sample_resource ''u2''))
       (monitor_step (OpAddPendingResource (sample_resource ''u1''))
         (monitor_step (OpAddEntry sample_entry) NewMemoryMonitoredInstances))"

definition sample_monitored_service :: monitored_service_entry where
  "sample_monitored_service = sample_service\<lparr>mse_NumPendingChecks := 2,
     mse_Resources := [(''u1'', sample_resource ''u1''), (''u2'', sample_resource ''u2'')]\<rparr>"

definition sample_monitored_entry :: monitored_app_entry where
  "sample_monitored_entry = sample_entry\<lparr>mae_Services := [(''s'', sample_monitored_service)]\<rparr>"

lemmas sample_defs = sample_store_def sample_entry_def sample_service_def sample_resource_def
  sample_monitored_service_def sample_monitored_entry_def

lemma sample_store_eq: "sample_store = [(''f'', sample_monitored_entry)]"
  by (simp add: sample_defs NewMemoryMonitoredInstances_def AddEntry_def AddPendingResource_def
      NewMonitoredPlatformResource_def service_AddPendingResource_def)

lemma sample_entry_ok: "op_ok (OpAddEntry sample_entry)"
  by (simp add: sample_defs entry_inv_def gm_all_def service_inv_def not_running_def)

lemma sample_reachable: "monitor_reachable sample_store"
  unfolding sample_store_def
  by (intro monitor_reachable.intros sample_entry_ok)
    (simp_all add: sample_resource_def NewMonitoredPlatformResource_def)

lemma sample_get: "gm_get sample_store ''f'' = Some sample_monitored_entry"
  by (simp add: sample_store_eq)

lemma sample_service_get: "gm_get (mae_Services sample_monitored_entry) ''s'' = Some sample_monitored_service"
  by (simp add: sample_monitored_entry_def)

lemma sample_resource_get:
  "gm_get (mse_Resources sample_monitored_service) ''u1'' = Some (sample_resource ''u1'')"
  by (simp add: sample_monitored_service_def)

lemma sample_resource_status [simp]: "mpr_Status (sample_resource u) = NALEJ_SERVICE_SCHEDULED"
  by (simp add: sample_resource_def NewMonitoredPlatformResource_def)

lemma sample_not_running: "mpr_Status (sample_resource u) \<noteq> NALEJ_SERVICE_RUNNING"
  by simp

lemmas sample_lookups = sample_get sample_service_get sample_resource_get

section \<open>The invariant and the refinement\<close>

text \<open>C1: In every store the program can reach, entries and services are filed under their own
  identifiers, and the pending counter of a service is the number of its resources that are
  not running.\<close>

theorem reachable_pending_counts:
  assumes "monitor_reachable p" and "gm_get p fid = Some e" and "gm_get (mae_Services e) sid = Some s"
  shows "mae_FragmentId e = fid \<and> mse_ServiceInstanceID s = sid \<and>
    mse_NumPendingChecks s =
      int (card {uid. \<exists>r. gm_get (mse_Resources s) uid = Some r \<and> mpr_Status r \<noteq> NALEJ_SERVICE_RUNNING})"
proof -
  have e: "entry_inv fid e"
    using monitor_reachable_inv [OF assms(1)] assms(2) by (rule monitored_inv_get)
  then have s: "service_inv sid s" using assms(3) by (rule entry_inv_get)
  then have "gm_wf (mse_Resources s)" by (auto simp: service_inv_def dest: gm_all_wf)
  then show ?thesis
    using e s by (simp add: entry_inv_def service_inv_def not_running_def int_card_weights)
qed

theorem reachable_pending_counts_witness:
  "mse_NumPendingChecks sample_monitored_service =
    int (card {uid. \<exists>r. gm_get (mse_Resources sample_monitored_service) uid = Some r \<and>
      mpr_Status r \<noteq> NALEJ_SERVICE_RUNNING}) \<and> mse_NumPendingChecks sample_monitored_service = 2"
  using reachable_pending_counts [OF sample_reachable sample_get sample_service_get]
  by (simp add: sample_monitored_service_def)

text \<open>C2: Every operation of the store refines the abstract specification: on the view of a
  reachable store (which fragments, services and resources exist, their statuses and change
  flags) it acts as \<open>spec_step\<close>, whatever order Go's map loops take.\<close>

theorem monitor_refines_spec:
  assumes "monitor_reachable p" and "op_ok oper"
  shows "view (monitor_step oper p) = spec_step oper (view p)"
  using monitor_reachable_inv [OF assms(1)] assms(2) by (rule monitor_step_view)

theorem monitor_refines_spec_witness:
  "view (monitor_step (OpSetResourceStatus ''f'' ''s'' ''u1'' NALEJ_SERVICE_ERROR ''crash'' []) sample_store) =
     spec_step (OpSetResourceStatus ''f'' ''s'' ''u1'' NALEJ_SERVICE_ERROR ''crash'' []) (view sample_store)"
  by (rule monitor_refines_spec [OF sample_reachable]) simp

section \<open>Resource status changes\<close>

text \<open>C3: A resource whose reported status differs from the stored one makes its service take the
  worst status of the service's resources after the change and its fragment the status of
  the worst of its services; the other fragments stay as they are.\<close>

theorem SetResourceStatus_aggregates:
  assumes reach: "monitor_reachable p" and e: "gm_get p fid = Some e"
    and s: "gm_get (mae_Services e) sid = Some s" and r: "gm_get (mse_Resources s) uid = Some r"
    and change: "mpr_Status r \<noteq> st"
  shows "\<exists>e' s'. SetResourceStatus fid sid uid st info eps p = (None, gm_adjust fid (\<lambda>_. e') p) \<and>
    gm_get (mae_Services e') sid = Some s' \<and>
    (\<lambda>u. map_option mpr_Status (gm_get (mse_Resources s') u)) =
      (\<lambda>u. map_option mpr_Status (gm_get (mse_Resources s) u))(uid \<mapsto> st) \<and>
    mse_Status s' = worst_status (mpr_Status ` set (gm_values (mse_Resources s'))) \<and>
    mse_Endpoints s' = mse_Endpoints s @ eps \<and>
    mae_Status e' = ServicesToFragmentStatus (worst_status (mse_Status ` set (gm_values (mae_Services e')))) \<and>
    (\<forall>sid'. sid' \<noteq> sid \<longrightarrow> gm_get (mae_Services e') sid' = gm_get (mae_Services e) sid')"
proof -
  let ?s' = "service_refresh_status (service_resource_change uid r st info eps s)"
  let ?e' = "app_refresh_status (e\<lparr>mae_Services := gm_adjust sid (\<lambda>_. ?s') (mae_Services e)\<rparr>)"
  have srv: "mse_Endpoints ?s' = mse_Endpoints s @ eps"
    by (simp add: service_refresh_status_def Let_def case_prod_beta service_change_fields)
  have sts: "(\<lambda>u. map_option mpr_Status (gm_get (mse_Resources ?s') u)) =
      (\<lambda>u. map_option mpr_Status (gm_get (mse_Resources s) u))(uid \<mapsto> st)"
    using service_change_statuses [OF r] by (auto simp: service_refresh_fields intro!: ext)
  show ?thesis
    using SetResourceStatus_changed [OF e s r change, of info eps] srv sts s
    by (intro exI [of _ ?e'] exI [of _ ?s'])
      (simp add: app_refresh_fields service_refresh_fields gomap_simps del: set_map)
qed

theorem SetResourceStatus_aggregates_witness:
  "\<exists>e' s'. SetResourceStatus ''f'' ''s'' ''u1'' NALEJ_SERVICE_RUNNING [] [] sample_store =
      (None, gm_adjust ''f'' (\<lambda>_. e') sample_store) \<and>
    gm_get (mae_Services e') ''s'' = Some s' \<and>
    mse_Status s' = worst_status (mpr_Status ` set (gm_values (mse_Resources s')))"
  using SetResourceStatus_aggregates [OF sample_reachable sample_lookups sample_not_running,
      where info = "[]" and eps = "[]"]
  by (elim exE conjE) (intro exI conjI)

text \<open>C9: A terminating fragment does not stay terminating: when one of its resources reports a new
  status, the fragment leaves \<open>FRAGMENT_TERMINATING\<close>, so the next round of notifications does
  not remove it from the store.\<close>

theorem terminating_is_overwritten:
  assumes reach: "monitor_reachable p" and e: "gm_get p fid = Some e"
    and s: "gm_get (mae_Services e) sid = Some s" and r: "gm_get (mse_Resources s) uid = Some r"
    and change: "mpr_Status r \<noteq> st"
  shows "\<exists>e'. gm_get (snd (GetPendingNotifications (snd (SetResourceStatus fid sid uid st info eps p)))) fid = Some e' \<and>
    mae_Status e' \<noteq> FRAGMENT_TERMINATING"
proof -
  let ?s' = "service_refresh_status (service_resource_change uid r st info eps s)"
  let ?e' = "app_refresh_status (e\<lparr>mae_Services := gm_adjust sid (\<lambda>_. ?s') (mae_Services e)\<rparr>)"
  have inv: "monitored_inv (snd (SetResourceStatus fid sid uid st info eps p))"
    using monitor_reachable_inv [OF reach] by (rule SetResourceStatus_inv)
  have "mae_Status ?e' \<noteq> FRAGMENT_TERMINATING"
    unfolding app_refresh_fields by (rule fragment_not_terminating)
  moreover have "gm_get (snd (SetResourceStatus fid sid uid st info eps p)) fid = Some ?e'"
    using e by (simp add: SetResourceStatus_changed [OF e s r change] gomap_simps)
  ultimately show ?thesis
    by (intro exI [of _ ?e']) (simp only: GetPendingNotifications_get [OF inv] option.case if_False simp_thms)
qed

text \<open>The fragment of the sample is undeployed, then a pod of it reports an error.\<close>

definition undeployed_sample :: monitored where
  "undeployed_sample = monitor_step (OpSetEntryStatus ''f'' FRAGMENT_TERMINATING None) sample_store"

lemma undeployed_reachable: "monitor_reachable undeployed_sample"
  unfolding undeployed_sample_def by (rule monitor_reachable.step [OF sample_reachable]) simp

lemma undeployed_get: "gm_get undeployed_sample ''f'' =
    Some (entry_set_status FRAGMENT_TERMINATING None sample_monitored_entry)"
  by (simp add: undeployed_sample_def SetEntryStatus_def sample_store_eq)

theorem terminating_is_overwritten_witness:
  "map_option mae_Status (gm_get undeployed_sample ''f'') = Some FRAGMENT_TERMINATING \<and>
   gm_get (snd (GetPendingNotifications undeployed_sample)) ''f'' = None \<and>
   (\<exists>e'. gm_get (snd (GetPendingNotifications (snd (SetResourceStatus ''f'' ''s'' ''u1''
      NALEJ_SERVICE_ERROR ''crash'' [] undeployed_sample)))) ''f'' = Some e' \<and> mae_Status e' \<noteq> FRAGMENT_TERMINATING)"
proof -
  let ?e = "entry_set_status FRAGMENT_TERMINATING None sample_monitored_entry"
  have s: "gm_get (mae_Services ?e) ''s'' = Some (sample_monitored_service\<lparr>mse_Status := NALEJ_SERVICE_TERMINATING\<rparr>)"
    by (simp add: entry_set_status_def sample_monitored_entry_def sample_entry_def gomap_simps)
  have r: "gm_get (mse_Resources (sample_monitored_service\<lparr>mse_Status := NALEJ_SERVICE_TERMINATING\<rparr>)) ''u1'' =
      Some (sample_resource ''u1'')"
    by (simp add: sample_monitored_service_def)
  have t: "mae_Status ?e = FRAGMENT_TERMINATING"
    by (simp add: entry_set_status_def Let_def)
  show ?thesis
    using terminating_is_overwritten [OF undeployed_reachable undeployed_get s r,
        of NALEJ_SERVICE_ERROR "''crash''" "[]"] t
    by (simp add: undeployed_get GetPendingNotifications_get [OF monitor_reachable_inv [OF undeployed_reachable]])
qed

text \<open>\<open>SetResourceStatus\<close> fails exactly on a resource that is not monitored, and then leaves the
  store as it was.\<close>

theorem SetResourceStatus_error_iff:
  "(fst (SetResourceStatus fid sid uid st info eps p) = None \<longleftrightarrow> IsMonitoredResource fid sid uid p) \<and>
   (IsMonitoredResource fid sid uid p \<or> snd (SetResourceStatus fid sid uid st info eps p) = p)"
  by (auto simp: SetResourceStatus_def IsMonitoredResource_def Let_def split: option.splits)

text \<open>As long as no resource of the service is in error, the text reported with a status change
  never reaches the service: the service keeps the text it had.\<close>

theorem SetResourceStatus_info_lost:
  assumes "gm_get p fid = Some e" and "gm_get (mae_Services e) sid = Some s"
    and "gm_get (mse_Resources s) uid = Some r" and "mpr_Status r \<noteq> st"
    and "NALEJ_SERVICE_ERROR \<notin> mpr_Status ` set (gm_values (mse_Resources (service_resource_change uid r st info eps s)))"
  shows "\<exists>e' s'. gm_get (snd (SetResourceStatus fid sid uid st info eps p)) fid = Some e' \<and>
    gm_get (mae_Services e') sid = Some s' \<and> mse_Info s' = mse_Info s"
  using assms service_refresh_info [OF assms(5)]
  by (simp add: SetResourceStatus_changed [OF assms(1-4)] app_refresh_fields gomap_simps
      service_change_fields)

theorem SetResourceStatus_info_lost_witness:
  "\<exists>e' s'. gm_get (snd (SetResourceStatus ''f'' ''s'' ''u1'' NALEJ_SERVICE_DEPLOYING ''pulling image'' [] sample_store)) ''f'' = Some e' \<and>
    gm_get (mae_Services e') ''s'' = Some s' \<and> mse_Info s' = mse_Info sample_monitored_service"
proof (rule SetResourceStatus_info_lost [OF sample_lookups])
  show "NALEJ_SERVICE_ERROR \<notin> mpr_Status ` set (gm_values (mse_Resources
      (service_resource_change ''u1'' (sample_resource ''u1'') NALEJ_SERVICE_DEPLOYING ''pulling image'' []
        sample_monitored_service)))"
    by (simp add: service_resource_change_def sample_monitored_service_def Let_def)
qed simp

section \<open>Notification rounds\<close>

text \<open>C10: A notification round reports the fragments with an unreported change, each with the services
  that changed (all of them when the fragment itself changed), and removes exactly the
  terminating fragments from the store.\<close>

theorem GetPendingNotifications_exact:
  assumes "monitor_reachable p"
  shows "fst (GetPendingNotifications p) =
      map notification_of (filter (\<lambda>e. \<exists>s \<in> set (gm_values (mae_Services e)). mae_NewStatus e \<or> mse_NewStatus s) (gm_values p)) \<and>
    (\<forall>e \<in> set (gm_values p). mae_Services (notification_of e) =
      filter (\<lambda>(sid, s). mae_NewStatus e \<or> mse_NewStatus s) (mae_Services e)) \<and>
    gm_get (snd (GetPendingNotifications p)) = (\<lambda>fid. case gm_get p fid of None \<Rightarrow> None
      | Some e \<Rightarrow> if mae_Status e = FRAGMENT_TERMINATING then None else Some e)"
proof -
  have inv: "monitored_inv p" using assms by (rule monitor_reachable_inv)
  have ps: "pending_services e = filter (\<lambda>(sid, s). mae_NewStatus e \<or> mse_NewStatus s) (mae_Services e)"
    if "e \<in> set (gm_values p)" for e
  proof -
    obtain fid where "(fid, e) \<in> set p" using \<open>e \<in> set (gm_values p)\<close> by auto
    then have "entry_inv fid e" using inv by (auto simp: monitored_inv_def dest: gm_all_mem)
    then show ?thesis by (rule pending_services_filter)
  qed
  have "filter (\<lambda>e. pending_services e \<noteq> []) (gm_values p) =
      filter (\<lambda>e. \<exists>s \<in> set (gm_values (mae_Services e)). mae_NewStatus e \<or> mse_NewStatus s) (gm_values p)"
  proof (rule filter_cong [OF refl])
    fix e assume "e \<in> set (gm_values p)"
    from ps [OF this] show "pending_services e \<noteq> [] \<longleftrightarrow>
        (\<exists>s \<in> set (gm_values (mae_Services e)). mae_NewStatus e \<or> mse_NewStatus s)"
      by (force simp: filter_empty_conv)
  qed
  moreover have "\<forall>e \<in> set (gm_values p). mae_Services (notification_of e) =
      filter (\<lambda>(sid, s). mae_NewStatus e \<or> mse_NewStatus s) (mae_Services e)"
    by (auto simp: notification_of_def ps)
  ultimately show ?thesis
    using GetPendingNotifications_get [OF inv]
    by (auto simp: GetPendingNotifications_def Let_def)
qed

theorem GetPendingNotifications_exact_witness:
  "fst (GetPendingNotifications undeployed_sample) =
      map notification_of (filter (\<lambda>e. \<exists>s \<in> set (gm_values (mae_Services e)). mae_NewStatus e \<or> mse_NewStatus s)
        (gm_values undeployed_sample)) \<and>
    gm_get (snd (GetPendingNotifications undeployed_sample)) ''f'' = None"
  using GetPendingNotifications_exact [OF undeployed_reachable]
  by (simp add: undeployed_get entry_set_status_def Let_def del: set_map)

text \<open>After a reset, of any store, nothing is left to report: neither services with
  a new status nor fragments to notify.\<close>

theorem Reset_reports_nothing:
  "GetServicesUnnotifiedStatus (ResetServicesUnnotifiedStatus p) = [] \<and>
   fst (GetPendingNotifications (ResetServicesUnnotifiedStatus p)) = []"
  using Reset_no_news [of p] Reset_no_pending [of p]
  by (simp add: GetServicesUnnotifiedStatus_def filter_empty_conv)

text \<open>Once an application is set to terminating, the next notification round drops every fragment
  of it and keeps the fragments of the other applications unchanged.\<close>

lemma terminated_app_is_removed:
  assumes "monitored_inv p"
  shows "gm_get (snd (GetPendingNotifications (SetAppStatus app FRAGMENT_TERMINATING err p))) fid =
    (case gm_get p fid of
       None \<Rightarrow> None
     | Some e \<Rightarrow> if mae_AppInstanceId e = app \<or> mae_Status e = FRAGMENT_TERMINATING then None else Some e)"
proof -
  have inv: "monitored_inv (SetAppStatus app FRAGMENT_TERMINATING err p)"
    using assms by (rule SetAppStatus_inv)
  have "gm_get (SetAppStatus app FRAGMENT_TERMINATING err p) fid =
      map_option (app_set_status app FRAGMENT_TERMINATING err) (gm_get p fid)"
    by (simp add: SetAppStatus_def gomap_simps)
  then show ?thesis
    by (auto simp: GetPendingNotifications_get [OF inv] app_set_status_def Let_def split: option.splits)
qed

section \<open>Histories between two rounds\<close>

text \<open>C4: No change of status goes unreported, with one exception: whatever the handler and the controller do to the store
  between two rounds, the fragment and the service are still there, and either the service has its
  old status or the next round tells its new one, together with the status of its fragment then, or the service is
  terminating because its fragment, terminating already, was set to terminating once more.\<close>

theorem status_changes_reported:
  assumes "monitor_reachable p" and "list_all op_ok ops" and "list_all between_rounds ops"
    and "gm_get p fid = Some e" and "gm_get (mae_Services e) sid = Some s"
  shows "\<exists>e' s'. gm_get (fold monitor_step ops p) fid = Some e' \<and> gm_get (mae_Services e') sid = Some s' \<and>
    (mse_Status s' = mse_Status s \<or>
     (\<exists>n. n \<in> set (fst (GetPendingNotifications (fold monitor_step ops p))) \<and>
       mae_FragmentId n = fid \<and> mae_Status n = mae_Status e' \<and>
       map_option mse_Status (gm_get (mae_Services n) sid) = Some (mse_Status s')) \<or>
     (terminated_again fid ops p \<and> mse_Status s' = NALEJ_SERVICE_TERMINATING))"
proof -
  let ?q = "fold monitor_step ops p"
  note inv = monitor_reachable_inv [OF assms(1)]
  have "view p fid = Some (view_entry e)" "ev_Services (view_entry e) sid = Some (view_service s)"
    using assms(4,5) by (simp_all add: view_defs)
  from memory_facts(1) [OF inv assms(2,3) this]
  obtain v t where v: "view ?q fid = Some v" "ev_Services v sid = Some t"
    and told: "sv_Status t = mse_Status s \<or> (\<exists>told. (fid, ev_Status v, told) \<in>
      view_notification ` set (fst (GetPendingNotifications ?q)) \<and> told sid = Some (sv_Status t)) \<or>
      (terminated_again fid ops p \<and> sv_Status t = NALEJ_SERVICE_TERMINATING)"
    unfolding terminated_again_view [OF inv assms(2)] by (auto simp: view_defs)
  obtain e' s' where e': "gm_get ?q fid = Some e'" "gm_get (mae_Services e') sid = Some s'"
    and vt: "v = view_entry e'" "t = view_service s'"
    using v by (auto simp: view_defs)
  have "sv_Status t = mse_Status s'" "ev_Status v = mae_Status e'" by (simp_all add: vt view_defs)
  then show ?thesis
    using told e' by (intro exI conjI) (assumption, assumption, auto simp: view_notification_def)
qed

text \<open>The agent sees a resource fail.\<close>

lemma sample_failure:
  "\<exists>e' s'. gm_get (monitor_step (OpSetResourceStatus ''f'' ''s'' ''u1'' NALEJ_SERVICE_ERROR ''crash'' []) sample_store) ''f'' = Some e' \<and>
    gm_get (mae_Services e') ''s'' = Some s' \<and> mse_Status s' = NALEJ_SERVICE_ERROR"
  by (simp add: SetResourceStatus_def Let_def sample_store_eq sample_defs NewMonitoredPlatformResource_def
      service_resource_change_def service_refresh_status_def app_refresh_status_def gomap_simps case_prod_beta)

theorem status_changes_reported_witness:
  "mse_Status sample_monitored_service = NALEJ_SERVICE_SCHEDULED \<and>
   (\<exists>n. n \<in> set (fst (GetPendingNotifications (fold monitor_step
       [OpSetResourceStatus ''f'' ''s'' ''u1'' NALEJ_SERVICE_ERROR ''crash'' []] sample_store))) \<and>
     mae_FragmentId n = ''f'' \<and> map_option mse_Status (gm_get (mae_Services n) ''s'') = Some NALEJ_SERVICE_ERROR)"
proof -
  have scheduled: "mse_Status sample_monitored_service = NALEJ_SERVICE_SCHEDULED"
    by (simp add: sample_monitored_service_def sample_service_def)
  show ?thesis
    using status_changes_reported [OF sample_reachable _ _ sample_get sample_service_get,
        of "[OpSetResourceStatus ''f'' ''s'' ''u1'' NALEJ_SERVICE_ERROR ''crash'' []]"] sample_failure scheduled
    by (auto simp del: monitor_step.simps)
qed

text \<open>C11: What is reported does not depend on the order of Go's maps: two stores with the same view report the
  same fragments with the same statuses after every common history.\<close>

theorem map_order_irrelevant:
  assumes "monitor_reachable p" and "monitor_reachable q" and "view p = view q" and "list_all op_ok ops"
  shows "view_notification ` set (fst (GetPendingNotifications (fold monitor_step ops p))) =
    view_notification ` set (fst (GetPendingNotifications (fold monitor_step ops q)))"
  using memory_facts(2) [OF monitor_reachable_inv [OF assms(1)] monitor_reachable_inv [OF assms(2)] assms(3,4)] .

text \<open>The resources of the sample are entered in the other order.\<close>

definition swapped_store :: monitored where
  "swapped_store =
     monitor_step (OpAddPendingResource (sample_resource ''u1''))
       (monitor_step (OpAddPendingResource (sample_resource ''u2''))
         (monitor_step (OpAddEntry sample_entry) NewMemoryMonitoredInstances))"

lemma swapped_reachable: "monitor_reachable swapped_store"
  unfolding swapped_store_def
  by (intro monitor_reachable.intros sample_entry_ok)
    (simp_all add: sample_resource_def NewMonitoredPlatformResource_def)

lemma swapped_store_eq: "swapped_store = [(''f'', sample_entry\<lparr>mae_Services := [(''s'', sample_service\<lparr>mse_NumPendingChecks := 2,
     mse_Resources := [(''u2'', sample_resource ''u2''), (''u1'', sample_resource ''u1'')]\<rparr>)]\<rparr>)]"
  by (simp add: swapped_store_def sample_defs NewMemoryMonitoredInstances_def AddEntry_def AddPendingResource_def
      NewMonitoredPlatformResource_def service_AddPendingResource_def)

lemma swapped_view: "swapped_store \<noteq> sample_store \<and> view sample_store = view swapped_store"
proof
  show "swapped_store \<noteq> sample_store"
    by (simp add: swapped_store_eq sample_store_eq sample_defs NewMonitoredPlatformResource_def)
  show "view sample_store = view swapped_store"
    by (auto simp: swapped_store_eq sample_store_eq sample_monitored_entry_def sample_monitored_service_def
        view_defs fun_eq_iff)
qed

theorem map_order_irrelevant_witness:
  "view_notification ` set (fst (GetPendingNotifications (fold monitor_step
      [OpSetResourceStatus ''f'' ''s'' ''u1'' NALEJ_SERVICE_ERROR ''crash'' [], OpGetPendingNotifications] sample_store))) =
   view_notification ` set (fst (GetPendingNotifications (fold monitor_step
      [OpSetResourceStatus ''f'' ''s'' ''u1'' NALEJ_SERVICE_ERROR ''crash'' [], OpGetPendingNotifications] swapped_store)))"
  by (rule map_order_irrelevant [OF sample_reachable swapped_reachable]) (simp_all add: swapped_view)

section \<open>The wait for pending checks\<close>

text \<open>The wait for a fragment's checks returns on every schedule on which the timer fires, and it
  reports success only with all services of the fragment running and no pending check left.\<close>

theorem WaitPendingChecks_returns:
  assumes "Timeout \<in> set (map snd sch)"
  shows "\<exists>err p'. WaitPendingChecks fid sch p = Some (err, p') \<and>
    (case err of None \<Rightarrow> \<exists>e. gm_get p' fid = Some e \<and> all_running e \<and> mae_NumPendingChecks e = 0
     | Some _ \<Rightarrow> True)"
  using assms
proof (induction sch arbitrary: p)
  case (Cons x rest)
  obtain env sig where x: "x = (env, sig)" by (cases x)
  show ?case
  proof (cases sig)
    case Timeout
    then show ?thesis using x by simp
  next
    case Tick
    then have rest: "Timeout \<in> set (map snd rest)" using Cons.prems x by simp
    show ?thesis
    proof (cases "gm_get (env p) fid")
      case (Some e)
      then show ?thesis
        using x Tick Cons.IH [OF rest]
        by (auto simp: WaitPendingChecks_tick UpdateAppStatus_get count_pending_zero
            simp del: WaitPendingChecks.simps)
    qed (use x Tick in \<open>simp add: WaitPendingChecks_tick del: WaitPendingChecks.simps\<close>)
  qed
qed simp

section \<open>Counters\<close>

lemma apps_loop_keys:
  assumes "gm_all entry_inv (acc @ m)"
  shows "length (fold (\<lambda>entry (list :: (string, bool) gomap).
      case gm_get list (mae_FragmentId entry) of None \<Rightarrow> gm_put (mae_FragmentId entry) True list
      | Some _ \<Rightarrow> list) (gm_values m) (map (\<lambda>(k, e). (k, True)) acc)) = length acc + length m"
  using assms
proof (induction m arbitrary: acc)
  case (Cons x m)
  obtain k e where x: "x = (k, e)" by (cases x)
  have k: "mae_FragmentId e = k" using Cons.prems x by (auto simp: gm_all_def entry_inv_def)
  have fresh: "k \<notin> fst ` set acc" using Cons.prems x by (auto simp: gm_all_def)
  then have g: "gm_get (map (\<lambda>(k, e). (k, True)) acc) k = None"
    by (force simp: map_of_eq_None_iff)
  have put: "gm_put k True (map (\<lambda>(k, e). (k, True)) acc) = map (\<lambda>(k, e). (k, True)) (acc @ [x])"
    using fresh x by (induction acc) auto
  show ?case
    using Cons.IH [of "acc @ [x]"] Cons.prems x k g put by simp
qed simp

text \<open>The number of applications the store reports is its number of fragments, so several
  fragments of one application are counted several times.\<close>

theorem GetNumApps_counts_fragments:
  assumes "monitor_reachable p"
  shows "GetNumApps p = GetNumFragments p"
  using apps_loop_keys [of "[]" p] monitor_reachable_inv [OF assms]
  by (simp add: GetNumApps_def GetNumFragments_def monitored_inv_def)

definition two_fragments :: monitored where
  "two_fragments = monitor_step (OpAddEntry (sample_entry\<lparr>mae_FragmentId := ''f2''\<rparr>)) sample_store"

lemma two_fragments_eq:
  "two_fragments = [(''f'', sample_monitored_entry), (''f2'', sample_entry\<lparr>mae_FragmentId := ''f2''\<rparr>)]"
  by (simp add: two_fragments_def AddEntry_def sample_store_eq)

lemma two_fragments_reachable: "monitor_reachable two_fragments"
  unfolding two_fragments_def
  by (rule monitor_reachable.step [OF sample_reachable])
    (simp add: sample_defs entry_inv_def gm_all_def service_inv_def not_running_def)

theorem GetNumApps_counts_fragments_witness:
  "map mae_AppInstanceId (gm_values two_fragments) = [''a'', ''a''] \<and> GetNumApps two_fragments = 2"
proof
  show "map mae_AppInstanceId (gm_values two_fragments) = [''a'', ''a'']"
    by (simp add: two_fragments_eq sample_monitored_entry_def sample_entry_def)
  show "GetNumApps two_fragments = 2"
    unfolding GetNumApps_counts_fragments [OF two_fragments_reachable]
    by (simp add: GetNumFragments_def two_fragments_eq)
qed

end
