(* ===== verification/Controller.thy ===== *)
theory Controller
  imports Watched MonitorTheorems
begin

text \<open>
  The Kubernetes controller, \<^verbatim>\<open>pkg/kubernetes/kubernetes_controller.go\<close>: the functions that
  turn the events of deployments, services and ingresses into statuses of monitored resources.
  Rendering a condition as text is a parameter.
\<close>

section \<open>The event functions\<close>

definition controller_SetResourceStatus ::
  "string \<Rightarrow> string \<Rightarrow> string \<Rightarrow> nalej_service_status \<Rightarrow> string \<Rightarrow> endpoint_instance list \<Rightarrow>
   (go_error option, 'w st) prog" where
  "controller_SetResourceStatus fragmentId serviceID uid status info endpoints s =
     (case SetResourceStatus fragmentId serviceID uid status info endpoints (fst s) of
        (err, p) \<Rightarrow> Done (err, (p, snd s)))"

definition label_fragment :: "object_meta \<Rightarrow> string" where
  "label_fragment m = gm_str (om_Labels m) NALEJ_ANNOTATION_DEPLOYMENT_FRAGMENT"

definition label_service :: "object_meta \<Rightarrow> string" where
  "label_service m = gm_str (om_Labels m) NALEJ_ANNOTATION_SERVICE_INSTANCE_ID"

definition SupportedKinds_controller :: "gvk list" where
  "SupportedKinds_controller = [DeploymentKind, ServiceKind, IngressKind]"

fun OnDeployment ::
  "(deployment_condition \<Rightarrow> string) \<Rightarrow> watched_object option \<Rightarrow> watched_object \<Rightarrow> event_type \<Rightarrow>
   (go_error option, 'w st) prog" where
  "OnDeployment fmt oldObj (WDeployment m dep) action =
     (if action = EventDelete then ret None
      else if dst_UnavailableReplicas dep = 0 \<and> dst_AvailableReplicas dep > 0
      then controller_SetResourceStatus (label_fragment m) (label_service m) (om_UID m) NALEJ_SERVICE_RUNNING [] []
      else
        (let foundStatus = KubernetesDeploymentStatusTranslation (dst_Conditions dep);
             info = foldl (\<lambda>info condition. info @ '' '' @ fmt condition) [] (dst_Conditions dep)
         in controller_SetResourceStatus (label_fragment m) (label_service m) (om_UID m) foundStatus info []))"
| "OnDeployment fmt oldObj obj action = bad_assertion"

definition ingestion_endpoint :: "string \<Rightarrow> string \<Rightarrow> int \<Rightarrow> endpoint_instance" where
  "ingestion_endpoint uid fqdn port = \<lparr>ei_EndpointInstanceId = uid,
     ei_EndpointType = ENDPOINT_TYPE_INGESTION, ei_FQDN = fqdn, ei_Port = port\<rparr>"

definition balancer_endpoints :: "string \<Rightarrow> service_state \<Rightarrow> endpoint_instance list" where
  "balancer_endpoints uid dep =
     concat (map (\<lambda>ip. map (\<lambda>port. ingestion_endpoint uid (lbi_IP ip) (sp_Port port)) (sst_Ports dep)) (sst_Ingress dep))"

text \<open>The endpoints of a service; \<open>None\<close> while its load balancer is not ready.\<close>

definition service_endpoints :: "config \<Rightarrow> object_meta \<Rightarrow> service_state \<Rightarrow> endpoint_instance list option" where
  "service_endpoints cfg m dep =
     (case gm_get (om_Labels m) NALEJ_ANNOTATION_SERVICE_PURPOSE of
        None \<Rightarrow> Some []
      | Some purpose \<Rightarrow>
          if purpose = NALEJ_ANNOTATION_VALUE_DEVICE_GROUP_SERVICE then
            (if sst_Type dep = LoadBalancer then
               (if sst_Ingress dep = [] then None else Some (balancer_endpoints (om_UID m) dep))
             else if sst_Type dep = NodePort then
               Some (map (\<lambda>port. ingestion_endpoint (om_UID m) (cfg_ClusterPublicHostname cfg) (sp_NodePort port))
                 (sst_Ports dep))
             else Some [])
          else if purpose = NALEJ_ANNOTATION_VALUE_LOAD_BALANCER_SERVICE then
            (if sst_Type dep = LoadBalancer then
               (if sst_Ingress dep = [] then None else Some (balancer_endpoints (om_UID m) dep))
             else Some [])
          else Some [])"

fun OnService ::
  "config \<Rightarrow> watched_object option \<Rightarrow> watched_object \<Rightarrow> event_type \<Rightarrow> (go_error option, 'w st) prog" where
  "OnService cfg oldObj (WService m dep) action =
     (if action = EventDelete then ret None
      else (case service_endpoints cfg m dep of
          None \<Rightarrow> ret None
        | Some endpoints \<Rightarrow> controller_SetResourceStatus (label_fragment m) (label_service m) (om_UID m)
            NALEJ_SERVICE_RUNNING [] endpoints))"
| "OnService cfg oldObj obj action = bad_assertion"

text \<open>An ingress without any load balancer entry counts as ready.\<close>

definition ingress_ready :: "ingress_state \<Rightarrow> bool" where
  "ingress_ready dep = (\<not> list_ex (\<lambda>ing. lbi_Hostname ing = [] \<or> lbi_IP ing = []) (ist_Ingress dep))"

fun OnIngress ::
  "watched_object option \<Rightarrow> watched_object \<Rightarrow> event_type \<Rightarrow> (go_error option, 'w st) prog" where
  "OnIngress oldObj (WIngress m dep) action =
     (if action = EventDelete then ret None
      else (case ist_Rules dep of
          [] \<Rightarrow> ret None
        | rule # _ \<Rightarrow>
            if \<not> ingress_ready dep then ret None
            else (case wr_HTTP rule of
                None \<Rightarrow> panic ''invalid memory address or nil pointer dereference''
              | Some paths \<Rightarrow>
                  controller_SetResourceStatus (label_fragment m) (label_service m) (om_UID m) NALEJ_SERVICE_RUNNING []
                    [\<lparr>ei_EndpointInstanceId = om_UID m, ei_EndpointType = ENDPOINT_TYPE_WEB, ei_FQDN = wr_Host rule,
                      ei_Port = (case paths of [] \<Rightarrow> 0 | path # _ \<Rightarrow> ip_ServicePort path)\<rparr>])))"
| "OnIngress oldObj obj action = bad_assertion"

section \<open>Every event keeps the invariant of the store\<close>

definition store_ok :: "'w st \<Rightarrow> bool" where
  "store_ok s \<longleftrightarrow> monitored_inv (fst s)"

lemma keeps_controller_status: "keeps store_ok (controller_SetResourceStatus fid sid uid st info eps)"
proof -
  have "store_ok s'" if "controller_SetResourceStatus fid sid uid st info eps s = Done (x, s')" "store_ok s" for s x s'
  proof -
    have "fst s' = snd (SetResourceStatus fid sid uid st info eps (fst s))"
      using that(1) unfolding controller_SetResourceStatus_def by (simp add: case_prod_beta) (metis fst_conv)
    then show ?thesis using that(2) SetResourceStatus_inv unfolding store_ok_def by simp
  qed
  then show ?thesis unfolding keeps_def by blast
qed

lemma controller_events_keep:
  "keeps store_ok (OnDeployment fmt oldObj obj action)"
  "keeps store_ok (OnService cfg oldObj obj action)"
  "keeps store_ok (OnIngress oldObj obj action)"
  by (cases obj; auto simp: Let_def bad_assertion_def intro!: keeps_intros keeps_controller_status
      split: option.split list.split)+

end
