(* ===== verification/Events.thy ===== *)
theory Events
  imports Watched
begin

text \<open>
  The dispatcher of events, \<^verbatim>\<open>pkg/kubernetes/events/dispatcher.go\<close>. Informers call \<^verbatim>\<open>OnAdd\<close>,
  \<^verbatim>\<open>OnUpdate\<close> and \<^verbatim>\<open>OnDelete\<close>, which put an event in a work queue; one worker takes the events
  from the queue, looks the object up by its key and calls the function for its kind. The work queue,
  the stores of objects and the functions that compute keys belong to client-go and are parameters;
  they act on a state of any type.
\<close>

definition maxRetries :: nat where "maxRetries = 5"

record event =
  ev_Key :: string
  ev_OldObjKey :: string
  ev_Kind :: gvk
  ev_EventType :: event_type

text \<open>\<^verbatim>\<open>GetByKey\<close> of a store or an indexer.\<close>

type_synonym 's store = "string \<Rightarrow> 's \<Rightarrow> go_error + watched_object option"

type_synonym 's handler =
  "watched_object option \<Rightarrow> watched_object \<Rightarrow> event_type \<Rightarrow> (go_error option, 's) prog"

text \<open>
  What the dispatcher uses of client-go. The index of deleted objects is asked to delete a key, that
  is an argument that is not an object; \<open>et_between\<close> is what other goroutines do between two reads
  of one lookup.
\<close>

record 's event_tools =
  et_Add :: "event \<Rightarrow> 's \<Rightarrow> 's"
  et_AddRateLimited :: "event \<Rightarrow> 's \<Rightarrow> 's"
  et_Forget :: "event \<Rightarrow> 's \<Rightarrow> 's"
  et_Done :: "event \<Rightarrow> 's \<Rightarrow> 's"
  et_NumRequeues :: "event \<Rightarrow> 's \<Rightarrow> nat"
  et_AddDeleted :: "watched_object \<Rightarrow> 's \<Rightarrow> 's"
  et_GetDeleted :: "'s store"
  et_DeleteDeleted :: "string \<Rightarrow> 's \<Rightarrow> 's"
  et_MetaNamespaceKey :: "watched_object \<Rightarrow> go_error + string"
  et_DeletionHandlingKey :: "watched_object \<Rightarrow> go_error + string"
  et_ObjectKinds :: "watched_object \<Rightarrow> go_error + gvk list"
  et_between :: "'s \<Rightarrow> 's"

text \<open>
  The interface of a collection of event functions: \<open>fn_object\<close> is the value with the methods,
  \<open>fn_MethodByName\<close> what reflection finds on it.
\<close>

record ('f, 's) dispatch_funcs =
  fn_object :: 'f
  fn_SupportedKinds :: "gvk list"
  fn_MethodByName :: "string \<Rightarrow> ('f \<Rightarrow> 's handler) option"
  fn_SetStore :: "gvk \<Rightarrow> 's store \<Rightarrow> 'f \<Rightarrow> go_error option \<times> 'f"

record ('f, 's) dispatcher =
  dsp_dispatchFuncs :: "('f, 's) dispatch_funcs"
  dsp_funcMap :: "(gvk, 'f \<Rightarrow> 's handler) gomap"
  dsp_indexers :: "(gvk, 's store) gomap"

section \<open>Construction\<close>

fun collect_functions ::
  "('f, 's) dispatch_funcs \<Rightarrow> gvk list \<Rightarrow> (gvk, 'f \<Rightarrow> 's handler) gomap \<Rightarrow>
   go_error + (gvk, 'f \<Rightarrow> 's handler) gomap" where
  "collect_functions funcs [] m = Inr m"
| "collect_functions funcs (kind # kinds) m =
     (case fn_MethodByName funcs (''On'' @ gvk_Kind kind) of
        None \<Rightarrow> Inl (DError Internal (''function On'' @ gvk_Kind kind @ '' not defined in dispatchfuncs''))
      | Some f \<Rightarrow> collect_functions funcs kinds (gm_put kind f m))"

definition NewDispatcher :: "('f, 's) dispatch_funcs \<Rightarrow> go_error + ('f, 's) dispatcher" where
  "NewDispatcher funcs =
     (case collect_functions funcs (fn_SupportedKinds funcs) [] of
        Inl e \<Rightarrow> Inl e
      | Inr m \<Rightarrow> Inr \<lparr>dsp_dispatchFuncs = funcs, dsp_funcMap = m, dsp_indexers = []\<rparr>)"

definition Dispatchable :: "('f, 's) dispatcher \<Rightarrow> gvk list" where
  "Dispatchable d = map fst (dsp_funcMap d)"

definition dispatcher_SetStore ::
  "gvk \<Rightarrow> 's store \<Rightarrow> ('f, 's) dispatcher \<Rightarrow> go_error option \<times> ('f, 's) dispatcher" where
  "dispatcher_SetStore kind st d =
     (case fn_SetStore (dsp_dispatchFuncs d) kind st (fn_object (dsp_dispatchFuncs d)) of
        (err, f) \<Rightarrow> (err, d\<lparr>dsp_dispatchFuncs := (dsp_dispatchFuncs d)\<lparr>fn_object := f\<rparr>\<rparr>))"

definition SetIndexer ::
  "gvk \<Rightarrow> 's store \<Rightarrow> ('f, 's) dispatcher \<Rightarrow> go_error option \<times> ('f, 's) dispatcher" where
  "SetIndexer kind indexer d =
     (case gm_get (dsp_indexers d) kind of
        Some _ \<Rightarrow> (Some (GoError (''Store for '' @ gvk_Kind kind @ '' already set'')), d)
      | None \<Rightarrow> (None, d\<lparr>dsp_indexers := gm_put kind indexer (dsp_indexers d)\<rparr>))"

section \<open>Creating events\<close>

definition getKind :: "'s event_tools \<Rightarrow> watched_object \<Rightarrow> (go_error + gvk) outcome" where
  "getKind t obj =
     (case meta_Accessor obj of
        Inl err \<Rightarrow> Done (Inl err)
      | Inr _ \<Rightarrow>
          (case et_ObjectKinds t obj of
             Inl err \<Rightarrow> Done (Inl err)
           | Inr [] \<Rightarrow> Panic ''index out of range''
           | Inr (kind # _) \<Rightarrow> Done (Inr kind)))"

definition createEvent :: "'s event_tools \<Rightarrow> watched_object \<Rightarrow> event_type \<Rightarrow> (go_error + event) outcome" where
  "createEvent t obj eventType =
     (case et_DeletionHandlingKey t obj of
        Inl err \<Rightarrow> Done (Inl err)
      | Inr key \<Rightarrow>
          bind_outcome (getKind t obj) (\<lambda>r. case r of
             Inl err \<Rightarrow> Done (Inl err)
           | Inr kind \<Rightarrow> Done (Inr \<lparr>ev_Key = key, ev_OldObjKey = [], ev_Kind = kind, ev_EventType = eventType\<rparr>)))"

definition modify :: "('s \<Rightarrow> 's) \<Rightarrow> (unit, 's) prog" where
  "modify f s = Done ((), f s)"

definition OnAdd :: "'s event_tools \<Rightarrow> watched_object \<Rightarrow> (unit, 's) prog" where
  "OnAdd t obj = and_then (lift_outcome (createEvent t obj EventAdd)) (\<lambda>r. case r of
     Inl err \<Rightarrow> ret ()
   | Inr e \<Rightarrow> modify (et_Add t e))"

definition OnUpdate :: "'s event_tools \<Rightarrow> watched_object \<Rightarrow> watched_object \<Rightarrow> (unit, 's) prog" where
  "OnUpdate t oldObj newObj = and_then (lift_outcome (createEvent t newObj EventUpdate)) (\<lambda>r. case r of
     Inl err \<Rightarrow> ret ()
   | Inr e \<Rightarrow> (case et_MetaNamespaceKey t oldObj of
        Inl err \<Rightarrow> ret ()
      | Inr oldObjKey \<Rightarrow> modify (et_Add t (e\<lparr>ev_OldObjKey := oldObjKey\<rparr>))))"

definition OnDelete :: "'s event_tools \<Rightarrow> watched_object \<Rightarrow> (unit, 's) prog" where
  "OnDelete t obj = and_then (lift_outcome (createEvent t obj EventDelete)) (\<lambda>r. case r of
     Inl err \<Rightarrow> ret ()
   | Inr e \<Rightarrow> and_then (modify (et_AddDeleted t obj)) (\<lambda>_. modify (et_Add t e)))"

section \<open>Dispatching\<close>

text \<open>The old object is looked up with the key of the new one.\<close>

definition fetch_old ::
  "'s event_tools \<Rightarrow> 's store \<Rightarrow> event \<Rightarrow> watched_object \<Rightarrow> (go_error + watched_object option \<times> watched_object, 's) prog" where
  "fetch_old t indexer ev obj =
     (if ev_OldObjKey ev = [] then ret (Inr (None, obj))
      else and_then (modify (et_between t)) (\<lambda>_. with_state (\<lambda>s.
        case indexer (ev_Key ev) s of
          Inl err \<Rightarrow> ret (Inl (DError Internal ''error fetching key from store''))
        | Inr oldObj \<Rightarrow> ret (Inr (oldObj, obj)))))"

definition fetchObj ::
  "'s event_tools \<Rightarrow> ('f, 's) dispatcher \<Rightarrow> event \<Rightarrow> (go_error + watched_object option \<times> watched_object, 's) prog" where
  "fetchObj t d ev =
     (case gm_get (dsp_indexers d) (ev_Kind ev) of
        None \<Rightarrow> ret (Inl (DError InvalidArgument ''no indexer found''))
      | Some indexer \<Rightarrow> with_state (\<lambda>s.
          case indexer (ev_Key ev) s of
            Inl err \<Rightarrow> ret (Inl (DError Internal ''error fetching key from store''))
          | Inr (Some obj) \<Rightarrow> fetch_old t indexer ev obj
          | Inr None \<Rightarrow> and_then (modify (et_between t)) (\<lambda>_. with_state (\<lambda>s.
              case et_GetDeleted t (ev_Key ev) s of
                Inl err \<Rightarrow> ret (Inl (DError Internal ''error fetching key from deleted object store''))
              | Inr None \<Rightarrow> ret (Inl (DError InvalidArgument
                  ''key does not exist in deleted object store while it should''))
              | Inr (Some obj) \<Rightarrow> and_then (modify (et_DeleteDeleted t (ev_Key ev)))
                  (\<lambda>_. fetch_old t indexer ev obj)))))"

definition dispatch :: "'s event_tools \<Rightarrow> ('f, 's) dispatcher \<Rightarrow> event \<Rightarrow> (go_error option, 's) prog" where
  "dispatch t d ev =
     and_then (fetchObj t d ev) (\<lambda>r. case r of
       Inl derr \<Rightarrow> ret (Some derr)
     | Inr (oldObj, obj) \<Rightarrow>
         (case gm_get (dsp_funcMap d) (ev_Kind ev) of
            None \<Rightarrow> ret (Some (DError InvalidArgument ''no translator found''))
          | Some f \<Rightarrow>
              (case meta_Accessor obj of
                 Inl err \<Rightarrow> ret (Some err)
               | Inr _ \<Rightarrow> f (fn_object (dsp_dispatchFuncs d)) oldObj obj (ev_EventType ev))))"

text \<open>
  One round of the worker with an event from the queue, and the worker on the events that the
  queue delivers, one after the other; \<open>None\<close> is the shutdown of the queue. The result tells what
  became of each delivery.
\<close>

datatype decision = Forgotten | Requeued | GaveUp

definition process_event :: "'s event_tools \<Rightarrow> ('f, 's) dispatcher \<Rightarrow> event \<Rightarrow> (decision, 's) prog" where
  "process_event t d ev =
     and_then (dispatch t d ev) (\<lambda>err. with_state (\<lambda>s.
       let (decision, update) =
         (if err = None then (Forgotten, et_Forget t ev)
          else if et_NumRequeues t ev s < maxRetries then (Requeued, et_AddRateLimited t ev)
          else (GaveUp, et_Forget t ev))
       in and_then (modify update) (\<lambda>_. and_then (modify (et_Done t ev)) (\<lambda>_. ret decision))))"

fun worker :: "'s event_tools \<Rightarrow> ('f, 's) dispatcher \<Rightarrow> event option list \<Rightarrow> (decision list, 's) prog" where
  "worker t d [] = ret []"
| "worker t d (None # rest) = ret []"
| "worker t d (Some ev # rest) =
     and_then (process_event t d ev) (\<lambda>decision.
     and_then (worker t d rest) (\<lambda>decisions. ret (decision # decisions)))"

end
