(* ===== verification/ControllerEvents.thy ===== *)
theory ControllerEvents
  imports Controller Events
begin

text \<open>
  The Kubernetes controller as a collection of event functions, \<^verbatim>\<open>pkg/kubernetes/kubernetes_controller.go\<close>.
  It uses no store of objects; the type of the collection object is free.
\<close>

definition controller_SetStore :: "gvk \<Rightarrow> 's store \<Rightarrow> 'f \<Rightarrow> go_error option \<times> 'f" where
  "controller_SetStore kind st c = (None, c)"

definition controller_methods ::
  "(deployment_condition \<Rightarrow> string) \<Rightarrow> config \<Rightarrow> (string, 'f \<Rightarrow> ('w st) handler) gomap" where
  "controller_methods fmt cfg = [
     (''OnDeployment'', \<lambda>c. OnDeployment fmt),
     (''OnService'', \<lambda>c. OnService cfg),
     (''OnIngress'', \<lambda>c. OnIngress)]"

definition controller_funcs ::
  "(deployment_condition \<Rightarrow> string) \<Rightarrow> config \<Rightarrow> 'f \<Rightarrow> ('f, 'w st) dispatch_funcs" where
  "controller_funcs fmt cfg c = \<lparr>fn_object = c, fn_SupportedKinds = SupportedKinds_controller,
     fn_MethodByName = gm_get (controller_methods fmt cfg), fn_SetStore = controller_SetStore\<rparr>"

text \<open>Every kind has its function, so the dispatcher of the controller can be built.\<close>

definition controller_dispatcher ::
  "(deployment_condition \<Rightarrow> string) \<Rightarrow> config \<Rightarrow> 'f \<Rightarrow> ('f, 'w st) dispatcher" where
  "controller_dispatcher fmt cfg c = \<lparr>dsp_dispatchFuncs = controller_funcs fmt cfg c,
     dsp_funcMap = [(DeploymentKind, \<lambda>c. OnDeployment fmt), (ServiceKind, \<lambda>c. OnService cfg), (IngressKind, \<lambda>c. OnIngress)],
     dsp_indexers = []\<rparr>"

lemma NewDispatcher_controller:
  "NewDispatcher (controller_funcs fmt cfg c) = Inr (controller_dispatcher fmt cfg c)"
  by (simp add: NewDispatcher_def controller_dispatcher_def controller_funcs_def SupportedKinds_controller_def
      controller_methods_def kind_defs)

end
