(* ===== verification/Metrics.thy ===== *)
theory Metrics
  imports Complex_Main Prelude
begin

text \<open>
  The metrics of \<^verbatim>\<open>pkg/metrics\<close>: the collector interface as a contract, its implementation by
  Prometheus counters (\<^verbatim>\<open>pkg/metrics/prometheus\<close>), and the parser that reads the counters back from
  the registry. The registry is a third-party component; a counter and a gauge are the number they
  hold.
\<close>

type_synonym metric_type = string

definition MetricServices :: metric_type where "MetricServices = ''services''"
definition MetricVolumes :: metric_type where "MetricVolumes = ''volumes''"
definition MetricFragments :: metric_type where "MetricFragments = ''fragments''"
definition MetricEndpoints :: metric_type where "MetricEndpoints = ''endpoints''"

definition MetricCreated :: string where "MetricCreated = ''created''"
definition MetricDeleted :: string where "MetricDeleted = ''deleted''"
definition MetricErrors :: string where "MetricErrors = ''errors''"
definition MetricRunning :: string where "MetricRunning = ''running''"

lemmas metric_names = MetricServices_def MetricVolumes_def MetricFragments_def MetricEndpoints_def
lemmas counter_names = MetricCreated_def MetricDeleted_def MetricErrors_def MetricRunning_def

record metric =
  mt_Created :: int
  mt_Deleted :: int
  mt_Running :: int
  mt_Errors :: int

section \<open>The collector interface\<close>

record 's collector =
  col_Create :: "metric_type \<Rightarrow> 's \<Rightarrow> 's"
  col_Existing :: "metric_type \<Rightarrow> 's \<Rightarrow> 's"
  col_Delete :: "metric_type \<Rightarrow> 's \<Rightarrow> 's"
  col_Error :: "metric_type \<Rightarrow> 's \<Rightarrow> 's"

text \<open>
  What a client of a collector may rely on: \<open>metric_of\<close> reads the numbers of a type, and each
  operation changes those of its own type only.
\<close>

definition no_metric :: metric where
  "no_metric = \<lparr>mt_Created = 0, mt_Deleted = 0, mt_Running = 0, mt_Errors = 0\<rparr>"

locale metric_collector =
  fixes c :: "'s collector" and metric_of :: "'s \<Rightarrow> metric_type \<Rightarrow> metric"
  assumes create_law: "metric_of (col_Create c t s) u = (if u = t
      then (metric_of s t)\<lparr>mt_Created := mt_Created (metric_of s t) + 1, mt_Running := mt_Running (metric_of s t) + 1\<rparr>
      else metric_of s u)"
    and existing_law: "metric_of (col_Existing c t s) u = (if u = t
      then (metric_of s t)\<lparr>mt_Running := mt_Running (metric_of s t) + 1\<rparr> else metric_of s u)"
    and delete_law: "metric_of (col_Delete c t s) u = (if u = t
      then (metric_of s t)\<lparr>mt_Deleted := mt_Deleted (metric_of s t) + 1, mt_Running := mt_Running (metric_of s t) - 1\<rparr>
      else metric_of s u)"
    and error_law: "metric_of (col_Error c t s) u = (if u = t
      then (metric_of s t)\<lparr>mt_Errors := mt_Errors (metric_of s t) + 1\<rparr> else metric_of s u)"

text \<open>The calls a client makes, and the numbers they leave.\<close>

datatype collector_call =
    CallCreate metric_type | CallExisting metric_type | CallDelete metric_type | CallError metric_type

fun collect :: "'s collector \<Rightarrow> collector_call \<Rightarrow> 's \<Rightarrow> 's" where
  "collect c (CallCreate t) = col_Create c t"
| "collect c (CallExisting t) = col_Existing c t"
| "collect c (CallDelete t) = col_Delete c t"
| "collect c (CallError t) = col_Error c t"

definition calls :: "collector_call list \<Rightarrow> collector_call \<Rightarrow> int" where
  "calls cs k = int (count_list cs k)"

definition expected_metric :: "collector_call list \<Rightarrow> metric_type \<Rightarrow> metric \<Rightarrow> metric" where
  "expected_metric cs t m = \<lparr>
     mt_Created = mt_Created m + calls cs (CallCreate t),
     mt_Deleted = mt_Deleted m + calls cs (CallDelete t),
     mt_Running = mt_Running m + calls cs (CallCreate t) + calls cs (CallExisting t) - calls cs (CallDelete t),
     mt_Errors = mt_Errors m + calls cs (CallError t)\<rparr>"

context metric_collector
begin

lemma collect_all: "metric_of (fold (collect c) cs s) t = expected_metric cs t (metric_of s t)"
proof (induction cs arbitrary: s)
  case Nil
  show ?case by (simp add: expected_metric_def calls_def)
next
  case (Cons k cs)
  show ?case
    using Cons [of "collect c k s"]
    by (cases k) (auto simp: expected_metric_def calls_def create_law existing_law delete_law error_law)
qed

end

section \<open>Prometheus\<close>

text \<open>
  A counter of the library counts in an integer and hands out a float. A gauge is a float, which cannot leave
  \<open>2 ^ 53\<close> in steps of one; that is not modelled here, so \<open>sub_Running\<close> is its value up to that bound.
\<close>

record subsystem =
  sub_Created :: int
  sub_Deleted :: int
  sub_Errors :: int
  sub_Running :: int

record metrics_provider =
  mp_subsystems :: "(metric_type, subsystem) gomap"

definition NewMetricsProvider :: metrics_provider where
  "NewMetricsProvider = \<lparr>mp_subsystems = []\<rparr>"

definition createSubsystem :: "metric_type \<Rightarrow> subsystem" where
  "createSubsystem t = \<lparr>sub_Created = 0, sub_Deleted = 0, sub_Errors = 0, sub_Running = 0\<rparr>"

definition getSubsystem :: "metric_type \<Rightarrow> metrics_provider \<Rightarrow> subsystem \<times> metrics_provider" where
  "getSubsystem t p =
     (case gm_get (mp_subsystems p) t of
        Some subsystem \<Rightarrow> (subsystem, p)
      | None \<Rightarrow> (createSubsystem t, p\<lparr>mp_subsystems := gm_put t (createSubsystem t) (mp_subsystems p)\<rparr>))"

text \<open>The counters are pointers: an increment changes the subsystem in the map.\<close>

definition with_subsystem :: "metric_type \<Rightarrow> (subsystem \<Rightarrow> subsystem) \<Rightarrow> metrics_provider \<Rightarrow> metrics_provider" where
  "with_subsystem t f p =
     (case getSubsystem t p of (subsystem, p') \<Rightarrow>
        p'\<lparr>mp_subsystems := gm_put t (f subsystem) (mp_subsystems p')\<rparr>)"

definition provider_Create :: "metric_type \<Rightarrow> metrics_provider \<Rightarrow> metrics_provider" where
  "provider_Create t = with_subsystem t (\<lambda>subsystem.
     subsystem\<lparr>sub_Created := sub_Created subsystem + 1, sub_Running := sub_Running subsystem + 1\<rparr>)"

definition provider_Existing :: "metric_type \<Rightarrow> metrics_provider \<Rightarrow> metrics_provider" where
  "provider_Existing t = with_subsystem t (\<lambda>subsystem. subsystem\<lparr>sub_Running := sub_Running subsystem + 1\<rparr>)"

definition provider_Delete :: "metric_type \<Rightarrow> metrics_provider \<Rightarrow> metrics_provider" where
  "provider_Delete t = with_subsystem t (\<lambda>subsystem.
     subsystem\<lparr>sub_Deleted := sub_Deleted subsystem + 1, sub_Running := sub_Running subsystem - 1\<rparr>)"

definition provider_Error :: "metric_type \<Rightarrow> metrics_provider \<Rightarrow> metrics_provider" where
  "provider_Error t = with_subsystem t (\<lambda>subsystem. subsystem\<lparr>sub_Errors := sub_Errors subsystem + 1\<rparr>)"

definition GetCollector :: "metrics_provider collector" where
  "GetCollector = \<lparr>col_Create = provider_Create, col_Existing = provider_Existing,
     col_Delete = provider_Delete, col_Error = provider_Error\<rparr>"

definition metric_of_subsystem :: "subsystem \<Rightarrow> metric" where
  "metric_of_subsystem s = \<lparr>mt_Created = sub_Created s, mt_Deleted = sub_Deleted s,
     mt_Running = sub_Running s, mt_Errors = sub_Errors s\<rparr>"

definition provider_metric :: "metrics_provider \<Rightarrow> metric_type \<Rightarrow> metric" where
  "provider_metric p t =
     (case gm_get (mp_subsystems p) t of None \<Rightarrow> no_metric | Some s \<Rightarrow> metric_of_subsystem s)"

lemma with_subsystem_metric:
  assumes "\<And>s. metric_of_subsystem (f s) = g (metric_of_subsystem s)"
  shows "provider_metric (with_subsystem t f p) u = (if u = t then g (provider_metric p t) else provider_metric p u)"
proof -
  have new: "metric_of_subsystem (createSubsystem t) = no_metric"
    by (simp add: createSubsystem_def metric_of_subsystem_def no_metric_def)
  show ?thesis
    using assms new
    by (auto simp: with_subsystem_def getSubsystem_def provider_metric_def gomap_simps split: option.splits)
qed

interpretation prometheus: metric_collector GetCollector provider_metric
proof
  fix t s u
  note w = with_subsystem_metric
  show "provider_metric (col_Create GetCollector t s) u = (if u = t
      then (provider_metric s t)\<lparr>mt_Created := mt_Created (provider_metric s t) + 1,
        mt_Running := mt_Running (provider_metric s t) + 1\<rparr>
      else provider_metric s u)"
    unfolding GetCollector_def collector.simps provider_Create_def
    by (rule w [where g = "\<lambda>m. m\<lparr>mt_Created := mt_Created m + 1, mt_Running := mt_Running m + 1\<rparr>"])
      (simp add: metric_of_subsystem_def)
  show "provider_metric (col_Existing GetCollector t s) u = (if u = t
      then (provider_metric s t)\<lparr>mt_Running := mt_Running (provider_metric s t) + 1\<rparr> else provider_metric s u)"
    unfolding GetCollector_def collector.simps provider_Existing_def
    by (rule w [where g = "\<lambda>m. m\<lparr>mt_Running := mt_Running m + 1\<rparr>"]) (simp add: metric_of_subsystem_def)
  show "provider_metric (col_Delete GetCollector t s) u = (if u = t
      then (provider_metric s t)\<lparr>mt_Deleted := mt_Deleted (provider_metric s t) + 1,
        mt_Running := mt_Running (provider_metric s t) - 1\<rparr>
      else provider_metric s u)"
    unfolding GetCollector_def collector.simps provider_Delete_def
    by (rule w [where g = "\<lambda>m. m\<lparr>mt_Deleted := mt_Deleted m + 1, mt_Running := mt_Running m - 1\<rparr>"])
      (simp add: metric_of_subsystem_def)
  show "provider_metric (col_Error GetCollector t s) u = (if u = t
      then (provider_metric s t)\<lparr>mt_Errors := mt_Errors (provider_metric s t) + 1\<rparr> else provider_metric s u)"
    unfolding GetCollector_def collector.simps provider_Error_def
    by (rule w [where g = "\<lambda>m. m\<lparr>mt_Errors := mt_Errors m + 1\<rparr>"]) (simp add: metric_of_subsystem_def)
qed

section \<open>Reading the registry\<close>

text \<open>
  A floating-point value is a rational number or one of the special values. Converting one that is
  out of the range of \<^verbatim>\<open>int64\<close> gives a number that depends on the machine, the parameter \<open>conv\<close>.
\<close>

datatype go_float = Float rat | FloatNaN | FloatInf bool

definition go_trunc :: "rat \<Rightarrow> int" where
  "go_trunc f = (if f < 0 then \<lceil>f\<rceil> else \<lfloor>f\<rfloor>)"

definition int64_range :: "int \<Rightarrow> bool" where
  "int64_range i \<longleftrightarrow> - (2 ^ 63) \<le> i \<and> i < 2 ^ 63"

text \<open>
  \<^verbatim>\<open>float64(i)\<close>: a float has a significand of 53 bits, so a larger integer is rounded to the nearest multiple of a power
  of two, and to the even one of two that are equally near.
\<close>

fun bit_length :: "nat \<Rightarrow> nat" where
  "bit_length n = (if n = 0 then 0 else Suc (bit_length (n div 2)))"

declare bit_length.simps [simp del]

definition round_bits :: "nat \<Rightarrow> nat" where
  "round_bits n = (let unit = 2 ^ (bit_length n - 53); q = n div unit; r = n mod unit
     in (if 2 * r > unit \<or> (2 * r = unit \<and> odd q) then q + 1 else q) * unit)"

definition float64_of_int :: "int \<Rightarrow> rat" where
  "float64_of_int i = of_int (sgn i * int (round_bits (nat \<bar>i\<bar>)))"

definition Ftoi :: "(go_float \<Rightarrow> int) \<Rightarrow> go_float \<Rightarrow> go_error + int" where
  "Ftoi conv f =
     (case f of
        FloatNaN \<Rightarrow> Inr 0
      | FloatInf sign \<Rightarrow> Inl (GoError ''float out of int64 range'')
      | Float r \<Rightarrow>
          (let i = (if int64_range (go_trunc r) then go_trunc r else conv f)
           in if float64_of_int i \<noteq> of_int (go_trunc r) then Inl (GoError ''float out of int64 range'') else Inr i))"

datatype family_type = COUNTER | GAUGE | OtherFamily nat

record metric_family =
  mf_Name :: string
  mf_Type :: family_type
  mf_Metric :: "go_float list"

definition first_value :: "go_float list \<Rightarrow> go_float outcome" where
  "first_value vs = (case vs of [] \<Rightarrow> Panic ''index out of range'' | v # _ \<Rightarrow> Done v)"

definition family_value :: "(go_float \<Rightarrow> int) \<Rightarrow> metric_family \<Rightarrow> (go_error + int) outcome" where
  "family_value conv f =
     (case mf_Type f of
        OtherFamily n \<Rightarrow> Done (Inl (DError Internal ''unsupported prometheus metric type''))
      | _ \<Rightarrow> bind_outcome (first_value (mf_Metric f)) (\<lambda>v. Done (case Ftoi conv v of
          Inl err \<Rightarrow> Inl (DError Internal ''error converting value'') | Inr value \<Rightarrow> Inr value)))"

definition set_counter :: "string \<Rightarrow> int \<Rightarrow> metric \<Rightarrow> metric" where
  "set_counter metricCounter value m =
     (if metricCounter = MetricCreated then m\<lparr>mt_Created := value\<rparr>
      else if metricCounter = MetricDeleted then m\<lparr>mt_Deleted := value\<rparr>
      else if metricCounter = MetricErrors then m\<lparr>mt_Errors := value\<rparr>
      else if metricCounter = MetricRunning then m\<lparr>mt_Running := value\<rparr>
      else m)"

fun parse_loop ::
  "(go_float \<Rightarrow> int) \<Rightarrow> metric_family list \<Rightarrow> (metric_type, metric) gomap \<Rightarrow>
   (go_error + (metric_type, metric) gomap) outcome" where
  "parse_loop conv [] parsed = Done (Inr parsed)"
| "parse_loop conv (f # rest) parsed =
     (case split_on (CHR ''_'') (mf_Name f) of
        metricType # metricCounter # _ \<Rightarrow>
          (let parsed' = (if gm_get parsed metricType = None then gm_put metricType no_metric parsed else parsed)
           in bind_outcome (family_value conv f) (\<lambda>r. case r of
                Inl err \<Rightarrow> Done (Inl err)
              | Inr value \<Rightarrow> parse_loop conv rest (gm_adjust metricType (set_counter metricCounter value) parsed')))
      | _ \<Rightarrow> Done (Inl (DError Internal ''invalid metrics returned from registry'')))"

definition parseMetrics ::
  "(go_float \<Rightarrow> int) \<Rightarrow> metric_family list \<Rightarrow> (go_error + (metric_type, metric) gomap) outcome" where
  "parseMetrics conv pMetrics = parse_loop conv pMetrics []"

text \<open>
  The registry gathers the registered collectors as a list of families, or an error. The names are
  put together by the registry from the subsystem and the name of the options.
\<close>

definition GetMetrics ::
  "(go_float \<Rightarrow> int) \<Rightarrow> (metrics_provider \<Rightarrow> go_error + metric_family list) \<Rightarrow> metrics_provider \<Rightarrow>
   (go_error + (metric_type, metric) gomap) outcome" where
  "GetMetrics conv gather p =
     (case gather p of
        Inl err \<Rightarrow> Done (Inl (DError Internal ''failed gathering prometheus metrics''))
      | Inr pMetrics \<Rightarrow> parseMetrics conv pMetrics)"

text \<open>The options that \<open>createSubsystem\<close> gives to the four collectors of a type: the type and name.\<close>

definition subsystem_families :: "metric_type \<Rightarrow> subsystem \<Rightarrow> metric_family list" where
  "subsystem_families t s = [
     \<lparr>mf_Name = t @ ''_'' @ MetricCreated @ ''_total'', mf_Type = COUNTER, mf_Metric = [Float (float64_of_int (sub_Created s))]\<rparr>,
     \<lparr>mf_Name = t @ ''_'' @ MetricDeleted @ ''_total'', mf_Type = COUNTER, mf_Metric = [Float (float64_of_int (sub_Deleted s))]\<rparr>,
     \<lparr>mf_Name = t @ ''_'' @ MetricErrors @ ''_total'', mf_Type = COUNTER, mf_Metric = [Float (float64_of_int (sub_Errors s))]\<rparr>,
     \<lparr>mf_Name = t @ ''_'' @ MetricRunning, mf_Type = GAUGE, mf_Metric = [Float (float64_of_int (sub_Running s))]\<rparr>]"

definition registered_families :: "metrics_provider \<Rightarrow> metric_family list" where
  "registered_families p = concat (map (\<lambda>(t, s). subsystem_families t s) (mp_subsystems p))"

end
