(* ===== verification/MetricsTranslator.thy ===== *)
theory MetricsTranslator
  imports Events Metrics
begin

text \<open>
  The translator of Kubernetes events to metrics, \<^verbatim>\<open>pkg/kubernetes/metrics_translator.go\<close>. It is a
  collection of event functions: its collector counts in a state of any type, and its stores are
  those of the informers, set by the events provider.
\<close>

definition FilterLabelSet :: "(string, string) gomap" where
  "FilterLabelSet = [(''agent'', ''zt-agent'')]"

record 's metrics_translator =
  mtr_collector :: "'s collector"
  mtr_startupTime :: int
  mtr_stores :: "(string, 's store) gomap"

definition NewMetricsTranslator :: "'s collector \<Rightarrow> int \<Rightarrow> 's metrics_translator" where
  "NewMetricsTranslator collector now = \<lparr>mtr_collector = collector, mtr_startupTime = now, mtr_stores = []\<rparr>"

definition translator_SetStore ::
  "gvk \<Rightarrow> 's store \<Rightarrow> 's metrics_translator \<Rightarrow> go_error option \<times> 's metrics_translator" where
  "translator_SetStore kind st t =
     (case gm_get (mtr_stores t) (gvk_Kind kind) of
        Some _ \<Rightarrow> (Some (GoError (''Store for '' @ gvk_Kind kind @ '' already set'')), t)
      | None \<Rightarrow> (None, t\<lparr>mtr_stores := gm_put (gvk_Kind kind) st (mtr_stores t)\<rparr>))"

definition SupportedKinds_translator :: "gvk list" where
  "SupportedKinds_translator =
     [DeploymentKind, NamespaceKind, PVCKind, PodKind, ServiceKind, EventKind, IngressKind]"

definition isAppInstance :: "watched_object \<Rightarrow> bool" where
  "isAppInstance obj =
     (case meta_Accessor obj of
        Inl err \<Rightarrow> False
      | Inr m \<Rightarrow>
          (case gm_get (om_Labels m) NALEJ_ANNOTATION_ORGANIZATION_ID of
             None \<Rightarrow> False
           | Some _ \<Rightarrow> \<not> list_ex (\<lambda>(k, v). gm_get (om_Labels m) k = Some v) FilterLabelSet))"

text \<open>An object is new when it was created after the translator; the operation is a call of the collector.\<close>

definition translate_call :: "int \<Rightarrow> event_type \<Rightarrow> metric_type \<Rightarrow> int \<Rightarrow> collector_call list" where
  "translate_call startupTime action t ts =
     (case action of
        EventAdd \<Rightarrow> if startupTime < ts then [CallCreate t] else [CallExisting t]
      | EventUpdate \<Rightarrow> []
      | EventDelete \<Rightarrow> [CallDelete t])"

definition translate ::
  "'s metrics_translator \<Rightarrow> event_type \<Rightarrow> metric_type \<Rightarrow> int \<Rightarrow> (go_error option, 's) prog" where
  "translate t action metric ts =
     and_then (modify (fold (collect (mtr_collector t)) (translate_call (mtr_startupTime t) action metric ts)))
       (\<lambda>_. ret None)"

fun translator_OnDeployment :: "'s metrics_translator \<Rightarrow> 's handler" where
  "translator_OnDeployment t oldObj (WDeployment m d) action =
     (if \<not> isAppInstance (WDeployment m d) then ret None
      else translate t action MetricServices (om_CreationTimestamp m))"
| "translator_OnDeployment t oldObj obj action = bad_assertion"

fun translator_OnNamespace :: "'s metrics_translator \<Rightarrow> 's handler" where
  "translator_OnNamespace t oldObj (WNamespace m) action = translate t action MetricFragments (om_CreationTimestamp m)"
| "translator_OnNamespace t oldObj obj action = bad_assertion"

fun translator_OnPersistentVolumeClaim :: "'s metrics_translator \<Rightarrow> 's handler" where
  "translator_OnPersistentVolumeClaim t oldObj (WPVC m) action = translate t action MetricVolumes (om_CreationTimestamp m)"
| "translator_OnPersistentVolumeClaim t oldObj obj action = bad_assertion"

definition translator_OnPod :: "'s metrics_translator \<Rightarrow> 's handler" where
  "translator_OnPod t oldObj obj action = ret None"

fun translator_OnIngress :: "'s metrics_translator \<Rightarrow> 's handler" where
  "translator_OnIngress t oldObj (WIngress m i) action = translate t action MetricEndpoints (om_CreationTimestamp m)"
| "translator_OnIngress t oldObj obj action = bad_assertion"

fun translator_OnService :: "'s metrics_translator \<Rightarrow> 's handler" where
  "translator_OnService t oldObj (WService m s) action =
     (if sst_Type s \<noteq> LoadBalancer then ret None
      else translate t action MetricEndpoints (om_CreationTimestamp m))"
| "translator_OnService t oldObj obj action = bad_assertion"

section \<open>Warnings\<close>

definition getReferencedObject ::
  "'s metrics_translator \<Rightarrow> object_reference \<Rightarrow> 's \<Rightarrow> watched_object option" where
  "getReferencedObject t ref s =
     (case gm_get (mtr_stores t) (ref_Kind ref) of
        None \<Rightarrow> None
      | Some st \<Rightarrow>
          (let key = (if ref_Namespace ref \<noteq> [] then ref_Namespace ref @ ''/'' @ ref_Name ref else ref_Name ref)
           in (case st key s of
                 Inl err \<Rightarrow> None
               | Inr None \<Rightarrow> None
               | Inr (Some obj) \<Rightarrow> Some obj)))"

text \<open>
  The switch over the kind of the object that the warning is about. A pod falls through to a
  deployment, a load balancer service to an ingress.
\<close>

definition count_error :: "'s metrics_translator \<Rightarrow> metric_type \<Rightarrow> (go_error option, 's) prog" where
  "count_error t metric = and_then (modify (collect (mtr_collector t) (CallError metric))) (\<lambda>_. ret None)"

definition count_warning :: "'s metrics_translator \<Rightarrow> object_reference \<Rightarrow> watched_object \<Rightarrow> (go_error option, 's) prog" where
  "count_warning t involved ref =
     (if ref_Kind involved = gvk_Kind PodKind then
        (if ref_FieldPath involved = ''spec.containers{zt-sidecar}'' then ret None else count_error t MetricServices)
      else if ref_Kind involved = gvk_Kind DeploymentKind then count_error t MetricServices
      else if ref_Kind involved = gvk_Kind ServiceKind then
        (case ref of
           WService m s \<Rightarrow> if sst_Type s \<noteq> LoadBalancer then ret None else count_error t MetricEndpoints
         | _ \<Rightarrow> bad_assertion)
      else if ref_Kind involved = gvk_Kind IngressKind then count_error t MetricEndpoints
      else if ref_Kind involved = gvk_Kind PVCKind then count_error t MetricVolumes
      else if ref_Kind involved = gvk_Kind NamespaceKind then count_error t MetricFragments
      else ret None)"

text \<open>Asserting the type of a missing old object, a nil interface, panics.\<close>

definition unchanged_count :: "watched_object option \<Rightarrow> event_state \<Rightarrow> bool outcome" where
  "unchanged_count oldObj e =
     (case oldObj of
        Some (WEvent m oldE) \<Rightarrow> Done (evs_Count oldE = evs_Count e)
      | _ \<Rightarrow> Panic ''interface conversion'')"

fun translator_OnEvent :: "'s metrics_translator \<Rightarrow> 's handler" where
  "translator_OnEvent t oldObj (WEvent m e) action =
     (if action = EventDelete then ret None
      else if evs_Type e \<noteq> ''Warning'' \<or> evs_LastTimestamp e < mtr_startupTime t then ret None
      else and_then (lift_outcome (if action = EventUpdate then unchanged_count oldObj e else Done False)) (\<lambda>same.
        if same then ret None
        else with_state (\<lambda>s.
          case getReferencedObject t (evs_InvolvedObject e) s of
            None \<Rightarrow> ret None
          | Some ref \<Rightarrow> if \<not> isAppInstance ref then ret None else count_warning t (evs_InvolvedObject e) ref)))"
| "translator_OnEvent t oldObj obj action = bad_assertion"

section \<open>The collection of functions\<close>

definition translator_methods :: "(string, 's metrics_translator \<Rightarrow> 's handler) gomap" where
  "translator_methods = [
     (''OnDeployment'', translator_OnDeployment), (''OnNamespace'', translator_OnNamespace),
     (''OnPersistentVolumeClaim'', translator_OnPersistentVolumeClaim), (''OnPod'', translator_OnPod),
     (''OnIngress'', translator_OnIngress), (''OnService'', translator_OnService), (''OnEvent'', translator_OnEvent)]"

definition translator_funcs :: "'s metrics_translator \<Rightarrow> ('s metrics_translator, 's) dispatch_funcs" where
  "translator_funcs t = \<lparr>fn_object = t, fn_SupportedKinds = SupportedKinds_translator,
     fn_MethodByName = gm_get translator_methods, fn_SetStore = translator_SetStore\<rparr>"

text \<open>Every kind has its function, so the dispatcher of the translator can be built.\<close>

lemma translator_dispatcher:
  "NewDispatcher (translator_funcs t) = Inr \<lparr>dsp_dispatchFuncs = translator_funcs t,
     dsp_funcMap = [(DeploymentKind, translator_OnDeployment), (NamespaceKind, translator_OnNamespace),
       (PVCKind, translator_OnPersistentVolumeClaim), (PodKind, translator_OnPod), (ServiceKind, translator_OnService),
       (EventKind, translator_OnEvent), (IngressKind, translator_OnIngress)],
     dsp_indexers = []\<rparr>"
  by (simp add: NewDispatcher_def translator_funcs_def SupportedKinds_translator_def translator_methods_def kind_defs)

end
