(* ===== verification/Provider.thy ===== *)
theory Provider
  imports Events
begin

text \<open>
  The provider of events, \<^verbatim>\<open>pkg/kubernetes/events/provider.go\<close>, and its watchers, \<^verbatim>\<open>watcher.go\<close>: which
  clients and watchers exist, which dispatchers they serve, and how they are started and stopped.
  Clients, REST mappings, selectors and informers come from client-go and are parameters. The handlers of a
  watcher are the numbers of the dispatchers in the order in which they were added; a dispatcher that is refused has
  the next number, and the program adds none after that.
\<close>

type_synonym group_version = "string \<times> string"

record rest_config =
  rc_Host :: string
  rc_GroupVersion :: "group_version option"
  rc_APIPath :: string
  rc_UserAgent :: string

record 'cl watcher =
  wa_gvk :: gvk
  wa_client :: 'cl
  wa_resource :: string
  wa_LabelSelector :: string
  wa_handlers :: "nat list"

record ('cl, 'f, 's) provider =
  evp_kubeconfig :: rest_config
  evp_clients :: "(group_version, 'cl) gomap"
  evp_watchers :: "(gvk, 'cl watcher) gomap"
  evp_dispatchers :: "('f, 's) dispatcher list"
  evp_labelSelector :: string
  evp_closed :: bool
  evp_started :: bool

record ('cl, 's) provider_tools =
  pt_RESTClientFor :: "rest_config \<Rightarrow> go_error + 'cl"
  pt_DefaultUserAgent :: string
  pt_RESTMapping :: "string \<Rightarrow> string \<Rightarrow> string \<Rightarrow> go_error + string"
  pt_SchemeNew :: "gvk \<Rightarrow> go_error option"
  pt_ParseSelector :: "string \<Rightarrow> go_error + string"
  pt_store :: "gvk \<Rightarrow> 's store"
  pt_WaitForCacheSync :: "gvk \<Rightarrow> bool"

section \<open>Construction\<close>

text \<open>
  \<open>config\<close> is what loading the configuration, in the cluster or from a file, gives; \<open>discovery\<close> and \<open>resources\<close>
  are the outcomes of the two calls for the REST mapper.
\<close>

definition NewEventsProvider ::
  "(go_error + rest_config) \<Rightarrow> (go_error + rest_config) \<Rightarrow> go_error option \<Rightarrow> go_error option \<Rightarrow> bool \<Rightarrow> string \<Rightarrow>
   go_error + ('cl, 'f, 's) provider" where
  "NewEventsProvider inClusterConfig fromFlags discovery resources incluster labelSelector =
     (case (if incluster then inClusterConfig else fromFlags) of
        Inl err \<Rightarrow> Inl (DError Internal ''failed to create kubeclient configuration'')
      | Inr kubeconfig \<Rightarrow>
          if discovery \<noteq> None then Inl (DError Internal ''failed to create discovery client'')
          else if resources \<noteq> None then Inl (DError Internal ''failed to get api group resources'')
          else Inr \<lparr>evp_kubeconfig = kubeconfig, evp_clients = [], evp_watchers = [], evp_dispatchers = [],
            evp_labelSelector = labelSelector, evp_closed = False, evp_started = False\<rparr>)"

definition NewWatcher ::
  "('cl, 's) provider_tools \<Rightarrow> 'cl \<Rightarrow> gvk \<Rightarrow> string \<Rightarrow> string \<Rightarrow> go_error + 'cl watcher" where
  "NewWatcher t client kind resource labelSelector =
     (case pt_SchemeNew t kind of
        Some err \<Rightarrow> Inl (DError Internal (''failed creating object for '' @ gvk_Kind kind))
      | None \<Rightarrow>
          (case pt_ParseSelector t (if gvk_Kind kind = ''Event'' then [] else labelSelector) of
             Inl err \<Rightarrow> Inl (DError Internal ''failed parsing label selector'')
           | Inr parsed \<Rightarrow> Inr \<lparr>wa_gvk = kind, wa_client = client, wa_resource = resource,
               wa_LabelSelector = parsed, wa_handlers = []\<rparr>))"

definition AddHandler :: "nat \<Rightarrow> 'cl watcher \<Rightarrow> 'cl watcher" where
  "AddHandler handler w = w\<lparr>wa_handlers := wa_handlers w @ [handler]\<rparr>"

definition createClient ::
  "('cl, 's) provider_tools \<Rightarrow> group_version \<Rightarrow> ('cl, 'f, 's) provider \<Rightarrow>
   (go_error + 'cl) \<times> ('cl, 'f, 's) provider" where
  "createClient t gv p =
     (case gm_get (evp_clients p) gv of
        Some client \<Rightarrow> (Inr client, p)
      | None \<Rightarrow>
          (let c = (evp_kubeconfig p)\<lparr>rc_GroupVersion := Some gv,
                 rc_APIPath := (if fst gv \<noteq> [] then ''/apis'' else ''/api''),
                 rc_UserAgent := (if rc_UserAgent (evp_kubeconfig p) = [] then pt_DefaultUserAgent t
                   else rc_UserAgent (evp_kubeconfig p))\<rparr>
           in case pt_RESTClientFor t c of
                Inl err \<Rightarrow> (Inl (DError Internal (''failed creating kubernetes client for '' @ fst gv)), p)
              | Inr client \<Rightarrow> (Inr client, p\<lparr>evp_clients := gm_put gv client (evp_clients p)\<rparr>)))"

definition createWatcher ::
  "('cl, 's) provider_tools \<Rightarrow> gvk \<Rightarrow> ('cl, 'f, 's) provider \<Rightarrow>
   (go_error + 'cl watcher) \<times> ('cl, 'f, 's) provider" where
  "createWatcher t kind p =
     (case gm_get (evp_watchers p) kind of
        Some watcher \<Rightarrow> (Inr watcher, p)
      | None \<Rightarrow>
          (case createClient t (gvk_Group kind, gvk_Version kind) p of
             (Inl derr, p1) \<Rightarrow> (Inl derr, p1)
           | (Inr client, p1) \<Rightarrow>
               (case pt_RESTMapping t (gvk_Group kind) (gvk_Kind kind) (gvk_Version kind) of
                  Inl err \<Rightarrow> (Inl (DError Internal ''unable to get rest mapping''), p1)
                | Inr resource \<Rightarrow>
                    (case NewWatcher t client kind resource (evp_labelSelector p1) of
                       Inl derr \<Rightarrow> (Inl derr, p1)
                     | Inr watcher \<Rightarrow> (Inr watcher, p1\<lparr>evp_watchers := gm_put kind watcher (evp_watchers p1)\<rparr>)))))"

section \<open>Dispatchers\<close>

text \<open>
  One kind of a dispatcher with the number \<open>n\<close>. The store and the indexer of an informer are one object.
  What was linked before an error stays.
\<close>

definition link_kind ::
  "('cl, 's) provider_tools \<Rightarrow> nat \<Rightarrow> gvk \<Rightarrow> ('cl, 'f, 's) provider \<times> ('f, 's) dispatcher \<Rightarrow>
   go_error option \<times> ('cl, 'f, 's) provider \<times> ('f, 's) dispatcher" where
  "link_kind t n kind pd =
     (case createWatcher t kind (fst pd) of
        (Inl derr, p1) \<Rightarrow> (Some derr, p1, snd pd)
      | (Inr watcher, p1) \<Rightarrow>
          (case dispatcher_SetStore kind (pt_store t kind) (snd pd) of
             (Some err, d1) \<Rightarrow> (Some (DError AlreadyExists ''store already set''), p1, d1)
           | (None, d1) \<Rightarrow>
               (case SetIndexer kind (pt_store t kind) d1 of
                  (Some err, d2) \<Rightarrow> (Some (DError AlreadyExists ''indexer already set''), p1, d2)
                | (None, d2) \<Rightarrow>
                    (None, p1\<lparr>evp_watchers := gm_adjust kind (AddHandler n) (evp_watchers p1)\<rparr>, d2))))"

fun link_kinds ::
  "('cl, 's) provider_tools \<Rightarrow> nat \<Rightarrow> gvk list \<Rightarrow> ('cl, 'f, 's) provider \<times> ('f, 's) dispatcher \<Rightarrow>
   go_error option \<times> ('cl, 'f, 's) provider \<times> ('f, 's) dispatcher" where
  "link_kinds t n [] pd = (None, pd)"
| "link_kinds t n (kind # kinds) pd =
     (case link_kind t n kind pd of
        (Some err, pd') \<Rightarrow> (Some err, pd')
      | (None, pd') \<Rightarrow> link_kinds t n kinds pd')"

definition AddDispatcher ::
  "('cl, 's) provider_tools \<Rightarrow> ('f, 's) dispatcher \<Rightarrow> ('cl, 'f, 's) provider \<Rightarrow>
   go_error option \<times> ('cl, 'f, 's) provider \<times> ('f, 's) dispatcher" where
  "AddDispatcher t d p =
     (if evp_started p then
        (Some (DError InvalidArgument ''cannot add dispatchers after event provider has started''), p, d)
      else (case link_kinds t (length (evp_dispatchers p)) (Dispatchable d) (p, d) of
         (Some derr, p', d') \<Rightarrow> (Some derr, p', d')
       | (None, p', d') \<Rightarrow> (None, p'\<lparr>evp_dispatchers := evp_dispatchers p' @ [d']\<rparr>, d')))"

section \<open>Start and stop\<close>

text \<open>Closing a closed channel panics.\<close>

definition provider_Stop :: "('cl, 'f, 's) provider \<Rightarrow> (go_error option \<times> ('cl, 'f, 's) provider) outcome" where
  "provider_Stop p =
     (if evp_closed p then Panic ''close of closed channel'' else Done (None, p\<lparr>evp_closed := True\<rparr>))"

definition watcher_Start :: "('cl, 's) provider_tools \<Rightarrow> 'cl watcher \<Rightarrow> go_error option" where
  "watcher_Start t w =
     (if pt_WaitForCacheSync t (wa_gvk w) then None
      else Some (GoError ''Timed out waiting for Kubernetes event caches to sync''))"

fun start_watchers ::
  "('cl, 's) provider_tools \<Rightarrow> 'cl watcher list \<Rightarrow> ('cl, 'f, 's) provider \<Rightarrow>
   (go_error option \<times> ('cl, 'f, 's) provider) outcome" where
  "start_watchers t [] p = Done (None, p)"
| "start_watchers t (w # rest) p =
     (case watcher_Start t w of
        Some err \<Rightarrow> bind_outcome (provider_Stop p) (\<lambda>(_, p'). Done (Some (DError Internal ''unable to start watcher''), p'))
      | None \<Rightarrow> start_watchers t rest p)"

text \<open>Starting a dispatcher starts its goroutines and never fails.\<close>

definition provider_Start ::
  "('cl, 's) provider_tools \<Rightarrow> ('cl, 'f, 's) provider \<Rightarrow> (go_error option \<times> ('cl, 'f, 's) provider) outcome" where
  "provider_Start t p = start_watchers t (gm_values (evp_watchers p)) (p\<lparr>evp_started := True\<rparr>)"

end
