(* ===== verification/RequestQueue.thy ===== *)
theory RequestQueue
  imports Prelude
begin

text \<open>
  The queue of deployment requests, \<^verbatim>\<open>internal/structures/requests_queue.go\<close>: a contract for
  first-in first-out queues with the loop of the manager that serves it, and the in-memory queue
  that fulfils the contract. The element type is the type of the requests.
\<close>

section \<open>The in-memory queue\<close>

text \<open>The third-party deque is used at both ends only as a list; \<^verbatim>\<open>PopFront\<close> of an empty deque is nil.\<close>

record 'r memory_request_queue =
  mrq_queue :: "'r list"

definition NewMemoryRequestQueue :: "'r memory_request_queue" where
  "NewMemoryRequestQueue = \<lparr>mrq_queue = []\<rparr>"

text \<open>The type assertion on a nil value panics.\<close>

definition NextRequest :: "'r memory_request_queue \<Rightarrow> ('r \<times> 'r memory_request_queue) outcome" where
  "NextRequest q =
     (case mrq_queue q of
        [] \<Rightarrow> Panic ''interface conversion: interface {} is nil''
      | r # rest \<Rightarrow> Done (r, q\<lparr>mrq_queue := rest\<rparr>))"

definition AvailableRequests :: "'r memory_request_queue \<Rightarrow> bool" where
  "AvailableRequests q \<longleftrightarrow> length (mrq_queue q) \<noteq> 0"

definition PushRequest :: "'r \<Rightarrow> 'r memory_request_queue \<Rightarrow> go_error option \<times> 'r memory_request_queue" where
  "PushRequest req q = (None, q\<lparr>mrq_queue := mrq_queue q @ [req]\<rparr>)"

definition Queue_Clear :: "'r memory_request_queue \<Rightarrow> 'r memory_request_queue" where
  "Queue_Clear q = q\<lparr>mrq_queue := []\<rparr>"

definition Queue_Len :: "'r memory_request_queue \<Rightarrow> nat" where
  "Queue_Len q = length (mrq_queue q)"

section \<open>Serving a queue\<close>

text \<open>
  The inner loop of the manager's \<^verbatim>\<open>Run\<close>: while requests are available, take the next one and start
  a goroutine for it. Between two rounds other goroutines may push requests: \<open>arrivals\<close> lists the
  requests that arrive during each round, and the loop ends when the list does. The result is the
  list of started requests.
\<close>

fun serve ::
  "('q \<Rightarrow> bool) \<Rightarrow> ('q \<Rightarrow> ('r \<times> 'q) outcome) \<Rightarrow> ('r \<Rightarrow> 'q \<Rightarrow> go_error option \<times> 'q) \<Rightarrow>
   'r list list \<Rightarrow> 'q \<Rightarrow> ('r list \<times> 'q) outcome" where
  "serve available pop push [] q = Done ([], q)"
| "serve available pop push (new # arrivals) q =
     (if available q
      then bind_outcome (pop q) (\<lambda>(r, q1).
             bind_outcome (serve available pop push arrivals (fold (\<lambda>x p. snd (push x p)) new q1))
               (\<lambda>(rs, q2). Done (r # rs, q2)))
      else Done ([], q))"

locale request_queue =
  fixes empty :: 'q
    and available :: "'q \<Rightarrow> bool"
    and pop :: "'q \<Rightarrow> ('r \<times> 'q) outcome"
    and push :: "'r \<Rightarrow> 'q \<Rightarrow> go_error option \<times> 'q"
    and clear :: "'q \<Rightarrow> 'q"
    and len :: "'q \<Rightarrow> nat"
    and contents :: "'q \<Rightarrow> 'r list"
  assumes empty_law: "contents empty = []"
    and available_law: "available q \<longleftrightarrow> contents q \<noteq> []"
    and pop_law: "contents q = r # rs \<Longrightarrow> \<exists>q'. pop q = Done (r, q') \<and> contents q' = rs"
    and push_law: "contents (snd (push r q)) = contents q @ [r]"
    and push_ok: "fst (push r q) = None"
    and clear_law: "contents (clear q) = []"
    and len_law: "len q = length (contents q)"
begin

lemma push_all: "contents (fold (\<lambda>x p. snd (push x p)) rs q) = contents q @ rs"
  by (induction rs arbitrary: q) (simp_all add: push_law)

text \<open>
  What is served is a prefix of what was queued and arrived, in that order, and the rest is still
  queued; the loop never panics.
\<close>

lemma serve_fifo:
  "\<exists>served q'. serve available pop push arrivals q = Done (served, q') \<and>
    (\<exists>n \<le> length arrivals. served @ contents q' = contents q @ concat (take n arrivals) \<and> length served = n)"
proof (induction arrivals arbitrary: q)
  case (Cons new arrivals)
  show ?case
  proof (cases "contents q")
    case Nil
    then have "\<not> available q" by (simp add: available_law)
    then show ?thesis using Nil by (auto intro: exI [of _ 0])
  next
    case (Cons r rs)
    then obtain q1 where q1: "pop q = Done (r, q1)" "contents q1 = rs"
      using pop_law by blast
    let ?q = "fold (\<lambda>x p. snd (push x p)) new q1"
    obtain served q' n where ih: "serve available pop push arrivals ?q = Done (served, q')"
      "n \<le> length arrivals" "served @ contents q' = contents ?q @ concat (take n arrivals)" "length served = n"
      using Cons.IH [of ?q] by blast
    have "serve available pop push (new # arrivals) q = Done (r # served, q')"
      using Cons q1 ih(1) by (simp add: available_law)
    moreover have "(r # served) @ contents q' = contents q @ concat (take (Suc n) (new # arrivals))"
      using Cons q1(2) ih(3) by (simp add: push_all)
    ultimately show ?thesis
      using ih(2,4) by (intro exI [of _ "r # served"] exI [of _ q'] conjI exI [of _ "Suc n"]) auto
  qed
qed simp

text \<open>Without arrivals, enough rounds serve everything, in the order of arrival.\<close>

lemma serve_all:
  assumes "length (contents q) \<le> n"
  shows "\<exists>q'. serve available pop push (replicate n []) q = Done (contents q, q') \<and> contents q' = []"
  using assms
proof (induction n arbitrary: q)
  case (Suc n)
  show ?case
  proof (cases "contents q")
    case Nil
    then show ?thesis by (simp add: available_law)
  next
    case (Cons r rs)
    then obtain q1 where q1: "pop q = Done (r, q1)" "contents q1 = rs"
      using pop_law by blast
    have "length (contents q1) \<le> n" using Suc.prems Cons q1 by simp
    from Suc.IH [OF this] show ?thesis
      using Cons q1 by (auto simp: available_law)
  qed
qed simp

end

interpretation mq: request_queue NewMemoryRequestQueue AvailableRequests NextRequest PushRequest Queue_Clear
    Queue_Len mrq_queue
  by unfold_locales
    (auto simp: NewMemoryRequestQueue_def AvailableRequests_def NextRequest_def PushRequest_def
      Queue_Clear_def Queue_Len_def)

section \<open>Properties\<close>

text \<open>C19: The manager serves requests in the order in which they were pushed: what it has started,
  followed by what is still queued, is what was queued followed by what arrived in the meantime;
  taking a request behind the availability check never panics.\<close>

theorem requests_served_in_order:
  "\<exists>served q' n. serve AvailableRequests NextRequest PushRequest arrivals q = Done (served, q') \<and>
    n \<le> length arrivals \<and> length served = n \<and>
    served @ mrq_queue q' = mrq_queue q @ concat (take n arrivals)"
  using mq.serve_fifo [of arrivals q] by blast

end
