(* ===== verification/Handler.thy ===== *)
theory Handler
  imports KubernetesExecutor RequestQueue MonitorTheorems
begin

text \<open>
  The deployment manager proper: \<^verbatim>\<open>pkg/handler/handler.go\<close>, which validates the requests, and
  \<^verbatim>\<open>pkg/handler/manager.go\<close>, which queues deployments and processes them stage by stage with
  retries. The executor is a parameter; so are the other goroutines, which appear in the schedule of
  the wait for pending checks and in the world after it. The state is the monitored store together
  with the world of the executor.
\<close>

definition NoRetries :: int where "NoRetries = 1"
definition MaxStageRetries :: int where "MaxStageRetries = 3"
definition UnlimitedStageRetries :: int where "UnlimitedStageRetries = -1"

lemmas retry_constants = NoRetries_def MaxStageRetries_def UnlimitedStageRetries_def

datatype rollback_policy =
    RollbackPolicy_NONE | RollbackPolicy_ALWAYS_RETRY | RollbackPolicy_LIMITED_RETRY | RollbackPolicy_other

record deployment_fragment_request =
  dfr_RequestId :: string
  dfr_Fragment :: "deployment_fragment option"
  dfr_ZtNetworkId :: string
  dfr_RollbackPolicy :: rollback_policy
  dfr_NumRetry :: int

record undeploy_request =
  ur_OrganizationId :: string
  ur_AppInstanceId :: string

record undeploy_fragment_request =
  ufr_OrganizationId :: string
  ufr_AppInstanceId :: string
  ufr_DeploymentFragmentId :: string

record manager =
  mg_clusterPublicHostname :: string
  mg_dnsHosts :: "string list"
  mg_PublicCredentials :: image_credentials

text \<open>
  The executor, the store, the queue, the decorator and the clients of the manager are arguments of
  the operations that use them.
\<close>

definition NewManager :: "string \<Rightarrow> string list \<Rightarrow> image_credentials \<Rightarrow> manager" where
  "NewManager clusterPublicHostname dnsHosts publicCredentials = \<lparr>mg_clusterPublicHostname = clusterPublicHostname,
     mg_dnsHosts = dnsHosts, mg_PublicCredentials = publicCredentials\<rparr>"

text \<open>The other goroutines, as seen by one that waits.\<close>

record 'w environment =
  env_schedule :: "string \<Rightarrow> 'w st \<Rightarrow> schedule"
  env_world :: "string \<Rightarrow> 'w st \<Rightarrow> 'w"

section \<open>Monitoring data\<close>

definition monitored_service_of :: "deployment_fragment \<Rightarrow> service_instance \<Rightarrow> monitored_service_entry" where
  "monitored_service_of fragment s = \<lparr>
     mse_OrganizationId = si_OrganizationId s,
     mse_AppDescriptorId = si_AppDescriptorId s,
     mse_AppInstanceId = si_AppInstanceId s,
     mse_ServiceGroupId = si_ServiceGroupId s,
     mse_ServiceGroupInstanceId = si_ServiceGroupInstanceId s,
     mse_FragmentId = df_FragmentId fragment,
     mse_ServiceID = si_ServiceId s,
     mse_ServiceName = si_ServiceName s,
     mse_ServiceInstanceID = si_ServiceInstanceId s,
     mse_NumPendingChecks = 0,
     mse_Resources = [],
     mse_Status = NALEJ_SERVICE_SCHEDULED,
     mse_NewStatus = True,
     mse_Info = [],
     mse_Endpoints = []\<rparr>"

text \<open>The status is given by the constant \<^verbatim>\<open>NALEJ_SERVICE_SCHEDULED\<close>, whose value is \<^verbatim>\<open>FRAGMENT_WAITING\<close>.\<close>

definition getMonitoringData :: "string \<Rightarrow> deployment_stage \<Rightarrow> deployment_fragment \<Rightarrow> monitored_app_entry" where
  "getMonitoringData namespace stage fragment =
     (let services = fold (\<lambda>s. gm_put (si_ServiceInstanceId s) (monitored_service_of fragment s)) (ds_Services stage) [];
          totalNumberServices = foldl (\<lambda>total dep. total + int (length (ds_Services dep))) 0 (df_Stages fragment)
      in \<lparr>
        mae_OrganizationId = df_OrganizationId fragment,
        mae_AppDescriptorId = df_AppDescriptorId fragment,
        mae_AppInstanceId = df_AppInstanceId fragment,
        mae_DeploymentId = df_DeploymentId fragment,
        mae_Status = FRAGMENT_WAITING,
        mae_FragmentId = df_FragmentId fragment,
        mae_Services = services,
        mae_NumPendingChecks = int (length services),
        mae_Info = [],
        mae_TotalServices = totalNumberServices,
        mae_NewStatus = True,
        mae_Namespace = namespace\<rparr>)"

section \<open>Deploying a fragment\<close>

definition on_store :: "(monitored \<Rightarrow> monitored) \<Rightarrow> (unit, 'w st) prog" where
  "on_store f s = Done ((), (f (fst s), snd s))"

definition wait_checks :: "'w environment \<Rightarrow> string \<Rightarrow> (go_error option, 'w st) prog" where
  "wait_checks env fid s =
     (case WaitPendingChecks fid (env_schedule env fid s) (fst s) of
        None \<Rightarrow> Blocked
      | Some (err, p) \<Rightarrow> Done (err, (p, env_world env fid s)))"

function deploymentLoopStage ::
  "('p, 'd, 'w) executor \<Rightarrow> 'w environment \<Rightarrow> string \<Rightarrow> string \<Rightarrow> int \<Rightarrow> int \<Rightarrow> 'd \<Rightarrow> (go_error option, 'w st) prog" where
  "deploymentLoopStage ex env fragmentId stageId maxRetries retries toDeploy =
     (if retries < maxRetries then
        and_then (on_store (SetEntryStatus fragmentId FRAGMENT_DEPLOYING None)) (\<lambda>_.
        and_then (ex_DeployStage ex toDeploy) (\<lambda>(err, toDeploy').
        and_then (case err of None \<Rightarrow> ret () | Some e \<Rightarrow> on_store (SetEntryStatus fragmentId FRAGMENT_RETRYING err)) (\<lambda>_.
        and_then (wait_checks env fragmentId) (\<lambda>stageErr.
          if stageErr = None then ret None
          else and_then (ex_Undeploy ex toDeploy') (\<lambda>err.
            if err \<noteq> None then ret err
            else deploymentLoopStage ex env fragmentId stageId maxRetries (retries + 1) toDeploy')))))
      else ret (Some (GoError (''exceeded number of retries for stage '' @ stageId @ '' in fragment '' @ fragmentId))))"
  by pat_completeness auto

termination
  by (relation "measure (\<lambda>(ex, env, fragmentId, stageId, maxRetries, retries, toDeploy). nat (maxRetries - retries))")
    simp_all

declare deploymentLoopStage.simps [simp del]

fun retries_of_policy :: "rollback_policy \<Rightarrow> int" where
  "retries_of_policy RollbackPolicy_NONE = NoRetries"
| "retries_of_policy RollbackPolicy_ALWAYS_RETRY = UnlimitedStageRetries"
| "retries_of_policy RollbackPolicy_LIMITED_RETRY = MaxStageRetries"
| "retries_of_policy RollbackPolicy_other = NoRetries"

definition request_metadata ::
  "manager \<Rightarrow> deployment_fragment_request \<Rightarrow> deployment_fragment \<Rightarrow> string \<Rightarrow> deployment_metadata" where
  "request_metadata mg request fragment namespace = \<lparr>
     dm_FragmentId = df_FragmentId fragment,
     dm_Stage = empty_stage,
     dm_Namespace = namespace,
     dm_NalejVariables = df_NalejVariables fragment,
     dm_ZtNetworkId = dfr_ZtNetworkId request,
     dm_OrganizationId = df_OrganizationId fragment,
     dm_OrganizationName = df_OrganizationName fragment,
     dm_DeploymentId = df_DeploymentId fragment,
     dm_AppDescriptorId = df_AppDescriptorId fragment,
     dm_AppDescriptorName = df_AppDescriptorName fragment,
     dm_AppInstanceId = df_AppInstanceId fragment,
     dm_AppName = df_AppInstanceName fragment,
     dm_ClusterPublicHostname = mg_clusterPublicHostname mg,
     dm_DNSHosts = mg_dnsHosts mg,
     dm_PublicCredentials = mg_PublicCredentials mg\<rparr>"

text \<open>One round of the loop over the stages; \<open>pre\<close> is the prepared environment.\<close>

definition process_stage ::
  "('p, 'd, 'w) executor \<Rightarrow> 'w environment \<Rightarrow> deployment_fragment_request \<Rightarrow> deployment_fragment \<Rightarrow> string \<Rightarrow>
   deployment_metadata \<Rightarrow> 'p option \<Rightarrow> deployment_stage \<Rightarrow> (go_error option, 'w st) prog" where
  "process_stage ex env request fragment namespace metadata pre stage =
     and_then (ex_BuildNativeDeployable ex (metadata\<lparr>dm_Stage := stage\<rparr>)) (\<lambda>built. case built of
       Inl e \<Rightarrow> and_then (on_store (SetEntryStatus (df_FragmentId fragment) FRAGMENT_ERROR (Some e))) (\<lambda>_. ret (Some e))
     | Inr deployable \<Rightarrow>
         and_then (on_store (AddEntry (getMonitoringData namespace stage fragment))) (\<lambda>_.
         and_then (deploymentLoopStage ex env (df_FragmentId fragment) (ds_StageId stage)
             (retries_of_policy (dfr_RollbackPolicy request)) 0 deployable) (\<lambda>executionError.
           case executionError of
             None \<Rightarrow> ret None
           | Some e \<Rightarrow>
               (case pre of
                  None \<Rightarrow> panic ''invalid memory address or nil pointer dereference''
                | Some p \<Rightarrow>
                    and_then (ex_UndeployPrepared ex p) (\<lambda>_.
                    and_then (on_store (SetEntryStatus (df_FragmentId fragment) FRAGMENT_ERROR (Some e)))
                      (\<lambda>_. ret (Some e)))))))"

definition processRequest ::
  "manager \<Rightarrow> ('p, 'd, 'w) executor \<Rightarrow> 'w environment \<Rightarrow> deployment_fragment_request \<Rightarrow> (go_error option, 'w st) prog" where
  "processRequest mg ex env request =
     (case dfr_Fragment request of
        None \<Rightarrow> panic ''invalid memory address or nil pointer dereference''
      | Some fragment \<Rightarrow>
          and_then (ex_GetApplicationNamespace ex (df_OrganizationId fragment) (df_AppInstanceId fragment) (dfr_NumRetry request))
            (\<lambda>r. case r of
               Inl e \<Rightarrow> ret (Some e)
             | Inr namespace \<Rightarrow>
                 (let metadata = request_metadata mg request fragment namespace in
                  and_then (ex_PrepareEnvironmentForDeployment ex metadata) (\<lambda>(pre, err).
                    if err \<noteq> None then
                      and_then (case pre of Some p \<Rightarrow> ex_UndeployPrepared ex p | None \<Rightarrow> ret err) (\<lambda>executionError.
                      and_then (on_store (SetEntryStatus (df_FragmentId fragment) FRAGMENT_ERROR executionError)) (\<lambda>_.
                        ret (Some (GoError (''failed environment preparation for fragment '' @ df_FragmentId fragment)))))
                    else for_each (process_stage ex env request fragment namespace metadata pre) (df_Stages fragment)))))"

text \<open>The error of the queue is dropped.\<close>

definition manager_Execute ::
  "deployment_fragment_request \<Rightarrow> deployment_fragment_request memory_request_queue \<Rightarrow>
   go_error option \<times> deployment_fragment_request memory_request_queue" where
  "manager_Execute request q = (None, snd (PushRequest request q))"

section \<open>Undeploying\<close>

text \<open>The goroutine that it starts is \<open>checkNamespaceToExpireLogs\<close> in the theory \<open>ExpireLogs\<close>.\<close>

definition Undeploy :: "('p, 'd, 'w) executor \<Rightarrow> undeploy_request \<Rightarrow> (go_error option, 'w st) prog" where
  "Undeploy ex request =
     and_then (ex_UndeployNamespace ex (ur_OrganizationId request) (ur_AppInstanceId request)) (\<lambda>err.
     and_then (on_store (SetAppStatus (ur_AppInstanceId request) FRAGMENT_TERMINATING None)) (\<lambda>_. ret err))"

text \<open>The result of the second undeployment is dropped.\<close>

definition UndeployFragment_manager ::
  "('p, 'd, 'w) executor \<Rightarrow> undeploy_fragment_request \<Rightarrow> (go_error option, 'w st) prog" where
  "UndeployFragment_manager ex request = with_state (\<lambda>s.
     (case GetEntry (ufr_DeploymentFragmentId request) (fst s) of
        None \<Rightarrow> ret (Some (GoError (''deployment fragment '' @ ufr_DeploymentFragmentId request @
          '' was not found to be undeployed'')))
      | Some entry \<Rightarrow>
          and_then (ex_UndeployFragment ex (mae_Namespace entry) (ufr_DeploymentFragmentId request)) (\<lambda>undeployErr.
          and_then (on_store (SetEntryStatus (ufr_DeploymentFragmentId request) FRAGMENT_TERMINATING None)) (\<lambda>_.
          with_state (\<lambda>s'.
            (case GetAppStatus (ufr_AppInstanceId request) (fst s') of
               Inl e \<Rightarrow> and_then (ex_UndeployNamespace ex (ufr_OrganizationId request) (ufr_AppInstanceId request))
                 (\<lambda>_. ret undeployErr)
             | Inr appStatus \<Rightarrow>
                 if appStatus = FRAGMENT_TERMINATING
                 then and_then (ex_UndeployNamespace ex (ufr_OrganizationId request) (ufr_AppInstanceId request))
                   (\<lambda>_. ret undeployErr)
                 else ret undeployErr))))))"

section \<open>The request handler\<close>

definition ValidDeployFragmentRequest :: "deployment_fragment_request \<Rightarrow> bool" where
  "ValidDeployFragmentRequest request =
     (if dfr_RequestId request = [] then False
      else (case dfr_Fragment request of
              None \<Rightarrow> False
            | Some fragment \<Rightarrow>
                if df_FragmentId fragment = [] then False
                else if df_DeploymentId fragment = [] \<or> df_AppInstanceId fragment = [] \<or> df_OrganizationId fragment = []
                then False else True))"

definition ValidUndeployRequest :: "undeploy_request \<Rightarrow> bool" where
  "ValidUndeployRequest request =
     (if ur_OrganizationId request = [] then False else if ur_AppInstanceId request = [] then False else True)"

definition ValidUndeployFragmentRequest :: "undeploy_fragment_request \<Rightarrow> bool" where
  "ValidUndeployFragmentRequest request =
     (if ufr_OrganizationId request = [] then False else if ufr_AppInstanceId request = [] then False
      else if ufr_DeploymentFragmentId request = [] then False else True)"

definition Handler_Execute ::
  "deployment_fragment_request option \<Rightarrow> deployment_fragment_request memory_request_queue \<Rightarrow>
   (go_error + string) \<times> deployment_fragment_request memory_request_queue" where
  "Handler_Execute request q =
     (case request of
        None \<Rightarrow> (Inl (GoError ''received nil deployment plan request''), q)
      | Some r \<Rightarrow>
          if \<not> ValidDeployFragmentRequest r then (Inl (GoError ''non valid deployment fragment request''), q)
          else (Inr (dfr_RequestId r), snd (manager_Execute r q)))"

definition Handler_Undeploy ::
  "('p, 'd, 'w) executor \<Rightarrow> undeploy_request option \<Rightarrow> (go_error option, 'w st) prog" where
  "Handler_Undeploy ex request =
     (case request of
        None \<Rightarrow> ret (Some (GoError ''received nil undeploy request''))
      | Some r \<Rightarrow> if \<not> ValidUndeployRequest r then ret (Some (GoError ''non valid undeploy request''))
          else Undeploy ex r)"

definition Handler_UndeployFragment ::
  "('p, 'd, 'w) executor \<Rightarrow> undeploy_fragment_request option \<Rightarrow> (go_error option, 'w st) prog" where
  "Handler_UndeployFragment ex request =
     (case request of
        None \<Rightarrow> ret (Some (GoError ''received nil undeploy request''))
      | Some r \<Rightarrow> if \<not> ValidUndeployFragmentRequest r then ret (Some (GoError ''non valid undeploy request''))
          else UndeployFragment_manager ex r)"

end
