(* ===== verification/Zerotier.thy ===== *)
theory Zerotier
  imports ServiceObjects
begin

text \<open>
  The ZeroTier network decorator, \<^verbatim>\<open>pkg/decorators/network/zerotier/zerotier_decorator.go\<close>: it adds
  a sidecar container to the deployment of every service and an inbound proxy deployment for
  every service with exposed ports. The domain name of a service slices the organization and
  application identifiers, so building may panic.
\<close>

definition ZtSidecarImageName :: string where "ZtSidecarImageName = ''zt-sidecar''"
definition ZtSidecarPortName :: string where "ZtSidecarPortName = ''ztrouteport''"
definition ZtNetworkId :: string where "ZtNetworkId = ''NALEJ_ZT_NETWORK_ID''"

definition zt_getContainerPorts :: "config \<Rightarrow> pb_port list \<Rightarrow> container_port list" where
  "zt_getContainerPorts cfg ports =
     map (\<lambda>p. \<lparr>cp_Name = pp_Name p, cp_ContainerPort = pp_ExposedPort p\<rparr>) ports @
     [\<lparr>cp_Name = ZtSidecarPortName, cp_ContainerPort = int (cfg_ZTSidecarPort cfg)\<rparr>]"

definition generateContainerVars ::
  "config \<Rightarrow> deployment_metadata \<Rightarrow> service_instance \<Rightarrow> bool \<Rightarrow> env_var list outcome" where
  "generateContainerVars cfg data service isProxy =
     bind_outcome (GetServiceFQDN (si_ServiceName service) (si_OrganizationId service) (si_AppInstanceId service))
       (\<lambda>fqdn. Done (map (\<lambda>(n, v). \<lparr>env_Name = n, env_Value = v\<rparr>) [
          (NALEJ_ENV_CLUSTER_ID, cfg_ClusterId cfg),
          (NALEJ_ENV_IS_PROXY, show_bool isProxy),
          (ZtNetworkId, dm_ZtNetworkId data),
          (NALEJ_ENV_MANAGER_ADDR, cfg_DeploymentMgrAddress cfg),
          (NALEJ_ENV_DEPLOYMENT_ID, dm_DeploymentId data),
          (NALEJ_ENV_DEPLOYMENT_FRAGMENT, ds_FragmentId (dm_Stage data)),
          (NALEJ_ENV_ORGANIZATION_ID, dm_OrganizationId data),
          (NALEJ_ENV_ORGANIZATION_NAME, dm_OrganizationName data),
          (NALEJ_ENV_APP_DESCRIPTOR, dm_AppDescriptorId data),
          (NALEJ_ENV_APP_NAME, dm_AppName data),
          (NALEJ_ENV_APP_INSTANCE_ID, dm_AppInstanceId data),
          (NALEJ_ENV_STAGE_ID, ds_StageId (dm_Stage data)),
          (NALEJ_ENV_SERVICE_NAME, si_ServiceName service),
          (NALEJ_ENV_SERVICE_ID, si_ServiceId service),
          (NALEJ_ENV_SERVICE_FQDN, fqdn),
          (NALEJ_ENV_SERVICE_INSTANCE_ID, si_ServiceInstanceId service),
          (NALEJ_ENV_SERVICE_GROUP_ID, si_ServiceGroupId service),
          (NALEJ_ENV_SERVICE_GROUP_INSTANCE_ID, si_ServiceGroupInstanceId service)]))"

text \<open>The liveness check differs between sidecar and proxy only in the service name.\<close>

definition zt_probe :: "config \<Rightarrow> deployment_metadata \<Rightarrow> service_instance \<Rightarrow> string \<Rightarrow> exec_probe" where
  "zt_probe cfg data service serviceName = \<lparr>
     probe_InitialDelaySeconds = 20, probe_PeriodSeconds = 60, probe_TimeoutSeconds = 20,
     probe_Command = [''./nalej/zt-agent'', ''check'',
       ''--appInstanceId'', dm_AppInstanceId data,
       ''--appName'', dm_AppName data,
       ''--serviceName'', serviceName,
       ''--deploymentId'', dm_DeploymentId data,
       ''--fragmentId'', ds_FragmentId (dm_Stage data),
       ''--managerAddr'', cfg_DeploymentMgrAddress cfg,
       ''--organizationId'', dm_OrganizationId data,
       ''--organizationName'', dm_OrganizationName data,
       ''--networkId'', dm_ZtNetworkId data,
       ''--serviceGroupInstanceId'', si_ServiceGroupInstanceId service,
       ''--serviceAppInstanceId'', si_ServiceInstanceId service]\<rparr>"

definition zt_security_context :: security_context where
  "zt_security_context = \<lparr>sc_RunAsUser = 0, sc_Privileged = True, sc_Capabilities = [''NET_ADMIN'', ''SYS_ADMIN'']\<rparr>"

definition zt_volume :: volume where
  "zt_volume = \<lparr>vol_Name = ''dev-net-tun'', vol_Source = VolHostPath ''/dev/net/tun''\<rparr>"

definition zt_mount :: volume_mount where
  "zt_mount = \<lparr>vm_Name = ''dev-net-tun'', vm_ReadOnly = True, vm_MountPath = ''/dev/net/tun''\<rparr>"

definition zt_sidecar :: "string \<Rightarrow> config \<Rightarrow> deployment_metadata \<Rightarrow> service_instance \<Rightarrow> env_var list \<Rightarrow> container" where
  "zt_sidecar img cfg data service containerVars = \<lparr>
     c_Name = ZtSidecarImageName,
     c_Image = img,
     c_Args = [''run''],
     c_Env = containerVars,
     c_Ports = zt_getContainerPorts cfg (si_ExposedPorts service),
     c_VolumeMounts = [zt_mount],
     c_LivenessProbe = Some (zt_probe cfg data service (si_ServiceName service)),
     c_SecurityContext = Some zt_security_context\<rparr>"

definition extend_deployment :: "string list \<Rightarrow> container \<Rightarrow> k8s_deployment \<Rightarrow> k8s_deployment" where
  "extend_deployment dnsHosts ztContainer dep = dep\<lparr>dep_Pod := (dep_Pod dep)\<lparr>
     pod_Containers := pod_Containers (dep_Pod dep) @ [ztContainer],
     pod_Volumes := pod_Volumes (dep_Pod dep) @ [zt_volume],
     pod_DNSPolicyNone := True,
     pod_DNSNameservers := dnsHosts\<rparr>\<rparr>"

text \<open>\<^verbatim>\<open>dep.Deployments[index]\<close> panics when there are fewer deployments than services.\<close>

fun createSidecars_loop ::
  "string \<Rightarrow> config \<Rightarrow> nat \<Rightarrow> service_instance list \<Rightarrow> deployable_deployments \<Rightarrow> deployable_deployments outcome" where
  "createSidecars_loop img cfg index [] dep = Done dep"
| "createSidecars_loop img cfg index (service # rest) dep =
     bind_outcome (generateContainerVars cfg (dd_Data dep) service False) (\<lambda>containerVars.
       if index < length (dd_Deployments dep)
       then createSidecars_loop img cfg (index + 1) rest (dep\<lparr>dd_Deployments :=
              (dd_Deployments dep)[index := extend_deployment (dm_DNSHosts (dd_Data dep))
                 (zt_sidecar img cfg (dd_Data dep) service containerVars) (dd_Deployments dep ! index)]\<rparr>)
       else Panic ''index out of range'')"

definition createSidecars ::
  "string \<Rightarrow> config \<Rightarrow> deployable_deployments \<Rightarrow> deployable_deployments outcome" where
  "createSidecars img cfg dep = createSidecars_loop img cfg 0 (ds_Services (dm_Stage (dd_Data dep))) dep"

definition generateContainerLabelsInbound :: "deployment_metadata \<Rightarrow> service_instance \<Rightarrow> labels" where
  "generateContainerLabelsInbound data service = fold (\<lambda>(k, v). gm_put k v) [
     (NALEJ_ANNOTATION_DEPLOYMENT_FRAGMENT, dm_FragmentId data),
     (NALEJ_ANNOTATION_ORGANIZATION_ID, dm_OrganizationId data),
     (NALEJ_ANNOTATION_APP_DESCRIPTOR, dm_AppDescriptorId data),
     (NALEJ_ANNOTATION_APP_INSTANCE_ID, dm_AppInstanceId data),
     (NALEJ_ANNOTATION_STAGE_ID, ds_StageId (dm_Stage data)),
     (NALEJ_ANNOTATION_DEPLOYMENT_ID, dm_DeploymentId data),
     (NALEJ_ANNOTATION_DEPLOYMENT_FRAGMENT, ds_FragmentId (dm_Stage data)),
     (NALEJ_ANNOTATION_SERVICE_ID, si_ServiceId service),
     (NALEJ_ANNOTATION_SERVICE_INSTANCE_ID, si_ServiceInstanceId service),
     (NALEJ_ANNOTATION_SERVICE_GROUP_ID, si_ServiceGroupId service),
     (NALEJ_ANNOTATION_SERVICE_GROUP_INSTANCE_ID, si_ServiceGroupInstanceId service),
     (NALEJ_ANNOTATION_IS_PROXY, ''true'')] (fold (\<lambda>(k, v). gm_put k v) (si_Labels service) [])"

definition zt_agent_name :: "service_instance \<Rightarrow> string" where
  "zt_agent_name service = ''zt-'' @ FormatName (si_ServiceName service)"

definition inbound_deployment ::
  "string \<Rightarrow> config \<Rightarrow> deployment_metadata \<Rightarrow> service_instance \<Rightarrow> k8s_deployment outcome" where
  "inbound_deployment img cfg data service =
     bind_outcome (generateContainerVars cfg data service True) (\<lambda>vars.
       Done \<lparr>
         dep_Name = zt_agent_name service,
         dep_Namespace = dm_Namespace data,
         dep_Labels = generateContainerLabelsInbound data service,
         dep_Replicas = 1,
         dep_Selector = generateContainerLabelsInbound data service,
         dep_Annotations = [],
         dep_Pod = \<lparr>
           pod_Containers = [\<lparr>
             c_Name = zt_agent_name service,
             c_Image = img,
             c_Args = [''run'', ''--debug''],
             c_Env = vars,
             c_Ports = zt_getContainerPorts cfg (si_ExposedPorts service),
             c_VolumeMounts = [zt_mount],
             c_LivenessProbe = Some (zt_probe cfg data service (FormatName (si_ServiceName service))),
             c_SecurityContext = Some zt_security_context\<rparr>],
           pod_Volumes = [zt_volume],
           pod_ImagePullSecrets = [],
           pod_EnableServiceLinks = None,
           pod_AutomountServiceAccountToken = Some False,
           pod_DNSPolicyNone = False,
           pod_DNSNameservers = []\<rparr>\<rparr>)"

fun createInbounds_loop ::
  "string \<Rightarrow> config \<Rightarrow> service_instance list \<Rightarrow> deployable_deployments \<Rightarrow> deployable_deployments outcome" where
  "createInbounds_loop img cfg [] dep = Done dep"
| "createInbounds_loop img cfg (service # rest) dep =
     (if length (si_ExposedPorts service) = 0 then createInbounds_loop img cfg rest dep
      else bind_outcome (inbound_deployment img cfg (dd_Data dep) service)
        (\<lambda>agent. createInbounds_loop img cfg rest (dep\<lparr>dd_Deployments := dd_Deployments dep @ [agent]\<rparr>)))"

definition createInbounds ::
  "string \<Rightarrow> config \<Rightarrow> deployable_deployments \<Rightarrow> deployable_deployments outcome" where
  "createInbounds img cfg dep = createInbounds_loop img cfg (ds_Services (dm_Stage (dd_Data dep))) dep"

fun Zerotier_Build :: "string \<Rightarrow> config \<Rightarrow> target \<Rightarrow> (go_error option \<times> target) outcome" where
  "Zerotier_Build img cfg (TDeployments dep) =
     bind_outcome (createSidecars img cfg dep) (\<lambda>dep'.
     bind_outcome (createInbounds img cfg dep') (\<lambda>dep''. Done (None, TDeployments dep'')))"
| "Zerotier_Build img cfg t = Done (None, t)"

definition ZerotierDecorator :: "string \<Rightarrow> config \<Rightarrow> 'w network_decorator" where
  "ZerotierDecorator img cfg = \<lparr>
     nd_Build = Zerotier_Build img cfg,
     nd_Deploy = (\<lambda>t. ret None),
     nd_Undeploy = (\<lambda>t. ret None)\<rparr>"

section \<open>Lemmas\<close>

lemma createSidecars_loop_shape:
  assumes "createSidecars_loop img cfg i services dep = Done dep'"
  shows "dd_Data dep' = dd_Data dep \<and> map dep_Name (dd_Deployments dep') = map dep_Name (dd_Deployments dep) \<and>
    map dep_Namespace (dd_Deployments dep') = map dep_Namespace (dd_Deployments dep) \<and>
    map dep_Labels (dd_Deployments dep') = map dep_Labels (dd_Deployments dep)"
  using assms
proof (induction services arbitrary: i dep)
  case (Cons s services)
  obtain vars where vars: "generateContainerVars cfg (dd_Data dep) s False = Done vars"
    and lt: "i < length (dd_Deployments dep)"
    using Cons.prems by (auto simp: bind_outcome_Done_iff split: if_splits)
  let ?dep = "dep\<lparr>dd_Deployments := (dd_Deployments dep)[i := extend_deployment (dm_DNSHosts (dd_Data dep))
      (zt_sidecar img cfg (dd_Data dep) s vars) (dd_Deployments dep ! i)]\<rparr>"
  have upd: "map f (xs[i := x]) = map f xs" if "f x = f (xs ! i)" for f :: "k8s_deployment \<Rightarrow> 'b" and x xs
    using that by (simp add: map_update) (metis list_update_beyond list_update_id nth_map linorder_not_less length_map)
  have "createSidecars_loop img cfg (i + 1) services ?dep = Done dep'"
    using Cons.prems vars lt by simp
  from Cons.IH [OF this] show ?case
    by (simp add: upd extend_deployment_def)
qed simp

lemma createInbounds_loop_names:
  assumes "createInbounds_loop img cfg services dep = Done dep'"
  shows "dd_Data dep' = dd_Data dep \<and> map dep_Name (dd_Deployments dep') = map dep_Name (dd_Deployments dep) @
    map zt_agent_name (filter (\<lambda>s. si_ExposedPorts s \<noteq> []) services)"
  using assms
proof (induction services arbitrary: dep)
  case (Cons s services)
  show ?case
  proof (cases "si_ExposedPorts s = []")
    case True
    then show ?thesis using Cons by simp
  next
    case False
    then obtain agent where agent: "inbound_deployment img cfg (dd_Data dep) s = Done agent"
      and rest: "createInbounds_loop img cfg services (dep\<lparr>dd_Deployments := dd_Deployments dep @ [agent]\<rparr>) = Done dep'"
      using Cons.prems by (auto simp: bind_outcome_Done_iff)
    have "dep_Name agent = zt_agent_name s"
      using agent by (auto simp: inbound_deployment_def bind_outcome_Done_iff)
    then show ?thesis using Cons.IH [OF rest] False by simp
  qed
qed simp

lemma Zerotier_Build_names:
  assumes "Zerotier_Build img cfg (TDeployments dep) = Done (e, t)"
  shows "\<exists>dep'. e = None \<and> t = TDeployments dep' \<and> dd_Data dep' = dd_Data dep \<and>
    map dep_Name (dd_Deployments dep') = map dep_Name (dd_Deployments dep) @
      map zt_agent_name (filter (\<lambda>s. si_ExposedPorts s \<noteq> []) (ds_Services (dm_Stage (dd_Data dep))))"
proof -
  obtain d1 d2 where d: "createSidecars img cfg dep = Done d1" "createInbounds img cfg d1 = Done d2"
    "e = None" "t = TDeployments d2"
    using assms by (auto simp: bind_outcome_Done_iff)
  show ?thesis
    using createSidecars_loop_shape [OF d(1) [unfolded createSidecars_def]]
      createInbounds_loop_names [OF d(2) [unfolded createInbounds_def]] d(3,4)
    by simp
qed

end
