(* ===== verification/Istio.thy ===== *)
theory Istio
  imports ServiceObjects "HOL-Library.Word"
begin

text \<open>
  The Istio network decorator, \<^verbatim>\<open>pkg/decorators/network/istio/istio_decorator.go\<close>. It labels the
  namespace, annotates the deployments that public rules point to, and when services are deployed it
  creates or extends a Kubernetes service and a virtual service for every public rule. The Istio client
  is a parameter. A port of a virtual service is a \<^verbatim>\<open>uint32\<close> converted from the \<^verbatim>\<open>int32\<close> of the rule.
\<close>

definition IstioLabelInjection :: string where "IstioLabelInjection = ''istio-injection''"
definition Istio_InstPrefixLength :: nat where "Istio_InstPrefixLength = 6"
definition Istio_OrgPrefixLength :: nat where "Istio_OrgPrefixLength = 8"

record tcp_route =
  tr_Destination :: string
  tr_Port :: "32 word"
  tr_Match :: "32 word list"

record virtual_service =
  vs_Name :: string
  vs_Namespace :: string
  vs_Hosts :: "string list"
  vs_Tcp :: "tcp_route list"

record 'w istio_client =
  ic_get :: "string \<Rightarrow> string \<Rightarrow> 'w \<Rightarrow> go_error + virtual_service"
  ic_create :: "virtual_service \<Rightarrow> 'w \<Rightarrow> go_error option \<times> 'w"
  ic_update :: "virtual_service \<Rightarrow> 'w \<Rightarrow> go_error option \<times> 'w"

section \<open>Services\<close>

definition istio_service_port :: "public_rule \<Rightarrow> service_port" where
  "istio_service_port r = \<lparr>sp_Name = ''port'' @ show_int (pr_TargetPort r), sp_Port = pr_TargetPort r,
     sp_TargetPort = pr_TargetPort r, sp_NodePort = 0\<rparr>"

definition on_world :: "('w \<Rightarrow> 'a \<times> 'w) \<Rightarrow> ('a, 'w st) prog" where
  "on_world f s = (case f (snd s) of (x, w) \<Rightarrow> Done (x, (fst s, w)))"

definition updateServicePorts ::
  "'w kube \<Rightarrow> k8s_service \<Rightarrow> public_rule \<Rightarrow> (go_error option, 'w st) prog" where
  "updateServicePorts k service r =
     (if \<exists>p \<in> set (svc_Ports service). sp_Port p = pr_TargetPort r then ret None
      else and_then (on_world (kube_update k (OService
             (service\<lparr>svc_Ports := svc_Ports service @ [istio_service_port r]\<rparr>)))) (\<lambda>err. ret (case err of
        Some e \<Rightarrow> Some (DError Internal ''impossible to update service by istio decorator'')
      | None \<Rightarrow> None)))"

definition istio_service :: "deployment_metadata \<Rightarrow> public_rule \<Rightarrow> k8s_service" where
  "istio_service data r = \<lparr>
     svc_Name = FormatName (pr_ServiceName r),
     svc_Namespace = dm_Namespace data,
     svc_Labels = [
       (NALEJ_ANNOTATION_ORGANIZATION_ID, dm_OrganizationId data),
       (NALEJ_ANNOTATION_APP_DESCRIPTOR, dm_AppDescriptorId data),
       (NALEJ_ANNOTATION_APP_INSTANCE_ID, dm_AppInstanceId data),
       (NALEJ_ANNOTATION_IS_PROXY, ''false'')],
     svc_ExternalName = FormatName (pr_ServiceName r),
     svc_Ports = [istio_service_port r],
     svc_Type = ClusterIP,
     svc_Selector = [
       (NALEJ_ANNOTATION_APP_INSTANCE_ID, dm_AppInstanceId data),
       (NALEJ_ANNOTATION_ORGANIZATION_ID, dm_OrganizationId data),
       (NALEJ_ANNOTATION_SERVICE_NAME, FormatName (pr_ServiceName r))],
     svc_LocalTrafficPolicy = False\<rparr>"

text \<open>A failed \<^verbatim>\<open>Get\<close> returns the zero value of the object with its error.\<close>

definition empty_service :: k8s_service where
  "empty_service = \<lparr>svc_Name = [], svc_Namespace = [], svc_Labels = [], svc_ExternalName = [], svc_Ports = [],
     svc_Type = ClusterIP, svc_Selector = [], svc_LocalTrafficPolicy = False\<rparr>"

fun found_service :: "go_error + k8s_object \<Rightarrow> k8s_service" where
  "found_service (Inr (OService s)) = s"
| "found_service _ = empty_service"

definition istio_get_error :: "go_error + 'a \<Rightarrow> go_error option" where
  "istio_get_error r = (case r of Inl e \<Rightarrow> Some e | Inr _ \<Rightarrow> None)"

text \<open>An error of the creation is only logged, one of the update is returned.\<close>

definition ensure_service :: "'w kube \<Rightarrow> deployment_metadata \<Rightarrow> public_rule \<Rightarrow> (go_error option, 'w st) prog" where
  "ensure_service k data r = with_state (\<lambda>s.
     let found = kube_get k KService (dm_Namespace data) (FormatName (pr_ServiceName r)) (snd s)
     in if is_not_found (istio_get_error found)
        then and_then (on_world (kube_create k (OService (istio_service data r)))) (\<lambda>_. ret None)
        else updateServicePorts k (found_service found) r)"

section \<open>Virtual services\<close>

definition istio_route :: "public_rule \<Rightarrow> tcp_route" where
  "istio_route r = \<lparr>tr_Destination = FormatName (pr_ServiceName r), tr_Port = word_of_int (pr_TargetPort r),
     tr_Match = [word_of_int (pr_TargetPort r)]\<rparr>"

definition istio_virtual_service :: "deployment_metadata \<Rightarrow> public_rule \<Rightarrow> virtual_service" where
  "istio_virtual_service data r = \<lparr>vs_Name = FormatName (pr_ServiceName r), vs_Namespace = dm_Namespace data,
     vs_Hosts = [pr_ServiceName r], vs_Tcp = [istio_route r]\<rparr>"

definition empty_virtual_service :: virtual_service where
  "empty_virtual_service = \<lparr>vs_Name = [], vs_Namespace = [], vs_Hosts = [], vs_Tcp = []\<rparr>"

text \<open>Every rule is looked at; \<^verbatim>\<open>Match[0]\<close> panics on a rule without match.\<close>

definition has_route :: "32 word \<Rightarrow> tcp_route list \<Rightarrow> bool outcome" where
  "has_route port routes =
     (if \<exists>t \<in> set routes. tr_Match t = [] then Panic ''index out of range''
      else Done (\<exists>t \<in> set routes. hd (tr_Match t) = port))"

definition updateVirtualServicePorts ::
  "'w istio_client \<Rightarrow> virtual_service \<Rightarrow> public_rule \<Rightarrow> (go_error option, 'w st) prog" where
  "updateVirtualServicePorts ic vs r =
     and_then (lift_outcome (has_route (word_of_int (pr_TargetPort r)) (vs_Tcp vs))) (\<lambda>found.
       if found then ret None
       else and_then (on_world (ic_update ic (vs\<lparr>vs_Tcp := vs_Tcp vs @ [istio_route r]\<rparr>))) (\<lambda>err. ret (case err of
         Some e \<Rightarrow> Some (DError Internal ''istio decorator found a problem when updating virtual service'')
       | None \<Rightarrow> None)))"

definition ensure_virtual_service ::
  "'w istio_client \<Rightarrow> deployment_metadata \<Rightarrow> public_rule \<Rightarrow> (go_error option, 'w st) prog" where
  "ensure_virtual_service ic data r = with_state (\<lambda>s.
     let found = ic_get ic (dm_Namespace data) (FormatName (pr_ServiceName r)) (snd s)
     in if is_not_found (istio_get_error found)
        then and_then (on_world (ic_create ic (istio_virtual_service data r))) (\<lambda>errVS. ret (case errVS of
          Some e \<Rightarrow> Some (DError Internal ''impossible to generate virtual service'')
        | None \<Rightarrow> None))
        else and_then (updateVirtualServicePorts ic
             (case found of Inr vs \<Rightarrow> vs | Inl _ \<Rightarrow> empty_virtual_service) r) (\<lambda>err. ret (case err of
          Some e \<Rightarrow> Some (DError Internal ''there was an error updating a virtual service error by istio decorator'')
        | None \<Rightarrow> None)))"

section \<open>Decorating\<close>

definition decorate_rule ::
  "'w istio_client \<Rightarrow> 'w kube \<Rightarrow> deployable_services \<Rightarrow> public_rule \<Rightarrow> (go_error option, 'w st) prog" where
  "decorate_rule ic k services r =
     (if \<exists>s \<in> set (dsv_Services services). pr_ServiceName r = svc_Name (sinf_Service s) then ret None
      else on_ok (ensure_service k (dsv_Data services) r) (ensure_virtual_service ic (dsv_Data services) r))"

definition decorateServices ::
  "'w istio_client \<Rightarrow> 'w kube \<Rightarrow> deployable_services \<Rightarrow> (go_error option, 'w st) prog" where
  "decorateServices ic k services =
     for_each (decorate_rule ic k services) (ds_PublicRules (dm_Stage (dsv_Data services)))"

text \<open>A missing label reads as the empty string. The annotations are those of the pod template.\<close>

definition istio_annotate :: "public_rule \<Rightarrow> k8s_deployment \<Rightarrow> k8s_deployment" where
  "istio_annotate r dep =
     (if pr_TargetServiceGroupInstanceId r = gm_str (dep_Labels dep) NALEJ_ANNOTATION_SERVICE_GROUP_INSTANCE_ID \<and>
         pr_TargetServiceInstanceId r = gm_str (dep_Labels dep) NALEJ_ANNOTATION_SERVICE_INSTANCE_ID
      then dep\<lparr>dep_Annotations := gm_put ''traffic.sidecar.istio.io/includeInboundPorts'' [] (dep_Annotations dep)\<rparr>
      else dep)"

definition decorateDeployments :: "deployable_deployments \<Rightarrow> deployable_deployments" where
  "decorateDeployments d = fold (\<lambda>r d. d\<lparr>dd_Deployments := map (istio_annotate r) (dd_Deployments d)\<rparr>)
     (ds_PublicRules (dm_Stage (dd_Data d))) d"

definition decorateNamespace :: "deployable_namespace \<Rightarrow> deployable_namespace" where
  "decorateNamespace n = n\<lparr>dn_Namespace := (dn_Namespace n)\<lparr>
     ns_Labels := gm_put IstioLabelInjection ''enabled'' (ns_Labels (dn_Namespace n))\<rparr>\<rparr>"

fun Istio_Build :: "target \<Rightarrow> (go_error option \<times> target) outcome" where
  "Istio_Build (TNamespace n) = Done (None, TNamespace (decorateNamespace n))"
| "Istio_Build (TDeployments d) = Done (None, TDeployments (decorateDeployments d))"
| "Istio_Build t = Done (None, t)"

fun Istio_Deploy :: "'w istio_client \<Rightarrow> 'w kube \<Rightarrow> target \<Rightarrow> (go_error option, 'w st) prog" where
  "Istio_Deploy ic k (TServices s) = decorateServices ic k s"
| "Istio_Deploy ic k t = ret None"

definition IstioDecorator :: "'w istio_client \<Rightarrow> 'w kube \<Rightarrow> 'w network_decorator" where
  "IstioDecorator ic k = \<lparr>nd_Build = Istio_Build, nd_Deploy = Istio_Deploy ic k, nd_Undeploy = (\<lambda>t. ret None)\<rparr>"

text \<open>
  \<^verbatim>\<open>NewIstioDecorator\<close>: the configuration of the cluster and the two clients are made by libraries.
\<close>

definition NewIstioDecorator ::
  "(go_error + 'x) \<Rightarrow> ('x \<Rightarrow> go_error + 'w istio_client) \<Rightarrow> ('x \<Rightarrow> go_error + 'w kube) \<Rightarrow>
   go_error + 'w network_decorator" where
  "NewIstioDecorator inClusterConfig newIstio newKube =
     (case inClusterConfig of
        Inl e \<Rightarrow> Inl (DError Internal ''impossible to get local configuration for internal k8s client'')
      | Inr cfg \<Rightarrow> (case newIstio cfg of
          Inl e \<Rightarrow> Inl (DError Internal ''impossible to build a local Istio client'')
        | Inr ic \<Rightarrow> (case newKube cfg of
            Inl e \<Rightarrow> Inl (DError InvalidArgument ''impossible to build a local service interface client'')
          | Inr k \<Rightarrow> Inr (IstioDecorator ic k))))"

section \<open>Labels and prefixes\<close>

text \<open>Two helpers that the decorator keeps but does not call.\<close>

definition Istio_generateLabels :: "deployment_metadata \<Rightarrow> service_instance \<Rightarrow> labels" where
  "Istio_generateLabels data service = fold (\<lambda>(k, v). gm_put k v) [
     (NALEJ_ANNOTATION_ORGANIZATION_ID, dm_OrganizationId data),
     (NALEJ_ANNOTATION_APP_DESCRIPTOR, dm_AppDescriptorId data),
     (NALEJ_ANNOTATION_APP_INSTANCE_ID, dm_AppInstanceId data),
     (NALEJ_ANNOTATION_IS_PROXY, ''false'')] (fold (\<lambda>(k, v). gm_put k v) (si_Labels service) [])"

definition Istio_getNamePrefixes :: "service_instance \<Rightarrow> public_rule \<Rightarrow> string \<times> string \<times> string \<times> string" where
  "Istio_getNamePrefixes service r =
     (if pr_TargetPort r \<noteq> 80 then si_ServiceName service @ ''-'' @ show_int (pr_TargetPort r) else si_ServiceName service,
      keep_first Istio_InstPrefixLength (si_ServiceGroupInstanceId service),
      keep_first Istio_InstPrefixLength (si_AppInstanceId service),
      keep_first Istio_OrgPrefixLength (si_OrganizationId service))"

end
