(* ===== verification/Service.thy ===== *)
theory Service
  imports KubeClient Login MonitorHelper ControllerEvents MetricsTranslator Provider Handler Zerotier Istio
begin

text \<open>
  How the program is put together: \<^verbatim>\<open>pkg/service/deployment_manager_service.go\<close>, the flags of
  \<^verbatim>\<open>cmd/deployment-manager/cmd/run.go\<close>. The goroutines that are started are not part of the result; what
  ends the process is a panic. The servers follow in the theory \<open>Servers\<close>.
\<close>

section \<open>Flags\<close>

text \<open>The lookups of viper by name. An \<^verbatim>\<open>int32\<close> becomes a \<^verbatim>\<open>uint32\<close> by conversion.\<close>

record viper =
  vp_GetString :: "string \<Rightarrow> string"
  vp_GetInt32 :: "string \<Rightarrow> int"
  vp_GetBool :: "string \<Rightarrow> bool"

definition to_uint32 :: "int \<Rightarrow> nat" where
  "to_uint32 i = nat (i mod 2 ^ 32)"

definition string_flags :: "(string, string) gomap" where
  "string_flags = [
     (''networkMgrAddress'', ''localhost:8000''), (''depMgrAddress'', ''localhost:5200''),
     (''managementHostname'', []), (''clusterAPIHostname'', []), (''loginHostname'', []),
     (''clusterPublicHostname'', []), (''email'', ''admin@nalej.com''), (''password'', ''Passw0rd666''),
     (''dns'', []), (''targetPlatform'', ''MINIKUBE''), (''publicRegistryUserName'', []),
     (''publicRegistryPassword'', []), (''publicRegistryURL'', []), (''ztNalejImage'', ''nalej/zt-agent:edge''),
     (''caCertPath'', []), (''clientCertPath'', []), (''networkType'', ''zt''),
     (''unifiedLoggingAddress'', ''localhost:8322''), (''storageFabricAddress'', [])]"

definition uint_flags :: "(string, int) gomap" where
  "uint_flags = [(''port'', 5200), (''metricsPort'', 5201), (''clusterAPIPort'', 8000), (''loginPort'', 31683),
     (''ztSidecarPort'', 1576)]"

definition bool_flags :: "(string, bool) gomap" where
  "bool_flags = [(''local'', False), (''useTLSForClusterAPI'', True), (''useTLSForLogin'', True),
     (''skipServerCertValidation'', True)]"

text \<open>What the lookups give when no flag is set on the command line.\<close>

definition default_viper :: viper where
  "default_viper = \<lparr>vp_GetString = gm_str string_flags,
     vp_GetInt32 = (\<lambda>n. case gm_get uint_flags n of Some i \<Rightarrow> i | None \<Rightarrow> 0),
     vp_GetBool = (\<lambda>n. gm_get bool_flags n = Some True)\<rparr>"

text \<open>\<open>TargetPlatform\<close> and \<open>ClusterId\<close> are not set here: the first is \<open>zero\<close>, the second empty.\<close>

definition config_of_flags :: "viper \<Rightarrow> bool \<Rightarrow> platform \<Rightarrow> network_type \<Rightarrow> config" where
  "config_of_flags v debugLevel zero netType = \<lparr>
     cfg_Debug = debugLevel,
     cfg_Port = to_uint32 (vp_GetInt32 v ''port''),
     cfg_MetricsPort = to_uint32 (vp_GetInt32 v ''metricsPort''),
     cfg_ClusterAPIHostname = vp_GetString v ''clusterAPIHostname'',
     cfg_ClusterAPIPort = to_uint32 (vp_GetInt32 v ''clusterAPIPort''),
     cfg_UseTLSForClusterAPI = vp_GetBool v ''useTLSForClusterAPI'',
     cfg_LoginHostname = vp_GetString v ''loginHostname'',
     cfg_LoginPort = to_uint32 (vp_GetInt32 v ''loginPort''),
     cfg_UseTLSForLogin = vp_GetBool v ''useTLSForLogin'',
     cfg_ClusterPublicHostname = vp_GetString v ''clusterPublicHostname'',
     cfg_ManagementHostname = vp_GetString v ''managementHostname'',
     cfg_DeploymentMgrAddress = vp_GetString v ''depMgrAddress'',
     cfg_Local = vp_GetBool v ''local'',
     cfg_Email = vp_GetString v ''email'',
     cfg_Password = vp_GetString v ''password'',
     cfg_DNS = vp_GetString v ''dns'',
     cfg_TargetPlatformName = vp_GetString v ''targetPlatform'',
     cfg_TargetPlatform = zero,
     cfg_ClusterId = [],
     cfg_PublicCredentials = \<lparr>ic_Username = vp_GetString v ''publicRegistryUserName'',
       ic_Password = vp_GetString v ''publicRegistryPassword'', ic_Email = ''devops@nalej.com'',
       ic_DockerRepository = vp_GetString v ''publicRegistryURL''\<rparr>,
     cfg_ZTSidecarPort = to_uint32 (vp_GetInt32 v ''ztSidecarPort''),
     cfg_ZTNalejImage = vp_GetString v ''ztNalejImage'',
     cfg_CACertPath = vp_GetString v ''caCertPath'',
     cfg_ClientCertPath = vp_GetString v ''clientCertPath'',
     cfg_SkipServerCertValidation = vp_GetBool v ''skipServerCertValidation'',
     cfg_NetworkType = netType,
     cfg_UnifiedLoggingAddress = vp_GetString v ''unifiedLoggingAddress'',
     cfg_StorageFabricAddress = vp_GetString v ''storageFabricAddress''\<rparr>"

section \<open>Connections and decorators\<close>

definition getClusterAPIConnection ::
  "('k, 'c, 'v) dial_tools \<Rightarrow> string \<Rightarrow> int \<Rightarrow> string \<Rightarrow> string \<Rightarrow> bool \<Rightarrow> (go_error + 'c, 'v) prog" where
  "getClusterAPIConnection t hostname port caCertPath clientCertPath skipCAValidation =
     and_then (load_ca t caCertPath
         \<lparr>tls_ServerName = hostname, tls_RootCAs = None, tls_Certificates = [], tls_InsecureSkipVerify = False\<rparr>)
       (\<lambda>r1. case r1 of Inl err \<Rightarrow> ret (Inl err) | Inr cfg1 \<Rightarrow>
     and_then (load_client_cert t clientCertPath cfg1)
       (\<lambda>r2. case r2 of Inl err \<Rightarrow> ret (Inl err) | Inr cfg2 \<Rightarrow>
     (let cfg3 = (if skipCAValidation then cfg2\<lparr>tls_InsecureSkipVerify := True\<rparr> else cfg2)
      in and_then (dt_Dial t (target_address hostname port) (Some cfg3)) (\<lambda>r3. ret (case r3 of
           Inl err \<Rightarrow> Inl (DError Generic ''cannot create connection with the cluster API service'')
         | Inr conn \<Rightarrow> Inr conn)))))"

definition getNetworkDecorator ::
  "(go_error + 'w network_decorator) \<Rightarrow> config \<Rightarrow> go_error + 'w network_decorator" where
  "getNetworkDecorator newIstio cfg =
     (case cfg_NetworkType cfg of
        NetworkTypeZt \<Rightarrow> Inr (ZerotierDecorator (cfg_ZTNalejImage cfg) cfg)
      | NetworkTypeIstio \<Rightarrow> (case newIstio of Inl err \<Rightarrow> Inl err | Inr decorator \<Rightarrow> Inr decorator)
      | NetworkTypeError \<Rightarrow> Inl (DError InvalidArgument ''unknown decorator type''))"

section \<open>Start\<close>

text \<open>
  The state of the start: the flags defined so far, and the session of the login helper. \<open>on_flags\<close> and
  \<open>outside\<close> lift the operations of the two parts.
\<close>

definition on_flags :: "('a, flags) prog \<Rightarrow> ('a, flags \<times> 'v) prog" where
  "on_flags m s = bind_outcome (m (fst s)) (\<lambda>(x, f). Done (x, (f, snd s)))"

text \<open>A failed step of the sequence ends it with the error.\<close>

definition or_return :: "(go_error + 'a, 's) prog \<Rightarrow> ('a \<Rightarrow> (go_error + 'b, 's) prog) \<Rightarrow> (go_error + 'b, 's) prog" where
  "or_return m f = and_then m (\<lambda>r. case r of Inl e \<Rightarrow> ret (Inl e) | Inr x \<Rightarrow> f x)"

record ('k, 'c, 'x, 'kc, 'cl, 'w, 'v) startup =
  st_login :: "('k, 'c, 'v) login_tools"
  st_host :: "('x, 'kc) host"
  st_provider_tools :: "('cl, 'w st) provider_tools"
  st_provider :: "string \<Rightarrow> bool \<Rightarrow> string \<Rightarrow> go_error + ('cl, ('w st) metrics_translator, 'w st) provider"
  st_fmt :: "deployment_condition \<Rightarrow> string"
  st_collector :: "('w st) collector"
  st_now :: int
  st_newIstio :: "go_error + 'w network_decorator"

definition start_login ::
  "('k, 'c, 'v) login_tools \<Rightarrow> config \<Rightarrow> (unit, flags \<times> 'v session) prog" where
  "start_login t cfg s =
     and_then (outside (\<lambda>session. Done ((), (NewLogin (cfg_LoginHostname cfg) (int (cfg_LoginPort cfg)) (cfg_UseTLSForLogin cfg)
         (cfg_Email cfg) (cfg_Password cfg) (cfg_CACertPath cfg) (cfg_ClientCertPath cfg)
         (cfg_SkipServerCertValidation cfg), snd session)))) (\<lambda>_.
     and_then (outside (Login t)) (\<lambda>err.
       if err \<noteq> None then panic ''there was an error requesting cluster-api login'' else ret ())) s"

definition start_connection ::
  "('k, 'c, 'v) login_tools \<Rightarrow> config \<Rightarrow> ('c, flags \<times> 'v session) prog" where
  "start_connection t cfg =
     and_then (outside (outside (getClusterAPIConnection (lt_dial t) (cfg_ClusterAPIHostname cfg)
         (int (cfg_ClusterAPIPort cfg)) (cfg_CACertPath cfg) (cfg_ClientCertPath cfg) (cfg_SkipServerCertValidation cfg))))
       (\<lambda>r. case r of Inl err \<Rightarrow> panic ''impossible to connect with cluster api'' | Inr conn \<Rightarrow> ret conn)"

definition events_provider ::
  "('cl, 's) provider_tools \<Rightarrow> ('f, 's) dispatcher \<Rightarrow> ('f, 's) dispatcher \<Rightarrow> ('cl, 'f, 's) provider \<Rightarrow>
   (go_error + ('cl, 'f, 's) provider) outcome" where
  "events_provider t controller metrics p =
     (case AddDispatcher t controller p of
        (Some derr, _) \<Rightarrow> Done (Inl derr)
      | (None, p1, _) \<Rightarrow>
          (case AddDispatcher t metrics p1 of
             (Some derr, _) \<Rightarrow> Done (Inl derr)
           | (None, p2, _) \<Rightarrow> bind_outcome (provider_Start t p2) (\<lambda>(err, p3).
               Done (case err of Some derr \<Rightarrow> Inl derr | None \<Rightarrow> Inr p3))))"

text \<open>The provider listens to the objects of applications; two dispatchers are added before it starts.\<close>

definition start_events ::
  "('k, 'c, 'x, 'kc, 'cl, 'w, 'v) startup \<Rightarrow> config \<Rightarrow>
   (go_error + ('cl, ('w st) metrics_translator, 'w st) provider, flags \<times> 'v session) prog" where
  "start_events u cfg =
     and_then (on_flags (KubeConfigPath (st_host u))) (\<lambda>path.
     or_return (ret (st_provider u path (cfg_Local cfg) NALEJ_ANNOTATION_ORGANIZATION_ID)) (\<lambda>p.
     or_return (ret (NewDispatcher (controller_funcs (st_fmt u) cfg (NewMetricsTranslator (st_collector u) (st_now u))))) (\<lambda>controller.
     or_return (ret (NewDispatcher (translator_funcs (NewMetricsTranslator (st_collector u) (st_now u))))) (\<lambda>metrics.
     lift_outcome (events_provider (st_provider_tools u) controller metrics p)))))"

record ('kc, 'cl, 'w) dm_service =
  dms_manager :: manager
  dms_decorator :: "'w network_decorator"
  dms_client :: 'kc
  dms_network_client :: 'kc
  dms_offline_client :: "'kc option"
  dms_provider :: "('cl, ('w st) metrics_translator, 'w st) provider"
  dms_configuration :: config

text \<open>\<^verbatim>\<open>log.Fatal\<close> ends the process, the level \<^verbatim>\<open>Panic\<close> panics.\<close>

definition start_config ::
  "(string, string) gomap \<Rightarrow> (string, platform) gomap \<Rightarrow> platform \<Rightarrow> config \<Rightarrow> (config, 's) prog" where
  "start_config env table zero cfg =
     (case Resolve env cfg of
        (Some _, _) \<Rightarrow> panic ''cannot resolve variables''
      | (None, cfg1) \<Rightarrow> (case Validate table zero cfg1 of
          (Some _, _) \<Rightarrow> panic ''invalid configuration''
        | (None, cfg2) \<Rightarrow> ret cfg2))"

definition dial_insecure ::
  "('k, 'c, 'v) login_tools \<Rightarrow> string \<Rightarrow> string \<Rightarrow> (go_error + 'c, flags \<times> 'v session) prog" where
  "dial_insecure t address msg =
     and_then (outside (outside (dt_Dial (lt_dial t) address None))) (\<lambda>r. ret (case r of
       Inl err \<Rightarrow> Inl (DError Generic msg) | Inr conn \<Rightarrow> Inr conn))"

text \<open>\<^verbatim>\<open>offline_policy.NewManager\<close> makes a client of its own, in the cluster; an error would leave it nil.\<close>

definition start_managers ::
  "('k, 'c, 'x, 'kc, 'cl, 'w, 'v) startup \<Rightarrow> config \<Rightarrow> ('cl, ('w st) metrics_translator, 'w st) provider \<Rightarrow>
   (go_error + ('kc, 'cl, 'w) dm_service, flags \<times> 'v session) prog" where
  "start_managers u cfg p =
     and_then (on_flags (NewKubernetesExecutor (st_host u) (cfg_Local cfg))) (\<lambda>exec. case exec of
       Inl kubErr \<Rightarrow> panic ''there was an error creating kubernetes client''
     | Inr client \<Rightarrow>
     and_then (ret (getNetworkDecorator (st_newIstio u) cfg)) (\<lambda>nd. case nd of
       Inl err \<Rightarrow> panic ''impossible to build network decorator''
     | Inr networkDecorator \<Rightarrow>
     or_return (dial_insecure (st_login u) (cfg_UnifiedLoggingAddress cfg)
         ''cannot create connection with unified slave coordinator'') (\<lambda>ulConn.
     or_return (on_flags (GetKubernetesClient (st_host u) (cfg_Local cfg))) (\<lambda>k8sClient.
     or_return (dial_insecure (st_login u) (cfg_StorageFabricAddress cfg)
         ''cannot create connection with storage fabric'') (\<lambda>sfConn.
     and_then (on_flags (GetKubernetesClient (st_host u) True)) (\<lambda>offline.
     ret (Inr \<lparr>
       dms_manager = NewManager (cfg_ClusterPublicHostname cfg)
         (split_on CHR '','' (cfg_DNS cfg) @ [''8.8.8.8'']) (cfg_PublicCredentials cfg),
       dms_decorator = networkDecorator, dms_client = client, dms_network_client = k8sClient,
       dms_offline_client = (case offline of Inl _ \<Rightarrow> None | Inr c \<Rightarrow> Some c), dms_provider = p,
       dms_configuration = cfg\<rparr>)))))))"

definition NewDeploymentManagerService ::
  "('k, 'c, 'x, 'kc, 'cl, 'w, 'v) startup \<Rightarrow> (string, string) gomap \<Rightarrow> (string, platform) gomap \<Rightarrow> platform \<Rightarrow> config \<Rightarrow>
   (go_error + ('kc, 'cl, 'w) dm_service, flags \<times> 'v session) prog" where
  "NewDeploymentManagerService u env table zero cfg0 =
     and_then (start_config env table zero cfg0) (\<lambda>cfg.
     and_then (start_login (st_login u) cfg) (\<lambda>_.
     and_then (start_connection (st_login u) cfg) (\<lambda>conn.
     or_return (start_events u cfg) (\<lambda>p.
     start_managers u cfg p))))"

end
