(* ===== verification/HandlerProps.thy ===== *)
theory HandlerProps
  imports Handler Zerotier Istio Controller
begin

text \<open>
  The contract between the handler and the executor as a locale: the executor and the other
  goroutines keep the invariant of the monitored store. Under it every operation of the handler keeps
  the invariant; the Kubernetes executor with either network decorator fulfils it on every
  cluster.
\<close>

section \<open>The contract of the executor\<close>

definition env_keeps :: "'w environment \<Rightarrow> bool" where
  "env_keeps env \<longleftrightarrow> (\<forall>fid s. store_ok s \<longrightarrow>
     (\<forall>(f, sig) \<in> set (env_schedule env fid s). \<forall>p. monitored_inv p \<longrightarrow> monitored_inv (f p)))"

locale executor_contract =
  fixes ex :: "('p, 'd, 'w) executor"
  assumes namespace_law: "keeps store_ok (ex_GetApplicationNamespace ex org app n)"
    and prepare_law: "keeps store_ok (ex_PrepareEnvironmentForDeployment ex metadata)"
    and build_law: "keeps store_ok (ex_BuildNativeDeployable ex metadata)"
    and deploy_law: "keeps store_ok (ex_DeployStage ex d)"
    and undeploy_law: "keeps store_ok (ex_Undeploy ex d)"
    and undeploy_prepared_law: "keeps store_ok (ex_UndeployPrepared ex p)"
    and undeploy_fragment_law: "keeps store_ok (ex_UndeployFragment ex ns fid)"
    and undeploy_namespace_law: "keeps store_ok (ex_UndeployNamespace ex org app)"

lemma keeps_on_store: "(\<And>p. monitored_inv p \<Longrightarrow> monitored_inv (f p)) \<Longrightarrow> keeps store_ok (on_store f)"
  by (auto simp: keeps_def on_store_def store_ok_def)

lemma WaitPendingChecks_inv:
  assumes "monitored_inv p" and "\<forall>(f, sig) \<in> set sch. \<forall>p. monitored_inv p \<longrightarrow> monitored_inv (f p)"
    and "WaitPendingChecks fid sch p = Some (err, p')"
  shows "monitored_inv p'"
  using assms
proof (induction fid sch p rule: WaitPendingChecks.induct)
  case (3 fid env rest p)
  have inv: "monitored_inv (UpdateAppStatus fid (env p))"
    using 3(2,3) by (auto intro: UpdateAppStatus_inv)
  show ?case
    using 3 inv by (auto simp: Let_def split: option.splits if_splits)
qed auto

lemma keeps_wait: "env_keeps env \<Longrightarrow> keeps store_ok (wait_checks env fid)"
  unfolding keeps_def
proof (intro allI impI)
  fix s x s' assume env: "env_keeps env" and s: "store_ok s" and run: "wait_checks env fid s = Done (x, s')"
  obtain err p where w: "WaitPendingChecks fid (env_schedule env fid s) (fst s) = Some (err, p)"
    and s': "fst s' = p"
    using run by (auto simp: wait_checks_def split: option.splits)
  have "\<forall>(f, sig) \<in> set (env_schedule env fid s). \<forall>p. monitored_inv p \<longrightarrow> monitored_inv (f p)"
    using env s unfolding env_keeps_def by blast
  from WaitPendingChecks_inv [OF s [unfolded store_ok_def] this w] have "monitored_inv p" .
  then show "store_ok s'" by (simp add: store_ok_def s')
qed

lemma getMonitoringData_inv: "entry_inv (df_FragmentId fragment) (getMonitoringData ns stage fragment)"
proof -
  have "gm_all service_inv (fold (\<lambda>s. gm_put (si_ServiceInstanceId s) (monitored_service_of fragment s)) ss m)"
    if "gm_all service_inv m" for ss m
    using that
  proof (induction ss arbitrary: m)
    case (Cons s ss)
    have "service_inv (si_ServiceInstanceId s) (monitored_service_of fragment s)"
      by (simp add: service_inv_def monitored_service_of_def gm_all_empty not_running_def)
    then show ?case using Cons by (simp add: gm_all_put)
  qed simp
  then show ?thesis
    by (simp add: getMonitoringData_def entry_inv_def Let_def gm_all_empty)
qed

lemma getMonitoringData_fragment: "mae_FragmentId (getMonitoringData ns stage fragment) = df_FragmentId fragment"
  by (simp add: getMonitoringData_def Let_def)

lemma keeps_AddEntry: "keeps store_ok (on_store (AddEntry (getMonitoringData ns stage fragment)))"
  by (rule keeps_on_store) (simp add: AddEntry_inv getMonitoringData_fragment getMonitoringData_inv)

lemmas keeps_store = keeps_on_store [OF SetEntryStatus_inv] keeps_on_store [OF SetAppStatus_inv] keeps_AddEntry

text \<open>Induction over the retries that are left.\<close>

lemma loop_induct:
  fixes P :: "int \<Rightarrow> 'd \<Rightarrow> bool"
  assumes "\<And>retries d. \<not> retries < maxRetries \<Longrightarrow> P retries d"
    and "\<And>retries d. retries < maxRetries \<Longrightarrow> (\<And>d'. P (retries + 1) d') \<Longrightarrow> P retries d"
  shows "P retries d"
proof (induction "nat (maxRetries - retries)" arbitrary: retries d)
  case 0
  then have "\<not> retries < maxRetries" by simp
  then show ?case by (rule assms(1))
next
  case (Suc n)
  then have lt: "retries < maxRetries" and n: "n = nat (maxRetries - (retries + 1))" by simp_all
  show ?case by (rule assms(2) [OF lt Suc.hyps(1) [OF n]])
qed

context executor_contract
begin

lemma loop_keeps:
  assumes "env_keeps env"
  shows "keeps store_ok (deploymentLoopStage ex env fid sid maxRetries retries d)"
proof (induction retries d rule: loop_induct [where maxRetries = maxRetries])
  case (1 retries d)
  then show ?case by (subst deploymentLoopStage.simps) (simp add: keeps_ret)
next
  case (2 retries d)
  show ?case
    using 2
    by (subst deploymentLoopStage.simps)
      (auto intro!: keeps_intros keeps_store deploy_law undeploy_law keeps_wait assms split: option.split prod.split)
qed

lemma process_stage_keeps:
  assumes "env_keeps env"
  shows "keeps store_ok (process_stage ex env request fragment ns metadata pre stage)"
  unfolding process_stage_def
  by (auto intro!: keeps_intros keeps_store build_law loop_keeps undeploy_prepared_law assms
      split: option.split prod.split sum.split)

lemma processRequest_keeps:
  assumes "env_keeps env"
  shows "keeps store_ok (processRequest mg ex env request)"
  unfolding processRequest_def Let_def
  by (auto intro!: keeps_intros keeps_store namespace_law prepare_law undeploy_prepared_law process_stage_keeps assms
      split: option.split prod.split sum.split)

lemma Undeploy_keeps: "keeps store_ok (Undeploy ex request)"
  unfolding Undeploy_def by (auto intro!: keeps_intros keeps_store undeploy_namespace_law)

lemma UndeployFragment_manager_keeps: "keeps store_ok (UndeployFragment_manager ex request)"
  unfolding UndeployFragment_manager_def
  by (auto intro!: keeps_intros keeps_store undeploy_fragment_law undeploy_namespace_law
      split: option.split sum.split)

end

section \<open>The Kubernetes executor fulfils the contract\<close>

lemma keeps_create_monitored: "keeps store_ok (create_monitored k obj)"
  by (auto simp: keeps_def create_monitored_def store_ok_def AddMonitoredResource_def created_resource_def
      NewMonitoredPlatformResource_def intro!: AddPendingResource_inv split: prod.splits sum.splits)

lemma keeps_create_object: "keeps store_ok (create_object k obj)"
  by (auto simp: keeps_def create_object_def store_ok_def split: prod.splits sum.splits)

lemma keeps_delete_object: "keeps store_ok (delete_object k kind ns name)"
  by (auto simp: keeps_def delete_object_def store_ok_def split: prod.splits)

lemma keeps_for_all_logged: "(\<And>x. keeps I (step x)) \<Longrightarrow> keeps I (for_all_logged step xs)"
  by (induction xs) (auto intro!: keeps_intros)

lemma keeps_spawn:
  "(\<And>s. fst (snd (f s)) = fst s) \<Longrightarrow> keeps store_ok (spawn f)"
  by (auto simp: keeps_def spawn_def store_ok_def)

lemma keeps_experimental:
  "keeps store_ok (spawn (createExperimentalStorage sf ds pvc))"
  "keeps store_ok (spawn (removeExperimentalStorage sf pvc))"
  by (auto intro!: keeps_spawn simp: createExperimentalStorage_def removeExperimentalStorage_def split: option.splits)

lemmas keeps_objects = keeps_create_monitored keeps_create_object keeps_delete_object keeps_experimental

text \<open>What the executor relies on of a network decorator: it leaves the store well formed.\<close>

locale decorator_contract =
  fixes nd :: "'w network_decorator"
  assumes deploy_law: "keeps store_ok (nd_Deploy nd t)"
    and undeploy_law: "keeps store_ok (nd_Undeploy nd t)"

interpretation zerotier_net: decorator_contract "ZerotierDecorator img cfg" for img cfg
  by unfold_locales (simp_all add: ZerotierDecorator_def keeps_ret)

text \<open>What the Istio decorator deploys leaves the store as it is.\<close>

lemma keeps_on_world: "keeps (\<lambda>s. Q (fst s)) (on_world f)"
  by (auto simp: keeps_def on_world_def split: prod.splits)

lemma Istio_Deploy_store: "keeps (\<lambda>s. Q (fst s)) (Istio_Deploy ic k t)"
proof -
  let ?I = "\<lambda>s. Q (fst s)"
  have ports: "keeps ?I (updateServicePorts k s r)" "keeps ?I (updateVirtualServicePorts ic vs r)" for s vs r
    by (auto simp: updateServicePorts_def updateVirtualServicePorts_def intro!: keeps_intros keeps_on_world)
  have "keeps ?I (ensure_service k data r)" "keeps ?I (ensure_virtual_service ic data r)" for data r
    unfolding ensure_service_def ensure_virtual_service_def Let_def
    by (auto intro!: keeps_intros keeps_on_world ports)
  then show ?thesis
    by (cases t) (auto simp: decorateServices_def decorate_rule_def intro!: keeps_intros)
qed

lemma Istio_Deploy_keeps: "keeps store_ok (Istio_Deploy ic k t)"
  using Istio_Deploy_store [of monitored_inv] by (simp add: store_ok_def [abs_def])

interpretation istio_net: decorator_contract "IstioDecorator ic k" for ic k
  by unfold_locales (simp_all add: IstioDecorator_def keeps_ret Istio_Deploy_keeps)

lemma keeps_deploy_service: "keeps store_ok (deploy_service k s info)"
  using keeps_create_monitored [of k "OService (sinf_Service info)"] unfolding keeps_def deploy_service_def
  by auto

context decorator_contract
begin

lemma deployables_keep:
  "keeps store_ok (Secrets_Deploy k ds)" "keeps store_ok (Secrets_Undeploy k ds)"
    "keeps store_ok (ConfigMaps_Deploy k dc)" "keeps store_ok (ConfigMaps_Undeploy k dc)"
    "keeps store_ok (Storage_Deploy k sf st)" "keeps store_ok (Storage_Undeploy k sf st)"
    "keeps store_ok (Deployments_Deploy k nd d)" "keeps store_ok (Deployments_Undeploy k d)"
    "keeps store_ok (Services_Deploy k nd s)" "keeps store_ok (Services_Undeploy k nd s)"
    "keeps store_ok (DeviceGroups_Deploy k dg)" "keeps store_ok (DeviceGroups_Undeploy k dg)"
    "keeps store_ok (Ingress_Deploy k nd di)" "keeps store_ok (Ingress_Undeploy k nd di)"
    "keeps store_ok (LoadBalancers_Deploy k dl)" "keeps store_ok (LoadBalancers_Undeploy k dl)"
    "keeps store_ok (NalejSecret_Deploy k ns)" "keeps store_ok (Namespace_Undeploy k n)"
  unfolding Secrets_Deploy_def Secrets_Undeploy_def ConfigMaps_Deploy_def ConfigMaps_Undeploy_def
    Storage_Deploy_def Storage_Undeploy_def Deployments_Deploy_def Deployments_Undeploy_def
    Services_Deploy_def Services_Undeploy_def DeviceGroups_Deploy_def DeviceGroups_Undeploy_def
    Ingress_Deploy_def Ingress_Undeploy_def LoadBalancers_Deploy_def LoadBalancers_Undeploy_def
    NalejSecret_Deploy_def Namespace_Undeploy_def
  by (auto intro!: keeps_intros keeps_objects keeps_deploy_service keeps_for_all_logged deploy_law undeploy_law
      split: prod.split option.split sum.split)

lemma stage_keeps:
  "keeps store_ok (Stage_Deploy k sf nd d)" "keeps store_ok (Stage_Undeploy k sf nd d)"
  unfolding Stage_Deploy_def Stage_Undeploy_def Let_def
  by (auto intro!: keeps_intros deployables_keep split: prod.split option.split)

end

lemma Namespace_Deploy_keeps: "keeps store_ok (Namespace_Deploy k fuel n)"
proof (induction fuel arbitrary: n)
  case 0
  show ?case by (simp add: keeps_def)
next
  case (Suc fuel)
  have "store_ok s'" if run: "Namespace_Deploy k (Suc fuel) n s = Done (x, s')" and s: "store_ok s" for s x s'
  proof -
    have rec: "store_ok t'" if "Namespace_Deploy k fuel m (fst s, w) = Done (y, t')" for m w y t'
      using keepsD [OF Suc.IH _ that] s by (simp add: store_ok_def)
    show ?thesis
      using run s
      by (auto simp: Let_def bind_outcome_Done_iff store_ok_def dest!: rec
          split: sum.splits k8s_object.splits if_splits prod.splits)
  qed
  then show ?case by (auto simp: keeps_def)
qed

sublocale decorator_contract < executor: executor_contract "KubernetesExecutor cfg k sf nd" for cfg k sf
proof
  note keep = deployables_keep stage_keeps
  let ?ex = "KubernetesExecutor cfg k sf nd"
  show "keeps store_ok (ex_GetApplicationNamespace ?ex org app n)" for org app n
    by (auto simp: KubernetesExecutor_def GetApplicationNamespace_def intro!: keeps_intros
        split: sum.split option.split)
  show "keeps store_ok (ex_PrepareEnvironmentForDeployment ?ex metadata)" for metadata
    by (auto simp: KubernetesExecutor_def PrepareEnvironmentForDeployment_def
        intro!: keeps_intros Namespace_Deploy_keeps keep split: prod.split)
  show "keeps store_ok (ex_BuildNativeDeployable ?ex metadata)" for metadata
    by (auto simp: KubernetesExecutor_def BuildNativeDeployable_def intro!: keeps_intros split: prod.split)
  show "keeps store_ok (ex_DeployStage ?ex d)" "keeps store_ok (ex_Undeploy ?ex d)"
    "keeps store_ok (ex_UndeployPrepared ?ex p)" for d p
    by (simp_all add: KubernetesExecutor_def DeployStage_def keep)
  have collection: "keeps store_ok (\<lambda>s. let (e, w) = kube_delete_collection k kind ns sel (snd s) in Done (e, (fst s, w)))"
    for kind ns sel by (auto simp: keeps_def store_ok_def split: prod.splits)
  show "keeps store_ok (ex_UndeployFragment ?ex ns fid)" for ns fid
    unfolding KubernetesExecutor_def UndeployFragment_def Let_def executor.simps
    by (intro keeps_and_then keeps_for_all_logged keeps_with_state collection [unfolded Let_def])
      (auto intro!: keeps_intros keeps_for_all_logged keeps_objects split: sum.split)
  show "keeps store_ok (ex_UndeployNamespace ?ex org app)" for org app
    by (auto simp: KubernetesExecutor_def UndeployNamespace_def Let_def intro!: keeps_intros keep split: prod.split)
qed

context decorator_contract
begin

lemma requests_keep:
  "env_keeps env \<Longrightarrow> keeps store_ok (processRequest mg (KubernetesExecutor cfg k sf nd) env request)"
  by (rule executor.processRequest_keeps)

lemma undeployments_keep:
  "keeps store_ok (Handler_Undeploy (KubernetesExecutor cfg k sf nd) undeploy)"
  "keeps store_ok (Handler_UndeployFragment (KubernetesExecutor cfg k sf nd) undeployFragment)"
  by (auto simp: Handler_Undeploy_def Handler_UndeployFragment_def
      intro!: keeps_intros executor.Undeploy_keeps executor.UndeployFragment_manager_keeps split: option.split)

end

section \<open>The services of a stage\<close>

text \<open>Neither decorator touches the store or the services that were built.\<close>

lemma decorators_leave_services:
  assumes "nd = ZerotierDecorator img cfg \<or> nd = IstioDecorator ic k"
  shows "nd_Build nd (TServices s) = Done (None, TServices s)"
    and "keeps (\<lambda>st. fst st = p) (nd_Deploy nd (TServices s))"
  using assms Istio_Deploy_store [of "\<lambda>q. q = p" ic k "TServices s"]
  by (auto simp: ZerotierDecorator_def IstioDecorator_def keeps_ret)

text \<open>C38: The Kubernetes services of a stage are never monitored. With both network decorators, building the
  services succeeds, and none of the services built has the label of the fragment or of the service instance, so
  deploying them leaves the store of monitored fragments as it is, whatever is created, fails or is there already.
  The cluster returns a created object with the labels it was sent with, and no fragment with the empty identifier
  is monitored.\<close>

theorem services_never_monitored:
  assumes labels: "returns_labels k" and none: "gm_get p [] = None"
    and nd: "nd = ZerotierDecorator img cfg \<or> nd = IstioDecorator ic kube"
    and build: "Services_Build k nd w0 (NewDeployableService data) = Done (err, s)"
    and run: "Services_Deploy k nd s (p, w) = Done (e, (p', w'))"
  shows "err = None \<and> p' = p \<and> (\<forall>info \<in> set (dsv_Services s).
      gm_get (svc_Labels (sinf_Service info)) NALEJ_ANNOTATION_DEPLOYMENT_FRAGMENT = None \<and>
      gm_get (svc_Labels (sinf_Service info)) NALEJ_ANNOTATION_SERVICE_INSTANCE_ID = None)"
proof -
  have s: "err = None" "s = fold (build_service k w0) (ds_Services (dm_Stage data)) (NewDeployableService data)"
    using build by (simp_all add: Services_Build_def Let_def decorators_leave_services(1) [OF nd] NewDeployableService_def)
  have shape: "\<exists>si ports. sinf_Service info = service_of_instance data si ports" if "info \<in> set (dsv_Services s)" for info
    using build_services_shape [OF that [unfolded s(2)]] by (simp add: NewDeployableService_def)
  have "keeps (\<lambda>st. fst st = p) (deploy_service k s info)" if "info \<in> set (dsv_Services s)" for info
    using shape [OF that] deploy_service_unmonitored [OF labels none] by blast
  then have "keeps (\<lambda>st. fst st = p) (Services_Deploy k nd s)"
    unfolding Services_Deploy_def
    by (intro keeps_intros keeps_for_each decorators_leave_services(2) [OF nd])
  from keepsD [OF this _ run] have "p' = p" by simp
  moreover have "gm_get (svc_Labels (sinf_Service info)) NALEJ_ANNOTATION_DEPLOYMENT_FRAGMENT = None \<and>
      gm_get (svc_Labels (sinf_Service info)) NALEJ_ANNOTATION_SERVICE_INSTANCE_ID = None"
    if "info \<in> set (dsv_Services s)" for info
    using shape [OF that] by (auto simp: service_of_instance_def go_constants)
  ultimately show ?thesis using s(1) by blast
qed

definition web_services :: deployable_services where
  "web_services = fold (build_service mem_kube []) [sample_web_service]
     (NewDeployableService (sample_metadata [sample_web_service]))"

theorem services_never_monitored_witness:
  "\<exists>w'. Services_Build mem_kube (ZerotierDecorator [] sample_config) []
      (NewDeployableService (sample_metadata [sample_web_service])) = Done (None, web_services) \<and>
    Services_Deploy mem_kube (ZerotierDecorator [] sample_config) web_services ([], []) = Done (None, ([], w')) \<and>
    length w' = 1"
proof -
  let ?nd = "ZerotierDecorator [] sample_config"
  have build: "Services_Build mem_kube ?nd [] (NewDeployableService (sample_metadata [sample_web_service])) =
      Done (None, web_services)"
    by (simp add: Services_Build_def Let_def ZerotierDecorator_def web_services_def NewDeployableService_def
        sample_metadata_def)
  have "\<exists>p' w'. Services_Deploy mem_kube ?nd web_services ([], []) = Done (None, (p', w')) \<and> length w' = 1"
    by (simp add: Services_Deploy_def ZerotierDecorator_def web_services_def build_service_def mem_kube_def
        get_not_found_def is_not_found_def NewDeployableService_def getServicePorts_def sample_web_service_def
        deploy_service_def create_monitored_def AddMonitoredResource_def on_ok_apply ret_apply Let_def)
  then obtain p' w' where run: "Services_Deploy mem_kube ?nd web_services ([], []) = Done (None, (p', w'))"
    and one: "length w' = 1" by blast
  have "p' = []"
    using services_never_monitored [OF mem_kube_labels _ disjI1 [OF refl] build run] by simp
  then show ?thesis using build run one by blast
qed

end
