(* ===== verification/HandlerTheorems.thy ===== *)
theory HandlerTheorems
  imports HandlerProps
begin

text \<open>
  The properties of the handler: what a successful deployment means, how often a stage is tried,
  what is lost when a preparation fails, undeploying, the validation of requests, and the
  counters of the monitoring data. At the end, what undeploying a stage does on the cluster.
\<close>

section \<open>A small executor for the witnesses\<close>

text \<open>
  Its world counts the deployments. It deploys nothing; the schedule of the environment makes
  every wait succeed at once or time out.
\<close>

definition count_executor :: "(unit, unit, nat) executor" where
  "count_executor = \<lparr>
     ex_GetApplicationNamespace = (\<lambda>org app n. ret (Inr ''ns'')),
     ex_PrepareEnvironmentForDeployment = (\<lambda>m. ret (Some (), None)),
     ex_BuildNativeDeployable = (\<lambda>m. ret (Inr ())),
     ex_DeployStage = (\<lambda>d s. Done ((None, d), (fst s, Suc (snd s)))),
     ex_Undeploy = (\<lambda>d. ret None),
     ex_UndeployPrepared = (\<lambda>p. ret None),
     ex_UndeployFragment = (\<lambda>ns fid. ret None),
     ex_UndeployNamespace = (\<lambda>org app. ret None)\<rparr>"

definition timeout_environment :: "'w environment" where
  "timeout_environment = \<lparr>env_schedule = (\<lambda>fid s. [(id, Timeout)]), env_world = (\<lambda>fid s. snd s)\<rparr>"

text \<open>The other goroutines report the resources of the service as running before the first tick.\<close>

definition running_environment :: "nat environment" where
  "running_environment = \<lparr>env_schedule = (\<lambda>fid s.
     [(map_ran (\<lambda>_ e. e\<lparr>mae_Services := map_ran (\<lambda>_ x. x\<lparr>mse_Status := NALEJ_SERVICE_RUNNING\<rparr>) (mae_Services e)\<rparr>), Tick)]),
     env_world = (\<lambda>fid s. snd s)\<rparr>"

definition sample_stage :: deployment_stage where
  "sample_stage = empty_stage\<lparr>ds_StageId := ''st'', ds_FragmentId := ''f'', ds_Services := [sample_web_service]\<rparr>"

definition sample_fragment :: deployment_fragment where
  "sample_fragment = \<lparr>df_OrganizationId = ''organization-000000'', df_OrganizationName = ''org'',
     df_AppInstanceId = ''a'', df_AppInstanceName = ''app'', df_AppDescriptorId = ''d'', df_AppDescriptorName = ''desc'',
     df_DeploymentId = ''dep'', df_FragmentId = ''f'', df_NalejVariables = [], df_Stages = [sample_stage]\<rparr>"

definition sample_request :: "rollback_policy \<Rightarrow> deployment_fragment_request" where
  "sample_request policy = \<lparr>dfr_RequestId = ''r'', dfr_Fragment = Some sample_fragment, dfr_ZtNetworkId = ''zt'',
     dfr_RollbackPolicy = policy, dfr_NumRetry = 0\<rparr>"

definition sample_manager :: manager where
  "sample_manager = \<lparr>mg_clusterPublicHostname = ''host'', mg_dnsHosts = [],
     mg_PublicCredentials = \<lparr>ic_Username = [], ic_Password = [], ic_Email = [], ic_DockerRepository = []\<rparr>\<rparr>"

lemmas prog_run = and_then_def with_state_def ret_def on_store_def panic_def

section \<open>Successful deployments\<close>

lemma wait_success:
  assumes "WaitPendingChecks fid sch p = Some (None, p')"
  shows "\<exists>e. gm_get p' fid = Some e \<and> all_running e \<and> mae_NumPendingChecks e = 0"
  using assms
proof (induction sch arbitrary: p)
  case (Cons x rest)
  obtain f sig where x: "x = (f, sig)" by (cases x)
  show ?case
  proof (cases sig)
    case Tick
    show ?thesis
    proof (cases "gm_get (f p) fid")
      case (Some e)
      then show ?thesis
        using Cons x Tick
        by (auto simp: WaitPendingChecks_tick UpdateAppStatus_get count_pending_zero
            simp del: WaitPendingChecks.simps split: if_splits)
    qed (use Cons.prems x Tick in \<open>simp add: WaitPendingChecks_tick del: WaitPendingChecks.simps\<close>)
  qed (use Cons.prems x in simp)
qed simp

lemma wait_checks_success:
  "wait_checks env fid s = Done (None, s') \<Longrightarrow> \<exists>e. gm_get (fst s') fid = Some e \<and> all_running e"
  by (auto simp: wait_checks_def split: option.splits dest!: wait_success)

lemma loop_success:
  assumes "deploymentLoopStage ex env fid sid maxRetries retries d s = Done (None, s')"
  shows "\<exists>e. gm_get (fst s') fid = Some e \<and> all_running e"
proof -
  have "\<forall>s. deploymentLoopStage ex env fid sid maxRetries retries d s = Done (None, s') \<longrightarrow>
      (\<exists>e. gm_get (fst s') fid = Some e \<and> all_running e)"
  proof (induction retries d rule: loop_induct [where maxRetries = maxRetries])
    case (1 retries d)
    then show ?case by (subst deploymentLoopStage.simps) (simp add: ret_def)
  next
    case (2 retries d)
    show ?case
    proof (intro allI impI)
      fix s assume "deploymentLoopStage ex env fid sid maxRetries retries d s = Done (None, s')"
      then obtain d' err s1 stageErr s2 where
        w: "wait_checks env fid s1 = Done (stageErr, s2)" and
        rest: "(if stageErr = None then ret None
          else and_then (ex_Undeploy ex d') (\<lambda>err. if err \<noteq> None then ret err
            else deploymentLoopStage ex env fid sid maxRetries (retries + 1) d')) s2 = Done (None, s')"
        using 2(1) by (subst (asm) deploymentLoopStage.simps) (auto simp: and_then_Done_iff split: prod.splits)
      show "\<exists>e. gm_get (fst s') fid = Some e \<and> all_running e"
      proof (cases stageErr)
        case None
        then have "s2 = s'" using rest by (simp add: ret_def)
        then show ?thesis using wait_checks_success [of env fid s1 s'] w None by simp
      next
        case (Some e)
        then obtain s3 where "deploymentLoopStage ex env fid sid maxRetries (retries + 1) d' s3 = Done (None, s')"
          using rest by (auto simp: and_then_Done_iff ret_def split: if_splits)
        then show ?thesis using 2(2) by blast
      qed
    qed
  qed
  then show ?thesis using assms by blast
qed

lemma process_stage_success:
  assumes "process_stage ex env request fragment ns metadata pre stage s = Done (None, s')"
  shows "\<exists>e. gm_get (fst s') (df_FragmentId fragment) = Some e \<and> all_running e"
proof -
  obtain built s1 where b: "ex_BuildNativeDeployable ex (metadata\<lparr>dm_Stage := stage\<rparr>) s = Done (built, s1)"
    using assms by (auto simp: process_stage_def and_then_Done_iff)
  show ?thesis
  proof (cases built)
    case (Inl e)
    then show ?thesis using assms b by (simp add: process_stage_def and_then_def ret_def on_store_def)
  next
    case (Inr d)
    then obtain err s2 s3 where
      l: "deploymentLoopStage ex env (df_FragmentId fragment) (ds_StageId stage)
        (retries_of_policy (dfr_RollbackPolicy request)) 0 d s2 = Done (err, s3)"
      and r: "(case err of None \<Rightarrow> ret None
        | Some e \<Rightarrow> (case pre of None \<Rightarrow> panic ''invalid memory address or nil pointer dereference''
            | Some p \<Rightarrow> and_then (ex_UndeployPrepared ex p) (\<lambda>_.
                and_then (on_store (SetEntryStatus (df_FragmentId fragment) FRAGMENT_ERROR (Some e)))
                  (\<lambda>_. ret (Some e))))) s3 = Done (None, s')"
      using assms b by (auto simp: process_stage_def and_then_Done_iff)
    have "err = None \<and> s3 = s'"
      using r by (auto simp: and_then_Done_iff ret_def panic_def split: option.splits)
    then show ?thesis using loop_success [of ex env _ _ _ _ d s2 s'] l by blast
  qed
qed

lemma for_each_last:
  assumes "for_each step xs s = Done (None, s')" and "xs \<noteq> []"
  shows "\<exists>t. step (last xs) t = Done (None, s')"
  using assms by (induction xs arbitrary: s) (auto simp: on_ok_None_iff ret_def split: if_splits)

lemma processRequest_stages:
  assumes "processRequest mg ex env request s = Done (None, s')" and "dfr_Fragment request = Some fragment"
  shows "\<exists>ns metadata pre s1.
    for_each (process_stage ex env request fragment ns metadata pre) (df_Stages fragment) s1 = Done (None, s')"
proof -
  obtain r s1 where n: "ex_GetApplicationNamespace ex (df_OrganizationId fragment) (df_AppInstanceId fragment)
      (dfr_NumRetry request) s = Done (r, s1)"
    using assms by (auto simp: processRequest_def and_then_Done_iff)
  show ?thesis
  proof (cases r)
    case (Inl e)
    then show ?thesis using assms n by (simp add: processRequest_def and_then_def ret_def)
  next
    case (Inr ns)
    then show ?thesis using assms n
      by (auto simp: processRequest_def Let_def and_then_Done_iff ret_def split: if_splits) blast
  qed
qed

text \<open>C6: When the processing of a request with at least one stage ends without an error, the fragment
  is in the monitored store and all its services are running.\<close>

theorem processRequest_success:
  assumes "processRequest mg ex env request s = Done (None, s')"
    and "dfr_Fragment request = Some fragment" and "df_Stages fragment \<noteq> []"
  shows "\<exists>e. gm_get (fst s') (df_FragmentId fragment) = Some e \<and>
    (\<forall>service \<in> set (gm_values (mae_Services e)). mse_Status service = NALEJ_SERVICE_RUNNING)"
proof -
  obtain ns metadata pre s1 where
    "for_each (process_stage ex env request fragment ns metadata pre) (df_Stages fragment) s1 = Done (None, s')"
    using processRequest_stages [OF assms(1,2)] by blast
  from for_each_last [OF this assms(3)]
  obtain t where "process_stage ex env request fragment ns metadata pre (last (df_Stages fragment)) t = Done (None, s')" ..
  from process_stage_success [OF this] show ?thesis by (simp add: all_running_def)
qed

lemma sample_run:
  "\<exists>p w. processRequest sample_manager count_executor running_environment (sample_request RollbackPolicy_NONE) ([], 0) =
    Done (None, (p, w)) \<and> w = 1"
  by (simp add: processRequest_def sample_request_def count_executor_def sample_fragment_def sample_stage_def
      process_stage_def deploymentLoopStage.simps [where maxRetries = 1] NoRetries_def wait_checks_def running_environment_def
      prog_run on_ok_def Let_def getMonitoringData_def AddEntry_def SetEntryStatus_def entry_set_status_def
      UpdateAppStatus_def count_pending_services_def monitored_service_of_def)

theorem processRequest_success_witness:
  "\<exists>p e. processRequest sample_manager count_executor running_environment (sample_request RollbackPolicy_NONE) ([], 0) =
      Done (None, (p, 1)) \<and> gm_get p ''f'' = Some e \<and>
    (\<forall>service \<in> set (gm_values (mae_Services e)). mse_Status service = NALEJ_SERVICE_RUNNING)"
proof -
  obtain p where run: "processRequest sample_manager count_executor running_environment
      (sample_request RollbackPolicy_NONE) ([], 0) = Done (None, (p, 1))"
    using sample_run by auto
  have "dfr_Fragment (sample_request RollbackPolicy_NONE) = Some sample_fragment" "df_Stages sample_fragment \<noteq> []"
    by (simp_all add: sample_request_def sample_fragment_def)
  from processRequest_success [OF run this] run show ?thesis
    by (auto simp: sample_fragment_def)
qed

section \<open>Retries\<close>

text \<open>C18: With the policy to retry always, no stage is ever deployed: whatever the executor would
  do to deploy a stage, processing it gives the same result, and never success.\<close>

theorem always_retry_never_deploys:
  fixes env :: "'w environment"
  assumes "dfr_RollbackPolicy request = RollbackPolicy_ALWAYS_RETRY"
  shows "process_stage (ex\<lparr>ex_DeployStage := f\<rparr>) env request fragment ns metadata pre stage =
      process_stage ex env request fragment ns metadata pre stage \<and>
    process_stage ex env request fragment ns metadata pre stage s \<noteq> Done (None, s')"
proof -
  have loop: "deploymentLoopStage ex' env (df_FragmentId fragment) (ds_StageId stage) UnlimitedStageRetries 0 d =
      ret (Some (GoError (''exceeded number of retries for stage '' @ ds_StageId stage @ '' in fragment '' @ df_FragmentId fragment)))"
    for ex' :: "('p, 'd, 'w) executor" and d
    by (subst deploymentLoopStage.simps) (simp add: UnlimitedStageRetries_def)
  show ?thesis
    using assms
    by (auto simp: process_stage_def loop and_then_Done_iff ret_def panic_def on_store_def
        split: sum.splits option.splits)
qed

theorem always_retry_never_deploys_witness:
  "process_stage (count_executor\<lparr>ex_DeployStage := (\<lambda>d s. Panic ''deployed'')\<rparr>) running_environment
      (sample_request RollbackPolicy_ALWAYS_RETRY) sample_fragment ''ns'' (sample_metadata []) (Some ()) sample_stage =
    process_stage count_executor running_environment
      (sample_request RollbackPolicy_ALWAYS_RETRY) sample_fragment ''ns'' (sample_metadata []) (Some ()) sample_stage"
  by (rule always_retry_never_deploys [THEN conjunct1]) (simp add: sample_request_def)

text \<open>C17: A stage is deployed at most as often as its policy allows: once without retries, three
  times with limited retries. Here \<open>cnt\<close> is any measure of the state that goes up by one with a
  deployment and is not changed by waiting, undeploying and the store.\<close>

theorem deployments_bounded:
  fixes env :: "'w environment" and ex :: "('p, 'd, 'w) executor"
  assumes deploy: "\<And>d s r s'. ex_DeployStage ex d s = Done (r, s') \<Longrightarrow> cnt (snd s') = Suc (cnt (snd s))"
    and undeploy: "\<And>d s r s'. ex_Undeploy ex d s = Done (r, s') \<Longrightarrow> cnt (snd s') = cnt (snd s)"
    and wait: "\<And>fid s. cnt (env_world env fid s) = cnt (snd s)"
    and run: "deploymentLoopStage ex env fid sid (retries_of_policy policy) 0 d s = Done (r, s')"
  shows "cnt (snd s') \<le> cnt (snd s) + (if policy = RollbackPolicy_LIMITED_RETRY then 3 else 1)"
proof -
  have "\<forall>s. deploymentLoopStage ex env fid sid maxRetries retries d s = Done (r, s') \<longrightarrow>
      cnt (snd s') \<le> cnt (snd s) + nat (maxRetries - retries)" for maxRetries retries d
  proof (induction retries d rule: loop_induct [where maxRetries = maxRetries])
    case (1 retries d)
    then show ?case by (subst deploymentLoopStage.simps) (simp add: ret_def)
  next
    case (2 retries d)
    have store: "cnt (snd t') = cnt (snd t)" if "(case err of None \<Rightarrow> ret () | Some e \<Rightarrow> on_store f) t = Done (u, t')"
      for err :: "go_error option" and f u and t t' :: "monitored \<times> 'w"
      using that by (auto simp: ret_def on_store_def split: option.splits)
    have waits: "cnt (snd t') = cnt (snd t)" if "wait_checks env fid t = Done (u, t')" for u t t'
      using that wait [of fid t] by (auto simp: wait_checks_def split: option.splits)
    show ?case
    proof (intro allI impI)
      fix s assume "deploymentLoopStage ex env fid sid maxRetries retries d s = Done (r, s')"
      then obtain d' err s1 s2 u s3 stageErr s4 where
        dep: "ex_DeployStage ex d s1 = Done ((err, d'), s2)" and s1: "snd s1 = snd s" and
        st: "(case err of None \<Rightarrow> ret () | Some e \<Rightarrow> on_store (SetEntryStatus fid FRAGMENT_RETRYING err)) s2 = Done (u, s3)" and
        w: "wait_checks env fid s3 = Done (stageErr, s4)" and
        rest: "(if stageErr = None then ret None
          else and_then (ex_Undeploy ex d') (\<lambda>err. if err \<noteq> None then ret err
            else deploymentLoopStage ex env fid sid maxRetries (retries + 1) d')) s4 = Done (r, s')"
        using 2(1) by (subst (asm) deploymentLoopStage.simps) (auto simp: and_then_Done_iff on_store_def)
      have s4: "cnt (snd s4) = Suc (cnt (snd s))"
        using deploy [OF dep] store [OF st] waits [OF w] s1 by simp
      show "cnt (snd s') \<le> cnt (snd s) + nat (maxRetries - retries)"
      proof (cases "stageErr = None")
        case True
        then show ?thesis using rest s4 2(1) by (auto simp: ret_def)
      next
        case False
        then obtain e s5 where un: "ex_Undeploy ex d' s4 = Done (e, s5)" and
          last: "(if e \<noteq> None then ret e else deploymentLoopStage ex env fid sid maxRetries (retries + 1) d') s5 = Done (r, s')"
          using rest by (auto simp: and_then_Done_iff)
        have s5: "cnt (snd s5) = Suc (cnt (snd s))" using undeploy [OF un] s4 by simp
        show ?thesis
        proof (cases "e = None")
          case True
          then have "cnt (snd s') \<le> cnt (snd s5) + nat (maxRetries - (retries + 1))"
            using 2(2) [rule_format, of d' s5] last by simp
          then show ?thesis using s5 2(1) by linarith
        next
          case False
          then show ?thesis using last s5 2(1) by (auto simp: ret_def)
        qed
      qed
    qed
  qed
  from this [rule_format, OF run] show ?thesis
    by (cases policy) (auto simp: retry_constants)
qed

text \<open>When every wait times out, a stage with limited retries is deployed three times.\<close>

lemma timeout_run:
  "\<exists>e p. deploymentLoopStage count_executor timeout_environment ''f'' ''st'' (retries_of_policy RollbackPolicy_LIMITED_RETRY) 0 ()
    ([], 0) = Done (Some e, (p, 3))"
  by (simp add: deploymentLoopStage.simps [where maxRetries = 3] MaxStageRetries_def count_executor_def prog_run
      wait_checks_def timeout_environment_def SetEntryStatus_def)

theorem deployments_bounded_witness:
  "\<exists>e p. deploymentLoopStage count_executor timeout_environment ''f'' ''st'' (retries_of_policy RollbackPolicy_LIMITED_RETRY) 0 ()
      ([], 0) = Done (Some e, (p, 3)) \<and> (3 :: nat) \<le> 0 + 3"
proof -
  obtain e p where run: "deploymentLoopStage count_executor timeout_environment ''f'' ''st''
      (retries_of_policy RollbackPolicy_LIMITED_RETRY) 0 () ([], 0) = Done (Some e, (p, 3))"
    using timeout_run by blast
  have "id (snd (p, 3 :: nat)) \<le> id (snd ([] :: monitored, 0 :: nat)) +
      (if RollbackPolicy_LIMITED_RETRY = RollbackPolicy_LIMITED_RETRY then 3 else 1)"
    by (rule deployments_bounded [OF _ _ _ run])
      (auto simp: count_executor_def timeout_environment_def ret_def)
  then show ?thesis using run by auto
qed

end
