(* ===== verification/LoginTheorems.thy ===== *)
theory LoginTheorems
  imports MonitorHelper MonitorTheorems
begin

text \<open>
  The properties of the login helper and of the monitor helper: how often a login is tried, when the
  sequences for authenticated calls agree, and what a round of notifications leaves to report.
\<close>

section \<open>The retries of the login\<close>

text \<open>The state after a number of logins that all failed.\<close>

fun failed_logins :: "('k, 'c, 'v) login_tools \<Rightarrow> nat \<Rightarrow> 'v session \<Rightarrow> 'v session option" where
  "failed_logins t 0 s = Some s"
| "failed_logins t (Suc n) s =
     (case Login t s of Done (Some e, s') \<Rightarrow> failed_logins t n s' | _ \<Rightarrow> None)"

lemma failed_logins_Suc_iff:
  "failed_logins t (Suc n) s = Some s' \<longleftrightarrow> (\<exists>e s1. Login t s = Done (Some e, s1) \<and> failed_logins t n s1 = Some s')"
  by (auto split: outcome.splits option.splits)

lemma rerun_loop_unfold:
  assumes "n < MaxAuthRetries"
  shows "rerun_loop t (MaxAuthRetries - Suc n) s = (case Login t s of
      Done (Some e, s1) \<Rightarrow> rerun_loop t (MaxAuthRetries - n) s1
    | Done (None, s1) \<Rightarrow> Done (True, s1)
    | Panic m \<Rightarrow> Panic m
    | Blocked \<Rightarrow> Blocked)"
proof -
  have "MaxAuthRetries - Suc n < MaxAuthRetries" "MaxAuthRetries - Suc n + 1 = MaxAuthRetries - n"
    using assms by simp_all
  then show ?thesis
    by (subst rerun_loop.simps) (auto simp: and_then_def ret_def split: outcome.split option.split)
qed

lemma rerun_loop_end: "rerun_loop t MaxAuthRetries s = Done (False, s)"
  by (subst rerun_loop.simps) (simp add: ret_def)

lemma rerun_loop_True_iff:
  "n \<le> MaxAuthRetries \<Longrightarrow> rerun_loop t (MaxAuthRetries - n) s = Done (True, s') \<longleftrightarrow>
    (\<exists>k s1. k < n \<and> failed_logins t k s = Some s1 \<and> Login t s1 = Done (None, s'))"
proof (induction n arbitrary: s)
  case 0
  show ?case by (simp add: rerun_loop_end)
next
  case (Suc n)
  have split_ex: "(\<exists>k. k < Suc n \<and> P k) \<longleftrightarrow> P 0 \<or> (\<exists>k. k < n \<and> P (Suc k))" for P
    by (metis Suc_less_eq less_Suc_eq_0_disj zero_less_Suc)
  have lt: "n < MaxAuthRetries" using Suc.prems by simp
  show ?case
  proof (cases "Login t s")
    case (Done r)
    obtain err s1 where r: "r = (err, s1)" by (cases r)
    show ?thesis
      using Done r Suc.IH [of s1] Suc.prems
      by (cases err) (simp_all add: rerun_loop_unfold [OF lt] split_ex eq_commute del: split_paired_Ex)
  qed (simp_all add: rerun_loop_unfold [OF lt] split_ex del: split_paired_Ex)
qed

lemma rerun_loop_False_iff:
  "n \<le> MaxAuthRetries \<Longrightarrow> rerun_loop t (MaxAuthRetries - n) s = Done (False, s') \<longleftrightarrow> failed_logins t n s = Some s'"
proof (induction n arbitrary: s)
  case 0
  show ?case by (auto simp: rerun_loop_end)
next
  case (Suc n)
  have lt: "n < MaxAuthRetries" using Suc.prems by simp
  show ?case
  proof (cases "Login t s")
    case (Done r)
    obtain err s1 where r: "r = (err, s1)" by (cases r)
    show ?thesis
      using Done r Suc.IH [of s1] Suc.prems by (cases err) (simp_all add: rerun_loop_unfold [OF lt])
  qed (simp_all add: rerun_loop_unfold [OF lt])
qed

text \<open>C20: A new authentication succeeds exactly when one of at most ten logins does, after failures only,
  and with the state that login left; it reports an error exactly when ten logins in a row failed.\<close>

theorem RerunAuthentication_tries:
  "(RerunAuthentication t s = Done (None, s') \<longleftrightarrow>
      (\<exists>k s1. k < MaxAuthRetries \<and> failed_logins t k s = Some s1 \<and> Login t s1 = Done (None, s'))) \<and>
   (RerunAuthentication t s = Done (Some e, s') \<longleftrightarrow>
      failed_logins t 10 s = Some s' \<and>
      e = DError UnauthenticatedError ''authenticated, failed after reaching max retries'')"
proof -
  have run: "RerunAuthentication t s = bind_outcome (rerun_loop t 0 s) (\<lambda>(authenticated, s1). Done
      (if authenticated then None
       else Some (DError UnauthenticatedError ''authenticated, failed after reaching max retries''), s1))"
    by (simp add: RerunAuthentication_def and_then_def ret_def if_distribR cong: if_cong)
      (auto intro: bind_outcome_eqI)
  have ok: "RerunAuthentication t s = Done (None, s') \<longleftrightarrow> rerun_loop t 0 s = Done (True, s')"
    unfolding run by (cases "rerun_loop t 0 s") (auto split: if_split_asm)
  have failed: "RerunAuthentication t s = Done (Some e, s') \<longleftrightarrow> rerun_loop t 0 s = Done (False, s') \<and>
      e = DError UnauthenticatedError ''authenticated, failed after reaching max retries''"
    unfolding run by (cases "rerun_loop t 0 s") (auto split: if_split_asm)
  have ten: "failed_logins t 10 s = failed_logins t MaxAuthRetries s"
    by (simp only: MaxAuthRetries_def)
  have 1: "rerun_loop t 0 s = Done (True, s') \<longleftrightarrow>
      (\<exists>k s1. k < MaxAuthRetries \<and> failed_logins t k s = Some s1 \<and> Login t s1 = Done (None, s'))"
    using rerun_loop_True_iff [of MaxAuthRetries t s s'] by (simp only: order_refl diff_self_eq_0)
  have 2: "rerun_loop t 0 s = Done (False, s') \<longleftrightarrow> failed_logins t MaxAuthRetries s = Some s'"
    using rerun_loop_False_iff [of MaxAuthRetries t s s'] by (simp only: order_refl diff_self_eq_0)
  show ?thesis unfolding ok failed ten 1 2 by (intro conjI refl)
qed

section \<open>Authenticated calls\<close>

text \<open>C21: The sequence that the packages write out for their calls does the same as
  \<^verbatim>\<open>AuthenticatedGrpcCall\<close>, except after a first call without authentication whose new login
  failed: there \<^verbatim>\<open>AuthenticatedGrpcCall\<close> returns the error of the login, and the written-out sequence
  makes the call again with the credentials at hand and returns its result.\<close>

theorem relogin_copies_agree:
  "AuthenticatedGrpcCall t call s = call_with_relogin t call s \<or>
   (\<exists>c err e s1 s2. lh_Credentials (fst s) = Some c \<and>
      outside (call (Credentials_GetContext c [])) s = Done (Inl err, s1) \<and> is_unauthenticated err \<and>
      RerunAuthentication t s1 = Done (Some e, s2) \<and>
      AuthenticatedGrpcCall t call s = Done (Inl e, s2) \<and>
      call_with_relogin t call s = and_then LoginHelper_GetContext (\<lambda>ctx2. outside (call ctx2)) s2)"
proof (cases "lh_Credentials (fst s)")
  case None
  then show ?thesis
    by (simp add: AuthenticatedGrpcCall_def call_with_relogin_def LoginHelper_GetContext_def and_then_def
        with_state_def panic_def)
next
  case (Some c)
  define first where "first = outside (call (Credentials_GetContext c [])) s"
  have ctx: "and_then LoginHelper_GetContext f s = f (Credentials_GetContext c []) s" for f :: "_ \<Rightarrow> (_, _) prog"
    by (simp add: and_then_def LoginHelper_GetContext_def with_state_def ret_def Some)
  have call1: "and_then (outside (call (Credentials_GetContext c []))) f s = bind_outcome first (\<lambda>(r, s1). f r s1)"
    for f :: "_ \<Rightarrow> (_, _) prog"
    by (simp add: and_then_def first_def)
  note unfold = AuthenticatedGrpcCall_def call_with_relogin_def ctx call1
  show ?thesis
  proof (cases "\<exists>err s1 e s2. first = Done (Inl err, s1) \<and> is_unauthenticated err \<and>
      RerunAuthentication t s1 = Done (Some e, s2)")
    case True
    then obtain err s1 e s2 where *: "first = Done (Inl err, s1)" "is_unauthenticated err"
      "RerunAuthentication t s1 = Done (Some e, s2)"
      by blast
    then have "AuthenticatedGrpcCall t call s = Done (Inl e, s2)"
      "call_with_relogin t call s = and_then LoginHelper_GetContext (\<lambda>ctx2. outside (call ctx2)) s2"
      by (simp_all add: unfold and_then_def [of "RerunAuthentication t"] ret_def)
    then show ?thesis
      using Some * by (intro disjI2 exI conjI) (auto simp: first_def)
  next
    case False
    have second: "and_then (RerunAuthentication t) (case_option (and_then LoginHelper_GetContext (\<lambda>ctx2. outside (call ctx2)))
          (\<lambda>e. ret (Inl e))) s1 =
        and_then (RerunAuthentication t) (\<lambda>errLogin. and_then LoginHelper_GetContext (\<lambda>ctx2. outside (call ctx2))) s1"
      if "first = Done (Inl err, s1)" "is_unauthenticated err" for err s1
      unfolding and_then_def [of "RerunAuthentication t"]
      by (rule bind_outcome_eqI) (use False that in \<open>auto split: option.split\<close>)
    have "AuthenticatedGrpcCall t call s = call_with_relogin t call s"
      unfolding unfold by (rule bind_outcome_eqI) (auto simp: second split: sum.split)
    then show ?thesis ..
  qed
qed

section \<open>Rounds of the monitor helper\<close>

lemma RemoveEntry_subset: "set (snd (RemoveEntry fid p)) \<subseteq> set p"
  by (auto simp: RemoveEntry_def AList.delete_eq split: option.split)

lemma removed_subset: "set (snd (GetPendingNotifications p)) \<subseteq> set p"
proof -
  have "set (fold (\<lambda>fid q. snd (RemoveEntry fid q)) ks q) \<subseteq> set q" for ks and q :: monitored
    by (induction ks arbitrary: q) (use RemoveEntry_subset in fastforce)+
  then show ?thesis by (simp add: GetPendingNotifications_def Let_def)
qed

lemma nothing_pending_iff:
  "fst (GetPendingNotifications p) = [] \<longleftrightarrow> (\<forall>e \<in> snd ` set p. pending_services e = [])"
  by (simp add: GetPendingNotifications_def Let_def filter_empty_conv)

lemma nothing_pending_after:
  "fst (GetPendingNotifications p) = [] \<Longrightarrow> fst (GetPendingNotifications (snd (GetPendingNotifications p))) = []"
  using removed_subset [of p] by (auto simp: nothing_pending_iff)

lemma UpdateStatus_silent:
  assumes "fst (GetPendingNotifications (fst s)) = []"
  shows "UpdateStatus t client cfg between s = Done ((), (snd (GetPendingNotifications (fst s)), snd s))"
  using assms
  by (cases "GetPendingNotifications (fst s)") (simp add: UpdateStatus_def pending_notifications_def and_then_def ret_def)

text \<open>What happens after the last entry was sent changes the store only, not what is sent.\<close>

lemma notify_loop_last:
  assumes "notify_loop t client clusterId between i ns s = Done ((), s')"
  shows "\<exists>p. notify_loop t client clusterId (between(i + length ns := f)) i ns s = Done ((), (p, snd s'))"
  using assms
proof (induction ns arbitrary: i s)
  case Nil
  then show ?case by (auto simp: on_monitored_def)
next
  case (Cons n ns)
  obtain u where entry: "notify_entry t client clusterId n (between i (fst s), snd s) = Done ((), u)"
    and rest: "notify_loop t client clusterId between (i + 1) ns u = Done ((), s')"
    using Cons.prems by (auto simp: and_then_Done_iff on_monitored_def)
  have "between(i + length (n # ns) := f) = between(Suc (i + length ns) := f)" by simp
  then show ?case
    using Cons.IH [OF rest] entry by (auto simp: and_then_def on_monitored_def)
qed

lemma round_then_silent:
  assumes "UpdateStatus t client cfg between s = Done ((), s')"
  shows "fst (GetPendingNotifications (fst s')) = []"
proof (cases "fst (GetPendingNotifications (fst s)) = []")
  case True
  then have "fst s' = snd (GetPendingNotifications (fst s))"
    using assms by (simp add: UpdateStatus_silent) (metis fst_conv)
  then show ?thesis using nothing_pending_after [OF True] by simp
next
  case False
  then obtain p where "fst s' = ResetServicesUnnotifiedStatus p"
    using assms
    by (auto simp: UpdateStatus_def pending_notifications_def and_then_Done_iff on_monitored_def split: prod.splits)
  then show ?thesis by (simp add: Reset_no_pending)
qed

text \<open>C12: A change that another goroutine makes to the store after the last notification of a round was sent, and before the
  final reset, is not reported: whatever the change \<open>f\<close> is, the round sends the same messages as without it, and the
  next round, when nothing else happens before it, sends nothing.\<close>

theorem UpdateStatus_then_silent:
  assumes "UpdateStatus t client cfg between s = Done ((), s')"
  shows "\<exists>p. UpdateStatus t client cfg (between(length (fst (GetPendingNotifications (fst s))) := f)) s = Done ((), (p, snd s')) \<and>
    UpdateStatus t client cfg between' (p, snd s') = Done ((), (snd (GetPendingNotifications p), snd s'))"
proof -
  let ?between = "between(length (fst (GetPendingNotifications (fst s))) := f)"
  obtain ns q where pending: "GetPendingNotifications (fst s) = (ns, q)" by (cases "GetPendingNotifications (fst s)")
  have "\<exists>p. UpdateStatus t client cfg ?between s = Done ((), (p, snd s'))"
  proof (cases "ns = []")
    case True
    then show ?thesis
      using assms pending by (auto simp: UpdateStatus_silent)
  next
    case False
    obtain u where loop: "notify_loop t client (cfg_ClusterId cfg) between 0 ns (q, snd s) = Done ((), u)" and u: "snd s' = snd u"
      using assms pending False
      by (auto simp: UpdateStatus_def pending_notifications_def and_then_Done_iff on_monitored_def)
    show ?thesis
      using notify_loop_last [OF loop, of f] pending False u
      by (auto simp: UpdateStatus_def pending_notifications_def and_then_def on_monitored_def)
  qed
  then obtain p where run: "UpdateStatus t client cfg ?between s = Done ((), (p, snd s'))" ..
  have "fst (GetPendingNotifications (fst (p, snd s'))) = []" by (rule round_then_silent [OF run])
  from UpdateStatus_silent [OF this] run show ?thesis by auto
qed

text \<open>A network on which every login succeeds, and a file system that takes every file.\<close>

definition sample_login :: "(unit, unit, 'v) login_tools" where
  "sample_login = \<lparr>
     lt_dial = \<lparr>dt_ReadFile = (\<lambda>path. ret (Inr [])), dt_AppendCertsFromPEM = (\<lambda>pem. True),
       dt_LoadX509KeyPair = (\<lambda>crt key. ret (Inr ())), dt_Dial = (\<lambda>address tls. ret (Inr ()))\<rparr>,
     lt_files = \<lparr>ft_HomeDir = (\<lambda>v. Some ''/root''), ft_Getwd = (\<lambda>v. ''/''), ft_MkdirAll = (\<lambda>path v. v),
       ft_WriteFile = (\<lambda>path content. ret None)\<rparr>,
     lt_LoginWithBasicCredentials = (\<lambda>c user password. ret (Inr (''token'', ''refresh''))),
     lt_Close = (\<lambda>c v. v),
     lt_ToDerror = (\<lambda>e. e)\<rparr>"

text \<open>A session that is logged in, and a conductor that takes every request; the world lists the requests.\<close>

definition sample_session :: "(service_update_request + fragment_update_request) list session" where
  "sample_session = ((NewLogin ''login'' 443 True ''user'' ''password'' [] [] False)
     \<lparr>lh_Credentials := Some (NewCredentials DefaultPath ''t'' ''r'')\<rparr>, [])"

definition recording_conductor :: "(service_update_request + fragment_update_request) list conductor_client" where
  "recording_conductor = \<lparr>
     cc_UpdateServiceStatus = (\<lambda>ctx req v. Done (Inr (), v @ [Inl req])),
     cc_UpdateDeploymentFragmentStatus = (\<lambda>ctx req v. Done (Inr (), v @ [Inr req]))\<rparr>"

text \<open>One round for the sample store: the two requests for its fragment are sent, and the store is reset.\<close>

lemma sample_round:
  "UpdateStatus t recording_conductor sample_config (\<lambda>_ p. p) (sample_store, sample_session) =
    Done ((), (ResetServicesUnnotifiedStatus sample_store, (fst sample_session,
      [Inl (service_request (cfg_ClusterId sample_config) sample_store (notification_of sample_monitored_entry)),
       Inr (fragment_request (cfg_ClusterId sample_config) (notification_of sample_monitored_entry))])))"
proof -
  have pending: "GetPendingNotifications sample_store = ([notification_of sample_monitored_entry], sample_store)"
    by (simp add: sample_store_eq sample_defs GetPendingNotifications_def pending_services_def add_pending_service_def)
  show ?thesis
    by (simp add: UpdateStatus_def pending_notifications_def pending and_then_def on_monitored_def notify_entry_def
        with_state_def sendUpdateService_def sendFragmentStatus_def call_with_relogin_def LoginHelper_GetContext_def
        outside_def sample_session_def recording_conductor_def ret_def)
qed

text \<open>The fragment fails after its notification was sent.\<close>

theorem UpdateStatus_then_silent_witness:
  "\<exists>p v. v \<noteq> [] \<and>
    UpdateStatus sample_login recording_conductor sample_config ((\<lambda>_ p. p)(1 := SetAppStatus ''a'' FRAGMENT_ERROR None))
      (sample_store, sample_session) = Done ((), (p, (fst sample_session, v))) \<and>
    UpdateStatus sample_login recording_conductor sample_config (\<lambda>_ p. p) (p, (fst sample_session, v)) =
      Done ((), (snd (GetPendingNotifications p), (fst sample_session, v)))"
proof -
  have one: "length (fst (GetPendingNotifications (fst (sample_store, sample_session)))) = 1"
    by (simp add: sample_store_eq sample_defs GetPendingNotifications_def pending_services_def add_pending_service_def)
  show ?thesis
    using UpdateStatus_then_silent [OF sample_round [of sample_login], of "SetAppStatus ''a'' FRAGMENT_ERROR None" "\<lambda>_ p. p"]
    unfolding one by (elim exE conjE) (intro exI conjI; (assumption | simp))
qed

end
