(* ===== verification/IstioTheorems.thy ===== *)
theory IstioTheorems
  imports Istio
begin

text \<open>
  The type invariant of the Istio decorator: the services and virtual services it writes are well
  formed when those it reads are, and then it never panics.
\<close>

section \<open>Well-formed objects\<close>

text \<open>A service has every port once, under the name that the executor gives it.\<close>

definition service_wf :: "k8s_service \<Rightarrow> bool" where
  "service_wf s \<longleftrightarrow> distinct (map sp_Port (svc_Ports s)) \<and>
     list_all (\<lambda>p. sp_Name p = port_name (sp_Port p)) (svc_Ports s)"

text \<open>Every rule of a virtual service matches a port, and no two rules the same.\<close>

definition virtual_wf :: "virtual_service \<Rightarrow> bool" where
  "virtual_wf vs \<longleftrightarrow> list_all (\<lambda>t. tr_Match t \<noteq> []) (vs_Tcp vs) \<and> distinct (map (hd \<circ> tr_Match) (vs_Tcp vs))"

lemma show_int_inj: "show_int i = show_int j \<Longrightarrow> i = j"
proof -
  have digit: "c \<noteq> CHR ''-''" if "c \<in> set (show_nat n)" for c n
    using hyphen_notin_show_nat [of n] that by auto
  have head: "hd (show_nat n) \<noteq> CHR ''-''" for n
    using digit [of "hd (show_nat n)" n] show_nat_nonempty [of n] by auto
  assume "show_int i = show_int j"
  then show "i = j"
    using head [of "nat i"] head [of "nat j"]
    by (cases "i < 0"; cases "j < 0") (auto simp: show_int_def show_nat_inj dest: arg_cong [of _ _ hd])
qed

lemma service_wf_names: "service_wf s \<Longrightarrow> distinct (map sp_Name (svc_Ports s))"
proof -
  assume wf: "service_wf s"
  then have "map sp_Name (svc_Ports s) = map (port_name \<circ> sp_Port) (svc_Ports s)"
    by (auto simp: service_wf_def list_all_iff)
  moreover have "inj port_name" by (auto simp: inj_def port_name_def dest: show_int_inj)
  ultimately show ?thesis
    using wf by (simp add: service_wf_def distinct_map inj_on_def inj_def)
qed

lemma istio_service_wf: "service_wf (istio_service data r)" "service_wf empty_service"
  by (simp_all add: service_wf_def istio_service_def istio_service_port_def empty_service_def port_name_def)

lemma virtual_service_wf: "virtual_wf (istio_virtual_service data r)" "virtual_wf empty_virtual_service"
  by (simp_all add: virtual_wf_def istio_virtual_service_def istio_route_def empty_virtual_service_def)

lemma add_port_wf:
  assumes "service_wf s" and "\<not> (\<exists>p \<in> set (svc_Ports s). sp_Port p = pr_TargetPort r)"
  shows "service_wf (s\<lparr>svc_Ports := svc_Ports s @ [istio_service_port r]\<rparr>)"
  using assms by (auto simp: service_wf_def istio_service_port_def port_name_def)

lemma add_route_wf:
  assumes "virtual_wf vs" and "has_route (word_of_int (pr_TargetPort r)) (vs_Tcp vs) = Done False"
  shows "virtual_wf (vs\<lparr>vs_Tcp := vs_Tcp vs @ [istio_route r]\<rparr>)"
  using assms by (auto simp: virtual_wf_def has_route_def istio_route_def split: if_splits)

lemma has_route_wf: "virtual_wf vs \<Longrightarrow> \<exists>b. has_route port (vs_Tcp vs) = Done b"
  by (auto simp: virtual_wf_def has_route_def list_all_iff)

section \<open>The decorator on a well-typed cluster\<close>

text \<open>\<open>I\<close> is an invariant of the cluster: what is read under it is well formed, and writing well-formed
  objects keeps it.\<close>

definition typed_cluster :: "('w \<Rightarrow> bool) \<Rightarrow> 'w istio_client \<Rightarrow> 'w kube \<Rightarrow> bool" where
  "typed_cluster I ic k \<longleftrightarrow> (\<forall>w. I w \<longrightarrow>
     (\<forall>ns n s. kube_get k KService ns n w = Inr (OService s) \<longrightarrow> service_wf s) \<and>
     (\<forall>ns n vs. ic_get ic ns n w = Inr vs \<longrightarrow> virtual_wf vs) \<and>
     (\<forall>s. service_wf s \<longrightarrow> I (snd (kube_create k (OService s) w)) \<and> I (snd (kube_update k (OService s) w))) \<and>
     (\<forall>vs. virtual_wf vs \<longrightarrow> I (snd (ic_create ic vs w)) \<and> I (snd (ic_update ic vs w))))"

lemma typedD:
  assumes "typed_cluster I ic k" and "I w"
  shows "kube_get k KService ns n w = Inr (OService s) \<Longrightarrow> service_wf s"
    and "ic_get ic ns n w = Inr vs \<Longrightarrow> virtual_wf vs"
    and "service_wf s \<Longrightarrow> I (snd (kube_create k (OService s) w))"
    and "service_wf s \<Longrightarrow> I (snd (kube_update k (OService s) w))"
    and "virtual_wf vs \<Longrightarrow> I (snd (ic_create ic vs w))"
    and "virtual_wf vs \<Longrightarrow> I (snd (ic_update ic vs w))"
  using assms unfolding typed_cluster_def by blast+

text \<open>A program that always returns, and keeps the invariant.\<close>

definition safe :: "('w \<Rightarrow> bool) \<Rightarrow> ('a, 'w st) prog \<Rightarrow> bool" where
  "safe I p \<longleftrightarrow> (\<forall>s. I (snd s) \<longrightarrow> (\<exists>x s'. p s = Done (x, s') \<and> I (snd s')))"

lemma safe_ret: "safe I (ret x)"
  by (simp add: safe_def ret_def)

lemma safe_and_then: "safe I p \<Longrightarrow> (\<And>x. safe I (f x)) \<Longrightarrow> safe I (and_then p f)"
  unfolding safe_def and_then_def by (metis bind_outcome.simps(1) case_prod_conv)

lemma safe_on_world: "(\<And>w. I w \<Longrightarrow> I (snd (f w))) \<Longrightarrow> safe I (on_world f)"
  by (auto simp: safe_def on_world_def split: prod.split) (metis snd_conv)

lemma safe_on_ok: "safe I p \<Longrightarrow> safe I q \<Longrightarrow> safe I (on_ok p q)"
  unfolding on_ok_def by (intro safe_and_then) (auto intro: safe_ret split: option.split)

lemma safe_for_each: "(\<And>x. safe I (step x)) \<Longrightarrow> safe I (for_each step xs)"
  by (induction xs) (auto intro: safe_ret safe_on_ok)

lemma safe_with_state: "(\<And>s. I (snd s) \<Longrightarrow> safe I (f s)) \<Longrightarrow> safe I (with_state f)"
  unfolding safe_def with_state_def by blast

lemmas safe_intros = safe_ret safe_and_then safe_on_world safe_on_ok safe_for_each

lemma updateServicePorts_safe:
  assumes "typed_cluster I ic k" and "service_wf s"
  shows "safe I (updateServicePorts k s r)"
  unfolding updateServicePorts_def
  using typedD(4) [OF assms(1) _ add_port_wf [OF assms(2), of r]] by (auto intro!: safe_intros)

lemma ensure_service_safe:
  assumes "typed_cluster I ic k"
  shows "safe I (ensure_service k data r)"
  unfolding ensure_service_def Let_def
proof (rule safe_with_state)
  fix s :: "'a st" assume I: "I (snd s)"
  let ?found = "kube_get k KService (dm_Namespace data) (FormatName (pr_ServiceName r)) (snd s)"
  have "service_wf (found_service ?found)"
    using typedD(1) [OF assms I] istio_service_wf(2) by (cases ?found rule: found_service.cases) auto
  note update = updateServicePorts_safe [OF assms this, of r]
  show "safe I (if is_not_found (istio_get_error ?found)
      then and_then (on_world (kube_create k (OService (istio_service data r)))) (\<lambda>_. ret None)
      else updateServicePorts k (found_service ?found) r)"
    using update typedD(3) [OF assms _ istio_service_wf(1) [of data r]] by (auto intro!: safe_intros)
qed

lemma updateVirtualServicePorts_safe:
  assumes "typed_cluster I ic k" and "virtual_wf vs"
  shows "safe I (updateVirtualServicePorts ic vs r)"
proof -
  obtain b where b: "has_route (word_of_int (pr_TargetPort r)) (vs_Tcp vs) = Done b"
    using has_route_wf [OF assms(2)] by blast
  have lift: "and_then (lift_outcome (Done b)) f = f b" for f :: "bool \<Rightarrow> (go_error option, 'a st) prog"
    by (rule ext) (simp add: and_then_def lift_outcome_def)
  show ?thesis
    unfolding updateVirtualServicePorts_def b lift
    using typedD(6) [OF assms(1) _ add_route_wf [OF assms(2), of r]] b by (auto intro!: safe_intros)
qed

lemma ensure_virtual_service_safe:
  assumes "typed_cluster I ic k"
  shows "safe I (ensure_virtual_service ic data r)"
  unfolding ensure_virtual_service_def Let_def
proof (rule safe_with_state)
  fix s :: "'a st" assume I: "I (snd s)"
  let ?found = "ic_get ic (dm_Namespace data) (FormatName (pr_ServiceName r)) (snd s)"
  have "virtual_wf (case ?found of Inr vs \<Rightarrow> vs | Inl _ \<Rightarrow> empty_virtual_service)"
    using typedD(2) [OF assms I] virtual_service_wf(2) by (auto split: sum.split)
  note update = updateVirtualServicePorts_safe [OF assms this]
  have "safe I (on_world (ic_create ic (istio_virtual_service data r)))"
    using typedD(5) [OF assms _ virtual_service_wf(1) [of data r]] by (auto intro!: safe_intros)
  then show "safe I (if is_not_found (istio_get_error ?found)
      then and_then (on_world (ic_create ic (istio_virtual_service data r))) (\<lambda>errVS. ret (case errVS of
        Some e \<Rightarrow> Some (DError Internal ''impossible to generate virtual service'')
      | None \<Rightarrow> None))
      else and_then (updateVirtualServicePorts ic
           (case ?found of Inr vs \<Rightarrow> vs | Inl _ \<Rightarrow> empty_virtual_service) r) (\<lambda>err. ret (case err of
        Some e \<Rightarrow> Some (DError Internal ''there was an error updating a virtual service error by istio decorator'')
      | None \<Rightarrow> None)))"
    using update by (simp add: safe_and_then safe_ret)
qed

text \<open>C26: On a cluster whose services have distinct, properly named ports and whose virtual services have
  one rule per port, deploying with the Istio decorator always returns, without a panic, and leaves
  a cluster of the same type, whatever the cluster answers to the single requests.\<close>

theorem Istio_Deploy_well_typed:
  assumes "typed_cluster I ic k" and "I (snd s)"
  shows "\<exists>err s'. Istio_Deploy ic k t s = Done (err, s') \<and> I (snd s')"
proof -
  have "safe I (decorate_rule ic k services r)" for services r
    unfolding decorate_rule_def
    by (auto intro!: safe_intros ensure_service_safe [OF assms(1)] ensure_virtual_service_safe [OF assms(1)])
  then have "safe I (Istio_Deploy ic k t)"
    by (cases t) (auto simp: decorateServices_def intro!: safe_intros)
  then show ?thesis using assms(2) unfolding safe_def by blast
qed

text \<open>A cluster that holds one service, which can be updated, and no virtual service.\<close>

definition frozen_kube :: "k8s_service kube" where
  "frozen_kube = \<lparr>kube_create = (\<lambda>obj w. (Inl (ApiError ApiOther ''read only''), w)),
     kube_get = (\<lambda>kind ns n w. Inr (OService w)),
     kube_update = (\<lambda>obj w. (None, case obj of OService s \<Rightarrow> s | _ \<Rightarrow> w)),
     kube_delete = (\<lambda>kind ns n w. (None, w)),
     kube_list_namespaces = (\<lambda>sel w. Inr []), kube_list_services = (\<lambda>ns sel w. Inr []),
     kube_delete_collection = (\<lambda>kind ns sel w. (None, w)), kube_num_nodes = (\<lambda>w. 1)\<rparr>"

definition sample_istio :: "'w istio_client" where
  "sample_istio = \<lparr>ic_get = (\<lambda>ns n w. Inl (ApiError ApiNotFound [])), ic_create = (\<lambda>vs w. (None, w)),
     ic_update = (\<lambda>vs w. (None, w))\<rparr>"

lemma sample_typed: "typed_cluster service_wf sample_istio frozen_kube"
  by (simp add: typed_cluster_def sample_istio_def frozen_kube_def)

definition sample_rule :: public_rule where
  "sample_rule = \<lparr>pr_ServiceName = ''web'', pr_TargetPort = 80, pr_TargetServiceGroupInstanceId = [],
     pr_TargetServiceInstanceId = []\<rparr>"

definition ruled_metadata :: deployment_metadata where
  "ruled_metadata = (sample_metadata [])\<lparr>dm_Stage := empty_stage\<lparr>ds_PublicRules :=
     [sample_rule, sample_rule\<lparr>pr_TargetPort := 443\<rparr>]\<rparr>\<rparr>"

text \<open>The second rule adds its port to the service of the first.\<close>

theorem Istio_Deploy_well_typed_witness:
  "\<exists>err s'. Istio_Deploy sample_istio frozen_kube (TServices (NewDeployableService ruled_metadata))
    ([], istio_service ruled_metadata sample_rule) = Done (err, s') \<and> service_wf (snd s') \<and> length (svc_Ports (snd s')) = 2"
proof -
  let ?run = "Istio_Deploy sample_istio frozen_kube (TServices (NewDeployableService ruled_metadata))
    ([], istio_service ruled_metadata sample_rule)"
  have "\<exists>err s'. ?run = Done (err, s') \<and> service_wf (snd s')"
    by (rule Istio_Deploy_well_typed [OF sample_typed]) (simp add: istio_service_wf)
  moreover have "length (svc_Ports (snd s')) = 2" if "?run = Done (err, s')" for err s'
    using that
    by (auto simp: decorateServices_def NewDeployableService_def ruled_metadata_def decorate_rule_def ensure_service_def
        ensure_virtual_service_def updateServicePorts_def istio_service_def istio_service_port_def sample_rule_def
        sample_istio_def frozen_kube_def on_ok_apply ret_apply with_state_def and_then_def on_world_def is_not_found_def
        istio_get_error_def Let_def)
  ultimately show ?thesis by blast
qed

end
