(* ===== verification/ProviderTheorems.thy ===== *)
theory ProviderTheorems
  imports Provider
begin

text \<open>
  The invariant of the events provider: watchers are filed under their own kind, use the cached client of
  their group and version, and serve dispatchers that exist.
\<close>

definition watcher_ok :: "(group_version, 'cl) gomap \<Rightarrow> nat \<Rightarrow> gvk \<Rightarrow> 'cl watcher \<Rightarrow> bool" where
  "watcher_ok clients n kind w \<longleftrightarrow> wa_gvk w = kind \<and>
     gm_get clients (gvk_Group kind, gvk_Version kind) = Some (wa_client w) \<and> list_all (\<lambda>h. h < n) (wa_handlers w)"

definition provider_inv :: "nat \<Rightarrow> ('cl, 'f, 's) provider \<Rightarrow> bool" where
  "provider_inv n p \<longleftrightarrow> gm_all (watcher_ok (evp_clients p) n) (evp_watchers p)"

lemma provider_inv_mono: "provider_inv n p \<Longrightarrow> n \<le> m \<Longrightarrow> provider_inv m p"
  unfolding provider_inv_def by (erule gm_all_mono) (auto simp: watcher_ok_def list_all_iff)

lemma createClient_ok:
  assumes "createClient t gv p = (r, p1)" and "provider_inv n p"
  shows "provider_inv n p1 \<and> evp_watchers p1 = evp_watchers p \<and> evp_dispatchers p1 = evp_dispatchers p \<and>
    (\<forall>client. r = Inr client \<longrightarrow> gm_get (evp_clients p1) gv = Some client)"
proof (cases "gm_get (evp_clients p) gv")
  case (Some c)
  then show ?thesis using assms by (auto simp: createClient_def)
next
  case None
  have "gm_all (watcher_ok (gm_put gv client (evp_clients p)) n) (evp_watchers p)" for client
    using assms(2) unfolding provider_inv_def
    by (rule gm_all_mono) (use None in \<open>auto simp: watcher_ok_def gomap_simps\<close>)
  then show ?thesis
    using assms None by (auto simp: createClient_def Let_def provider_inv_def gomap_simps split: sum.splits)
qed

lemma NewWatcher_fields:
  "NewWatcher t client kind resource sel = Inr w \<Longrightarrow> wa_gvk w = kind \<and> wa_client w = client \<and> wa_handlers w = []"
  by (auto simp: NewWatcher_def split: option.splits sum.splits)

lemma createWatcher_ok:
  assumes "createWatcher t kind p = (r, p1)" and "provider_inv n p"
  shows "provider_inv n p1 \<and> evp_dispatchers p1 = evp_dispatchers p \<and>
    (\<forall>k w. gm_get (evp_watchers p) k = Some w \<longrightarrow> gm_get (evp_watchers p1) k = Some w) \<and>
    (\<forall>w. r = Inr w \<longrightarrow> gm_get (evp_watchers p1) kind = Some w)"
proof (cases "gm_get (evp_watchers p) kind")
  case (Some w)
  then show ?thesis using assms by (auto simp: createWatcher_def)
next
  case None
  obtain rc p2 where c: "createClient t (gvk_Group kind, gvk_Version kind) p = (rc, p2)"
    by (cases "createClient t (gvk_Group kind, gvk_Version kind) p")
  note ok = createClient_ok [OF c assms(2)]
  have put: "provider_inv n (p2\<lparr>evp_watchers := gm_put kind w (evp_watchers p)\<rparr>)"
    if "rc = Inr client" "Inr w = NewWatcher t client kind resource sel" for client resource sel w
    using ok that NewWatcher_fields [OF that(2) [symmetric]]
    by (auto simp: provider_inv_def watcher_ok_def intro!: gm_all_put)
  show ?thesis
    using assms(1) None c ok
    by (auto simp: createWatcher_def gomap_simps put split: sum.splits)
qed

lemma SetIndexer_get:
  "SetIndexer kind st d = (None, d') \<Longrightarrow> dsp_indexers d' = gm_put kind st (dsp_indexers d)"
  by (auto simp: SetIndexer_def split: option.splits)

lemma SetStore_indexers: "dispatcher_SetStore kind st d = (e, d') \<Longrightarrow> dsp_indexers d' = dsp_indexers d"
  by (auto simp: dispatcher_SetStore_def split: prod.splits)

lemma link_kind_ok:
  assumes "link_kind t n kind (p, d) = (None, p', d')" and "provider_inv (Suc n) p"
  shows "provider_inv (Suc n) p' \<and> evp_dispatchers p' = evp_dispatchers p \<and>
    (\<exists>w. gm_get (evp_watchers p') kind = Some w \<and> n \<in> set (wa_handlers w)) \<and>
    (\<forall>k w. gm_get (evp_watchers p) k = Some w \<longrightarrow>
       (\<exists>w'. gm_get (evp_watchers p') k = Some w' \<and> set (wa_handlers w) \<subseteq> set (wa_handlers w'))) \<and>
    dsp_indexers d' = gm_put kind (pt_store t kind) (dsp_indexers d)"
proof -
  obtain w p1 d1 d2 where c: "createWatcher t kind p = (Inr w, p1)"
    and d1: "dispatcher_SetStore kind (pt_store t kind) d = (None, d1)"
    and d2: "SetIndexer kind (pt_store t kind) d1 = (None, d2)"
    and p': "p' = p1\<lparr>evp_watchers := gm_adjust kind (AddHandler n) (evp_watchers p1)\<rparr>" and d': "d' = d2"
    using assms(1) by (auto simp: link_kind_def split: prod.splits sum.splits option.splits)
  note ok = createWatcher_ok [OF c assms(2)]
  have "gm_all (watcher_ok (evp_clients p1) (Suc n)) (gm_adjust kind (AddHandler n) (evp_watchers p1))"
    using ok by (auto simp: provider_inv_def watcher_ok_def AddHandler_def intro!: gm_all_adjust)
  then have inv: "provider_inv (Suc n) p'"
    by (simp add: p' provider_inv_def)
  have get: "gm_get (evp_watchers p') k =
      (if k = kind then Some (AddHandler n w) else gm_get (evp_watchers p1) k)" for k
    using ok by (simp add: p' gomap_simps)
  have kept: "\<exists>w'. gm_get (evp_watchers p') k = Some w' \<and> set (wa_handlers v) \<subseteq> set (wa_handlers w')"
    if "gm_get (evp_watchers p) k = Some v" for k v
  proof (cases "k = kind")
    case True
    then have "v = w" using ok that by (metis option.inject)
    then show ?thesis using True get [of k] by (auto simp: AddHandler_def)
  next
    case False
    then show ?thesis using ok that get [of k] by auto
  qed
  have "dsp_indexers d' = gm_put kind (pt_store t kind) (dsp_indexers d)"
    using SetIndexer_get [OF d2] SetStore_indexers [OF d1] d' by simp
  moreover have "\<exists>w. gm_get (evp_watchers p') kind = Some w \<and> n \<in> set (wa_handlers w)"
    using get [of kind] by (simp add: AddHandler_def)
  ultimately show ?thesis
    using inv kept ok by (simp add: p')
qed

lemma link_kinds_ok:
  assumes "link_kinds t n kinds (p, d) = (None, p', d')" and "provider_inv (Suc n) p"
  shows "provider_inv (Suc n) p' \<and> evp_dispatchers p' = evp_dispatchers p \<and>
    (\<forall>kind \<in> set kinds. \<exists>w. gm_get (evp_watchers p') kind = Some w \<and> n \<in> set (wa_handlers w)) \<and>
    (\<forall>k w. gm_get (evp_watchers p) k = Some w \<longrightarrow>
       (\<exists>w'. gm_get (evp_watchers p') k = Some w' \<and> set (wa_handlers w) \<subseteq> set (wa_handlers w'))) \<and>
    gm_get (dsp_indexers d') = (\<lambda>k. if k \<in> set kinds then Some (pt_store t k) else gm_get (dsp_indexers d) k)"
  using assms
proof (induction kinds arbitrary: p d)
  case (Cons kind kinds)
  obtain p1 d1 where l: "link_kind t n kind (p, d) = (None, p1, d1)" and rest: "link_kinds t n kinds (p1, d1) = (None, p', d')"
    using Cons.prems(1) by (auto split: prod.splits option.splits)
  note ok = link_kind_ok [OF l Cons.prems(2)]
  note ok' = Cons.IH [OF rest conjunct1 [OF ok]]
  obtain w w' where w: "gm_get (evp_watchers p1) kind = Some w" "n \<in> set (wa_handlers w)"
    and w': "gm_get (evp_watchers p') kind = Some w'" "set (wa_handlers w) \<subseteq> set (wa_handlers w')"
    using ok ok' by blast
  have kept: "\<exists>w'. gm_get (evp_watchers p') k = Some w' \<and> set (wa_handlers v) \<subseteq> set (wa_handlers w')"
    if v: "gm_get (evp_watchers p) k = Some v" for k v
  proof -
    obtain u where "gm_get (evp_watchers p1) k = Some u" "set (wa_handlers v) \<subseteq> set (wa_handlers u)"
      using ok v by blast
    moreover then obtain u' where "gm_get (evp_watchers p') k = Some u'" "set (wa_handlers u) \<subseteq> set (wa_handlers u')"
      using ok' by blast
    ultimately show ?thesis by blast
  qed
  have "gm_get (dsp_indexers d') =
      (\<lambda>k. if k \<in> set (kind # kinds) then Some (pt_store t k) else gm_get (dsp_indexers d) k)"
    using ok ok' by (simp add: gomap_simps fun_eq_iff)
  moreover have "\<forall>k \<in> set (kind # kinds). \<exists>w. gm_get (evp_watchers p') k = Some w \<and> n \<in> set (wa_handlers w)"
    using ok' w' w(2) by auto
  ultimately show ?case
    using ok ok' kept by simp
qed auto

text \<open>With an error, the links made before it stay: watchers may call the dispatcher that was refused.\<close>

lemma link_kind_any:
  assumes "link_kind t n kind (p, d) = (err, p', d')" and "provider_inv (Suc n) p"
  shows "provider_inv (Suc n) p' \<and> evp_dispatchers p' = evp_dispatchers p"
proof (cases err)
  case None
  show ?thesis using link_kind_ok [OF assms(1) [unfolded None] assms(2)] by blast
next
  case (Some e)
  obtain r p1 where c: "createWatcher t kind p = (r, p1)" by (cases "createWatcher t kind p")
  have "p' = p1"
    using assms(1) c Some by (auto simp: link_kind_def split: prod.splits sum.splits option.splits)
  then show ?thesis using createWatcher_ok [OF c assms(2)] by simp
qed

lemma link_kinds_any:
  assumes "link_kinds t n kinds (p, d) = (err, p', d')" and "provider_inv (Suc n) p"
  shows "provider_inv (Suc n) p' \<and> evp_dispatchers p' = evp_dispatchers p"
  using assms
proof (induction kinds arbitrary: p d)
  case (Cons kind kinds)
  obtain e p1 d1 where l: "link_kind t n kind (p, d) = (e, p1, d1)" by (cases "link_kind t n kind (p, d)")
  note ok = link_kind_any [OF l Cons.prems(2)]
  show ?case
    using Cons.prems(1) Cons.IH [of p1 d1] ok l by (cases e) auto
qed simp

text \<open>C27: A dispatcher that is added has, for each of its kinds, a watcher that calls it and an indexer that is the store
  of that watcher; no other dispatcher lost a watcher, and the invariant of the provider is kept. When adding
  fails the dispatchers are those from before, but watchers may call the refused one: then every watcher calls
  dispatchers of the provider or the refused one, which has the next number.\<close>

theorem AddDispatcher_links:
  assumes "provider_inv (length (evp_dispatchers p)) p" and "AddDispatcher t d p = (err, p', d')"
  shows "case err of
      None \<Rightarrow> provider_inv (length (evp_dispatchers p')) p' \<and>
        length (evp_dispatchers p') = Suc (length (evp_dispatchers p)) \<and>
        (\<forall>kind \<in> set (Dispatchable d). gm_get (dsp_indexers d') kind = Some (pt_store t kind) \<and>
          (\<exists>w. gm_get (evp_watchers p') kind = Some w \<and> length (evp_dispatchers p) \<in> set (wa_handlers w))) \<and>
        (\<forall>kind w. gm_get (evp_watchers p) kind = Some w \<longrightarrow>
          (\<exists>w'. gm_get (evp_watchers p') kind = Some w' \<and> set (wa_handlers w) \<subseteq> set (wa_handlers w')))
    | Some e \<Rightarrow> evp_dispatchers p' = evp_dispatchers p \<and> provider_inv (Suc (length (evp_dispatchers p))) p'"
proof (cases err)
  case None
  let ?n = "length (evp_dispatchers p)"
  obtain q where q: "link_kinds t ?n (Dispatchable d) (p, d) = (None, q, d')"
    and p': "p' = q\<lparr>evp_dispatchers := evp_dispatchers q @ [d']\<rparr>"
    using assms(2) None by (auto simp: AddDispatcher_def split: if_splits prod.splits option.splits)
  have ok: "provider_inv (Suc ?n) q" "evp_dispatchers q = evp_dispatchers p"
    "\<forall>kind \<in> set (Dispatchable d). \<exists>w. gm_get (evp_watchers q) kind = Some w \<and> ?n \<in> set (wa_handlers w)"
    "\<forall>kind w. gm_get (evp_watchers p) kind = Some w \<longrightarrow>
      (\<exists>w'. gm_get (evp_watchers q) kind = Some w' \<and> set (wa_handlers w) \<subseteq> set (wa_handlers w'))"
    "gm_get (dsp_indexers d') = (\<lambda>k. if k \<in> set (Dispatchable d) then Some (pt_store t k) else gm_get (dsp_indexers d) k)"
    using link_kinds_ok [OF q provider_inv_mono [OF assms(1)]] by simp_all
  have "provider_inv (length (evp_dispatchers p')) p'"
    using ok(1,2) by (simp add: p' provider_inv_def)
  then show ?thesis using ok by (simp add: p' None)
next
  case (Some e)
  have inv: "provider_inv (Suc (length (evp_dispatchers p))) p" using assms(1) by (rule provider_inv_mono) simp
  show ?thesis
    using assms(2) Some inv link_kinds_any [OF _ inv]
    by (auto simp: AddDispatcher_def split: if_splits prod.splits option.splits)
qed

text \<open>A cluster that knows every kind, and a dispatcher of one kind.\<close>

definition sample_provider_tools :: "(unit, 's) provider_tools" where
  "sample_provider_tools = \<lparr>pt_RESTClientFor = (\<lambda>c. Inr ()), pt_DefaultUserAgent = ''agent'',
     pt_RESTMapping = (\<lambda>group kind version. Inr kind), pt_SchemeNew = (\<lambda>kind. None), pt_ParseSelector = Inr,
     pt_store = (\<lambda>kind key s. Inr None), pt_WaitForCacheSync = (\<lambda>kind. True)\<rparr>"

definition sample_events_provider :: "(unit, 'f, 's) provider" where
  "sample_events_provider = \<lparr>evp_kubeconfig = \<lparr>rc_Host = ''host'', rc_GroupVersion = None, rc_APIPath = [], rc_UserAgent = []\<rparr>,
     evp_clients = [], evp_watchers = [], evp_dispatchers = [], evp_labelSelector = ''nalej-organization'',
     evp_closed = False, evp_started = False\<rparr>"

definition sample_dispatcher :: "(unit, unit) dispatcher" where
  "sample_dispatcher = \<lparr>dsp_dispatchFuncs = \<lparr>fn_object = (), fn_SupportedKinds = [PodKind],
       fn_MethodByName = (\<lambda>name. None), fn_SetStore = (\<lambda>kind st f. (None, f))\<rparr>,
     dsp_funcMap = [(PodKind, \<lambda>f old obj a. ret None)], dsp_indexers = []\<rparr>"

theorem AddDispatcher_links_witness:
  "\<exists>p' d'. AddDispatcher sample_provider_tools sample_dispatcher sample_events_provider = (None, p', d') \<and>
    (\<exists>w. gm_get (evp_watchers p') PodKind = Some w \<and> 0 \<in> set (wa_handlers w))"
proof -
  obtain p' d' where add: "AddDispatcher sample_provider_tools sample_dispatcher sample_events_provider = (None, p', d')"
    by (simp add: AddDispatcher_def sample_events_provider_def sample_dispatcher_def Dispatchable_def link_kind_def
        createWatcher_def createClient_def sample_provider_tools_def NewWatcher_def dispatcher_SetStore_def SetIndexer_def Let_def)
  have "provider_inv (length (evp_dispatchers sample_events_provider)) sample_events_provider"
    by (simp add: provider_inv_def sample_events_provider_def gm_all_empty)
  from AddDispatcher_links [OF this add] add show ?thesis
    by (auto simp: sample_events_provider_def sample_dispatcher_def Dispatchable_def)
qed

end
