(* ===== verification/ServiceTheorems.thy ===== *)
theory ServiceTheorems
  imports Service HandlerTheorems LoginTheorems IstioTheorems ProviderTheorems
begin

text \<open>
  Properties of the program as it is put together: the invariant under the configured executor, when the
  service can start at all, and the two ways to a secure connection.
\<close>

section \<open>The configured executor\<close>

lemma configured_decorator_keeps:
  assumes "getNetworkDecorator (NewIstioDecorator inCluster newIstio newKube) cfg = Inr nd"
  shows "decorator_contract nd"
  using assms zerotier_net.decorator_contract_axioms istio_net.decorator_contract_axioms
  by (auto simp: getNetworkDecorator_def NewIstioDecorator_def split: network_type.splits sum.splits)

text \<open>C8: With the network decorator that the configuration selects, deploying a fragment, undeploying an
  application and undeploying a fragment keep the invariant of the monitored store, on every cluster
  and whatever the other goroutines do that keep it themselves.\<close>

theorem configured_requests_keep_invariant:
  assumes "getNetworkDecorator (NewIstioDecorator inCluster newIstio newKube) cfg = Inr nd"
    and "env_keeps env" and "monitored_inv (fst s)"
    and "processRequest mg (KubernetesExecutor cfg k sf nd) env request s = Done (r, s') \<or>
      Handler_Undeploy (KubernetesExecutor cfg k sf nd) undeploy s = Done (r, s') \<or>
      Handler_UndeployFragment (KubernetesExecutor cfg k sf nd) undeployFragment s = Done (r, s')"
  shows "monitored_inv (fst s')"
proof -
  note contract = configured_decorator_keeps [OF assms(1)]
  have "store_ok s" using assms(3) by (simp add: store_ok_def)
  then have "store_ok s'"
    using assms(4)
  proof (elim disjE)
    show ?thesis if "processRequest mg (KubernetesExecutor cfg k sf nd) env request s = Done (r, s')"
      using keepsD [OF decorator_contract.requests_keep [OF contract assms(2)] _ that] \<open>store_ok s\<close> by blast
    show ?thesis if "Handler_Undeploy (KubernetesExecutor cfg k sf nd) undeploy s = Done (r, s')"
      using keepsD [OF decorator_contract.undeployments_keep(1) [OF contract] _ that] \<open>store_ok s\<close> by blast
    show ?thesis if "Handler_UndeployFragment (KubernetesExecutor cfg k sf nd) undeployFragment s = Done (r, s')"
      using keepsD [OF decorator_contract.undeployments_keep(2) [OF contract] _ that] \<open>store_ok s\<close> by blast
  qed
  then show ?thesis by (simp add: store_ok_def)
qed

definition no_fabric :: "'w storage_fabric" where
  "no_fabric = \<lparr>sf_Create = (\<lambda>r w. (None, w)), sf_Remove = (\<lambda>n w. (None, w)), sf_SpecSize = (\<lambda>p s. 0)\<rparr>"

text \<open>Undeploying an application from a cluster without namespaces: its fragment is marked in the store.\<close>

theorem configured_requests_keep_invariant_witness:
  "\<exists>nd s'. getNetworkDecorator (NewIstioDecorator (Inr ()) (\<lambda>_. Inr sample_istio) (\<lambda>_. Inr frozen_kube)) sample_config = Inr nd \<and>
    Handler_Undeploy (KubernetesExecutor sample_config frozen_kube no_fabric nd)
      (Some \<lparr>ur_OrganizationId = ''organization-000000'', ur_AppInstanceId = ''a''\<rparr>) (sample_store, empty_service) = Done (None, s') \<and>
    monitored_inv (fst s')"
proof -
  have nd: "getNetworkDecorator (NewIstioDecorator (Inr ()) (\<lambda>_. Inr sample_istio) (\<lambda>_. Inr frozen_kube)) sample_config =
      Inr (ZerotierDecorator ''nalej/zt-agent'' sample_config)"
    by (simp add: getNetworkDecorator_def sample_config_def)
  have run: "Handler_Undeploy (KubernetesExecutor sample_config frozen_kube no_fabric (ZerotierDecorator ''nalej/zt-agent'' sample_config))
      (Some \<lparr>ur_OrganizationId = ''organization-000000'', ur_AppInstanceId = ''a''\<rparr>) (sample_store, empty_service) =
      Done (None, (SetAppStatus ''a'' FRAGMENT_TERMINATING None sample_store, empty_service))"
    by (simp add: Handler_Undeploy_def Undeploy_def ValidUndeployRequest_def KubernetesExecutor_def UndeployNamespace_def
        Namespace_Build_def NewDeployableNamespace_def ZerotierDecorator_def Namespace_Undeploy_def frozen_kube_def
        prog_run lift_outcome_def Let_def)
  have env: "env_keeps \<lparr>env_schedule = (\<lambda>_ _. []), env_world = (\<lambda>_ s. snd s)\<rparr>"
    by (simp add: env_keeps_def)
  show ?thesis
    using nd run configured_requests_keep_invariant [OF nd env _ disjI2 [OF disjI1 [OF run]]] monitor_reachable_inv [OF sample_reachable]
    by auto
qed

section \<open>The start\<close>

text \<open>Operations on the session leave the flags alone.\<close>

definition same_flags :: "('a, flags \<times> 'v) prog \<Rightarrow> bool" where
  "same_flags m \<longleftrightarrow> (\<forall>s x s'. m s = Done (x, s') \<longrightarrow> fst s' = fst s)"

lemma same_flagsD: "same_flags m \<Longrightarrow> m s = Done (x, s') \<Longrightarrow> fst s' = fst s"
  unfolding same_flags_def by blast

lemma same_flags_intros:
  "same_flags (outside m)" "same_flags (ret x)" "same_flags (panic e)" "same_flags (lift_outcome r)"
  by (auto simp: same_flags_def outside_def ret_def panic_def lift_outcome_def bind_outcome_Done_iff split: prod.splits)

lemma same_flags_and_then: "same_flags m \<Longrightarrow> (\<And>x. same_flags (f x)) \<Longrightarrow> same_flags (and_then m f)"
  by (fastforce simp: same_flags_def and_then_Done_iff simp del: split_paired_All split_paired_Ex)

lemma start_keeps_flags:
  "same_flags (start_login t cfg)" "same_flags (start_connection t cfg)" "same_flags (dial_insecure t address msg)"
  by (auto simp: start_login_def [abs_def] start_connection_def dial_insecure_def
      intro!: same_flags_and_then same_flags_intros split: sum.split)

text \<open>The path of the configuration is looked up once, and only when its flag is not defined yet.\<close>

lemma KubeConfigPath_flags:
  "KubeConfigPath h f = Done (path, f') \<Longrightarrow> ''kubeconfig'' \<notin> set f \<and> f' = ''kubeconfig'' # f"
  by (auto simp: KubeConfigPath_def flag_String_def split: if_splits)

lemma or_return_Done:
  "or_return m f s = Done (Inr y, t) \<longleftrightarrow> (\<exists>x s'. m s = Done (Inr x, s') \<and> f x s' = Done (Inr y, t))"
proof (cases "m s")
  case (Done r)
  obtain x s1 where r: "r = (x, s1)" by (cases r)
  show ?thesis
    by (cases x) (simp_all add: or_return_def and_then_def Done r ret_def eq_commute [of _ t] eq_commute [of s1] del: split_paired_Ex)
qed (simp_all add: or_return_def and_then_def)

lemma start_events_flags:
  assumes "start_events u cfg s = Done (Inr p, s')"
  shows "''kubeconfig'' \<notin> set (fst s) \<and> fst s' = ''kubeconfig'' # fst s"
proof -
  obtain path s1 where k: "on_flags (KubeConfigPath (st_host u)) s = Done (path, s1)" and s': "fst s' = fst s1"
    using assms
    by (auto simp: start_events_def and_then_Done_iff or_return_Done ret_def lift_outcome_def bind_outcome_Done_iff)
  then show ?thesis
    by (auto simp: on_flags_def bind_outcome_Done_iff dest!: KubeConfigPath_flags split: prod.splits)
qed

text \<open>A client inside the cluster comes from its configuration; outside, the flag is defined again.\<close>

lemma internal_client:
  "getInternalKubernetesClient h f = Done (r, f') \<longleftrightarrow>
    (\<exists>x c. ho_InClusterConfig h = Inr x \<and> ho_NewForConfig h x = Inr c \<and> r = Inr c \<and> f' = f)"
  by (auto simp: getInternalKubernetesClient_def panic_def ret_def split: sum.splits)

lemma external_client:
  "''kubeconfig'' \<in> set f \<Longrightarrow> getExternalKubernetesClient h f \<noteq> Done (r, f')"
  by (auto simp: getExternalKubernetesClient_def and_then_Done_iff dest: KubeConfigPath_flags)

definition cluster_client :: "('x, 'kc) host \<Rightarrow> 'kc \<Rightarrow> bool" where
  "cluster_client h c \<longleftrightarrow> (\<exists>x. ho_InClusterConfig h = Inr x \<and> ho_NewForConfig h x = Inr (Some c))"

lemma client_in_cluster:
  assumes "''kubeconfig'' \<in> set f"
    and "(if l then getInternalKubernetesClient h else getExternalKubernetesClient h) f = Done (r, f')"
  shows "\<exists>x c. l \<and> ho_InClusterConfig h = Inr x \<and> ho_NewForConfig h x = Inr c \<and> r = Inr c \<and> f' = f"
  using assms(2) external_client [OF assms(1), of h] by (auto simp: internal_client split: if_splits)

lemma clients_in_cluster:
  assumes "''kubeconfig'' \<in> set (fst s)"
  shows "on_flags (NewKubernetesExecutor h l) s = Done (Inr c, s') \<Longrightarrow> l \<and> cluster_client h c \<and> fst s' = fst s"
    and "on_flags (GetKubernetesClient h l) s = Done (r, s') \<Longrightarrow>
      l \<and> fst s' = fst s \<and> (\<forall>c. r = Inr c \<longleftrightarrow> cluster_client h c)"
  by (auto simp: on_flags_def bind_outcome_Done_iff NewKubernetesExecutor_def GetKubernetesClient_def and_then_Done_iff
      cluster_client_def ret_def dest!: client_in_cluster [OF assms] split: option.splits)

lemma start_config_local:
  "start_config env table zero cfg s = Done (c, s') \<Longrightarrow> cfg_Local c = cfg_Local cfg \<and> s' = s"
  by (auto simp: start_config_def Resolve_def Validate_def panic_def ret_def split: if_splits)

lemma cluster_client_unique: "cluster_client h c \<Longrightarrow> cluster_client h d \<Longrightarrow> d = c"
  by (auto simp: cluster_client_def)

lemma case_panic_Done:
  "(case r of Inl e \<Rightarrow> panic m | Inr x \<Rightarrow> f x) s = Done y \<longleftrightarrow> (\<exists>x. r = Inr x \<and> f x s = Done y)"
  by (cases r) (simp_all add: panic_def)

lemma start_managers_clients:
  assumes "start_managers u cfg p s = Done (Inr svc, s')" and "''kubeconfig'' \<in> set (fst s)"
  shows "cfg_Local cfg \<and> fst s' = fst s \<and> cluster_client (st_host u) (dms_client svc) \<and>
    dms_network_client svc = dms_client svc \<and> dms_offline_client svc = Some (dms_client svc)"
proof -
  obtain exec s1 ul s2 c2 s3 sf s4 off where
    e: "on_flags (NewKubernetesExecutor (st_host u) (cfg_Local cfg)) s = Done (Inr exec, s1)" and
    ul: "dial_insecure (st_login u) (cfg_UnifiedLoggingAddress cfg)
         ''cannot create connection with unified slave coordinator'' s1 = Done (Inr ul, s2)" and
    k8s: "on_flags (GetKubernetesClient (st_host u) (cfg_Local cfg)) s2 = Done (Inr c2, s3)" and
    sf: "dial_insecure (st_login u) (cfg_StorageFabricAddress cfg)
         ''cannot create connection with storage fabric'' s3 = Done (Inr sf, s4)" and
    off: "on_flags (GetKubernetesClient (st_host u) True) s4 = Done (off, s')" and
    svc: "dms_client svc = exec" "dms_network_client svc = c2"
      "dms_offline_client svc = (case off of Inl _ \<Rightarrow> None | Inr c \<Rightarrow> Some c)"
    using assms(1) unfolding start_managers_def and_then_Done_iff case_panic_Done or_return_Done ret_def
    by (clarsimp simp del: split_paired_Ex)
  note c1 = clients_in_cluster(1) [OF assms(2) e]
  have f2: "fst s2 = fst s" using same_flagsD [OF start_keeps_flags(3) ul] c1 by simp
  have k: "''kubeconfig'' \<in> set (fst s2)" using assms(2) f2 by simp
  note c2 = clients_in_cluster(2) [OF k k8s]
  have f4: "fst s4 = fst s" using same_flagsD [OF start_keeps_flags(3) sf] c2 f2 by simp
  have k: "''kubeconfig'' \<in> set (fst s4)" using assms(2) f4 by simp
  note c4 = clients_in_cluster(2) [OF k off]
  have "off = Inr exec" using c4 c1 by simp
  then show ?thesis using c1 c2 c4 f4 svc cluster_client_unique by fastforce
qed

text \<open>C25: When the service starts, it runs inside the cluster: a service configured to use a file
  never starts, since the path of the file is looked up twice. The start defines the flag of the path
  exactly once, and the clients of executor, network manager and offline policy are equal: each is made by a call of
  its own, all three from the configuration inside the cluster.\<close>

theorem start_needs_local:
  assumes "NewDeploymentManagerService u env table zero cfg s = Done (Inr svc, s')"
  shows "cfg_Local cfg \<and> ''kubeconfig'' \<notin> set (fst s) \<and> fst s' = ''kubeconfig'' # fst s \<and>
    dms_network_client svc = dms_client svc \<and> dms_offline_client svc = Some (dms_client svc) \<and>
    (\<exists>x. ho_InClusterConfig (st_host u) = Inr x \<and> ho_NewForConfig (st_host u) x = Inr (Some (dms_client svc)))"
proof -
  obtain c s1 v s2 conn s3 p s4 where
    c: "start_config env table zero cfg s = Done (c, s1)" and
    l: "start_login (st_login u) c s1 = Done (v, s2)" and
    conn: "start_connection (st_login u) c s2 = Done (conn, s3)" and
    ev: "start_events u c s3 = Done (Inr p, s4)" and
    m: "start_managers u c p s4 = Done (Inr svc, s')"
    using assms unfolding NewDeploymentManagerService_def and_then_Done_iff or_return_Done by blast
  have f3: "fst s3 = fst s"
    using same_flagsD [OF start_keeps_flags(1) l] same_flagsD [OF start_keeps_flags(2) conn] start_config_local [OF c]
    by simp
  note f4 = start_events_flags [OF ev]
  have "''kubeconfig'' \<in> set (fst s4)" using f4 by simp
  from start_managers_clients [OF m this] start_config_local [OF c] f3 f4
  show ?thesis by (simp add: cluster_client_def)
qed

text \<open>A host inside a cluster on which every call succeeds, and a configuration that says so.\<close>

definition no_collector :: "(unit st) collector" where
  "no_collector = \<lparr>col_Create = (\<lambda>t s. s), col_Existing = (\<lambda>t s. s), col_Delete = (\<lambda>t s. s), col_Error = (\<lambda>t s. s)\<rparr>"

definition sample_host :: "(unit, unit) host" where
  "sample_host = \<lparr>ho_getenv = (\<lambda>n. if n = ''HOME'' then ''/root'' else []), ho_parsed = (\<lambda>n d. d),
     ho_InClusterConfig = Inr (), ho_BuildConfigFromFlags = (\<lambda>path. Inr ()), ho_NewForConfig = (\<lambda>x. Inr (Some ()))\<rparr>"

definition sample_startup :: "(unit, unit, unit, unit, unit, unit, nat) startup" where
  "sample_startup = \<lparr>st_login = sample_login, st_host = sample_host, st_provider_tools = sample_provider_tools,
     st_provider = (\<lambda>path internal sel. Inr sample_events_provider), st_fmt = (\<lambda>c. []),
     st_collector = no_collector, st_now = 0, st_newIstio = Inl (DError Internal [])\<rparr>"

lemmas provider_run = AddDispatcher_def Dispatchable_def link_kind_def createWatcher_def createClient_def
  NewWatcher_def dispatcher_SetStore_def SetIndexer_def provider_Start_def watcher_Start_def AddHandler_def

lemma sample_events:
  "\<exists>p. events_provider sample_provider_tools (controller_dispatcher f cfg (NewMetricsTranslator no_collector 0))
     \<lparr>dsp_dispatchFuncs = translator_funcs (NewMetricsTranslator no_collector 0),
     dsp_funcMap = [(DeploymentKind, translator_OnDeployment), (NamespaceKind, translator_OnNamespace),
       (PVCKind, translator_OnPersistentVolumeClaim), (PodKind, translator_OnPod), (ServiceKind, translator_OnService),
       (EventKind, translator_OnEvent), (IngressKind, translator_OnIngress)],
     dsp_indexers = []\<rparr> sample_events_provider = Done (Inr p)"
  by (simp add: events_provider_def provider_run sample_provider_tools_def sample_events_provider_def Let_def
     controller_dispatcher_def controller_funcs_def kind_defs controller_SetStore_def translator_funcs_def translator_SetStore_def NewMetricsTranslator_def)

definition local_config :: config where
  "local_config = sample_config\<lparr>cfg_Local := True, cfg_UseTLSForLogin := False\<rparr>"

lemma start_config_sample: "start_config env [] z local_config s =
   Done (local_config\<lparr>cfg_ClusterId := envOrElse env EnvClusterId ''c1'', cfg_TargetPlatform := z\<rparr>, s)"
  by (simp add: start_config_def Resolve_def Validate_def local_config_def sample_config_def platform_of_name_def ret_def)

lemma login_sample: "\<exists>h. start_login sample_login (local_config\<lparr>cfg_ClusterId := i, cfg_TargetPlatform := z\<rparr>) (f, (h0, v :: nat)) = Done ((), (f, (h, v)))"
  by (simp add: start_login_def outside_def Login_def sample_login_def GetConnection_def prog_run NewLogin_def NewConnection_def
      local_config_def sample_config_def GetSecureConnection_def GetInsecureConnection_def login_request_def load_ca_def load_client_cert_def
      Let_def set_credentials_def Credentials_Store_def resolvePath_def NewCredentials_def DefaultPath_def)

lemma connection_sample: "start_connection sample_login (local_config\<lparr>cfg_ClusterId := i, cfg_TargetPlatform := z\<rparr>) s = Done ((), s)"
  by (simp add: start_connection_def outside_def sample_login_def getClusterAPIConnection_def prog_run
      local_config_def sample_config_def load_ca_def load_client_cert_def Let_def)

lemma events_sample: "\<exists>p. start_events sample_startup cfg ([], s) = Done (Inr p, ([''kubeconfig''], s))"
  using sample_events [of "\<lambda>c. []" cfg]
  by (auto simp: start_events_def sample_startup_def on_flags_def sample_host_def KubeConfigPath_def homeDir_def flag_String_def
    and_then_def or_return_def ret_def NewDispatcher_controller translator_dispatcher lift_outcome_def)

lemma managers_sample: "\<exists>svc. start_managers sample_startup (local_config\<lparr>cfg_ClusterId := i, cfg_TargetPlatform := z\<rparr>) p s = Done (Inr svc, s)"
  by (auto simp: start_managers_def sample_startup_def on_flags_def sample_host_def NewKubernetesExecutor_def GetKubernetesClient_def
    getInternalKubernetesClient_def prog_run or_return_def getNetworkDecorator_def dial_insecure_def outside_def sample_login_def
    local_config_def sample_config_def)

lemma start_sample: "\<exists>svc s'. NewDeploymentManagerService sample_startup env [] z local_config ([], s) = Done (Inr svc, s')"
proof -
  obtain h0 v where s: "s = (h0, v)" by (cases s)
  let ?c = "local_config\<lparr>cfg_ClusterId := envOrElse env EnvClusterId ''c1'', cfg_TargetPlatform := z\<rparr>"
  obtain h where l: "start_login sample_login ?c ([], (h0, v)) = Done ((), ([], (h, v)))" using login_sample by blast
  obtain p where e: "start_events sample_startup ?c ([], (h, v)) = Done (Inr p, ([''kubeconfig''], (h, v)))" using events_sample by blast
  obtain svc where m: "start_managers sample_startup ?c p ([''kubeconfig''], (h, v)) = Done (Inr svc, ([''kubeconfig''], (h, v)))" using managers_sample by blast
  have st: "st_login sample_startup = sample_login" by (simp add: sample_startup_def)
  show ?thesis
    by (simp add: NewDeploymentManagerService_def and_then_def or_return_def start_config_sample s l e m st connection_sample)
qed

theorem start_needs_local_witness:
  "\<exists>svc s'. NewDeploymentManagerService sample_startup [] [] Platform_AZURE local_config
      ([], (NewLogin [] 0 False [] [] [] [] False, 0)) = Done (Inr svc, s') \<and>
    fst s' = [''kubeconfig''] \<and> dms_offline_client svc = Some (dms_client svc)"
proof -
  obtain svc s' where run: "NewDeploymentManagerService sample_startup [] [] Platform_AZURE local_config
      ([], (NewLogin [] 0 False [] [] [] [] False, 0)) = Done (Inr svc, s')"
    using start_sample by blast
  from start_needs_local [OF run] run show ?thesis by auto
qed

end
