(* ===== verification/HandlerTotal.thy ===== *)
theory HandlerTotal
  imports ExecutorTheorems ServiceTheorems
begin

text \<open>
  That the requests are served to the end: on a cluster that finds the namespaces it created, and with a
  deadline in every wait, every operation of the handler returns; and it does so without a panic when the
  identifiers of the request are long enough to be sliced and no configuration file is
  mounted in the root directory.
\<close>

section \<open>Programs that end\<close>

text \<open>
  A small logic of total correctness. \<open>gives ok Q r\<close>: the outcome is a result with \<open>Q\<close>, or a
  panic, which \<open>ok\<close> rules out. \<open>ends ok Q p\<close> says it of a program in every state.
\<close>

definition gives :: "bool \<Rightarrow> ('a \<Rightarrow> bool) \<Rightarrow> 'a outcome \<Rightarrow> bool" where
  "gives ok Q r = (case r of Done x \<Rightarrow> Q x | Panic m \<Rightarrow> \<not> ok | Blocked \<Rightarrow> False)"

definition ends :: "bool \<Rightarrow> ('a \<Rightarrow> bool) \<Rightarrow> ('a, 's) prog \<Rightarrow> bool" where
  "ends ok Q p \<longleftrightarrow> (\<forall>s. gives ok (\<lambda>(x, s'). Q x) (p s))"

abbreviation completes :: "bool \<Rightarrow> ('a, 's) prog \<Rightarrow> bool" where
  "completes ok p \<equiv> ends ok (\<lambda>_. True) p"

named_theorems ends_intros \<open>programs that end\<close>

lemma gives_simps [simp]:
  "gives ok Q (Done x) = Q x" "gives ok Q (Panic m) = (\<not> ok)" "\<not> gives ok Q Blocked"
  by (simp_all add: gives_def)

lemma gives_bind: "gives ok Q r \<Longrightarrow> (\<And>x. Q x \<Longrightarrow> gives ok R (f x)) \<Longrightarrow> gives ok R (bind_outcome r f)"
  by (cases r) auto

lemma gives_mono: "gives ok Q r \<Longrightarrow> (\<And>x. Q x \<Longrightarrow> R x) \<Longrightarrow> gives ok R r"
  by (cases r) auto

lemma ends_returns: "ends ok Q p \<Longrightarrow> p s \<noteq> Blocked"
  unfolding ends_def using gives_simps(3) by metis

lemma ends_Done: "ends True Q p \<Longrightarrow> \<exists>x s'. p s = Done (x, s') \<and> Q x"
  unfolding ends_def gives_def by (cases "p s") (auto dest: spec [of _ s])

lemma ends_mono: "ends ok Q p \<Longrightarrow> (\<And>x. Q x \<Longrightarrow> R x) \<Longrightarrow> ends ok R p"
  unfolding ends_def using gives_mono [where Q = "\<lambda>(x, s'). Q x" and R = "\<lambda>(x, s'). R x"] by blast

lemma ends_ret [ends_intros]: "Q x \<Longrightarrow> ends ok Q (ret x)"
  by (simp add: ends_def ret_def)

lemma ends_panic [ends_intros]: "\<not> ok \<Longrightarrow> ends ok Q (panic m)"
  by (simp add: ends_def panic_def)

lemma ends_lift: "gives ok Q r \<Longrightarrow> ends ok Q (lift_outcome r)"
  by (cases r) (simp_all add: ends_def lift_outcome_def)

lemma ends_bind: "ends ok Q p \<Longrightarrow> (\<And>x. Q x \<Longrightarrow> ends ok R (f x)) \<Longrightarrow> ends ok R (and_then p f)"
  unfolding ends_def and_then_def
  by (intro allI gives_bind [where Q = "\<lambda>(x, s'). Q x"]) auto

lemma ends_and_then [ends_intros]:
  "completes ok p \<Longrightarrow> (\<And>x. ends ok R (f x)) \<Longrightarrow> ends ok R (and_then p f)"
  by (rule ends_bind)

lemma ends_with_state [ends_intros]: "(\<And>s. ends ok Q (f s)) \<Longrightarrow> ends ok Q (with_state f)"
  by (simp add: ends_def with_state_def)

lemma completes_on_ok [ends_intros]: "completes ok p \<Longrightarrow> completes ok q \<Longrightarrow> completes ok (on_ok p q)"
  unfolding on_ok_def by (rule ends_and_then) (auto split: option.split intro: ends_ret)

lemma completes_for_each [ends_intros]:
  "(\<And>x. x \<in> set xs \<Longrightarrow> completes ok (step x)) \<Longrightarrow> completes ok (for_each step xs)"
  by (induction xs) (auto intro!: ends_intros)

lemma completes_for_all_logged [ends_intros]:
  "(\<And>x. completes ok (step x)) \<Longrightarrow> completes ok (for_all_logged step xs)"
  by (induction xs) (auto intro!: ends_intros)

lemma ends_on_store [ends_intros]: "completes ok (on_store f)"
  by (simp add: ends_def on_store_def)

lemma ends_objects [ends_intros]:
  "completes ok (create_monitored k obj)" "completes ok (create_object k obj)"
  "completes ok (delete_object k kind ns name)" "completes ok (spawn g)" "completes ok (on_world h)"
  by (auto simp: ends_def create_monitored_def create_object_def delete_object_def spawn_def on_world_def
      split: prod.splits sum.splits)

lemma ends_deploy_service [ends_intros]: "completes ok (deploy_service k s info)"
  using ends_objects(1) [of ok k "OService (sinf_Service info)"] by (simp add: ends_def deploy_service_def)

section \<open>What a stage must have\<close>

text \<open>
  The identifiers of a service are sliced at ten bytes, its specification is read without a check, and its configuration files name volumes after the
  directories they are mounted in. A deployable is ready when its stage is and there is a
  deployment for every service.
\<close>

definition service_ready :: "service_instance \<Rightarrow> bool" where
  "service_ready s \<longleftrightarrow> si_Specs s \<noteq> None \<and> 10 \<le> length (si_OrganizationId s) \<and> 10 \<le> length (si_AppInstanceId s) \<and>
     (\<forall>c \<in> set (si_Configs s). trim_space (fst (GetConfigMapPath (cf_MountPath c))) \<notin> {[], ''/''})"

definition deployments_ready :: "bool \<Rightarrow> deployable_deployments \<Rightarrow> bool" where
  "deployments_ready ok d \<longleftrightarrow> (ok \<longrightarrow> list_all service_ready (ds_Services (dm_Stage (dd_Data d))) \<and>
     length (ds_Services (dm_Stage (dd_Data d))) \<le> length (dd_Deployments d))"

lemma gives_slice: "(ok \<Longrightarrow> n \<le> length s) \<Longrightarrow> gives ok (\<lambda>_. True) (slice_to n s)"
  by (auto simp: slice_to_def)

lemma gives_container_vars: "(ok \<Longrightarrow> service_ready s) \<Longrightarrow> gives ok (\<lambda>_. True) (generateContainerVars cfg data s b)"
  unfolding generateContainerVars_def GetServiceFQDN_def
  by (intro gives_bind [where Q = "\<lambda>_. True"] gives_slice) (auto simp: service_ready_def)

lemma gives_volume_name:
  assumes "ok \<Longrightarrow> trim_space name \<notin> {[], ''/''}"
  shows "gives ok (\<lambda>_. True) (createVolumeName name)"
  using assms by (cases "trim_space name") (auto simp: createVolumeName_def Let_def)

lemma gives_volumes:
  assumes "ok \<Longrightarrow> \<forall>c \<in> set cfs. trim_space (fst (GetConfigMapPath (cf_MountPath c))) \<notin> {[], ''/''}"
  shows "gives ok (\<lambda>_. True) (volumes_loop cm cfs volumes added mounts)"
  using assms
proof (induction cfs arbitrary: volumes added mounts)
  case (Cons c cfs)
  have "gives ok (\<lambda>_. True) (createVolumeName (fst (GetConfigMapPath (cf_MountPath c))))"
    by (rule gives_volume_name) (use Cons.prems in simp)
  then show ?case
    using Cons.IH Cons.prems
    by (auto simp: Let_def split: prod.split intro!: gives_bind [where Q = "\<lambda>_. True"])
qed simp

lemma gives_service_deployment:
  assumes "ok \<Longrightarrow> service_ready s"
  shows "gives ok (\<lambda>_. True) (service_deployment cfg data s)"
proof (cases "si_Specs s")
  case None
  then show ?thesis using assms by (auto simp: service_deployment_def service_ready_def)
next
  case (Some specs)
  show ?thesis
    unfolding service_deployment_def generateAllVolumes_def Let_def Some option.case
    by (intro gives_bind [where Q = "\<lambda>_. True"] gives_volumes) (use assms in \<open>auto simp: service_ready_def\<close>)
qed

lemma gives_build_deployments:
  assumes "ok \<Longrightarrow> list_all service_ready services"
  shows "gives ok (\<lambda>d'. dd_Data d' = dd_Data d \<and> length (dd_Deployments d') = length (dd_Deployments d) + length services)
    (build_deployments cfg services d)"
  using assms
proof (induction services arbitrary: d)
  case (Cons s services)
  have "gives ok (\<lambda>_. True) (service_deployment cfg (dd_Data d) s)"
    by (rule gives_service_deployment) (use Cons.prems in simp)
  then show ?case
    using Cons.IH [of "d\<lparr>dd_Deployments := dd_Deployments d @ [dep]\<rparr>" for dep] Cons.prems
    by (auto intro!: gives_bind [where Q = "\<lambda>_. True"])
qed simp

lemma gives_sidecars:
  assumes "ok \<Longrightarrow> list_all service_ready services \<and> i + length services \<le> length (dd_Deployments d)"
  shows "gives ok (\<lambda>d'. dd_Data d' = dd_Data d \<and> length (dd_Deployments d') = length (dd_Deployments d))
    (createSidecars_loop img cfg i services d)"
  using assms
proof (induction services arbitrary: i d)
  case (Cons s services)
  have vars: "gives ok (\<lambda>_. True) (generateContainerVars cfg (dd_Data d) s False)"
    using Cons.prems by (auto intro: gives_container_vars)
  show ?case
    using Cons.IH [of "Suc i" "d\<lparr>dd_Deployments := (dd_Deployments d)[i := x]\<rparr>" for x] Cons.prems vars
    by (auto intro!: gives_bind [where Q = "\<lambda>_. True"])
qed simp

lemma gives_inbounds:
  assumes "ok \<Longrightarrow> list_all service_ready services"
  shows "gives ok (\<lambda>d'. dd_Data d' = dd_Data d \<and> length (dd_Deployments d) \<le> length (dd_Deployments d'))
    (createInbounds_loop img cfg services d)"
  using assms
proof (induction services arbitrary: d)
  case (Cons s services)
  have "gives ok (\<lambda>_. True) (inbound_deployment img cfg (dd_Data d) s)"
    unfolding inbound_deployment_def
    by (rule gives_bind [where Q = "\<lambda>_. True"]) (use Cons.prems in \<open>auto intro: gives_container_vars\<close>)
  moreover have "gives ok (\<lambda>d'. dd_Data d' = dd_Data d \<and> length (dd_Deployments d) \<le> length (dd_Deployments d'))
      (createInbounds_loop img cfg services (d\<lparr>dd_Deployments := dd_Deployments d @ [agent]\<rparr>))" for agent
    using Cons.IH [of "d\<lparr>dd_Deployments := dd_Deployments d @ [agent]\<rparr>"] Cons.prems
    by (auto elim!: gives_mono)
  ultimately show ?case
    using Cons.IH [of d] Cons.prems by (auto intro!: gives_bind [where Q = "\<lambda>_. True"])
qed simp

section \<open>The decorators\<close>

text \<open>
  What the executor relies on of a network decorator to come back; \<open>ok\<close> also rules out a panic. The undeployments
  only need that a namespace can be built.
\<close>

locale namespace_decorator =
  fixes ok :: bool and nd :: "'w network_decorator"
  assumes build_namespace_law: "gives ok (\<lambda>(e, t). dn_data (as_namespace n t) = dn_data n \<and>
      ns_Name (dn_Namespace (as_namespace n t)) = ns_Name (dn_Namespace n)) (nd_Build nd (TNamespace n))"

locale total_decorator = namespace_decorator ok nd for ok :: bool and nd :: "'w network_decorator" +
  assumes build_deployments_law: "deployments_ready ok d \<Longrightarrow>
      gives ok (\<lambda>(e, t). deployments_ready ok (as_deployments d t)) (nd_Build nd (TDeployments d))"
    and build_services_law: "gives ok (\<lambda>_. True) (nd_Build nd (TServices s))"
    and build_ingress_law: "gives ok (\<lambda>_. True) (nd_Build nd (TIngress i))"
    and deploy_law: "completes ok (nd_Deploy nd t)"
    and undeploy_law: "completes ok (nd_Undeploy nd t)"

lemma Namespace_Undeploy_ends [ends_intros]: "completes ok (Namespace_Undeploy k n)"
  unfolding Namespace_Undeploy_def by (auto intro!: ends_intros split: sum.split)

lemma UndeployFragment_ends: "completes ok (UndeployFragment k ns fid)"
proof -
  have "completes ok (\<lambda>s. let (e, w) = kube_delete_collection k kind ns sel (snd s) in Done (e, (fst s, w)))" for kind sel
    by (auto simp: ends_def split: prod.split)
  then show ?thesis
    unfolding UndeployFragment_def Let_def
    by (intro ends_and_then completes_for_all_logged ends_with_state) (auto intro!: ends_intros split: sum.split)
qed

context namespace_decorator
begin

lemma Namespace_Build_ends:
  "gives ok (\<lambda>(err, n'). dn_data n' = dn_data n \<and> ns_Name (dn_Namespace n') = dm_Namespace (dn_data n))
    (Namespace_Build nd n)"
  unfolding Namespace_Build_def Let_def
  by (rule gives_bind [OF build_namespace_law]) auto

lemma UndeployNamespace_ends: "completes ok (UndeployNamespace k nd org app)"
  unfolding UndeployNamespace_def Let_def
  by (rule ends_bind [OF ends_lift [OF Namespace_Build_ends]]) (auto intro!: ends_intros Namespace_Undeploy_ends)

lemma undeploy_ends:
  "completes ok (Handler_Undeploy (KubernetesExecutor cfg k sf nd) undeploy)"
  "completes ok (Handler_UndeployFragment (KubernetesExecutor cfg k sf nd) undeployFragment)"
proof -
  let ?ex = "KubernetesExecutor cfg k sf nd"
  have ns: "completes ok (ex_UndeployNamespace ?ex org app)" and fragment: "completes ok (ex_UndeployFragment ?ex n fid)"
    for org app n fid
    using UndeployNamespace_ends UndeployFragment_ends by (simp_all add: KubernetesExecutor_def)
  show "completes ok (Handler_Undeploy ?ex undeploy)"
    unfolding Handler_Undeploy_def Undeploy_def by (auto intro!: ends_intros ns split: option.split)
  show "completes ok (Handler_UndeployFragment ?ex undeployFragment)"
    unfolding Handler_UndeployFragment_def UndeployFragment_manager_def
    by (auto intro!: ends_intros ns fragment split: option.split sum.split)
qed

end

lemma Zerotier_Build_ends:
  assumes ready: "deployments_ready ok d"
  shows "gives ok (\<lambda>(e, t). deployments_ready ok (as_deployments d t)) (Zerotier_Build img cfg (TDeployments d))"
proof -
  let ?services = "ds_Services (dm_Stage (dd_Data d))"
  have side: "gives ok (\<lambda>d'. dd_Data d' = dd_Data d \<and> length (dd_Deployments d') = length (dd_Deployments d))
      (createSidecars img cfg d)"
    unfolding createSidecars_def
    by (rule gives_sidecars) (use ready in \<open>auto simp: deployments_ready_def\<close>)
  have inb: "gives ok (\<lambda>d''. dd_Data d'' = dd_Data d \<and> length (dd_Deployments d) \<le> length (dd_Deployments d''))
      (createInbounds img cfg d')"
    if "dd_Data d' = dd_Data d \<and> length (dd_Deployments d') = length (dd_Deployments d)" for d'
    using gives_inbounds [of ok ?services d' img cfg] ready that
    by (auto simp: createInbounds_def deployments_ready_def)
  show ?thesis
    unfolding Zerotier_Build.simps
    by (rule gives_bind [OF side], rule gives_bind [OF inb])
      (use ready in \<open>auto simp: deployments_ready_def\<close>)
qed

interpretation zerotier_total: total_decorator ok "ZerotierDecorator img cfg" for ok img cfg
  by unfold_locales
    (simp_all add: ZerotierDecorator_def ends_ret Zerotier_Build_ends [unfolded Zerotier_Build.simps])

text \<open>With Istio a route without match on the cluster makes the comparison of ports panic.\<close>

lemma Istio_Deploy_ends: "completes False (Istio_Deploy ic k t)"
proof -
  have ports: "completes False (updateServicePorts k s r)" "completes False (updateVirtualServicePorts ic vs r)" for s vs r
    by (auto simp: updateServicePorts_def updateVirtualServicePorts_def has_route_def intro!: ends_intros ends_lift)
  have "completes False (ensure_service k data r)" "completes False (ensure_virtual_service ic data r)" for data r
    unfolding ensure_service_def ensure_virtual_service_def Let_def
    by (auto intro!: ends_intros ports)
  then show ?thesis
    by (cases t) (auto simp: decorateServices_def decorate_rule_def intro!: ends_intros)
qed

interpretation istio_total: total_decorator False "IstioDecorator ic k" for ic k
  by unfold_locales
    (simp_all add: IstioDecorator_def ends_ret Istio_Deploy_ends deployments_ready_def decorateNamespace_def)

interpretation istio_namespace: namespace_decorator ok "IstioDecorator ic k" for ok ic k
  by unfold_locales (simp add: IstioDecorator_def decorateNamespace_def)

section \<open>The stage\<close>

definition stage_ready :: "bool \<Rightarrow> deployable_stage \<Rightarrow> bool" where
  "stage_ready ok d \<longleftrightarrow> deployments_ready ok (dks_Deployments d)"

lemma labelled_ready:
  "list_all service_ready (ds_Services (dm_Stage (labelled_data data))) \<longleftrightarrow> list_all service_ready (ds_Services (dm_Stage data))"
  "length (ds_Services (dm_Stage (labelled_data data))) = length (ds_Services (dm_Stage data))"
proof -
  have "service_ready (write_labels data s) = service_ready s" for s
    by (simp add: service_ready_def write_labels_def)
  then show "list_all service_ready (ds_Services (dm_Stage (labelled_data data))) \<longleftrightarrow>
      list_all service_ready (ds_Services (dm_Stage data))"
    by (simp add: labelled_data_def list_all_iff)
qed (simp add: labelled_data_def)

text \<open>A request is ready when it has a fragment whose identifiers can be sliced and whose services are ready.\<close>

definition request_ready :: "deployment_fragment_request \<Rightarrow> bool" where
  "request_ready request = (case dfr_Fragment request of
     None \<Rightarrow> False
   | Some fragment \<Rightarrow> 18 \<le> length (df_OrganizationId fragment) \<and>
       list_all (\<lambda>stage. list_all service_ready (ds_Services stage)) (df_Stages fragment))"

text \<open>Every wait has its deadline.\<close>

definition has_deadlines :: "'w environment \<Rightarrow> bool" where
  "has_deadlines env \<longleftrightarrow> (\<forall>fid s. Timeout \<in> set (map snd (env_schedule env fid s)))"

context total_decorator
begin

lemma Deployments_Build_ends:
  assumes "ok \<Longrightarrow> list_all service_ready (ds_Services (dm_Stage (dd_Data d)))"
  shows "gives ok (\<lambda>(err, d'). deployments_ready ok d') (Deployments_Build cfg nd d)"
  unfolding Deployments_Build_def
proof (rule gives_bind [OF gives_build_deployments [OF assms]])
  fix d' :: deployable_deployments assume d': "dd_Data d' = dd_Data d \<and>
    length (dd_Deployments d') = length (dd_Deployments d) + length (ds_Services (dm_Stage (dd_Data d)))"
  have "deployments_ready ok (d'\<lparr>dd_Data := labelled_data (dd_Data d)\<rparr>)"
    using assms d' by (simp add: deployments_ready_def labelled_ready)
  then show "gives ok (\<lambda>(err, d'). deployments_ready ok d') (decorate_deployments nd (d'\<lparr>dd_Data := labelled_data (dd_Data d)\<rparr>))"
    unfolding decorate_deployments_def
    by (rule gives_bind [OF build_deployments_law]) auto
qed

lemma Stage_Build_ends:
  assumes "ok \<Longrightarrow> list_all service_ready (ds_Services (dm_Stage (dd_Data (dks_Deployments d))))"
  shows "gives ok (\<lambda>(err, d'). err = None \<longrightarrow> stage_ready ok d') (Stage_Build cfg k nd w d)"
proof -
  have services: "gives ok (\<lambda>_. True) (Services_Build k nd w s)" and ingress: "gives ok (\<lambda>_. True) (Ingress_Build cfg nd i)" for s i
    unfolding Services_Build_def Ingress_Build_def Let_def
    by (auto intro!: gives_bind [where Q = "\<lambda>_. True"] build_services_law build_ingress_law)
  show ?thesis
    unfolding Stage_Build_def
    by (rule gives_bind [OF Deployments_Build_ends [OF assms]])
      (auto simp: Let_def stage_ready_def intro!: gives_bind [OF services] gives_bind [OF ingress])
qed

lemma deployables_end:
  "completes ok (Secrets_Deploy k ds)" "completes ok (Secrets_Undeploy k ds)"
    "completes ok (ConfigMaps_Deploy k dc)" "completes ok (ConfigMaps_Undeploy k dc)"
    "completes ok (Storage_Deploy k sf st)" "completes ok (Storage_Undeploy k sf st)"
    "completes ok (Deployments_Undeploy k d)"
    "completes ok (Services_Deploy k nd s)" "completes ok (Services_Undeploy k nd s)"
    "completes ok (DeviceGroups_Deploy k dg)" "completes ok (DeviceGroups_Undeploy k dg)"
    "completes ok (Ingress_Deploy k nd di)" "completes ok (Ingress_Undeploy k nd di)"
    "completes ok (LoadBalancers_Deploy k dl)"
    "completes ok (NalejSecret_Deploy k ns)" "completes ok (Namespace_Undeploy k n)"
  unfolding Secrets_Deploy_def Secrets_Undeploy_def ConfigMaps_Deploy_def ConfigMaps_Undeploy_def
    Storage_Deploy_def Storage_Undeploy_def Deployments_Undeploy_def
    Services_Deploy_def Services_Undeploy_def DeviceGroups_Deploy_def DeviceGroups_Undeploy_def
    Ingress_Deploy_def Ingress_Undeploy_def LoadBalancers_Deploy_def NalejSecret_Deploy_def Namespace_Undeploy_def
  by (auto intro!: ends_intros deploy_law undeploy_law split: prod.split option.split sum.split)

lemma Deployments_Deploy_ends:
  assumes "deployments_ready ok d"
  shows "ends ok (\<lambda>(err, d'). deployments_ready ok d') (Deployments_Deploy k nd d)"
proof -
  have "gives ok (\<lambda>(err, d'). deployments_ready ok d') (decorate_deployments nd d)"
    unfolding decorate_deployments_def by (rule gives_bind [OF build_deployments_law [OF assms]]) auto
  then show ?thesis
    unfolding Deployments_Deploy_def
    using assms by (auto intro!: ends_intros ends_lift split: option.split)
qed

lemma stage_ends:
  "stage_ready ok d \<Longrightarrow> ends ok (\<lambda>(err, d'). stage_ready ok d') (Stage_Deploy k sf nd d)"
  "completes ok (Stage_Undeploy k sf nd d)"
proof -
  note parts = deployables_end
  show "ends ok (\<lambda>(err, d'). stage_ready ok d') (Stage_Deploy k sf nd d)" if ready: "stage_ready ok d"
    unfolding Stage_Deploy_def
    by (auto simp: Let_def stage_ready_def ready [unfolded stage_ready_def]
        intro!: ends_and_then ends_bind [OF Deployments_Deploy_ends [OF ready [unfolded stage_ready_def]]]
          completes_on_ok parts ends_ret split: option.split)
  show "completes ok (Stage_Undeploy k sf nd d)"
    unfolding Stage_Undeploy_def by (auto intro!: ends_intros parts)
qed

section \<open>The executor\<close>

lemma Namespace_Deploy_ends:
  assumes "namespaces_found k" and "ns_Name (dn_Namespace n) = dm_Namespace (dn_data n)"
  shows "completes ok (Namespace_Deploy k namespace_fuel n)"
  unfolding ends_def
proof
  fix s
  obtain err n' s' where "Namespace_Deploy k (Suc (Suc 0)) n s = Done ((err, n'), s')"
    using Namespace_Deploy_result [OF assms, of s] by blast
  then show "gives ok (\<lambda>(x, s'). True) (Namespace_Deploy k namespace_fuel n s)"
    by (simp add: namespace_fuel_def numeral_2_eq_2 del: Namespace_Deploy.simps)
qed

lemma Prepare_ends:
  assumes "namespaces_found k"
  shows "ends ok (\<lambda>(pre, err). err = None \<longrightarrow> pre \<noteq> None) (PrepareEnvironmentForDeployment k nd metadata)"
  unfolding PrepareEnvironmentForDeployment_def
  by (rule ends_bind [OF ends_lift [OF Namespace_Build_ends]])
    (auto intro!: ends_intros Namespace_Deploy_ends [OF assms] deployables_end)

lemma Build_ends:
  assumes "ok \<Longrightarrow> list_all service_ready (ds_Services (dm_Stage metadata))"
  shows "ends ok (\<lambda>built. case built of Inl e \<Rightarrow> True | Inr d \<Rightarrow> stage_ready ok d) (BuildNativeDeployable cfg k nd metadata)"
proof -
  have data: "dd_Data (dks_Deployments (NewDeployableKubernetesStage cfg k w metadata)) = metadata" for w
    by (simp add: NewDeployableKubernetesStage_def NewDeployableDeployment_def)
  show ?thesis
    unfolding BuildNativeDeployable_def
    by (intro ends_with_state ends_bind [OF ends_lift [OF Stage_Build_ends]])
      (auto simp: data assms intro!: ends_ret split: option.split)
qed

lemma wait_ends: "has_deadlines env \<Longrightarrow> completes ok (wait_checks env fid)"
  unfolding ends_def
proof
  fix s assume "has_deadlines env"
  then have "Timeout \<in> set (map snd (env_schedule env fid s))" unfolding has_deadlines_def by blast
  from WaitPendingChecks_returns [OF this, of fid "fst s"]
  show "gives ok (\<lambda>(x, s'). True) (wait_checks env fid s)" by (auto simp: wait_checks_def)
qed

lemma loop_ends:
  assumes "has_deadlines env" and "stage_ready ok d"
  shows "completes ok (deploymentLoopStage (KubernetesExecutor cfg k sf nd) env fid sid limit retries d)"
  using assms(2)
proof (induction retries d rule: loop_induct [where maxRetries = limit])
  case (1 retries d)
  then show ?case by (subst deploymentLoopStage.simps) (simp add: ends_ret)
next
  case (2 retries d)
  have deploy: "ends ok (\<lambda>(err, d'). stage_ready ok d') (ex_DeployStage (KubernetesExecutor cfg k sf nd) d)"
    and undeploy: "completes ok (ex_Undeploy (KubernetesExecutor cfg k sf nd) d')" for d'
    using stage_ends 2(3) by (simp_all add: KubernetesExecutor_def DeployStage_def)
  show ?case
    using 2
    by (subst deploymentLoopStage.simps)
      (auto intro!: ends_on_store ends_and_then ends_bind [OF deploy] wait_ends [OF assms(1)] undeploy ends_ret
        split: option.split prod.split)
qed

lemma process_stage_ends:
  assumes "has_deadlines env" and "ok \<Longrightarrow> list_all service_ready (ds_Services stage)"
    and "pre \<noteq> None"
  shows "completes ok (process_stage (KubernetesExecutor cfg k sf nd) env request fragment ns metadata pre stage)"
proof -
  let ?ex = "KubernetesExecutor cfg k sf nd"
  have build: "ends ok (\<lambda>built. case built of Inl e \<Rightarrow> True | Inr d \<Rightarrow> stage_ready ok d)
      (ex_BuildNativeDeployable ?ex (metadata\<lparr>dm_Stage := stage\<rparr>))"
    using Build_ends [of "metadata\<lparr>dm_Stage := stage\<rparr>"] assms(2) by (simp add: KubernetesExecutor_def)
  have undeploy: "completes ok (ex_UndeployPrepared ?ex p)" for p
    using deployables_end by (simp add: KubernetesExecutor_def)
  show ?thesis
    unfolding process_stage_def
    using assms(3)
    by (intro ends_bind [OF build])
      (auto intro!: ends_and_then ends_on_store ends_ret undeploy split: sum.splits option.split
        intro: loop_ends [OF assms(1)])
qed

lemma processRequest_ends:
  assumes "namespaces_found k" and "has_deadlines env" and "ok \<Longrightarrow> request_ready request"
  shows "completes ok (processRequest mg (KubernetesExecutor cfg k sf nd) env request)"
proof (cases "dfr_Fragment request")
  case None
  then have "\<not> ok" using assms(3) by (auto simp: request_ready_def)
  then show ?thesis using None by (auto simp: processRequest_def intro: ends_panic)
next
  case (Some fragment)
  let ?ex = "KubernetesExecutor cfg k sf nd"
  have ready: "ok \<Longrightarrow> 18 \<le> length (df_OrganizationId fragment)"
    "ok \<Longrightarrow> stage \<in> set (df_Stages fragment) \<Longrightarrow> list_all service_ready (ds_Services stage)" for stage
    using assms(3) Some by (auto simp: request_ready_def list_all_iff)
  have "gives ok (\<lambda>_. True) (GetNamespace (df_OrganizationId fragment) (df_AppInstanceId fragment) (dfr_NumRetry request))"
    unfolding GetNamespace_def by (intro gives_bind [where Q = "\<lambda>_. True"] gives_slice) (auto simp: ready(1))
  then have namespace: "completes ok (ex_GetApplicationNamespace ?ex (df_OrganizationId fragment) (df_AppInstanceId fragment)
      (dfr_NumRetry request))"
    by (auto simp: KubernetesExecutor_def GetApplicationNamespace_def intro!: ends_with_state ends_and_then ends_lift ends_ret
        split: sum.split option.split)
  have prepare: "ends ok (\<lambda>(pre, err). err = None \<longrightarrow> pre \<noteq> None) (ex_PrepareEnvironmentForDeployment ?ex metadata)" for metadata
    using Prepare_ends [OF assms(1)] by (simp add: KubernetesExecutor_def)
  have undeploy: "completes ok (ex_UndeployPrepared ?ex p)" for p
    using deployables_end by (simp add: KubernetesExecutor_def)
  have stages: "completes ok (for_each (process_stage ?ex env request fragment ns metadata pre) (df_Stages fragment))"
    if "pre \<noteq> None" for ns metadata pre
    by (rule completes_for_each) (rule process_stage_ends [OF assms(2) ready(2) that])
  show ?thesis
    unfolding processRequest_def Let_def Some option.case
    by (auto intro!: ends_and_then [OF namespace] ends_bind [OF prepare] ends_and_then ends_on_store ends_ret undeploy stages
        split: sum.split option.split)
qed

end

section \<open>Every request is served\<close>

lemma configured_decorator_ends:
  assumes "getNetworkDecorator (NewIstioDecorator inCluster newIstio newKube) cfg = Inr nd"
  shows "total_decorator False nd \<and> namespace_decorator True nd \<and>
    (cfg_NetworkType cfg = NetworkTypeZt \<longrightarrow> total_decorator True nd)"
  using assms istio_total.total_decorator_axioms zerotier_total.total_decorator_axioms
    istio_namespace.namespace_decorator_axioms zerotier_total.namespace_decorator_axioms
  by (auto simp: getNetworkDecorator_def NewIstioDecorator_def split: network_type.splits sum.splits)

text \<open>C15: With the decorator the configuration selects, no deployment goes on for ever, neither in the retries of a
  stage nor in the namespace that deploys itself nor in the wait for the checks: it ends with a result or in a panic, and
  with ZeroTier and a request that is ready always with a result. Both undeployments always end with a result. All this on
  every cluster that finds the namespaces it created, and when every wait has its deadline.\<close>

theorem requests_return:
  assumes "getNetworkDecorator (NewIstioDecorator inCluster newIstio newKube) cfg = Inr nd"
    and "namespaces_found k" and "has_deadlines env"
  shows "processRequest mg (KubernetesExecutor cfg k sf nd) env request s \<noteq> Blocked \<and>
    (cfg_NetworkType cfg = NetworkTypeZt \<and> request_ready request \<longrightarrow>
      (\<exists>err s'. processRequest mg (KubernetesExecutor cfg k sf nd) env request s = Done (err, s'))) \<and>
    (\<exists>err s'. Handler_Undeploy (KubernetesExecutor cfg k sf nd) undeploy s = Done (err, s')) \<and>
    (\<exists>err s'. Handler_UndeployFragment (KubernetesExecutor cfg k sf nd) undeployFragment s = Done (err, s'))"
proof -
  note decorator = configured_decorator_ends [OF assms(1)]
  note total = total_decorator.processRequest_ends [OF _ assms(2,3)]
  note undeploys = namespace_decorator.undeploy_ends [OF conjunct1 [OF conjunct2 [OF decorator]]]
  show ?thesis
    using ends_returns [OF total [OF conjunct1 [OF decorator]]] ends_Done [OF total [of True nd]] decorator
      ends_Done [OF undeploys(1)] ends_Done [OF undeploys(2)]
    by simp
qed

lemma timeout_deadlines: "has_deadlines timeout_environment"
  by (simp add: has_deadlines_def timeout_environment_def)

definition ready_request :: deployment_fragment_request where
  "ready_request = (sample_request RollbackPolicy_LIMITED_RETRY)\<lparr>dfr_Fragment := Some (sample_fragment\<lparr>df_Stages :=
     [sample_stage\<lparr>ds_Services := [sample_web_service\<lparr>si_AppInstanceId := ''application''\<rparr>]\<rparr>]\<rparr>)\<rparr>"

lemma ready_request_ready: "request_ready ready_request"
  by (simp add: request_ready_def ready_request_def sample_request_def sample_fragment_def service_ready_def
      sample_web_service_def sample_storage_service_def)

theorem requests_return_witness:
  "\<exists>nd err s'. getNetworkDecorator (NewIstioDecorator (Inr ()) (\<lambda>_. Inr sample_istio) (\<lambda>_. Inr namespace_kube)) sample_config = Inr nd \<and>
    processRequest sample_manager (KubernetesExecutor sample_config namespace_kube no_fabric nd) timeout_environment
      ready_request ([], []) = Done (err, s')"
proof -
  let ?nd = "ZerotierDecorator ''nalej/zt-agent'' sample_config"
  have nd: "getNetworkDecorator (NewIstioDecorator (Inr ()) (\<lambda>_. Inr sample_istio) (\<lambda>_. Inr namespace_kube)) sample_config = Inr ?nd"
    by (simp add: getNetworkDecorator_def sample_config_def)
  have "cfg_NetworkType sample_config = NetworkTypeZt" by (simp add: sample_config_def)
  then show ?thesis
    using requests_return [OF nd namespace_kube_found timeout_deadlines] nd ready_request_ready by blast
qed

text \<open>C40: Deploying a namespace calls itself, where the decorator was meant. On every cluster that finds the
  namespaces it created the call returns all the same, with the same result whatever the fuel from two calls on, and
  it creates the namespace at most once. Without an error the namespace of the application is on the cluster, the
  deployable holds it as it was read there, and the cluster is unchanged or differs by that one creation; an error
  is the refusal of the creation. The monitored store is never touched. This for the namespace as it is built with
  the decorator that the configuration selects.\<close>

theorem Namespace_Deploy_returns:
  assumes "getNetworkDecorator (NewIstioDecorator inCluster newIstio newKube) cfg = Inr nd" and "namespaces_found k"
    and "Namespace_Build nd (NewDeployableNamespace metadata) = Done (e, n)"
  shows "\<exists>err n' s'. (\<forall>fuel. Namespace_Deploy k (Suc (Suc fuel)) n s = Done ((err, n'), s')) \<and> fst s' = fst s \<and>
    (case err of
       None \<Rightarrow> kube_get k KNamespace [] (dm_Namespace metadata) (snd s') = Inr (ONamespace (dn_Namespace n')) \<and>
         ns_Name (dn_Namespace n') \<noteq> [] \<and>
         (s' = s \<or> (\<exists>c. kube_create k (ONamespace (dn_Namespace n)) (snd s) = (Inr c, snd s')))
     | Some e' \<Rightarrow> n' = n \<and> kube_create k (ONamespace (dn_Namespace n)) (snd s) = (Inl e', snd s'))"
proof -
  have "namespace_decorator True nd" using configured_decorator_ends [OF assms(1)] by blast
  from namespace_decorator.Namespace_Build_ends [OF this, of "NewDeployableNamespace metadata"] assms(3)
  have n: "dn_data n = metadata" "ns_Name (dn_Namespace n) = dm_Namespace (dn_data n)"
    by (simp_all add: NewDeployableNamespace_def)
  from Namespace_Deploy_result [OF assms(2) n(2), of s] show ?thesis
    unfolding namespace_deployed_def n(1) .
qed

theorem Namespace_Deploy_returns_witness:
  "\<exists>n n' w. Namespace_Build (ZerotierDecorator ''nalej/zt-agent'' sample_config :: k8s_namespace list network_decorator)
      (NewDeployableNamespace (sample_metadata [])) = Done (None, n) \<and>
    Namespace_Deploy namespace_kube namespace_fuel n ([], []) = Done ((None, n'), ([], w)) \<and> w \<noteq> []"
proof -
  let ?nd = "ZerotierDecorator ''nalej/zt-agent'' sample_config :: k8s_namespace list network_decorator"
  have nd: "getNetworkDecorator (NewIstioDecorator (Inr ()) (\<lambda>_. Inr sample_istio) (\<lambda>_. Inr namespace_kube)) sample_config = Inr ?nd"
    by (simp add: getNetworkDecorator_def sample_config_def)
  obtain n where build: "Namespace_Build ?nd (NewDeployableNamespace (sample_metadata [])) = Done (None, n)"
    and n: "ns_Name (dn_Namespace n) = ''ns''"
    by (simp add: Namespace_Build_def ZerotierDecorator_def NewDeployableNamespace_def sample_metadata_def Let_def)
  obtain err n' p w where run: "Namespace_Deploy namespace_kube namespace_fuel n ([], []) = Done ((err, n'), (p, w))"
    and p: "p = []" and result: "case err of
       None \<Rightarrow> kube_get namespace_kube KNamespace [] (dm_Namespace (sample_metadata [])) w = Inr (ONamespace (dn_Namespace n'))
     | Some e' \<Rightarrow> kube_create namespace_kube (ONamespace (dn_Namespace n)) [] = (Inl e', w)"
    using Namespace_Deploy_returns [OF nd namespace_kube_found build, of "([], [])"]
    unfolding namespace_fuel_def numeral_2_eq_2 by (fastforce split: option.splits)
  have "err = None" using result n by (cases err) (simp_all add: namespace_kube_def)
  moreover have "w \<noteq> []" using result calculation by (auto simp: namespace_kube_def)
  ultimately show ?thesis using build run p by blast
qed

text \<open>C33: With the ZeroTier decorator a request does not panic when its organization identifier has at least 18
  bytes, the identifiers in its services at least 10, every service comes with its specification, and no
  configuration file is mounted in the root or in a directory of white space; on every cluster that finds the
  namespaces it created, and when every wait has its deadline.\<close>

theorem ready_requests_never_panic:
  assumes "request_ready request" and "namespaces_found k" and "has_deadlines env"
  shows "\<exists>err s'. processRequest mg (KubernetesExecutor cfg k sf (ZerotierDecorator img cfg')) env request s = Done (err, s')"
  using ends_Done [OF zerotier_total.processRequest_ends [OF assms(2,3,1)]] by blast

theorem ready_requests_never_panic_witness:
  "\<exists>err s'. processRequest sample_manager
      (KubernetesExecutor sample_config namespace_kube no_fabric (ZerotierDecorator ''nalej/zt-agent'' sample_config))
      timeout_environment ready_request ([], []) = Done (err, s')"
  by (rule ready_requests_never_panic [OF ready_request_ready namespace_kube_found timeout_deadlines])

text \<open>C16: The handler accepts a request whose organization identifier is shorter than 18 bytes, and the first deployment of
  the application then panics in the goroutine of the manager.\<close>

theorem short_id_panics:
  assumes "ValidDeployFragmentRequest request" and "dfr_Fragment request = Some fragment"
    and "length (df_OrganizationId fragment) < 18"
    and "kube_list_namespaces k [(NALEJ_ANNOTATION_ORGANIZATION_ID, df_OrganizationId fragment),
      (NALEJ_ANNOTATION_APP_INSTANCE_ID, df_AppInstanceId fragment)] (snd s) = Inr items"
    and "List.find ni_Active items = None"
  shows "fst (Handler_Execute (Some request) q) = Inr (dfr_RequestId request) \<and>
    processRequest mg (KubernetesExecutor cfg k sf nd) env request s = Panic ''slice bounds out of range''"
  using assms
  by (simp add: Handler_Execute_def processRequest_def KubernetesExecutor_def GetApplicationNamespace_def GetNamespace_def
      slice_to_def prog_run lift_outcome_def)

theorem short_id_panics_witness:
  "processRequest sample_manager
      (KubernetesExecutor sample_config namespace_kube no_fabric (ZerotierDecorator ''nalej/zt-agent'' sample_config))
      timeout_environment ((sample_request RollbackPolicy_LIMITED_RETRY)\<lparr>dfr_Fragment :=
        Some (sample_fragment\<lparr>df_OrganizationId := ''org''\<rparr>)\<rparr>) ([], []) = Panic ''slice bounds out of range''"
  by (rule short_id_panics [where items = "[]" and fragment = "sample_fragment\<lparr>df_OrganizationId := ''org''\<rparr>", THEN conjunct2])
    (simp_all add: ValidDeployFragmentRequest_def sample_request_def sample_fragment_def namespace_kube_def)

end
