(* ===== verification/ReportTheorems.thy ===== *)
theory ReportTheorems
  imports HandlerTotal
begin

text \<open>
  What the cluster manager learns of the requests it made: the handler, the executor, the store and a
  round of the monitor helper together. A deployment that fails is reported with its next round;
  an application that is undeployed is forgotten with the next round.
\<close>

section \<open>Failures\<close>

text \<open>A program that marks the fragment when it fails: its last change of the store sets the fragment to error.\<close>

definition marks_failure :: "string \<Rightarrow> (go_error option, 'w st) prog \<Rightarrow> bool" where
  "marks_failure fid m \<longleftrightarrow> (\<forall>s e s'. m s = Done (Some e, s') \<longrightarrow>
     (\<exists>err p. fst s' = SetEntryStatus fid FRAGMENT_ERROR err p))"

lemma marks_failureD:
  "marks_failure fid m \<Longrightarrow> m s = Done (Some e, s') \<Longrightarrow> \<exists>err p. fst s' = SetEntryStatus fid FRAGMENT_ERROR err p"
  unfolding marks_failure_def by blast

lemma marks_and_then: "(\<And>x. marks_failure fid (f x)) \<Longrightarrow> marks_failure fid (and_then m f)"
  unfolding marks_failure_def and_then_Done_iff by blast

lemma marks_basic:
  "marks_failure fid (ret None)" "marks_failure fid (panic msg)"
  "marks_failure fid (and_then (on_store (SetEntryStatus fid FRAGMENT_ERROR err)) (\<lambda>_. ret r))"
  by (auto simp: marks_failure_def ret_def panic_def and_then_def on_store_def)

lemma marks_for_each: "(\<And>x. marks_failure fid (step x)) \<Longrightarrow> marks_failure fid (for_each step xs)"
proof (induction xs)
  case (Cons x xs)
  note step = Cons.prems [of x] and rest = Cons.IH [OF Cons.prems]
  show ?case
    unfolding marks_failure_def
  proof (intro allI impI)
    fix s e s' assume "for_each step (x # xs) s = Done (Some e, s')"
    then obtain r t where "step x s = Done (r, t)" and "(case r of None \<Rightarrow> for_each step xs | Some e \<Rightarrow> ret (Some e)) t = Done (Some e, s')"
      by (auto simp: on_ok_def and_then_Done_iff)
    then show "\<exists>err p. fst s' = SetEntryStatus fid FRAGMENT_ERROR err p"
      using marks_failureD [OF step] marks_failureD [OF rest] by (auto simp: ret_def split: option.splits)
  qed
qed (simp add: marks_basic)

lemma process_stage_marks: "marks_failure (df_FragmentId fragment) (process_stage ex env request fragment ns metadata pre stage)"
  unfolding process_stage_def
  by (intro marks_and_then) (auto intro!: marks_basic marks_and_then [of _ _ "on_store (AddEntry _)"]
      marks_and_then [of _ _ "deploymentLoopStage _ _ _ _ _ _ _"] marks_and_then [of _ _ "ex_UndeployPrepared _ _"]
      split: sum.split option.split)

lemma processRequest_marks:
  assumes "dfr_Fragment request = Some fragment"
    and "ex_GetApplicationNamespace ex (df_OrganizationId fragment) (df_AppInstanceId fragment) (dfr_NumRetry request) s = Done (Inr ns, s1)"
    and "processRequest mg ex env request s = Done (Some e, s')"
  shows "\<exists>err p. fst s' = SetEntryStatus (df_FragmentId fragment) FRAGMENT_ERROR err p"
proof -
  let ?m = "and_then (ex_PrepareEnvironmentForDeployment ex (request_metadata mg request fragment ns)) (\<lambda>(pre, err).
     if err \<noteq> None then
       and_then (case pre of Some p \<Rightarrow> ex_UndeployPrepared ex p | None \<Rightarrow> ret err) (\<lambda>executionError.
       and_then (on_store (SetEntryStatus (df_FragmentId fragment) FRAGMENT_ERROR executionError)) (\<lambda>_.
         ret (Some (GoError (''failed environment preparation for fragment '' @ df_FragmentId fragment)))))
     else for_each (process_stage ex env request fragment ns (request_metadata mg request fragment ns) pre) (df_Stages fragment))"
  have m: "marks_failure (df_FragmentId fragment) ?m"
    by (rule marks_and_then) (simp add: marks_and_then marks_basic marks_for_each process_stage_marks split: prod.split)
  have "?m s1 = Done (Some e, s')"
    using assms by (simp add: processRequest_def and_then_def Let_def)
  from marks_failureD [OF m this] show ?thesis .
qed

text \<open>What a round tells of a fragment with a new status: the status, and those of all its services.\<close>

lemma new_status_told:
  assumes "monitored_inv p" and "gm_get p fid = Some entry" and "mae_NewStatus entry" and "mae_Services entry \<noteq> []"
  shows "\<exists>n. n \<in> set (fst (GetPendingNotifications p)) \<and> mae_FragmentId n = fid \<and> mae_Status n = mae_Status entry \<and>
    (\<forall>sid. map_option mse_Status (gm_get (mae_Services n) sid) = map_option mse_Status (gm_get (mae_Services entry) sid))"
proof -
  obtain sid x rest where services: "mae_Services entry = (sid, x) # rest" using assms(4) by (cases "mae_Services entry") auto
  have statuses: "spec_pending_services (view_entry entry) sid = map_option mse_Status (gm_get (mae_Services entry) sid)" for sid
    using assms(3) by (auto simp: spec_pending_services_def view_entry_def view_service_def split: option.split)
  have "(fid, mae_Status entry, spec_pending_services (view_entry entry)) \<in> spec_pending (view p)"
    unfolding spec_pending_def mem_Collect_eq
    by (intro exI [of _ fid] exI [of _ "view_entry entry"] conjI exI [of _ sid])
      (simp_all add: statuses services, simp_all add: view_def view_entry_def assms(2))
  then obtain n where "n \<in> set (fst (GetPendingNotifications p))"
    and "(fid, mae_Status entry, spec_pending_services (view_entry entry)) = view_notification n"
    unfolding memory_pending [OF assms(1), symmetric] by blast
  then show ?thesis
    by (intro exI [of _ n]) (simp add: view_notification_def fun_eq_iff statuses)
qed

text \<open>A fragment without services is never part of a round.\<close>

lemma no_services_silent:
  assumes "monitored_inv p" and "gm_get p fid = Some entry" and "mae_Services entry = []"
    and "n \<in> set (fst (GetPendingNotifications p))"
  shows "mae_FragmentId n \<noteq> fid"
proof
  assume id: "mae_FragmentId n = fid"
  have "view_notification n \<in> spec_pending (view p)"
    using assms(4) unfolding memory_pending [OF assms(1), symmetric] by blast
  then obtain e sid where "view p fid = Some e" "spec_pending_services e sid \<noteq> None"
    using id by (auto simp: spec_pending_def view_notification_def)
  then show False
    using assms(2,3) by (auto simp: view_def view_entry_def spec_pending_services_def)
qed

text \<open>C7: A deployment that fails is reported if its fragment has services: when processing a request ends with an error
  after the namespace of the application was found, on any cluster and whatever the other goroutines do, its fragment, if
  it is monitored, has the status error. When it has services and as long as that status is news, the next round
  tells it, with the statuses of all services of the fragment; when it has none, no round tells anything of it.\<close>

theorem failed_request_reported:
  assumes "getNetworkDecorator (NewIstioDecorator inCluster newIstio newKube) cfg = Inr nd"
    and "env_keeps env" and "monitored_inv (fst s)" and "dfr_Fragment request = Some fragment"
    and "GetApplicationNamespace k (df_OrganizationId fragment) (df_AppInstanceId fragment) (dfr_NumRetry request) s = Done (Inr ns, s1)"
    and "processRequest mg (KubernetesExecutor cfg k sf nd) env request s = Done (Some e, s')"
    and "gm_get (fst s') (df_FragmentId fragment) = Some entry"
  shows "mae_Status entry = FRAGMENT_ERROR \<and>
    (mae_Services entry = [] \<longrightarrow>
      df_FragmentId fragment \<notin> mae_FragmentId ` set (fst (GetPendingNotifications (fst s')))) \<and>
    (mae_NewStatus entry \<and> mae_Services entry \<noteq> [] \<longrightarrow>
      (\<exists>n. n \<in> set (fst (GetPendingNotifications (fst s'))) \<and> mae_FragmentId n = df_FragmentId fragment \<and>
        mae_Status n = FRAGMENT_ERROR \<and>
        (\<forall>sid. map_option mse_Status (gm_get (mae_Services n) sid) = map_option mse_Status (gm_get (mae_Services entry) sid))))"
proof -
  let ?ex = "KubernetesExecutor cfg k sf nd"
  have found: "ex_GetApplicationNamespace ?ex (df_OrganizationId fragment) (df_AppInstanceId fragment) (dfr_NumRetry request) s =
      Done (Inr ns, s1)"
    using assms(5) by (simp add: KubernetesExecutor_def)
  obtain err p where "fst s' = SetEntryStatus (df_FragmentId fragment) FRAGMENT_ERROR err p"
    using processRequest_marks [OF assms(4) found assms(6)] by blast
  then have status: "mae_Status entry = FRAGMENT_ERROR"
    using assms(7) by (auto simp: SetEntryStatus_def entry_set_status_def Let_def gomap_simps split: option.splits)
  have "store_ok s'"
    using keepsD [OF decorator_contract.requests_keep [OF configured_decorator_keeps [OF assms(1)] assms(2)] _ assms(6)] assms(3)
    by (simp add: store_ok_def)
  then have inv: "monitored_inv (fst s')" by (simp add: store_ok_def)
  have silent: "df_FragmentId fragment \<notin> mae_FragmentId ` set (fst (GetPendingNotifications (fst s')))"
    if "mae_Services entry = []"
    by (intro notI, elim imageE) (metis no_services_silent [OF inv assms(7) that])
  show ?thesis
  proof (intro conjI impI)
    assume "mae_NewStatus entry \<and> mae_Services entry \<noteq> []"
    from new_status_told [OF inv assms(7) conjunct1 [OF this] conjunct2 [OF this], unfolded status]
    show "\<exists>n. n \<in> set (fst (GetPendingNotifications (fst s'))) \<and> mae_FragmentId n = df_FragmentId fragment \<and>
        mae_Status n = FRAGMENT_ERROR \<and>
        (\<forall>sid. map_option mse_Status (gm_get (mae_Services n) sid) = map_option mse_Status (gm_get (mae_Services entry) sid))" .
  qed (fact status, rule silent)
qed

text \<open>A cluster that has a namespace for the application but takes no objects, where the fragment of the sample is deployed again.\<close>

definition broken_kube :: "unit kube" where
  "broken_kube = \<lparr>
     kube_create = (\<lambda>obj w. (Inl (ApiError ApiOther ''quota''), w)),
     kube_get = (\<lambda>kind ns n w. Inl (ApiError ApiNotFound [])),
     kube_update = (\<lambda>obj w. (None, w)), kube_delete = (\<lambda>kind ns n w. (None, w)),
     kube_list_namespaces = (\<lambda>sel w. Inr [\<lparr>ni_Name = ''ns'', ni_Active = True\<rparr>]), kube_list_services = (\<lambda>ns sel w. Inr []),
     kube_delete_collection = (\<lambda>kind ns sel w. (None, w)), kube_num_nodes = (\<lambda>w. 1)\<rparr>"

lemma broken_run:
  "\<exists>e. processRequest sample_manager
      (KubernetesExecutor sample_config broken_kube no_fabric (ZerotierDecorator ''nalej/zt-agent'' sample_config))
      timeout_environment (sample_request RollbackPolicy_NONE) (sample_store, ()) =
    Done (Some e, (SetEntryStatus ''f'' FRAGMENT_ERROR (Some (ApiError ApiOther ''quota'')) sample_store, ()))"
  by (simp add: processRequest_def sample_request_def sample_fragment_def KubernetesExecutor_def GetApplicationNamespace_def
      broken_kube_def PrepareEnvironmentForDeployment_def Namespace_Build_def NewDeployableNamespace_def ZerotierDecorator_def
      request_metadata_def Namespace_exists_def namespace_fuel_def numeral_2_eq_2 prog_run lift_outcome_def Let_def)

lemma broken_entry:
  "gm_get (SetEntryStatus ''f'' FRAGMENT_ERROR err sample_store) ''f'' = Some (entry_set_status FRAGMENT_ERROR err sample_monitored_entry)"
  by (simp add: SetEntryStatus_def sample_store_eq)

theorem failed_request_reported_witness:
  "\<exists>e n. processRequest sample_manager
      (KubernetesExecutor sample_config broken_kube no_fabric (ZerotierDecorator ''nalej/zt-agent'' sample_config))
      timeout_environment (sample_request RollbackPolicy_NONE) (sample_store, ()) =
    Done (Some e, (SetEntryStatus ''f'' FRAGMENT_ERROR (Some (ApiError ApiOther ''quota'')) sample_store, ())) \<and>
    n \<in> set (fst (GetPendingNotifications (SetEntryStatus ''f'' FRAGMENT_ERROR (Some (ApiError ApiOther ''quota'')) sample_store))) \<and>
    mae_Status n = FRAGMENT_ERROR"
proof -
  let ?nd = "ZerotierDecorator ''nalej/zt-agent'' sample_config"
  have nd: "getNetworkDecorator (NewIstioDecorator (Inr ()) (\<lambda>_. Inr sample_istio) (\<lambda>_. Inr broken_kube)) sample_config = Inr ?nd"
    by (simp add: getNetworkDecorator_def sample_config_def)
  have env: "env_keeps (timeout_environment :: unit environment)"
    by (simp add: env_keeps_def timeout_environment_def)
  have request: "dfr_Fragment (sample_request RollbackPolicy_NONE) = Some sample_fragment"
    by (simp add: sample_request_def)
  have namespace: "GetApplicationNamespace broken_kube (df_OrganizationId sample_fragment) (df_AppInstanceId sample_fragment)
      (dfr_NumRetry (sample_request RollbackPolicy_NONE)) (sample_store, ()) = Done (Inr ''ns'', (sample_store, ()))"
    by (simp add: GetApplicationNamespace_def broken_kube_def prog_run)
  obtain e where run: "processRequest sample_manager (KubernetesExecutor sample_config broken_kube no_fabric ?nd)
      timeout_environment (sample_request RollbackPolicy_NONE) (sample_store, ()) =
    Done (Some e, (SetEntryStatus ''f'' FRAGMENT_ERROR (Some (ApiError ApiOther ''quota'')) sample_store, ()))"
    using broken_run by blast
  have inv: "monitored_inv (fst (sample_store, ()))" using monitor_reachable_inv [OF sample_reachable] by simp
  have entry: "gm_get (fst (SetEntryStatus ''f'' FRAGMENT_ERROR (Some (ApiError ApiOther ''quota'')) sample_store, ()))
      (df_FragmentId sample_fragment) = Some (entry_set_status FRAGMENT_ERROR (Some (ApiError ApiOther ''quota'')) sample_monitored_entry)"
    by (simp add: broken_entry sample_fragment_def)
  show ?thesis
    using failed_request_reported [OF nd env inv request namespace run entry] run
    by (auto simp: entry_set_status_def sample_monitored_entry_def sample_entry_def Let_def)
qed

section \<open>Undeploying an application\<close>

text \<open>C14: Undeploying an application forgets it: whether or not its namespace could be deleted, the next round of
  notifications drops every fragment of the application from the store and keeps the fragments of the others
  as they are, but for those that are terminating themselves.\<close>

theorem undeploy_forgets_app:
  assumes "ValidUndeployRequest request" and "monitored_inv (fst s)"
    and "Handler_Undeploy (KubernetesExecutor cfg k sf nd) (Some request) s = Done (err, s')"
  shows "gm_get (snd (GetPendingNotifications (fst s'))) fid =
    (case gm_get (fst s) fid of
       None \<Rightarrow> None
     | Some e \<Rightarrow> if mae_AppInstanceId e = ur_AppInstanceId request \<or> mae_Status e = FRAGMENT_TERMINATING then None else Some e)"
proof -
  let ?same = "\<lambda>t :: _ st. fst t = fst s"
  have "keeps ?same (delete_object k kind ns name)" for kind ns name
    by (auto simp: keeps_def delete_object_def split: prod.splits)
  then have same: "keeps ?same (UndeployNamespace k nd org app)" for org app
    unfolding UndeployNamespace_def Namespace_Undeploy_def Let_def
    by (auto intro!: keeps_intros keeps_for_all_logged split: prod.split sum.split)
  obtain t where t: "UndeployNamespace k nd (ur_OrganizationId request) (ur_AppInstanceId request) s = Done (err, t)"
    and s': "fst s' = SetAppStatus (ur_AppInstanceId request) FRAGMENT_TERMINATING None (fst t)"
    using assms(1,3)
    by (auto simp: Handler_Undeploy_def Undeploy_def KubernetesExecutor_def and_then_Done_iff on_store_def ret_def)
  have "fst t = fst s" by (rule keepsD [OF same refl t])
  then show ?thesis
    unfolding s' by (simp only: terminated_app_is_removed [OF assms(2)])
qed

text \<open>The cluster does not list its namespaces.\<close>

theorem undeploy_forgets_app_witness:
  "\<exists>e s'. Handler_Undeploy (KubernetesExecutor sample_config (broken_kube\<lparr>kube_list_namespaces := \<lambda>sel w. Inl (ApiError ApiOther [])\<rparr>)
      no_fabric (ZerotierDecorator ''nalej/zt-agent'' sample_config))
      (Some \<lparr>ur_OrganizationId = ''organization-000000'', ur_AppInstanceId = ''a''\<rparr>) (sample_store, ()) = Done (Some e, s') \<and>
    gm_get (snd (GetPendingNotifications (fst s'))) ''f'' = None"
proof -
  let ?k = "broken_kube\<lparr>kube_list_namespaces := \<lambda>sel w. Inl (ApiError ApiOther [])\<rparr>"
  let ?r = "\<lparr>ur_OrganizationId = ''organization-000000'', ur_AppInstanceId = ''a''\<rparr>"
  have run: "Handler_Undeploy (KubernetesExecutor sample_config ?k no_fabric (ZerotierDecorator ''nalej/zt-agent'' sample_config))
      (Some ?r) (sample_store, ()) =
      Done (Some (DError Generic ''impossible to undeploy Namespace''), (SetAppStatus ''a'' FRAGMENT_TERMINATING None sample_store, ()))"
    by (simp add: Handler_Undeploy_def Undeploy_def ValidUndeployRequest_def KubernetesExecutor_def UndeployNamespace_def
        Namespace_Build_def NewDeployableNamespace_def ZerotierDecorator_def Namespace_Undeploy_def
        prog_run lift_outcome_def Let_def)
  have valid: "ValidUndeployRequest ?r" by (simp add: ValidUndeployRequest_def)
  have inv: "monitored_inv (fst (sample_store, ()))" using monitor_reachable_inv [OF sample_reachable] by simp
  show ?thesis
    using undeploy_forgets_app [OF valid inv run, of "''f''"] run sample_get
    by (auto simp: sample_monitored_entry_def sample_entry_def)
qed

end
