(* ===== verification/DeployableIds.thy ===== *)
theory DeployableIds
  imports KubernetesExecutor
begin

text \<open>
  \<^verbatim>\<open>GetId\<close> of the interface \<^verbatim>\<open>Deployable\<close> (\<^verbatim>\<open>pkg/executor/executor.go\<close>), one method per deployable. The other
  methods of the interface, \<^verbatim>\<open>Build\<close>, \<^verbatim>\<open>Deploy\<close> and \<^verbatim>\<open>Undeploy\<close>, stand with the data of each deployable.
\<close>

abbreviation stage_id :: "deployment_metadata \<Rightarrow> string" where
  "stage_id data \<equiv> ds_StageId (dm_Stage data)"

definition ConfigMaps_GetId :: "deployable_configmaps \<Rightarrow> string" where
  "ConfigMaps_GetId dc = stage_id (dcm_data dc)"

definition Secrets_GetId :: "deployable_secrets \<Rightarrow> string" where
  "Secrets_GetId ds = stage_id (dse_data ds)"

definition NalejSecret_GetId :: "deployable_nalej_secret \<Rightarrow> string" where
  "NalejSecret_GetId ds = NalejPublicRegistryName"

definition Storage_GetId :: "deployable_storage \<Rightarrow> string" where
  "Storage_GetId ds = stage_id (dst_data ds)"

definition Deployments_GetId :: "deployable_deployments \<Rightarrow> string" where
  "Deployments_GetId d = stage_id (dd_Data d)"

definition Services_GetId :: "deployable_services \<Rightarrow> string" where
  "Services_GetId d = stage_id (dsv_Data d)"

definition DeviceGroups_GetId :: "deployable_device_groups \<Rightarrow> string" where
  "DeviceGroups_GetId d = stage_id (ddg_data d)"

definition Ingress_GetId :: "deployable_ingress \<Rightarrow> string" where
  "Ingress_GetId di = stage_id (di_Data di)"

definition LoadBalancers_GetId :: "deployable_load_balancer \<Rightarrow> string" where
  "LoadBalancers_GetId dl = stage_id (dlb_data dl)"

definition Namespace_GetId :: "deployable_namespace \<Rightarrow> string" where
  "Namespace_GetId n = stage_id (dn_data n)"

definition Stage_GetId :: "deployable_stage \<Rightarrow> string" where
  "Stage_GetId d = stage_id (dks_data d)"

lemmas GetId_defs = ConfigMaps_GetId_def Secrets_GetId_def Storage_GetId_def Deployments_GetId_def Services_GetId_def
  DeviceGroups_GetId_def Ingress_GetId_def LoadBalancers_GetId_def Stage_GetId_def

text \<open>The parts of a new stage all have the id of the stage, also once those without a decorator are built.\<close>

lemma new_stage_ids:
  fixes cfg k w data
  defines "d \<equiv> NewDeployableKubernetesStage cfg k w data"
  shows "Stage_GetId d = stage_id data"
    "\<forall>id \<in> {Deployments_GetId (dks_Deployments d), Services_GetId (dks_Services d), Ingress_GetId (dks_Ingresses d),
      ConfigMaps_GetId (dks_Configmaps d), Secrets_GetId (dks_Secrets d), Storage_GetId (dks_Storage d),
      DeviceGroups_GetId (dks_DeviceGroupServices d), LoadBalancers_GetId (dks_LoadBalancers d)}. id = Stage_GetId d"
  by (simp_all add: d_def GetId_defs NewDeployableKubernetesStage_def NewDeployableDeployment_def NewDeployableService_def
      NewDeployableIngress_def NewDeployableConfigMaps_def NewDeployableSecrets_def NewDeployableStorage_def
      NewDeployableDeviceGroups_def NewDeployableLoadBalancer_def)

lemma fold_keeps: "(\<And>x y. g (f x y) = g y) \<Longrightarrow> g (fold f xs y) = g y"
  by (induction xs arbitrary: y) auto

lemma ConfigMaps_Build_id: "ConfigMaps_GetId (ConfigMaps_Build dc) = ConfigMaps_GetId dc"
  unfolding ConfigMaps_Build_def
  by (rule fold_keeps) (simp add: ConfigMaps_GetId_def split: option.split)

lemma Secrets_Build_id: "Secrets_GetId (Secrets_Build ds) = Secrets_GetId ds"
  unfolding Secrets_Build_def
  by (rule fold_keeps) (simp add: Secrets_GetId_def Let_def)

end
