(* ===== verification/Proxy.thy ===== *)
theory Proxy
  imports Login Entities
begin

text \<open>
  \<^verbatim>\<open>pkg/proxy\<close>: the requests of the proxies are passed on to the cluster API with the credentials of the
  login helper. The client is a parameter; \<open>'i\<close>, \<open>'o\<close> and \<open>'z\<close> are the types of the three requests,
  which the code does not look into.
\<close>

record ('i, 'o, 'z, 'v) network_manager_client =
  nm_RegisterInboundServiceProxy :: "rpc_context \<Rightarrow> 'i \<Rightarrow> (go_error + unit, 'v) prog"
  nm_RegisterOutboundProxy :: "rpc_context \<Rightarrow> 'o \<Rightarrow> (go_error + unit, 'v) prog"
  nm_RegisterZTConnection :: "rpc_context \<Rightarrow> 'z \<Rightarrow> (go_error + unit, 'v) prog"

definition generic_error :: "go_error + unit \<Rightarrow> go_error option" where
  "generic_error r = (case r of Inl err \<Rightarrow> Some (DError Generic (err_text err)) | Inr _ \<Rightarrow> None)"

definition RegisterInboundServiceProxy ::
  "('k, 'c, 'v) login_tools \<Rightarrow> ('i, 'o, 'z, 'v) network_manager_client \<Rightarrow> 'i \<Rightarrow> (go_error option, 'v session) prog" where
  "RegisterInboundServiceProxy t client request =
     and_then (call_with_relogin t (\<lambda>ctx. nm_RegisterInboundServiceProxy client ctx request)) (\<lambda>r. ret (generic_error r))"

definition RegisterOutboundProxy ::
  "('k, 'c, 'v) login_tools \<Rightarrow> ('i, 'o, 'z, 'v) network_manager_client \<Rightarrow> 'o \<Rightarrow> (go_error option, 'v session) prog" where
  "RegisterOutboundProxy t client request =
     and_then (call_with_relogin t (\<lambda>ctx. nm_RegisterOutboundProxy client ctx request)) (\<lambda>r. ret (generic_error r))"

definition RegisterZTConnection ::
  "('k, 'c, 'v) login_tools \<Rightarrow> ('i, 'o, 'z, 'v) network_manager_client \<Rightarrow> 'z \<Rightarrow> (go_error option, 'v session) prog" where
  "RegisterZTConnection t client request =
     and_then (call_with_relogin t (\<lambda>ctx. nm_RegisterZTConnection client ctx request)) (\<lambda>r. ret (generic_error r))"

text \<open>The handlers turn the outcome of the manager into the answer of the call.\<close>

definition success_or_error :: "go_error option \<Rightarrow> go_error + unit" where
  "success_or_error err = (case err of Some e \<Rightarrow> Inl e | None \<Rightarrow> Inr ())"

definition handle_RegisterInboundServiceProxy ::
  "('k, 'c, 'v) login_tools \<Rightarrow> ('i, 'o, 'z, 'v) network_manager_client \<Rightarrow> 'i \<Rightarrow> (go_error + unit, 'v session) prog" where
  "handle_RegisterInboundServiceProxy t client request =
     and_then (RegisterInboundServiceProxy t client request) (\<lambda>err. ret (success_or_error err))"

definition handle_RegisterOutboundProxy ::
  "('k, 'c, 'v) login_tools \<Rightarrow> ('i, 'o, 'z, 'v) network_manager_client \<Rightarrow> 'o \<Rightarrow> (go_error + unit, 'v session) prog" where
  "handle_RegisterOutboundProxy t client request =
     and_then (RegisterOutboundProxy t client request) (\<lambda>err. ret (success_or_error err))"

definition handle_RegisterZTConnection ::
  "('k, 'c, 'v) login_tools \<Rightarrow> ('i, 'o, 'z, 'v) network_manager_client \<Rightarrow> 'z \<Rightarrow> (go_error + unit, 'v session) prog" where
  "handle_RegisterZTConnection t client request =
     and_then (RegisterZTConnection t client request) (\<lambda>err. ret (success_or_error err))"

end
