(* ===== verification/Network.thy ===== *)
theory Network
  imports Login K8sTypes Proxy
begin

text \<open>
  \<^verbatim>\<open>pkg/network\<close>: the updater, which finds the pods of an application and talks to their ZeroTier
  agents (\<^verbatim>\<open>updater.go\<close>), the manager (\<^verbatim>\<open>manager.go\<close>), the validation of routes (\<^verbatim>\<open>validator.go\<close>) and the
  handler (\<^verbatim>\<open>handler.go\<close>). The lists of the Kubernetes API and the gRPC clients of the agents are parameters.
\<close>

definition ZtRedirectorPort :: int where "ZtRedirectorPort = 1576"
definition UpdateRetries :: nat where "UpdateRetries = 3"
definition JoinRetries :: nat where "JoinRetries = 3"

definition NALEJ_ANNOTATION_CLUSTER_ID :: string where "NALEJ_ANNOTATION_CLUSTER_ID = ''cluster-id''"

datatype namespace_phase = NamespaceActive | NamespaceTerminating

record namespace_entry =
  ne_Name :: string
  ne_Labels :: labels
  ne_Phase :: namespace_phase

datatype pod_phase = PodPending | PodRunning | PodSucceeded | PodFailed | PodUnknown

record pod_entry =
  po_Name :: string
  po_Labels :: labels
  po_Containers :: "container list"
  po_Phase :: pod_phase
  po_PodIP :: string

record target_pod =
  tp_PodName :: string
  tp_ContainerName :: string
  tp_OutboundProxy :: bool
  tp_PodIP :: string

definition NewTargetPod :: "string \<Rightarrow> string \<Rightarrow> bool \<Rightarrow> string \<Rightarrow> target_pod" where
  "NewTargetPod pod c outboundProxy ip =
     \<lparr>tp_PodName = pod, tp_ContainerName = c, tp_OutboundProxy = outboundProxy, tp_PodIP = ip\<rparr>"

record zt_route =
  rt_Vsa :: string
  rt_RedirectToVpn :: string
  rt_Drop :: bool

text \<open>
  \<open>'g\<close> is a client of an agent. The deadline of the context that all attempts share is a matter of
  the calls of the agent.
\<close>

record ('g, 'v) agent_tools =
  at_ListNamespaces :: "labels \<Rightarrow> 'v \<Rightarrow> go_error + namespace_entry list"
  at_ListPods :: "string \<Rightarrow> 'v \<Rightarrow> go_error + pod_entry list"
  at_Dial :: "string \<Rightarrow> (go_error + 'g, 'v) prog"
  at_SetRoute :: "'g \<Rightarrow> zt_route \<Rightarrow> (go_error option, 'v) prog"
  at_JoinZTNetwork :: "'g \<Rightarrow> string \<Rightarrow> bool \<Rightarrow> (go_error option, 'v) prog"
  at_LeaveZTNetwork :: "'g \<Rightarrow> string \<Rightarrow> (go_error option, 'v) prog"
  at_Sleep :: "'v \<Rightarrow> 'v"

section \<open>Finding namespace and pods\<close>

definition app_selector :: "string \<Rightarrow> string \<Rightarrow> labels" where
  "app_selector organizationID appInstanceID =
     [(NALEJ_ANNOTATION_ORGANIZATION_ID, organizationID), (NALEJ_ANNOTATION_APP_INSTANCE_ID, appInstanceID)]"

definition CheckIfNamespaceExists ::
  "('g, 'v) agent_tools \<Rightarrow> string \<Rightarrow> string \<Rightarrow> 'v \<Rightarrow> bool \<times> go_error option" where
  "CheckIfNamespaceExists t organizationID appInstanceID v =
     (case at_ListNamespaces t (app_selector organizationID appInstanceID) v of
        Inl err \<Rightarrow> (False, Some (DError Generic ''cannot list namespaces''))
      | Inr [] \<Rightarrow> (False, None)
      | Inr (_ # _) \<Rightarrow> (True, None))"

text \<open>
  The loop stores the address of its variable, not the element: at the end the address, when it was
  stored at all, leads to the last element of the list.
\<close>

fun target_loop :: "namespace_entry list \<Rightarrow> bool \<Rightarrow> namespace_entry option \<Rightarrow> bool \<times> namespace_entry option" where
  "target_loop [] stored var = (stored, var)"
| "target_loop (ns # rest) stored var =
     (if ne_Phase ns \<noteq> NamespaceTerminating then target_loop rest True (Some ns)
      else target_loop rest stored (Some ns))"

definition GetTargetNamespace ::
  "('g, 'v) agent_tools \<Rightarrow> string \<Rightarrow> string \<Rightarrow> 'v \<Rightarrow> string \<times> bool \<times> go_error option" where
  "GetTargetNamespace t organizationID appInstanceID v =
     (case at_ListNamespaces t (app_selector organizationID appInstanceID) v of
        Inl err \<Rightarrow> ([], False, Some (DError Generic ''cannot list namespaces''))
      | Inr items \<Rightarrow>
          if items = [] then ([], False, None)
          else (case target_loop items False None of
             (True, Some targetNamespace) \<Rightarrow> (ne_Name targetNamespace, True, None)
           | _ \<Rightarrow> ([], False, Some (DError Internal ''running namespaces not found''))))"

fun env_lookup :: "env_var list \<Rightarrow> string \<Rightarrow> bool \<times> string" where
  "env_lookup [] name = (False, [])"
| "env_lookup (v # rest) name = (if env_Name v = name then (True, env_Value v) else env_lookup rest name)"

definition hasEnvVar :: "container \<Rightarrow> string \<Rightarrow> bool \<times> string" where
  "hasEnvVar c name = env_lookup (c_Env c) name"

text \<open>\<^verbatim>\<open>strconv.ParseBool\<close>.\<close>

definition ParseBool :: "string \<Rightarrow> bool option" where
  "ParseBool s =
     (if s \<in> set [''1'', ''t'', ''T'', ''TRUE'', ''true'', ''True''] then Some True
      else if s \<in> set [''0'', ''f'', ''F'', ''FALSE'', ''false'', ''False''] then Some False
      else None)"

text \<open>The value of the proxy variable of a container of a pod that did not fail.\<close>

definition proxy_flag :: "pod_entry \<Rightarrow> container \<Rightarrow> bool option" where
  "proxy_flag pod c =
     (if po_Phase pod = PodFailed then None
      else (case hasEnvVar c NALEJ_ENV_IS_PROXY of
         (True, valueVar) \<Rightarrow> ParseBool valueVar
       | (False, _) \<Rightarrow> None))"

definition has_label :: "pod_entry \<Rightarrow> string \<Rightarrow> string \<Rightarrow> bool" where
  "has_label pod name value \<longleftrightarrow> gm_get (po_Labels pod) name = Some value"

definition service_targets :: "pod_entry \<Rightarrow> target_pod list" where
  "service_targets pod = concat (map (\<lambda>c. case proxy_flag pod c of
       Some False \<Rightarrow> [NewTargetPod (po_Name pod) (c_Name c) False (po_PodIP pod)]
     | _ \<Rightarrow> []) (po_Containers pod))"

definition all_targets :: "pod_entry \<Rightarrow> target_pod list" where
  "all_targets pod = concat (map (\<lambda>c. case proxy_flag pod c of
       Some isProxy \<Rightarrow> [NewTargetPod (po_Name pod) (c_Name c) isProxy (po_PodIP pod)]
     | None \<Rightarrow> []) (po_Containers pod))"

definition GetPodsForApp ::
  "('g, 'v) agent_tools \<Rightarrow> string \<Rightarrow> string \<Rightarrow> string \<Rightarrow> string \<Rightarrow> string \<Rightarrow> 'v \<Rightarrow> go_error + target_pod list" where
  "GetPodsForApp t namespace organizationID appInstanceID serviceGroupID serviceID v =
     (case at_ListPods t namespace v of
        Inl err \<Rightarrow> Inl (DError Generic ''cannot list pods inside a namespace'')
      | Inr items \<Rightarrow> Inr (concat (map (\<lambda>pod.
          if has_label pod NALEJ_ANNOTATION_ORGANIZATION_ID organizationID \<and>
             has_label pod NALEJ_ANNOTATION_APP_INSTANCE_ID appInstanceID \<and>
             has_label pod NALEJ_ANNOTATION_SERVICE_GROUP_ID serviceGroupID \<and>
             has_label pod NALEJ_ANNOTATION_SERVICE_ID serviceID
          then service_targets pod else []) items)))"

definition GetAllPodsForApp ::
  "('g, 'v) agent_tools \<Rightarrow> string \<Rightarrow> string \<Rightarrow> string \<Rightarrow> string \<Rightarrow> 'v \<Rightarrow> go_error + target_pod list" where
  "GetAllPodsForApp t namespace organizationID appInstanceID serviceID v =
     (case at_ListPods t namespace v of
        Inl err \<Rightarrow> Inl (DError Generic ''cannot list pods inside a namespace'')
      | Inr items \<Rightarrow> Inr (concat (map (\<lambda>pod.
          if has_label pod NALEJ_ANNOTATION_ORGANIZATION_ID organizationID \<and>
             has_label pod NALEJ_ANNOTATION_APP_INSTANCE_ID appInstanceID \<and>
             has_label pod NALEJ_ANNOTATION_SERVICE_ID serviceID
          then all_targets pod else []) items)))"

section \<open>Sending to the agents\<close>

definition getSidecarClient :: "('g, 'v) agent_tools \<Rightarrow> string \<Rightarrow> (go_error + 'g, 'v) prog" where
  "getSidecarClient t targetIP =
     and_then (at_Dial t (targetIP @ '':'' @ show_int ZtRedirectorPort)) (\<lambda>r. ret (case r of
       Inl err \<Rightarrow> Inl (DError Generic ''cannot create connection with unified logging coordinator'')
     | Inr client \<Rightarrow> Inr client))"

definition getApplicationNetworkClient :: "('g, 'v) agent_tools \<Rightarrow> string \<Rightarrow> (go_error + 'g, 'v) prog" where
  "getApplicationNetworkClient t targetIP =
     and_then (at_Dial t (targetIP @ '':'' @ show_int ZtRedirectorPort)) (\<lambda>r. ret (case r of
       Inl err \<Rightarrow> Inl (DError Generic ''cannot create connection with unified logging coordinator'')
     | Inr client \<Rightarrow> Inr client))"

text \<open>The loop over the attempts, with the number of attempts left; the result is \<^verbatim>\<open>done\<close>.\<close>

fun send_attempts :: "('v \<Rightarrow> 'v) \<Rightarrow> (go_error option, 'v) prog \<Rightarrow> nat \<Rightarrow> (bool, 'v) prog" where
  "send_attempts sleep call 0 = ret False"
| "send_attempts sleep call (Suc left) =
     and_then call (\<lambda>rerr.
       if rerr \<noteq> None then and_then (\<lambda>v. Done ((), sleep v)) (\<lambda>_. send_attempts sleep call left)
       else ret True)"

definition update_pod_route :: "('g, 'v) agent_tools \<Rightarrow> zt_route \<Rightarrow> target_pod \<Rightarrow> (go_error option, 'v) prog" where
  "update_pod_route t route target =
     and_then (getSidecarClient t (tp_PodIP target)) (\<lambda>r. case r of
       Inl err \<Rightarrow> ret (Some err)
     | Inr client \<Rightarrow> and_then (send_attempts (at_Sleep t) (at_SetRoute t client route) UpdateRetries) (\<lambda>done.
         if done then ret None else ret (Some (DError Generic ''cannot update route on pod''))))"

definition UpdatePodsRoute ::
  "('g, 'v) agent_tools \<Rightarrow> target_pod list \<Rightarrow> zt_route \<Rightarrow> (go_error option, 'v) prog" where
  "UpdatePodsRoute t targetPods route = for_each (update_pod_route t route) targetPods"

definition JoinMustBeSent :: "target_pod \<Rightarrow> bool \<Rightarrow> bool" where
  "JoinMustBeSent pod isInbound \<longleftrightarrow>
     (isInbound \<and> tp_OutboundProxy pod) \<or> (\<not> isInbound \<and> \<not> tp_OutboundProxy pod)"

definition send_join :: "('g, 'v) agent_tools \<Rightarrow> string \<Rightarrow> bool \<Rightarrow> target_pod \<Rightarrow> (go_error option, 'v) prog" where
  "send_join t networkId isInbound target =
     (if JoinMustBeSent target isInbound then
        and_then (getApplicationNetworkClient t (tp_PodIP target)) (\<lambda>r. case r of
          Inl err \<Rightarrow> ret (Some err)
        | Inr client \<Rightarrow>
            and_then (send_attempts (at_Sleep t) (at_JoinZTNetwork t client networkId isInbound) JoinRetries) (\<lambda>done.
              if done then ret None else ret (Some (DError Generic ''cannot join into zt-network on pod''))))
      else ret None)"

definition SendJoinZTConnection ::
  "('g, 'v) agent_tools \<Rightarrow> target_pod list \<Rightarrow> string \<Rightarrow> bool \<Rightarrow> (go_error option, 'v) prog" where
  "SendJoinZTConnection t targetPods networkId isInbound = for_each (send_join t networkId isInbound) targetPods"

definition send_leave :: "('g, 'v) agent_tools \<Rightarrow> string \<Rightarrow> bool \<Rightarrow> target_pod \<Rightarrow> (go_error option, 'v) prog" where
  "send_leave t networkId isInbound target =
     (if JoinMustBeSent target isInbound then
        and_then (getApplicationNetworkClient t (tp_PodIP target)) (\<lambda>r. case r of
          Inl err \<Rightarrow> ret (Some err)
        | Inr client \<Rightarrow>
            and_then (send_attempts (at_Sleep t) (at_LeaveZTNetwork t client networkId) JoinRetries) (\<lambda>done.
              if done then ret None else ret (Some (DError Generic ''cannot leave zt-network on pod''))))
      else ret None)"

definition SendLeaveZTConnection ::
  "('g, 'v) agent_tools \<Rightarrow> target_pod list \<Rightarrow> string \<Rightarrow> bool \<Rightarrow> (go_error option, 'v) prog" where
  "SendLeaveZTConnection t targetPods networkId isInbound = for_each (send_leave t networkId isInbound) targetPods"

section \<open>The interface of the updater\<close>

record 'v network_updater =
  nu_CheckIfNamespaceExists :: "string \<Rightarrow> string \<Rightarrow> 'v \<Rightarrow> bool \<times> go_error option"
  nu_GetTargetNamespace :: "string \<Rightarrow> string \<Rightarrow> 'v \<Rightarrow> string \<times> bool \<times> go_error option"
  nu_GetPodsForApp :: "string \<Rightarrow> string \<Rightarrow> string \<Rightarrow> string \<Rightarrow> string \<Rightarrow> 'v \<Rightarrow> go_error + target_pod list"
  nu_GetAllPodsForApp :: "string \<Rightarrow> string \<Rightarrow> string \<Rightarrow> string \<Rightarrow> 'v \<Rightarrow> go_error + target_pod list"
  nu_UpdatePodsRoute :: "target_pod list \<Rightarrow> zt_route \<Rightarrow> (go_error option, 'v) prog"
  nu_SendJoinZTConnection :: "target_pod list \<Rightarrow> string \<Rightarrow> bool \<Rightarrow> (go_error option, 'v) prog"
  nu_SendLeaveZTConnection :: "target_pod list \<Rightarrow> string \<Rightarrow> bool \<Rightarrow> (go_error option, 'v) prog"

definition NewKubernetesNetworkUpdater :: "('g, 'v) agent_tools \<Rightarrow> 'v network_updater" where
  "NewKubernetesNetworkUpdater t = \<lparr>
     nu_CheckIfNamespaceExists = CheckIfNamespaceExists t,
     nu_GetTargetNamespace = GetTargetNamespace t,
     nu_GetPodsForApp = GetPodsForApp t,
     nu_GetAllPodsForApp = GetAllPodsForApp t,
     nu_UpdatePodsRoute = UpdatePodsRoute t,
     nu_SendJoinZTConnection = SendJoinZTConnection t,
     nu_SendLeaveZTConnection = SendLeaveZTConnection t\<rparr>"

end
