(* ===== verification/ExpireLogs.thy ===== *)
theory ExpireLogs
  imports Handler Network
begin

text \<open>
  The goroutine that undeploying an application starts, in \<^verbatim>\<open>pkg/handler/manager.go\<close>: it waits until the
  namespace of the application is gone and then asks the unified logging to expire its logs. The client
  of the logging service is a parameter. What else happens on the cluster before each tick of the
  ticker, or before the deadline, is given by a schedule.
\<close>

definition expireLogs ::
  "(string \<Rightarrow> string \<Rightarrow> (go_error option, 'v) prog) \<Rightarrow> string \<Rightarrow> string \<Rightarrow> (unit, 'v) prog" where
  "expireLogs expire organizationId appInstanceId =
     and_then (expire organizationId appInstanceId) (\<lambda>ulErr. ret ())"

text \<open>An error of the check is logged, and its answer used all the same. The call waits when the schedule ends.\<close>

fun checkNamespaceToExpireLogs ::
  "'v network_updater \<Rightarrow> (string \<Rightarrow> string \<Rightarrow> (go_error option, 'v) prog) \<Rightarrow> undeploy_request \<Rightarrow>
   (('v \<Rightarrow> 'v) \<times> signal) list \<Rightarrow> (unit, 'v) prog" where
  "checkNamespaceToExpireLogs u expire request [] v = Blocked"
| "checkNamespaceToExpireLogs u expire request ((between, Timeout) # rest) v = Done ((), between v)"
| "checkNamespaceToExpireLogs u expire request ((between, Tick) # rest) v =
     (case nu_CheckIfNamespaceExists u (ur_OrganizationId request) (ur_AppInstanceId request) (between v) of
        (exists, err) \<Rightarrow>
          if \<not> exists then expireLogs expire (ur_OrganizationId request) (ur_AppInstanceId request) (between v)
          else checkNamespaceToExpireLogs u expire request rest (between v))"

section \<open>When logs expire\<close>

text \<open>
  The first moment at which the list of namespaces of the application is empty or cannot be read:
  the world there, or \<open>None\<close> when the deadline comes first.
\<close>

fun first_absence ::
  "('v \<Rightarrow> go_error + namespace_entry list) \<Rightarrow> (('v \<Rightarrow> 'v) \<times> signal) list \<Rightarrow> 'v \<Rightarrow> bool \<times> 'v" where
  "first_absence list [] v = (False, v)"
| "first_absence list ((between, Timeout) # rest) v = (False, between v)"
| "first_absence list ((between, Tick) # rest) v =
     (if list (between v) = Inr [] \<or> (\<exists>e. list (between v) = Inl e) then (True, between v)
      else first_absence list rest (between v))"

lemma check_absence:
  "nu_CheckIfNamespaceExists (NewKubernetesNetworkUpdater t) org app v = (exists, err) \<Longrightarrow>
    \<not> exists \<longleftrightarrow> at_ListNamespaces t (app_selector org app) v = Inr [] \<or>
      (\<exists>e. at_ListNamespaces t (app_selector org app) v = Inl e)"
  by (auto simp: NewKubernetesNetworkUpdater_def CheckIfNamespaceExists_def split: sum.splits list.splits)

text \<open>C13: The logs of an application are expired exactly when, at some tick before the deadline, the list of its
  namespaces is empty or cannot be read: an error of the cluster is taken for the end of the
  namespace, and the logs of an application that still runs are expired.\<close>

theorem logs_expire_on_error:
  assumes "signal \<in> snd ` set schedule" and "signal = Timeout"
  shows "checkNamespaceToExpireLogs (NewKubernetesNetworkUpdater t) expire request schedule v =
    (case first_absence (at_ListNamespaces t (app_selector (ur_OrganizationId request) (ur_AppInstanceId request))) schedule v of
       (True, v') \<Rightarrow> expireLogs expire (ur_OrganizationId request) (ur_AppInstanceId request) v'
     | (False, v') \<Rightarrow> Done ((), v'))"
  using assms
proof (induction schedule arbitrary: v)
  case (Cons x rest)
  obtain between sig where x: "x = (between, sig)" by (cases x)
  show ?case
  proof (cases sig)
    case Tick
    obtain exists err where "nu_CheckIfNamespaceExists (NewKubernetesNetworkUpdater t)
        (ur_OrganizationId request) (ur_AppInstanceId request) (between v) = (exists, err)"
      by (cases "nu_CheckIfNamespaceExists (NewKubernetesNetworkUpdater t)
        (ur_OrganizationId request) (ur_AppInstanceId request) (between v)")
    with check_absence [OF this] Cons x Tick show ?thesis by (simp split: bool.split prod.split)
  qed (simp add: x)
qed simp

text \<open>A cluster on which the namespace exists but whose list fails once; the world counts the expirations.\<close>

definition failing_agents :: "(unit, bool \<times> nat) agent_tools" where
  "failing_agents = \<lparr>
     at_ListNamespaces = (\<lambda>sel v. if fst v then Inr [\<lparr>ne_Name = ''ns'', ne_Labels = sel, ne_Phase = NamespaceActive\<rparr>]
       else Inl (ApiError ApiOther ''timeout'')),
     at_ListPods = (\<lambda>ns v. Inr []), at_Dial = (\<lambda>a. ret (Inr ())), at_SetRoute = (\<lambda>g r. ret None),
     at_JoinZTNetwork = (\<lambda>g n b. ret None), at_LeaveZTNetwork = (\<lambda>g n. ret None), at_Sleep = id\<rparr>"

theorem logs_expire_on_error_witness:
  "checkNamespaceToExpireLogs (NewKubernetesNetworkUpdater failing_agents)
      (\<lambda>org app v. Done (None, (fst v, Suc (snd v)))) \<lparr>ur_OrganizationId = ''org'', ur_AppInstanceId = ''a''\<rparr>
      [(id, Tick), (\<lambda>v. (False, snd v), Tick), (\<lambda>v. (True, snd v), Timeout)] (True, 0) = Done ((), (False, 1))"
  by (subst logs_expire_on_error [OF _ refl])
    (simp_all add: failing_agents_def expireLogs_def and_then_def ret_def)

end
