(* ===== verification/Servers.thy ===== *)
theory Servers
  imports Service
begin

text \<open>
  The servers of \<^verbatim>\<open>pkg/service/deployment_manager_service.go\<close>, the endpoint of the metrics in
  \<^verbatim>\<open>internal/collect\<close>, and the command that starts the service and runs them. The libraries for
  gRPC and HTTP are a parameter; what the process waits for is given by a schedule.
\<close>

section \<open>The endpoint of the metrics\<close>

record ('q, 'r, 's) collect_manager =
  cm_metricsProvider :: "'q \<Rightarrow> 's \<Rightarrow> 'r"
  cm_collector :: "'s \<Rightarrow> (go_error + (metric_type, metric) gomap) outcome"

definition collect_NewManager ::
  "('q \<Rightarrow> 's \<Rightarrow> 'r) \<Rightarrow> ('s \<Rightarrow> (go_error + (metric_type, metric) gomap) outcome) \<Rightarrow> go_error + ('q, 'r, 's) collect_manager" where
  "collect_NewManager metricsProvider collector =
     Inr \<lparr>cm_metricsProvider = metricsProvider, cm_collector = collector\<rparr>"

definition collect_Metrics :: "('q, 'r, 's) collect_manager \<Rightarrow> 'q \<Rightarrow> 's \<Rightarrow> 'r" where
  "collect_Metrics m r s = cm_metricsProvider m r s"

text \<open>
  The multiplexer of the standard library: a path that is not clean is redirected, and a pattern without a slash
  at its end is matched exactly.
\<close>

datatype 'r http_reply = Reply 'r | Redirect string | PageNotFound

definition mux_clean :: "string \<Rightarrow> string" where
  "mux_clean p = (if p = [] then ''/'' else
     (let q = (if hd p = CHR ''/'' then p else CHR ''/'' # p); np = path_clean q
      in if last q = CHR ''/'' \<and> np \<noteq> ''/'' then np @ ''/'' else np))"

definition mux_serve :: "(string, 'q \<Rightarrow> 's \<Rightarrow> 'r) gomap \<Rightarrow> string \<Rightarrow> 'q \<Rightarrow> 's \<Rightarrow> 'r http_reply" where
  "mux_serve patterns path r s =
     (if mux_clean path \<noteq> path then Redirect (mux_clean path)
      else (case gm_get patterns path of None \<Rightarrow> PageNotFound | Some h \<Rightarrow> Reply (h r s)))"

record ('q, 'r, 's) collect_handler =
  ch_manager :: "('q, 'r, 's) collect_manager"
  ch_mux :: "(string, 'q \<Rightarrow> 's \<Rightarrow> 'r) gomap"

definition collect_handler_Metrics :: "('q, 'r, 's) collect_manager \<Rightarrow> 'q \<Rightarrow> 's \<Rightarrow> 'r" where
  "collect_handler_Metrics manager r s = collect_Metrics manager r s"

definition collect_NewHandler :: "('q, 'r, 's) collect_manager \<Rightarrow> go_error + ('q, 'r, 's) collect_handler" where
  "collect_NewHandler manager =
     Inr \<lparr>ch_manager = manager, ch_mux = [(''/metrics'', collect_handler_Metrics manager)]\<rparr>"

definition ServeHTTP :: "('q, 'r, 's) collect_handler \<Rightarrow> string \<Rightarrow> 'q \<Rightarrow> 's \<Rightarrow> 'r http_reply" where
  "ServeHTTP h path r s = mux_serve (ch_mux h) path r s"

text \<open>
  The goroutine that logs the metrics at every tick. What it wrote when the schedule ends is the result; a
  panic of the parser ends the process. An error of the collector is dropped, and its map is nil.
\<close>

definition metric_lines :: "(metric_type, metric) gomap \<Rightarrow> (int \<times> int \<times> int \<times> int \<times> metric_type) list" where
  "metric_lines metrics = map (\<lambda>(t, m). (mt_Created m, mt_Deleted m, mt_Running m, mt_Errors m, t)) metrics"

fun tickerLogger ::
  "('q, 'r, 's) collect_manager \<Rightarrow> ('s \<Rightarrow> 's) list \<Rightarrow> 's \<Rightarrow> (int \<times> int \<times> int \<times> int \<times> metric_type) list outcome" where
  "tickerLogger m [] s = Done []"
| "tickerLogger m (between # rest) s =
     bind_outcome (cm_collector m (between s)) (\<lambda>r.
     bind_outcome (tickerLogger m rest (between s)) (\<lambda>lines.
       Done ((case r of Inl err \<Rightarrow> [] | Inr metrics \<Rightarrow> metric_lines metrics) @ lines)))"

text \<open>\<^verbatim>\<open>Start\<close> starts that goroutine when messages of the debug level are written; it does not fail.\<close>

definition collect_Start :: "bool \<Rightarrow> ('q, 'r, 's) collect_manager \<Rightarrow> go_error option \<times> bool" where
  "collect_Start debugEnabled m = (None, debugEnabled)"

section \<open>The servers\<close>

datatype rpc_service =
    DeploymentManagerServer
  | DeploymentManagerNetworkServer
  | ApplicationProxyServer
  | OfflinePolicyServer
  | Reflection

record ('l, 'v) server_tools =
  sv_Listen :: "nat \<Rightarrow> 'v \<Rightarrow> (go_error + 'l) \<times> 'v"
  sv_ServeHTTP :: "'l \<Rightarrow> 'v \<Rightarrow> 'v"
  sv_ServeGRPC :: "rpc_service list \<Rightarrow> 'l \<Rightarrow> 'v \<Rightarrow> 'v"
  sv_StartTicker :: "'v \<Rightarrow> 'v"
  sv_GracefulStop :: "'v \<Rightarrow> 'v"
  sv_Shutdown :: "'v \<Rightarrow> 'v"

text \<open>What ends the wait: a signal, or the end of the goroutine of a server, with an error or without.\<close>

datatype server_event = SIGTERM | SIGINT | ServerDone "go_error option"

text \<open>\<^verbatim>\<open>log.Fatal\<close> ends the process without the deferred calls.\<close>

definition listen_on :: "('l, 'v) server_tools \<Rightarrow> nat \<Rightarrow> ('l, 'v) prog" where
  "listen_on t port v = (case sv_Listen t port v of
     (Inl err, w) \<Rightarrow> Panic ''failed to listen on port'' | (Inr listener, w) \<Rightarrow> Done (listener, w))"

definition startMetrics ::
  "('l, 'v) server_tools \<Rightarrow> bool \<Rightarrow> ('q, 'r, 's) collect_manager \<Rightarrow> 'l \<Rightarrow> (go_error option, 'v) prog" where
  "startMetrics t debugEnabled m httpListener v =
     (case collect_NewHandler m of
        Inl derr \<Rightarrow> Done (Some derr, v)
      | Inr handler \<Rightarrow>
          (case collect_Start debugEnabled m of
             (Some derr, ticking) \<Rightarrow> Done (Some derr, v)
           | (None, ticking) \<Rightarrow>
               Done (None, sv_ServeHTTP t httpListener (if ticking then sv_StartTicker t v else v))))"

definition registered_services :: "config \<Rightarrow> rpc_service list" where
  "registered_services cfg =
     [DeploymentManagerServer, DeploymentManagerNetworkServer, ApplicationProxyServer, OfflinePolicyServer] @
     (if cfg_Debug cfg then [Reflection] else [])"

definition startGRPC :: "('l, 'v) server_tools \<Rightarrow> config \<Rightarrow> 'l \<Rightarrow> (go_error option, 'v) prog" where
  "startGRPC t cfg grpcListener v = Done (None, sv_ServeGRPC t (registered_services cfg) grpcListener v)"

fun wait_servers :: "server_event list \<Rightarrow> (unit, 'v) prog" where
  "wait_servers [] v = Blocked"
| "wait_servers (ServerDone (Some err) # rest) v = Panic ''error running server''"
| "wait_servers (event # rest) v = Done ((), v)"

text \<open>The deferred calls come in the reverse order.\<close>

definition Service_Run ::
  "('l, 'v) server_tools \<Rightarrow> config \<Rightarrow> bool \<Rightarrow> ('q, 'r, 's) collect_manager \<Rightarrow> server_event list \<Rightarrow> (unit, 'v) prog" where
  "Service_Run t cfg debugEnabled m events =
     and_then (listen_on t (cfg_MetricsPort cfg)) (\<lambda>httpListener.
     and_then (listen_on t (cfg_Port cfg)) (\<lambda>grpcListener.
     and_then (startMetrics t debugEnabled m httpListener) (\<lambda>derr.
       if derr \<noteq> None then panic ''failed to start metrics server'' else
     and_then (startGRPC t cfg grpcListener) (\<lambda>derr.
       if derr \<noteq> None then panic ''failed to start gRPC server'' else
     and_then (wait_servers events) (\<lambda>_ v. Done ((), sv_Shutdown t (sv_GracefulStop t v)))))))"

section \<open>The command\<close>

text \<open>
  \<^verbatim>\<open>Run\<close> of the command: an unknown network type returns silently, an error of the start panics. The level of
  the log is set from the same flag as the configuration.
\<close>

definition command_Run ::
  "('k, 'c, 'x, 'kc, 'cl, 'w, 'v) startup \<Rightarrow> ('l, 'v) server_tools \<Rightarrow> ('q, 'r, 's) collect_manager \<Rightarrow>
   (string, string) gomap \<Rightarrow> (string, platform) gomap \<Rightarrow> platform \<Rightarrow> viper \<Rightarrow> bool \<Rightarrow> server_event list \<Rightarrow>
   (unit, flags \<times> 'v session) prog" where
  "command_Run u t m env table zero v debugLevel events =
     (case NetworkTypeFromString (vp_GetString v ''networkType'') of
        (_, Some err) \<Rightarrow> ret ()
      | (netType, None) \<Rightarrow>
          and_then (NewDeploymentManagerService u env table zero (config_of_flags v debugLevel zero netType)) (\<lambda>r. case r of
            Inl err \<Rightarrow> panic (err_text err)
          | Inr service \<Rightarrow> outside (outside (Service_Run t (dms_configuration service) debugLevel m events))))"

section \<open>How the process ends\<close>

definition clean_end :: "server_event list \<Rightarrow> bool" where
  "clean_end events = (case events of [] \<Rightarrow> False | e # _ \<Rightarrow> (\<forall>err. e \<noteq> ServerDone (Some err)))"

lemma wait_servers_Done: "wait_servers events v = Done (x, v') \<longleftrightarrow> clean_end events \<and> v' = v"
  by (cases "(events, v)" rule: wait_servers.cases) (auto simp: clean_end_def)

lemma listen_on_Done: "listen_on t port v = Done (l, w) \<longleftrightarrow> sv_Listen t port v = (Inr l, w)"
  by (auto simp: listen_on_def split: prod.splits sum.splits)

text \<open>The servers with everything they were started for.\<close>

definition running_servers :: "('l, 'v) server_tools \<Rightarrow> config \<Rightarrow> bool \<Rightarrow> 'l \<Rightarrow> 'l \<Rightarrow> 'v \<Rightarrow> 'v" where
  "running_servers t cfg debugEnabled httpListener grpcListener v =
     sv_ServeGRPC t (registered_services cfg) grpcListener
       (sv_ServeHTTP t httpListener (if debugEnabled then sv_StartTicker t v else v))"

text \<open>When the service returns at all: both listeners were opened and the servers ended cleanly, and it has
  stopped the gRPC server before it shut the metrics down.\<close>

lemma Service_Run_returns_iff:
  "Service_Run t cfg debugEnabled m events v = Done ((), v') \<longleftrightarrow>
    (\<exists>h g v1 v2. sv_Listen t (cfg_MetricsPort cfg) v = (Inr h, v1) \<and> sv_Listen t (cfg_Port cfg) v1 = (Inr g, v2) \<and>
      clean_end events \<and> v' = sv_Shutdown t (sv_GracefulStop t (running_servers t cfg debugEnabled h g v2)))"
  by (cases debugEnabled)
    (auto simp: Service_Run_def and_then_Done_iff listen_on_Done startMetrics_def startGRPC_def collect_NewHandler_def
        collect_Start_def wait_servers_Done running_servers_def)

end
