(* ===== verification/CommandLine.thy ===== *)
theory CommandLine
  imports Servers
begin

text \<open>
  What the two commands do around their work: \<^verbatim>\<open>cmd/deployment-manager/cmd/root.go\<close>,
  \<^verbatim>\<open>cmd/deployment-manager-cli\<close> and \<^verbatim>\<open>version/version.go\<close>. The libraries that parse the command line and read
  the configuration file are parameters. Both root commands have the same text.
\<close>

section \<open>Version and logging\<close>

definition GetVersionInfo :: "string \<Rightarrow> string \<Rightarrow> string" where
  "GetVersionInfo appVersion commit = ''version: '' @ appVersion @ '' commit: '' @ commit @ [char_of (10 :: nat)]"

definition RunIntegrationTests :: "(string, string) gomap \<Rightarrow> bool" where
  "RunIntegrationTests env = (gm_str env ''RUN_INTEGRATION_TEST'' = ''true'')"

datatype log_level = InfoLevel | DebugLevel
datatype log_writer = DefaultWriter | ConsoleWriter

record logging =
  lg_timeFormat :: string
  lg_level :: log_level
  lg_writer :: log_writer

definition SetupLogging :: "bool \<Rightarrow> bool \<Rightarrow> logging \<Rightarrow> logging" where
  "SetupLogging debugLevel consoleLogging l =
     (let l1 = l\<lparr>lg_level := InfoLevel\<rparr>;
          l2 = (if debugLevel then l1\<lparr>lg_level := DebugLevel\<rparr> else l1)
      in if consoleLogging then l2\<lparr>lg_writer := ConsoleWriter\<rparr> else l2)"

text \<open>The client sets the format of the time as well.\<close>

definition cli_SetupLogging :: "bool \<Rightarrow> bool \<Rightarrow> logging \<Rightarrow> logging" where
  "cli_SetupLogging debugLevel consoleLogging l = SetupLogging debugLevel consoleLogging (l\<lparr>lg_timeFormat := []\<rparr>)"

section \<open>The configuration file\<close>

text \<open>
  \<^verbatim>\<open>filepath.Abs\<close>, \<^verbatim>\<open>filepath.Base\<close> and \<^verbatim>\<open>filepath.Dir\<close>; the working directory may be unknown, and the
  empty path is then used.
\<close>

definition path_abs :: "go_error + string \<Rightarrow> string \<Rightarrow> string" where
  "path_abs cwd p = (if has_prefix p ''/'' then path_clean p
     else (case cwd of Inl err \<Rightarrow> [] | Inr wd \<Rightarrow> path_join [wd, p]))"

definition path_base :: "string \<Rightarrow> string" where
  "path_base p = (if p = [] then ''.'' else
     (let q = rev (dropWhile (\<lambda>c. c = CHR ''/'') (rev p))
      in if q = [] then ''/'' else last (split_on CHR ''/'' q)))"

definition path_dir :: "string \<Rightarrow> string" where
  "path_dir p = path_clean (rev (dropWhile (\<lambda>c. c \<noteq> CHR ''/'') (rev p)))"

text \<open>
  The name is the part of the file's name before its first dot. \<open>read\<close> looks for a configuration of
  that name in the directory.
\<close>

definition initConfig ::
  "go_error + string \<Rightarrow> (string \<Rightarrow> string \<Rightarrow> (go_error option, 'v) prog) \<Rightarrow> string \<Rightarrow> (unit, 'v) prog" where
  "initConfig cwd read configFile =
     (if configFile \<noteq> [] then
        (let abs = path_abs cwd configFile; base = path_base abs; path = path_dir abs
         in and_then (read (hd (split_on CHR ''.'' base)) path) (\<lambda>err.
              if err \<noteq> None then panic ''exit status 1'' else ret ()))
      else ret ())"

text \<open>The client has the same function.\<close>

definition cli_initConfig ::
  "go_error + string \<Rightarrow> (string \<Rightarrow> string \<Rightarrow> (go_error option, 'v) prog) \<Rightarrow> string \<Rightarrow> (unit, 'v) prog" where
  "cli_initConfig cwd read configFile = initConfig cwd read configFile"

section \<open>The root commands\<close>

record root_command =
  rc_Use :: string
  rc_Short :: string
  rc_Long :: string
  rc_Version :: string

definition RootCmd :: root_command where
  "RootCmd = \<lparr>rc_Use = ''deployment-manager'', rc_Short = ''Local deployment-manager'',
     rc_Long = ''The deployment manager is a local instance to control...'', rc_Version = ''unknown-version''\<rparr>"

definition cli_RootCmd :: root_command where
  "cli_RootCmd = \<lparr>rc_Use = ''deployment-manager-cli'', rc_Short = ''Local deployment-manager-cli'',
     rc_Long = ''Local deployment-manager-cli'', rc_Version = ''unknown-version''\<rparr>"

text \<open>
  The variables of the package, and the flags \<^verbatim>\<open>init\<close> binds to them: name, default and usage. Before the library
  has parsed the command line the variables have the values below, and \<^verbatim>\<open>init\<close> gives them the defaults of the flags.
\<close>

record root_flags =
  rf_configFile :: string
  rf_debugLevel :: bool
  rf_consoleLogging :: bool

definition zero_root_flags :: root_flags where
  "zero_root_flags = \<lparr>rf_configFile = [], rf_debugLevel = False, rf_consoleLogging = False\<rparr>"

datatype flag_value = StringFlag string | BoolFlag bool

definition root_persistent_flags :: "(string \<times> flag_value \<times> string) list" where
  "root_persistent_flags = [
     (''config'', StringFlag [], ''config file path''),
     (''debug'', BoolFlag False, ''enable debugLevel mode''),
     (''consoleLogging'', BoolFlag False, ''Pretty print logging'')]"

definition cli_root_persistent_flags :: "(string \<times> flag_value \<times> string) list" where
  "cli_root_persistent_flags = root_persistent_flags"

text \<open>\<^verbatim>\<open>Execute\<close>: the logging is set up before the flags are parsed, that is for their initial values.\<close>

definition command_Execute ::
  "(string \<Rightarrow> (go_error option, logging \<times> 'v) prog) \<Rightarrow> string \<Rightarrow> string \<Rightarrow> (unit, logging \<times> 'v) prog" where
  "command_Execute rootExecute appVersion commit s =
     and_then (rootExecute (GetVersionInfo appVersion commit)) (\<lambda>err. ret ()) (SetupLogging False False (fst s), snd s)"

definition cli_Execute ::
  "(string \<Rightarrow> (go_error option, logging \<times> 'v) prog) \<Rightarrow> string \<Rightarrow> string \<Rightarrow> (unit, logging \<times> 'v) prog" where
  "cli_Execute rootExecute appVersion commit s =
     and_then (rootExecute (GetVersionInfo appVersion commit)) (\<lambda>err. ret ()) (cli_SetupLogging False False (fst s), snd s)"

section \<open>The client\<close>

text \<open>The flags of the subcommand.\<close>

record undeploy_flags =
  uf_server :: string
  uf_orgId :: string
  uf_appId :: string

definition default_undeploy_flags :: undeploy_flags where
  "default_undeploy_flags = \<lparr>uf_server = ''localhost:5200'', uf_orgId = [], uf_appId = []\<rparr>"

text \<open>\<^verbatim>\<open>log.Fatal\<close> ends the process; an error of the call is only logged.\<close>

definition undeployApp ::
  "(string \<Rightarrow> (go_error + 'c, 'v) prog) \<Rightarrow> ('c \<Rightarrow> undeploy_request \<Rightarrow> (go_error option, 'v) prog) \<Rightarrow>
   undeploy_flags \<Rightarrow> (unit, 'v) prog" where
  "undeployApp dial call flags =
     and_then (dial (uf_server flags)) (\<lambda>r. case r of
       Inl err \<Rightarrow> panic ''impossible to connect to server''
     | Inr conn \<Rightarrow>
         and_then (call conn \<lparr>ur_OrganizationId = uf_orgId flags, ur_AppInstanceId = uf_appId flags\<rparr>) (\<lambda>err. ret ()))"

text \<open>\<^verbatim>\<open>Run\<close> of the subcommand.\<close>

definition undeploy_command ::
  "(string \<Rightarrow> (go_error + 'c, 'v) prog) \<Rightarrow> ('c \<Rightarrow> undeploy_request \<Rightarrow> (go_error option, 'v) prog) \<Rightarrow>
   bool \<Rightarrow> bool \<Rightarrow> undeploy_flags \<Rightarrow> (unit, logging \<times> 'v) prog" where
  "undeploy_command dial call debugLevel consoleLogging flags s =
     outside (undeployApp dial call flags) (cli_SetupLogging debugLevel consoleLogging (fst s), snd s)"

section \<open>The client and the handler\<close>

text \<open>
  When the call reaches the handler of the deployment manager, the command does to the store what the handler
  does, but its own result does not say whether that failed.
\<close>

theorem undeployApp_hides_error:
  assumes "dial (uf_server flags) s = Done (Inr conn, s)"
    and "Handler_Undeploy ex (Some \<lparr>ur_OrganizationId = uf_orgId flags, ur_AppInstanceId = uf_appId flags\<rparr>) s = Done (err, s')"
  shows "undeployApp dial (\<lambda>conn request. Handler_Undeploy ex (Some request)) flags s = Done ((), s')"
  using assms by (simp add: undeployApp_def and_then_def ret_def)

text \<open>Without a file no configuration is read, and one that cannot be read ends the process.\<close>

lemma initConfig_without_file: "initConfig cwd read (rf_configFile zero_root_flags) = ret ()"
  by (simp add: initConfig_def zero_root_flags_def)

lemma initConfig_unreadable:
  assumes "path \<noteq> []" and "\<And>name dir. read name dir s = Done (Some (err name dir), s)"
  shows "initConfig cwd read path s = Panic ''exit status 1''"
  using assms by (simp add: initConfig_def and_then_def panic_def Let_def)

lemma config_name_at_first_dot:
  "initConfig (Inr ''/etc'') read ''dm.prod.yaml'' = and_then (read ''dm'' ''/etc'') (\<lambda>err.
     if err \<noteq> None then panic ''exit status 1'' else ret ())"
  by (simp add: initConfig_def path_abs_def path_base_def path_dir_def path_join_def path_clean_def clean_part_def Let_def)

end
