(* ===== verification/LivenessTheorems.thy ===== *)
theory LivenessTheorems
  imports ControllerEvents
begin

text \<open>
  The events of the cluster end the wait of the handler: a fragment whose deployments are all reported as
  ready passes its checks at the next tick of \<open>WaitPendingChecks\<close>.
\<close>

section \<open>Statuses of resources\<close>

definition resource_status :: "monitored \<Rightarrow> string \<Rightarrow> string \<Rightarrow> string \<Rightarrow> nalej_service_status option" where
  "resource_status p fid sid uid = (case gm_get p fid of
     None \<Rightarrow> None
   | Some e \<Rightarrow> (case gm_get (mae_Services e) sid of
       None \<Rightarrow> None
     | Some s \<Rightarrow> map_option mpr_Status (gm_get (mse_Resources s) uid)))"

text \<open>A service all of whose resources are running is running itself.\<close>

definition settled :: "monitored \<Rightarrow> string \<Rightarrow> bool" where
  "settled p fid \<longleftrightarrow> (\<forall>e sid s. gm_get p fid = Some e \<and> gm_get (mae_Services e) sid = Some s \<and>
     (\<forall>uid. resource_status p fid sid uid \<in> {None, Some NALEJ_SERVICE_RUNNING}) \<longrightarrow> mse_Status s = NALEJ_SERVICE_RUNNING)"

lemma SetResourceStatus_cases:
  obtains (same) "snd (SetResourceStatus f sid uid st info eps p) = p" "resource_status p f sid uid \<in> {None, Some st}"
  | (changed) e s r where "gm_get p f = Some e" "gm_get (mae_Services e) sid = Some s"
    "gm_get (mse_Resources s) uid = Some r"
    "snd (SetResourceStatus f sid uid st info eps p) =
      gm_adjust f (\<lambda>_. app_refresh_status (e\<lparr>mae_Services := gm_adjust sid
        (\<lambda>_. service_refresh_status (service_resource_change uid r st info eps s)) (mae_Services e)\<rparr>)) p"
proof (cases "\<exists>e s r. gm_get p f = Some e \<and> gm_get (mae_Services e) sid = Some s \<and>
    gm_get (mse_Resources s) uid = Some r \<and> mpr_Status r \<noteq> st")
  case True
  then obtain e s r where *: "gm_get p f = Some e" "gm_get (mae_Services e) sid = Some s"
    "gm_get (mse_Resources s) uid = Some r" "mpr_Status r \<noteq> st" by blast
  show thesis by (rule changed [OF *(1-3)]) (simp add: SetResourceStatus_changed [OF *])
next
  case False
  show thesis
    by (rule same) (use False in \<open>auto simp: SetResourceStatus_def resource_status_def split: option.splits\<close>)
qed

lemma resource_status_after:
  "resource_status (snd (SetResourceStatus f sid uid st info eps p)) f' sid' uid' =
    (if f' = f \<and> sid' = sid \<and> uid' = uid \<and> resource_status p f sid uid \<noteq> None then Some st
     else resource_status p f' sid' uid')"
proof (cases rule: SetResourceStatus_cases [of f sid uid st info eps p])
  case (changed e s r)
  show ?thesis
    using changed(1-3) service_change_statuses [OF changed(3), of st info eps uid']
    by (auto simp: changed(4) resource_status_def gomap_simps app_refresh_fields service_refresh_fields split: option.split)
qed auto

lemma services_after:
  assumes "gm_get p fid = Some e"
  shows "\<exists>e'. gm_get (snd (SetResourceStatus f sid uid st info eps p)) fid = Some e' \<and>
    dom (gm_get (mae_Services e')) = dom (gm_get (mae_Services e))"
  using assms
  by (cases rule: SetResourceStatus_cases [of f sid uid st info eps p])
    (auto simp: gomap_simps app_refresh_fields dom_def)

text \<open>A report of a running resource keeps a fragment settled.\<close>

lemma settled_after:
  assumes "monitored_inv p" and "settled p fid"
  shows "settled (snd (SetResourceStatus f sid uid NALEJ_SERVICE_RUNNING info eps p)) fid"
proof (cases rule: SetResourceStatus_cases [of f sid uid NALEJ_SERVICE_RUNNING info eps p])
  case same
  then show ?thesis using assms(2) by simp
next
  case (changed e s r)
  let ?q = "snd (SetResourceStatus f sid uid NALEJ_SERVICE_RUNNING info eps p)"
  have inv: "monitored_inv ?q" using assms(1) by (rule SetResourceStatus_inv)
  show ?thesis
    unfolding settled_def
  proof (intro allI impI, elim conjE)
    fix e' sid' s'
    assume e': "gm_get ?q fid = Some e'" and s': "gm_get (mae_Services e') sid' = Some s'"
      and run: "\<forall>u. resource_status ?q fid sid' u \<in> {None, Some NALEJ_SERVICE_RUNNING}"
    show "mse_Status s' = NALEJ_SERVICE_RUNNING"
    proof (cases "fid = f \<and> sid' = sid")
      case True
      have s'_eq: "s' = service_refresh_status (service_resource_change uid r NALEJ_SERVICE_RUNNING info eps s)"
        using True e' s' changed by (auto simp: gomap_simps app_refresh_fields)
      have wf: "gm_wf (mse_Resources s')"
        using entry_inv_get [OF monitored_inv_get [OF inv e'] s'] by (auto simp: service_inv_def dest: gm_all_wf)
      have "mpr_Status x = NALEJ_SERVICE_RUNNING" if "gm_get (mse_Resources s') u = Some x" for u x
        using run [rule_format, of u] e' s' that by (auto simp: resource_status_def)
      then have "mpr_Status ` set (gm_values (mse_Resources s')) \<subseteq> {NALEJ_SERVICE_RUNNING}"
        using mem_values_iff [OF wf] by blast
      then have "worst_status (mpr_Status ` set (gm_values (mse_Resources s'))) = NALEJ_SERVICE_RUNNING"
        by (subst worst_status_running_iff) blast
      then show ?thesis
        using s'_eq service_refresh_fields(1,2) by metis
    next
      case False
      obtain e0 where e0: "gm_get p fid = Some e0" "gm_get (mae_Services e0) sid' = Some s'"
        using False e' s' changed by (auto simp: gomap_simps app_refresh_fields split: if_splits)
      have "resource_status ?q fid sid' = resource_status p fid sid'"
        using False by (auto simp: resource_status_after fun_eq_iff)
      then have "\<forall>u. resource_status p fid sid' u \<in> {None, Some NALEJ_SERVICE_RUNNING}"
        using run by simp
      then show ?thesis using assms(2) e0 unfolding settled_def by blast
    qed
  qed
qed

section \<open>Ready deployments\<close>

fun ready_deployment :: "watched_object \<Rightarrow> bool" where
  "ready_deployment (WDeployment m dep) = (dst_UnavailableReplicas dep = 0 \<and> dst_AvailableReplicas dep > 0)"
| "ready_deployment _ = False"

text \<open>The events of a list are handled one after the other; an error of a handler leaves the store as it is.\<close>

definition deliver :: "(deployment_condition \<Rightarrow> string) \<Rightarrow> watched_object list \<Rightarrow> monitored \<Rightarrow> monitored" where
  "deliver fmt objs = fold (\<lambda>obj p. case OnDeployment fmt None obj EventAdd (p, ()) of
     Done (err, s) \<Rightarrow> fst s | _ \<Rightarrow> p) objs"

lemma deliver_Cons:
  assumes "ready_deployment obj"
  obtains m dep where "obj = WDeployment m dep"
    "deliver fmt (obj # objs) p = deliver fmt objs
      (snd (SetResourceStatus (label_fragment m) (label_service m) (om_UID m) NALEJ_SERVICE_RUNNING [] [] p))"
  using assms
  by (cases obj) (auto simp: deliver_def controller_SetResourceStatus_def split: prod.splits)

lemma deliver_running:
  assumes "\<forall>obj \<in> set objs. ready_deployment obj" and "monitored_inv p" and "settled p fid"
    and "gm_get p fid = Some e"
    and "\<And>sid uid st. resource_status p fid sid uid = Some st \<Longrightarrow> st = NALEJ_SERVICE_RUNNING \<or>
      (\<exists>m dep. WDeployment m dep \<in> set objs \<and> label_fragment m = fid \<and> label_service m = sid \<and> om_UID m = uid)"
  shows "monitored_inv (deliver fmt objs p) \<and> settled (deliver fmt objs p) fid \<and>
    (\<exists>e'. gm_get (deliver fmt objs p) fid = Some e') \<and>
    (\<forall>sid uid. resource_status (deliver fmt objs p) fid sid uid \<in> {None, Some NALEJ_SERVICE_RUNNING})"
  using assms
proof (induction objs arbitrary: p e)
  case Nil
  have "resource_status p fid sid uid \<in> {None, Some NALEJ_SERVICE_RUNNING}" for sid uid
    using Nil.prems(5) [of sid uid] by (cases "resource_status p fid sid uid") auto
  then show ?case using Nil.prems by (auto simp: deliver_def)
next
  case (Cons obj objs)
  have ready: "ready_deployment obj" using Cons.prems(1) by simp
  obtain m dep where obj: "obj = WDeployment m dep" and run: "deliver fmt (obj # objs) p = deliver fmt objs
      (snd (SetResourceStatus (label_fragment m) (label_service m) (om_UID m) NALEJ_SERVICE_RUNNING [] [] p))"
    using deliver_Cons [OF ready] by blast
  let ?q = "snd (SetResourceStatus (label_fragment m) (label_service m) (om_UID m) NALEJ_SERVICE_RUNNING [] [] p)"
  obtain e' where e': "gm_get ?q fid = Some e'"
    using services_after [OF Cons.prems(4)] by blast
  have rest: "st = NALEJ_SERVICE_RUNNING \<or>
      (\<exists>m dep. WDeployment m dep \<in> set objs \<and> label_fragment m = fid \<and> label_service m = sid \<and> om_UID m = uid)"
    if "resource_status ?q fid sid uid = Some st" for sid uid st
    using that Cons.prems(5) [of sid uid st] obj by (auto simp: resource_status_after split: if_splits)
  show ?case
    unfolding run
    by (rule Cons.IH [OF _ SetResourceStatus_inv [OF Cons.prems(2)] settled_after [OF Cons.prems(2,3)] e' rest])
      (use Cons.prems(1) in auto)
qed

text \<open>A service whose resources all run already is not touched by further reports that they run.\<close>

lemma idle_service_kept:
  assumes "\<forall>obj \<in> set objs. ready_deployment obj" and "gm_get p fid = Some e" and "gm_get (mae_Services e) sid = Some s"
    and "\<forall>uid. map_option mpr_Status (gm_get (mse_Resources s) uid) \<in> {None, Some NALEJ_SERVICE_RUNNING}"
  shows "\<exists>e'. gm_get (deliver fmt objs p) fid = Some e' \<and> gm_get (mae_Services e') sid = Some s"
  using assms
proof (induction objs arbitrary: p e)
  case Nil
  then show ?case by (simp add: deliver_def)
next
  case (Cons obj objs)
  have ready: "ready_deployment obj" using Cons.prems(1) by simp
  obtain m dep where run: "deliver fmt (obj # objs) p = deliver fmt objs
      (snd (SetResourceStatus (label_fragment m) (label_service m) (om_UID m) NALEJ_SERVICE_RUNNING [] [] p))"
    using deliver_Cons [OF ready] by blast
  let ?q = "snd (SetResourceStatus (label_fragment m) (label_service m) (om_UID m) NALEJ_SERVICE_RUNNING [] [] p)"
  have "\<exists>e'. gm_get ?q fid = Some e' \<and> gm_get (mae_Services e') sid = Some s"
  proof (cases "\<exists>e0 s0 r. gm_get p (label_fragment m) = Some e0 \<and> gm_get (mae_Services e0) (label_service m) = Some s0 \<and>
      gm_get (mse_Resources s0) (om_UID m) = Some r \<and> mpr_Status r \<noteq> NALEJ_SERVICE_RUNNING")
    case True
    then obtain e0 s0 r where *: "gm_get p (label_fragment m) = Some e0" "gm_get (mae_Services e0) (label_service m) = Some s0"
      "gm_get (mse_Resources s0) (om_UID m) = Some r" "mpr_Status r \<noteq> NALEJ_SERVICE_RUNNING" by blast
    have "\<not> (fid = label_fragment m \<and> sid = label_service m)"
      using * Cons.prems(2,3) Cons.prems(4) [rule_format, of "om_UID m"] by auto
    then show ?thesis
      using * Cons.prems(2,3) by (auto simp: SetResourceStatus_changed [OF *] gomap_simps app_refresh_fields)
  next
    case False
    then have "?q = p" by (auto simp: SetResourceStatus_def split: option.splits)
    then show ?thesis using Cons.prems(2,3) by simp
  qed
  then show ?case
    unfolding run using Cons.IH [OF _ _ _ Cons.prems(4)] Cons.prems(1) by auto
qed

text \<open>A service is waited for in vain when it is not running and has no resource that could still report.\<close>

definition reports_left :: "monitored_service_entry \<Rightarrow> bool" where
  "reports_left s \<longleftrightarrow> mse_Status s = NALEJ_SERVICE_RUNNING \<or>
     list_ex (\<lambda>r. mpr_Status r \<noteq> NALEJ_SERVICE_RUNNING) (gm_values (mse_Resources s))"

lemma reports_left_get:
  assumes "service_inv sid s"
  shows "reports_left s \<longleftrightarrow> mse_Status s = NALEJ_SERVICE_RUNNING \<or>
    (\<exists>uid. map_option mpr_Status (gm_get (mse_Resources s) uid) \<notin> {None, Some NALEJ_SERVICE_RUNNING})"
proof -
  have wf: "gm_wf (mse_Resources s)" using assms by (auto simp: service_inv_def dest: gm_all_wf)
  have "list_ex (\<lambda>r. mpr_Status r \<noteq> NALEJ_SERVICE_RUNNING) (gm_values (mse_Resources s)) \<longleftrightarrow>
      (\<exists>uid r. gm_get (mse_Resources s) uid = Some r \<and> mpr_Status r \<noteq> NALEJ_SERVICE_RUNNING)"
    unfolding list_ex_iff using mem_values_iff [OF wf] by blast
  then show ?thesis unfolding reports_left_def by auto
qed

lemma settled_iff:
  assumes "monitored_inv p" and "gm_get p fid = Some e"
  shows "settled p fid \<longleftrightarrow> list_all reports_left (gm_values (mae_Services e))"
proof -
  have e: "entry_inv fid e" using assms by (rule monitored_inv_get)
  then have wf: "gm_wf (mae_Services e)" by (auto simp: entry_inv_def dest: gm_all_wf)
  have status: "resource_status p fid sid uid = map_option mpr_Status (gm_get (mse_Resources s) uid)"
    if "gm_get (mae_Services e) sid = Some s" for sid s uid
    using that assms(2) by (simp add: resource_status_def)
  have left: "reports_left s \<longleftrightarrow> ((\<forall>uid. resource_status p fid sid uid \<in> {None, Some NALEJ_SERVICE_RUNNING}) \<longrightarrow>
      mse_Status s = NALEJ_SERVICE_RUNNING)" if "gm_get (mae_Services e) sid = Some s" for sid s
    unfolding reports_left_get [OF entry_inv_get [OF e that]] status [OF that] by blast
  have "settled p fid \<longleftrightarrow> (\<forall>sid s. gm_get (mae_Services e) sid = Some s \<longrightarrow> reports_left s)"
  proof
    assume "settled p fid"
    then show "\<forall>sid s. gm_get (mae_Services e) sid = Some s \<longrightarrow> reports_left s"
      using left assms(2) unfolding settled_def by blast
  next
    assume all: "\<forall>sid s. gm_get (mae_Services e) sid = Some s \<longrightarrow> reports_left s"
    show "settled p fid"
      unfolding settled_def
    proof (intro allI impI, elim conjE)
      fix e' sid s assume "gm_get p fid = Some e'" and s: "gm_get (mae_Services e') sid = Some s"
        and run: "\<forall>uid. resource_status p fid sid uid \<in> {None, Some NALEJ_SERVICE_RUNNING}"
      then have "gm_get (mae_Services e) sid = Some s" using assms(2) by simp
      with all left run show "mse_Status s = NALEJ_SERVICE_RUNNING" by blast
    qed
  qed
  then show ?thesis
    unfolding list_all_iff using mem_values_iff [OF wf] by metis
qed

text \<open>C5: When ready deployments are reported for all resources of a fragment that are not running, in any
  order and among any reports of other ready deployments, the wait of the handler for that fragment ends
  at the next tick, and without an error, exactly if every service of the fragment was running or had
  a resource that was not running yet. A service without any resource, as an incomplete deployment leaves it,
  keeps the handler waiting for the rest of its schedule.\<close>

theorem ready_deployments_end_wait:
  assumes "monitored_inv p" and "gm_get p fid = Some e"
    and "\<forall>obj \<in> set objs. ready_deployment obj"
    and "\<And>sid uid st. resource_status p fid sid uid = Some st \<Longrightarrow> st = NALEJ_SERVICE_RUNNING \<or>
      (\<exists>m dep. WDeployment m dep \<in> set objs \<and> label_fragment m = fid \<and> label_service m = sid \<and> om_UID m = uid)"
  shows "WaitPendingChecks fid ((deliver fmt objs, Tick) # rest) p =
    (if list_all reports_left (gm_values (mae_Services e))
     then Some (None, UpdateAppStatus fid (deliver fmt objs p))
     else WaitPendingChecks fid rest (UpdateAppStatus fid (deliver fmt objs p)))"
proof (cases "list_all reports_left (gm_values (mae_Services e))")
  case True
  let ?q = "deliver fmt objs p"
  have "settled p fid" using settled_iff [OF assms(1,2)] True by simp
  from deliver_running [OF assms(3,1) this assms(2,4), of fmt]
  obtain e' where q: "monitored_inv ?q" "settled ?q fid" "gm_get ?q fid = Some e'"
    "\<forall>sid uid. resource_status ?q fid sid uid \<in> {None, Some NALEJ_SERVICE_RUNNING}"
    by blast
  have wf: "gm_wf (mae_Services e')"
    using monitored_inv_get [OF q(1,3)] by (auto simp: entry_inv_def dest: gm_all_wf)
  have "mse_Status s = NALEJ_SERVICE_RUNNING" if "gm_get (mae_Services e') sid = Some s" for sid s
    using q(2-4) that unfolding settled_def by blast
  then have "all_running e'"
    unfolding all_running_def using mem_values_iff [OF wf] by blast
  then show ?thesis using True by (simp add: WaitPendingChecks_tick q(3) del: WaitPendingChecks.simps)
next
  case False
  have e: "entry_inv fid e" using assms(1,2) by (rule monitored_inv_get)
  then have wf: "gm_wf (mae_Services e)" by (auto simp: entry_inv_def dest: gm_all_wf)
  obtain sid s where s: "gm_get (mae_Services e) sid = Some s" "\<not> reports_left s"
    using False mem_values_iff [OF wf] unfolding list_all_iff by blast
  have idle: "mse_Status s \<noteq> NALEJ_SERVICE_RUNNING"
    "\<forall>uid. map_option mpr_Status (gm_get (mse_Resources s) uid) \<in> {None, Some NALEJ_SERVICE_RUNNING}"
    using s(2) reports_left_get [OF entry_inv_get [OF e s(1)]] by simp_all
  obtain e' where e': "gm_get (deliver fmt objs p) fid = Some e'" "gm_get (mae_Services e') sid = Some s"
    using idle_service_kept [OF assms(3,2) s(1) idle(2)] by blast
  have "s \<in> set (gm_values (mae_Services e'))" using e'(2) by (force dest: get_mem)
  then have "\<not> all_running e'" using idle(1) by (auto simp: all_running_def)
  then show ?thesis using False by (simp add: WaitPendingChecks_tick e'(1) del: WaitPendingChecks.simps)
qed

text \<open>The two resources of the sample store are reported as ready deployments.\<close>

definition ready_object :: "string \<Rightarrow> watched_object" where
  "ready_object uid = WDeployment \<lparr>om_Namespace = ''ns'', om_Name = uid, om_UID = uid,
     om_Labels = [(NALEJ_ANNOTATION_DEPLOYMENT_FRAGMENT, ''f''), (NALEJ_ANNOTATION_SERVICE_INSTANCE_ID, ''s'')],
     om_CreationTimestamp = 0\<rparr> \<lparr>dst_AvailableReplicas = 1, dst_UnavailableReplicas = 0, dst_Conditions = []\<rparr>"

lemma sample_statuses:
  "resource_status sample_store ''f'' sid uid = Some st \<Longrightarrow>
    st = NALEJ_SERVICE_SCHEDULED \<and> sid = ''s'' \<and> (uid = ''u1'' \<or> uid = ''u2'')"
  by (auto simp: resource_status_def sample_store_eq sample_monitored_entry_def sample_monitored_service_def
      split: if_splits option.splits)

lemma sample_reports_left: "list_all reports_left (gm_values (mae_Services sample_monitored_entry))"
  by (simp add: sample_monitored_entry_def reports_left_def sample_monitored_service_def)

theorem ready_deployments_end_wait_witness:
  "WaitPendingChecks ''f'' [(deliver (\<lambda>_. []) [ready_object ''u2'', ready_object ''u1''], Tick)] sample_store =
    Some (None, UpdateAppStatus ''f'' (deliver (\<lambda>_. []) [ready_object ''u2'', ready_object ''u1''] sample_store))"
proof -
  have ready: "\<forall>obj \<in> set [ready_object ''u2'', ready_object ''u1'']. ready_deployment obj"
    by (simp add: ready_object_def)
  have reports: "st = NALEJ_SERVICE_RUNNING \<or>
      (\<exists>m dep. WDeployment m dep \<in> set [ready_object ''u2'', ready_object ''u1''] \<and>
        label_fragment m = ''f'' \<and> label_service m = sid \<and> om_UID m = uid)"
    if "resource_status sample_store ''f'' sid uid = Some st" for sid uid st
    using sample_statuses [OF that] by (auto simp: ready_object_def label_fragment_def label_service_def gm_str_def go_constants)
  show ?thesis
    using ready_deployments_end_wait [OF monitor_reachable_inv [OF sample_reachable] sample_get ready reports]
      sample_reports_left by simp
qed

end
