(* ===== verification/EventTheorems.thy ===== *)
theory EventTheorems
  imports ControllerEvents MetricsTranslator
begin

text \<open>
  The properties of the event dispatcher with the two collections of event functions of the program:
  how often an event is tried, what an update does to the metrics, and what happens when two objects
  share a name.
\<close>

section \<open>Stepping the dispatcher\<close>

lemma modify_apply: "modify f s = Done ((), f s)"
  by (simp add: modify_def)

lemmas run_simps = and_then_def ret_def with_state_def lift_outcome_def modify_def Let_def

lemma process_event_failed:
  assumes "dispatch t d ev s = Done (Some e, s1)"
  shows "process_event t d ev s =
    (if et_NumRequeues t ev s1 < maxRetries then Done (Requeued, et_Done t ev (et_AddRateLimited t ev s1))
     else Done (GaveUp, et_Done t ev (et_Forget t ev s1)))"
  by (simp add: process_event_def run_simps assms)

lemma process_event_ok:
  assumes "dispatch t d ev s = Done (None, s1)"
  shows "process_event t d ev s = Done (Forgotten, et_Done t ev (et_Forget t ev s1))"
  by (simp add: process_event_def run_simps assms)

lemma worker_Cons:
  assumes "process_event t d ev s = Done (dec, s1)" and "worker t d rest s1 = Done (decs, s2)"
  shows "worker t d (Some ev # rest) s = Done (dec # decs, s2)"
  by (simp add: run_simps assms)

lemma fetchObj_found:
  assumes "gm_get (dsp_indexers d) (ev_Kind ev) = Some ix" and "ix (ev_Key ev) s = Inr (Some obj)"
  shows "fetchObj t d ev s = fetch_old t ix ev obj s"
  by (simp add: fetchObj_def with_state_def assms)

lemma fetchObj_deleted:
  assumes "gm_get (dsp_indexers d) (ev_Kind ev) = Some ix" and "ix (ev_Key ev) s = Inr None"
    and "et_GetDeleted t (ev_Key ev) (et_between t s) = Inr (Some obj)"
  shows "fetchObj t d ev s = fetch_old t ix ev obj (et_DeleteDeleted t (ev_Key ev) (et_between t s))"
  by (simp add: fetchObj_def run_simps assms)

section \<open>Retries\<close>

text \<open>
  The rate limited queue of client-go counts how often an event was put back; forgetting an event
  clears its count, and marking it done leaves the count alone.
\<close>

definition queue_laws :: "'s event_tools \<Rightarrow> bool" where
  "queue_laws t \<longleftrightarrow> (\<forall>ev s.
     et_NumRequeues t ev (et_AddRateLimited t ev s) = Suc (et_NumRequeues t ev s) \<and>
     et_NumRequeues t ev (et_Forget t ev s) = 0 \<and>
     et_NumRequeues t ev (et_Done t ev s) = et_NumRequeues t ev s)"

definition always_fails :: "'s event_tools \<Rightarrow> ('f, 's) dispatcher \<Rightarrow> event \<Rightarrow> bool" where
  "always_fails t d ev \<longleftrightarrow> (\<forall>s. \<exists>e s'. dispatch t d ev s = Done (Some e, s') \<and>
     et_NumRequeues t ev s' = et_NumRequeues t ev s)"

lemma failing_step:
  assumes "queue_laws t" and "always_fails t d ev"
  shows "\<exists>s'. process_event t d ev s =
      Done (if et_NumRequeues t ev s < maxRetries then Requeued else GaveUp, s') \<and>
    et_NumRequeues t ev s' = (if et_NumRequeues t ev s < maxRetries then Suc (et_NumRequeues t ev s) else 0)"
proof -
  obtain e s1 where "dispatch t d ev s = Done (Some e, s1)" "et_NumRequeues t ev s1 = et_NumRequeues t ev s"
    using assms(2) unfolding always_fails_def by blast
  then show ?thesis
    using assms(1) by (auto simp: process_event_failed queue_laws_def)
qed

lemma failing_run:
  assumes "queue_laws t" and "always_fails t d ev" and "et_NumRequeues t ev s + n = maxRetries"
  shows "\<exists>s'. worker t d (replicate (Suc n) (Some ev)) s = Done (replicate n Requeued @ [GaveUp], s') \<and>
    et_NumRequeues t ev s' = 0"
  using assms(3)
proof (induction n arbitrary: s)
  case 0
  then show ?case
    using failing_step [OF assms(1,2), of s] by (auto simp: run_simps)
next
  case (Suc n)
  obtain s1 where s1: "process_event t d ev s = Done (Requeued, s1)"
      "et_NumRequeues t ev s1 = Suc (et_NumRequeues t ev s)"
    using failing_step [OF assms(1,2), of s] Suc.prems by auto
  obtain s2 where s2: "worker t d (replicate (Suc n) (Some ev)) s1 = Done (replicate n Requeued @ [GaveUp], s2)"
      "et_NumRequeues t ev s2 = 0"
    using Suc.IH [of s1] Suc.prems s1(2) by auto
  from worker_Cons [OF s1(1) s2(1)] s2(2) show ?case
    by (intro exI [of _ s2]) (simp add: replicate_append_same)
qed

text \<open>C22: An event whose function fails every time is delivered six times: five times it is put back into
  the queue, then it is given up and its count is cleared, so that a later event with the same
  key starts over.\<close>

theorem failing_event_given_up:
  assumes "queue_laws t" and "always_fails t d ev" and "et_NumRequeues t ev s = 0"
  shows "\<exists>s'. worker t d (replicate 6 (Some ev)) s = Done (replicate 5 Requeued @ [GaveUp], s') \<and>
    et_NumRequeues t ev s' = 0"
  using failing_run [OF assms(1,2), of s 5] assms(3) by (simp add: maxRetries_def)

section \<open>A sample cache\<close>

text \<open>A queue with its counts and an index of deleted objects by namespace and name.\<close>

record sample_cache =
  sca_queue :: "event list"
  sca_counts :: "event \<Rightarrow> nat"
  sca_deleted :: "(string, watched_object) gomap"

definition object_key :: "watched_object \<Rightarrow> go_error + string" where
  "object_key obj = (case meta_Accessor obj of
     Inl e \<Rightarrow> Inl e | Inr m \<Rightarrow> Inr (om_Namespace m @ ''/'' @ om_Name m))"

definition sample_tools :: "(monitored \<times> sample_cache) event_tools" where
  "sample_tools = \<lparr>
     et_Add = (\<lambda>ev (p, c). (p, c\<lparr>sca_queue := sca_queue c @ [ev]\<rparr>)),
     et_AddRateLimited = (\<lambda>ev (p, c). (p, c\<lparr>sca_queue := sca_queue c @ [ev],
       sca_counts := (sca_counts c)(ev := Suc (sca_counts c ev))\<rparr>)),
     et_Forget = (\<lambda>ev (p, c). (p, c\<lparr>sca_counts := (sca_counts c)(ev := 0)\<rparr>)),
     et_Done = (\<lambda>ev s. s),
     et_NumRequeues = (\<lambda>ev (p, c). sca_counts c ev),
     et_AddDeleted = (\<lambda>obj (p, c). (p, case object_key obj of Inl _ \<Rightarrow> c
       | Inr key \<Rightarrow> c\<lparr>sca_deleted := gm_put key obj (sca_deleted c)\<rparr>)),
     et_GetDeleted = (\<lambda>key (p, c). Inr (gm_get (sca_deleted c) key)),
     et_DeleteDeleted = (\<lambda>key s. s),
     et_MetaNamespaceKey = object_key,
     et_DeletionHandlingKey = object_key,
     et_ObjectKinds = (\<lambda>obj. case object_gvk obj of None \<Rightarrow> Inl (GoError ''no kind'') | Some kind \<Rightarrow> Inr [kind]),
     et_between = (\<lambda>s. s)\<rparr>"

definition empty_cache :: sample_cache where
  "empty_cache = \<lparr>sca_queue = [], sca_counts = (\<lambda>_. 0), sca_deleted = []\<rparr>"

definition sample_event :: event where
  "sample_event = \<lparr>ev_Key = ''ns/nginx'', ev_OldObjKey = [], ev_Kind = DeploymentKind, ev_EventType = EventDelete\<rparr>"

lemma sample_queue_laws: "queue_laws sample_tools"
  by (simp add: queue_laws_def sample_tools_def split: prod.split)

lemma sample_always_fails:
  "always_fails sample_tools (controller_dispatcher (\<lambda>_. []) sample_config ()) sample_event"
  by (simp add: always_fails_def dispatch_def fetchObj_def controller_dispatcher_def run_simps)

theorem failing_event_given_up_witness:
  "\<exists>s'. worker sample_tools (controller_dispatcher (\<lambda>_. []) sample_config ()) (replicate 6 (Some sample_event))
      (sample_store, empty_cache) = Done (replicate 5 Requeued @ [GaveUp], s') \<and>
    et_NumRequeues sample_tools sample_event s' = 0"
  by (rule failing_event_given_up [OF sample_queue_laws sample_always_fails])
    (simp add: sample_tools_def empty_cache_def)

section \<open>Updates of warnings\<close>

text \<open>C23: A repeated warning is never counted: the dispatcher looks the old object of an update up with
  the key of the new one, so unless the store changes between the two reads both are the same object
  and the translator sees an unchanged count.\<close>

theorem warning_updates_not_counted:
  assumes "gm_get (dsp_funcMap d) (ev_Kind ev) = Some translator_OnEvent"
    and "gm_get (dsp_indexers d) (ev_Kind ev) = Some ix"
    and "ix (ev_Key ev) s = Inr (Some (WEvent m e))"
    and "ev_EventType ev = EventUpdate" and "ev_OldObjKey ev \<noteq> []" and "et_between t s = s"
  shows "dispatch t d ev s = Done (None, s)"
  using assms
  by (simp add: dispatch_def fetch_old_def run_simps fetchObj_found [OF assms(2,3)] unchanged_count_def)

section \<open>Objects with the same name\<close>

text \<open>
  The index of deleted objects returns what was last put under a key. Putting an event in the queue does not
  concern it, nor do the other goroutines in the situation below.
\<close>

definition deleted_index_laws :: "'s event_tools \<Rightarrow> bool" where
  "deleted_index_laws t \<longleftrightarrow>
     (\<forall>obj key s. et_DeletionHandlingKey t obj = Inr key \<longrightarrow> et_GetDeleted t key (et_AddDeleted t obj s) = Inr (Some obj)) \<and>
     (\<forall>ev key s. et_GetDeleted t key (et_Add t ev s) = et_GetDeleted t key s) \<and>
     (\<forall>key s. et_GetDeleted t key (et_between t s) = et_GetDeleted t key s)"

definition delete_event :: "gvk \<Rightarrow> string \<Rightarrow> event" where
  "delete_event kind key = \<lparr>ev_Key = key, ev_OldObjKey = [], ev_Kind = kind, ev_EventType = EventDelete\<rparr>"

lemma OnDelete_result:
  assumes "meta_Accessor obj = Inr m" and "et_DeletionHandlingKey t obj = Inr key"
    and "et_ObjectKinds t obj = Inr (kind # kinds)"
  shows "OnDelete t obj s = Done ((), et_Add t (delete_event kind key) (et_AddDeleted t obj s))"
  by (simp add: OnDelete_def createEvent_def getKind_def delete_event_def run_simps assms)

text \<open>C24: A deployment and a service of the same name and namespace, as the executor creates them for every
  service with ports, share one entry in the index of deleted objects. When the
  deployment is deleted and then the service, both before the event of the deployment is processed, the worker hands
  the service to the function for deployments, whose type assertion panics.\<close>

theorem deleted_name_clash_panics:
  assumes "deleted_index_laws t"
    and "et_DeletionHandlingKey t (WDeployment m dep) = Inr key" and "et_DeletionHandlingKey t (WService m' svc) = Inr key"
    and "et_ObjectKinds t (WDeployment m dep) = Inr [DeploymentKind]" and "et_ObjectKinds t (WService m' svc) = Inr [ServiceKind]"
    and "gm_get (dsp_funcMap d) DeploymentKind = Some (\<lambda>c. OnDeployment fmt)"
    and "gm_get (dsp_indexers d) DeploymentKind = Some ix" and "\<forall>s. ix key s = Inr None"
  shows "\<exists>s1. and_then (OnDelete t (WDeployment m dep)) (\<lambda>_. OnDelete t (WService m' svc)) s = Done ((), s1) \<and>
    process_event t d (delete_event DeploymentKind key) s1 = Panic ''interface conversion''"
proof -
  let ?s1 = "et_Add t (delete_event ServiceKind key) (et_AddDeleted t (WService m' svc)
    (et_Add t (delete_event DeploymentKind key) (et_AddDeleted t (WDeployment m dep) s)))"
  have "and_then (OnDelete t (WDeployment m dep)) (\<lambda>_. OnDelete t (WService m' svc)) s = Done ((), ?s1)"
    using assms(2-5) by (simp add: and_then_def OnDelete_result)
  moreover have "et_GetDeleted t key (et_between t ?s1) = Inr (Some (WService m' svc))"
    using assms(1,3) by (simp add: deleted_index_laws_def del: split_paired_All)
  then have "dispatch t d (delete_event DeploymentKind key) ?s1 = Panic ''interface conversion''"
    using fetchObj_deleted [of d "delete_event DeploymentKind key" ix ?s1 t "WService m' svc"] assms(6-8)
    by (simp add: dispatch_def delete_event_def fetch_old_def run_simps bad_assertion_def panic_def)
  then have "process_event t d (delete_event DeploymentKind key) ?s1 = Panic ''interface conversion''"
    by (simp add: process_event_def and_then_def)
  ultimately show ?thesis by blast
qed

definition sample_meta :: object_meta where
  "sample_meta = \<lparr>om_Namespace = ''ns'', om_Name = ''nginx'', om_UID = ''u'', om_Labels = [], om_CreationTimestamp = 0\<rparr>"

lemma sample_deleted_index_laws: "deleted_index_laws sample_tools"
  by (auto simp: deleted_index_laws_def sample_tools_def gomap_simps split: prod.split)

theorem deleted_name_clash_panics_witness:
  "\<exists>s1. and_then (OnDelete sample_tools (WDeployment sample_meta \<lparr>dst_AvailableReplicas = 1, dst_UnavailableReplicas = 0, dst_Conditions = []\<rparr>))
      (\<lambda>_. OnDelete sample_tools (WService sample_meta \<lparr>sst_Type = ClusterIP, sst_Ports = [], sst_Ingress = []\<rparr>))
      (sample_store, empty_cache) = Done ((), s1) \<and>
    process_event sample_tools ((controller_dispatcher (\<lambda>_. []) sample_config ())
      \<lparr>dsp_indexers := [(DeploymentKind, \<lambda>key s. Inr None), (ServiceKind, \<lambda>key s. Inr None)]\<rparr>)
      (delete_event DeploymentKind ''ns/nginx'') s1 = Panic ''interface conversion''"
  by (rule deleted_name_clash_panics [OF sample_deleted_index_laws, where fmt = "\<lambda>_. []" and ix = "\<lambda>key s. Inr None"])
    (simp_all add: sample_tools_def object_key_def sample_meta_def controller_dispatcher_def)

text \<open>A warning that was seen five times.\<close>

definition sample_warning :: event_state where
  "sample_warning = \<lparr>evs_Type = ''Warning'', evs_LastTimestamp = 10, evs_Count = 5, evs_InvolvedObject =
     \<lparr>ref_Kind = ''Pod'', ref_Namespace = ''ns'', ref_Name = ''nginx'', ref_FieldPath = []\<rparr>\<rparr>"

definition warning_dispatcher :: "((monitored \<times> sample_cache) metrics_translator, monitored \<times> sample_cache) dispatcher" where
  "warning_dispatcher =
     \<lparr>dsp_dispatchFuncs = translator_funcs (NewMetricsTranslator
        \<lparr>col_Create = (\<lambda>_ s. s), col_Existing = (\<lambda>_ s. s), col_Delete = (\<lambda>_ s. s), col_Error = (\<lambda>_ s. s)\<rparr> 0),
      dsp_funcMap = [(EventKind, translator_OnEvent)],
      dsp_indexers = [(EventKind, \<lambda>key s. Inr (Some (WEvent sample_meta sample_warning)))]\<rparr>"

theorem warning_updates_not_counted_witness:
  "dispatch sample_tools warning_dispatcher \<lparr>ev_Key = ''ns/nginx'', ev_OldObjKey = ''ns/nginx'', ev_Kind = EventKind,
      ev_EventType = EventUpdate\<rparr> (sample_store, empty_cache) = Done (None, (sample_store, empty_cache))"
  by (rule warning_updates_not_counted [where ix = "\<lambda>key s. Inr (Some (WEvent sample_meta sample_warning))" and m = sample_meta and e = sample_warning])
    (simp_all add: warning_dispatcher_def sample_tools_def)

end
