(* ===== verification/MetricsTheorems.thy ===== *)
theory MetricsTheorems
  imports MetricsTranslator
begin

text \<open>
  The properties of the metrics: what the translated events add up to, and that the parser reads back
  from the registry what the counters hold.
\<close>

section \<open>Translated events\<close>

text \<open>The additions and deletions of a metric among the events; \<open>now\<close> is the start of the program.\<close>

definition additions :: "metric_type \<Rightarrow> (int \<Rightarrow> bool) \<Rightarrow> (event_type \<times> metric_type \<times> int) list \<Rightarrow> int" where
  "additions t when evs = int (length (filter (\<lambda>(a, m, ts). a = EventAdd \<and> m = t \<and> when ts) evs))"

definition deletions :: "metric_type \<Rightarrow> (event_type \<times> metric_type \<times> int) list \<Rightarrow> int" where
  "deletions t evs = int (length (filter (\<lambda>(a, m, ts). a = EventDelete \<and> m = t) evs))"

lemma for_each_translate:
  "for_each (\<lambda>(a, m, ts). translate tr a m ts) evs s =
    Done (None, fold (collect (mtr_collector tr)) (concat (map (\<lambda>(a, m, ts). translate_call (mtr_startupTime tr) a m ts) evs)) s)"
  by (induction evs arbitrary: s) (auto simp: translate_def on_ok_def and_then_def modify_def ret_def)

lemma calls_append: "calls (xs @ ys) k = calls xs k + calls ys k"
  by (simp add: calls_def count_list_append)

lemma calls_of_event:
  "calls (translate_call now a m ts) (CallCreate t) = (if a = EventAdd \<and> m = t \<and> now < ts then 1 else 0)"
  "calls (translate_call now a m ts) (CallExisting t) = (if a = EventAdd \<and> m = t \<and> \<not> now < ts then 1 else 0)"
  "calls (translate_call now a m ts) (CallDelete t) = (if a = EventDelete \<and> m = t then 1 else 0)"
  "calls (translate_call now a m ts) (CallError t) = 0"
  by (cases a; simp add: calls_def translate_call_def)+

lemma calls_of_events:
  "calls (concat (map (\<lambda>(a, m, ts). translate_call now a m ts) evs)) (CallCreate t) = additions t (\<lambda>ts. now < ts) evs \<and>
   calls (concat (map (\<lambda>(a, m, ts). translate_call now a m ts) evs)) (CallExisting t) = additions t (\<lambda>ts. \<not> now < ts) evs \<and>
   calls (concat (map (\<lambda>(a, m, ts). translate_call now a m ts) evs)) (CallDelete t) = deletions t evs \<and>
   calls (concat (map (\<lambda>(a, m, ts). translate_call now a m ts) evs)) (CallError t) = 0"
proof (induction evs)
  case Nil
  show ?case by (simp add: calls_def additions_def deletions_def)
next
  case (Cons e evs)
  obtain a m ts where "e = (a, m, ts)" by (cases e)
  with Cons show ?case by (simp add: calls_append calls_of_event additions_def deletions_def)
qed

lemma additions_split: "additions t P evs + additions t (\<lambda>ts. \<not> P ts) evs = additions t (\<lambda>_. True) evs"
  by (induction evs) (auto simp: additions_def)

text \<open>C28: After any sequence of translated events the number of running objects of a metric has changed by
  the additions minus the deletions, whatever the time of creation of the objects; created counts
  the additions of objects younger than the program, deleted every deletion, and errors none. The numbers are exact;
  the library keeps them as floats, which agree up to 2 to the power of 53.\<close>

theorem translated_metrics:
  "\<exists>p'. for_each (\<lambda>(action, metric, ts). translate (NewMetricsTranslator GetCollector now) action metric ts) evs p = Done (None, p') \<and>
    mt_Running (provider_metric p' t) =
      mt_Running (provider_metric p t) + additions t (\<lambda>_. True) evs - deletions t evs \<and>
    mt_Created (provider_metric p' t) = mt_Created (provider_metric p t) + additions t (\<lambda>ts. now < ts) evs \<and>
    mt_Deleted (provider_metric p' t) = mt_Deleted (provider_metric p t) + deletions t evs \<and>
    mt_Errors (provider_metric p' t) = mt_Errors (provider_metric p t)"
proof -
  have split: "additions t (\<lambda>ts. \<not> now < ts) evs = additions t (\<lambda>_. True) evs - additions t (\<lambda>ts. now < ts) evs"
    using additions_split [of t "\<lambda>ts. now < ts" evs] by linarith
  show ?thesis
    unfolding for_each_translate
    by (intro exI conjI, rule refl)
      (simp_all add: NewMetricsTranslator_def prometheus.collect_all expected_metric_def calls_of_events split)
qed

section \<open>Reading the counters back\<close>

text \<open>A family is decoded into type, counter and value.\<close>

definition all_counters :: "string list" where
  "all_counters = [MetricCreated, MetricDeleted, MetricErrors, MetricRunning]"

definition get_counter :: "string \<Rightarrow> metric \<Rightarrow> int" where
  "get_counter c m = (if c = MetricCreated then mt_Created m else if c = MetricDeleted then mt_Deleted m
     else if c = MetricErrors then mt_Errors m else mt_Running m)"

lemma get_set_counter:
  assumes "c \<in> set all_counters" and "c' \<in> set all_counters"
  shows "get_counter c (set_counter c' v m) = (if c = c' then v else get_counter c m)"
  using assms by (auto simp: all_counters_def get_counter_def set_counter_def counter_names)

lemma metric_eqI:
  assumes "\<And>c. c \<in> set all_counters \<Longrightarrow> get_counter c m = get_counter c m'"
  shows "m = m'"
  using assms [of MetricCreated] assms [of MetricDeleted] assms [of MetricErrors] assms [of MetricRunning]
  by (simp add: all_counters_def get_counter_def counter_names)

definition decodes :: "(go_float \<Rightarrow> int) \<Rightarrow> metric_family \<Rightarrow> string \<times> string \<times> int \<Rightarrow> bool" where
  "decodes conv f = (\<lambda>(t, c, v). (\<exists>rest. split_on (CHR ''_'') (mf_Name f) = t # c # rest) \<and>
     c \<in> set all_counters \<and> family_value conv f = Done (Inr v))"

definition put_value :: "string \<times> string \<times> int \<Rightarrow> (metric_type, metric) gomap \<Rightarrow> (metric_type, metric) gomap" where
  "put_value = (\<lambda>(t, c, v) parsed. gm_adjust t (set_counter c v)
     (if gm_get parsed t = None then gm_put t no_metric parsed else parsed))"

lemma parse_loop_decoded:
  "list_all2 (decodes conv) fs trs \<Longrightarrow> parse_loop conv fs parsed = Done (Inr (fold put_value trs parsed))"
  by (induction fs trs arbitrary: parsed rule: list_all2_induct) (auto simp: decodes_def put_value_def Let_def)

text \<open>After a list of values for distinct counters the map holds for each type the values given.\<close>

definition holds_value :: "(string \<times> string \<times> int) list \<Rightarrow> string \<Rightarrow> metric \<Rightarrow> bool" where
  "holds_value trs t m \<longleftrightarrow> (\<forall>c \<in> set all_counters.
     (\<forall>v. (t, c, v) \<in> set trs \<longrightarrow> get_counter c m = v) \<and> ((\<forall>v. (t, c, v) \<notin> set trs) \<longrightarrow> get_counter c m = 0))"

lemma put_values_get:
  assumes "distinct (map (\<lambda>(t, c, v). (t, c)) trs)" and "\<forall>(t, c, v) \<in> set trs. c \<in> set all_counters"
  shows "case gm_get (fold put_value trs []) t of
      None \<Rightarrow> t \<notin> fst ` set trs | Some m \<Rightarrow> t \<in> fst ` set trs \<and> holds_value trs t m"
  using assms
proof (induction trs arbitrary: t rule: rev_induct)
  case Nil
  show ?case by simp
next
  case (snoc x trs)
  obtain t1 c1 v1 where x: "x = (t1, c1, v1)" by (cases x)
  have fresh: "\<forall>v. (t1, c1, v) \<notin> set trs" and c1: "c1 \<in> set all_counters"
    using snoc.prems x by (auto simp: rev_image_eqI)
  note IH = snoc.IH [of t] snoc.IH [of t1]
  let ?p = "fold put_value trs []"
  have get: "gm_get (fold put_value (trs @ [x]) []) t = (if t = t1
      then Some (set_counter c1 v1 (case gm_get ?p t1 of None \<Rightarrow> no_metric | Some m \<Rightarrow> m)) else gm_get ?p t)"
    by (auto simp: x put_value_def gomap_simps split: option.split)
  show ?case
  proof (cases "t = t1")
    case False
    then have "holds_value (trs @ [x]) t m = holds_value trs t m" for m
      by (simp add: holds_value_def x)
    moreover have "fst ` set (trs @ [x]) = insert t1 (fst ` set trs)" by (simp add: x)
    moreover have "gm_get (fold put_value (trs @ [x]) []) t = gm_get ?p t" using False get by simp
    ultimately show ?thesis using IH(1) snoc.prems False by (simp split: option.split_asm)
  next
    case True
    define m where "m = (case gm_get ?p t1 of None \<Rightarrow> no_metric | Some m \<Rightarrow> m)"
    have "holds_value trs t1 m"
    proof (cases "gm_get ?p t1")
      case None
      then have "t1 \<notin> fst ` set trs" using IH(2) snoc.prems by simp
      then have "(t1, c, v) \<notin> set trs" for c v by force
      then show ?thesis by (simp add: m_def None holds_value_def get_counter_def no_metric_def)
    next
      case (Some m')
      then show ?thesis using IH(2) snoc.prems by (simp add: m_def)
    qed
    then have "holds_value (trs @ [x]) t1 (set_counter c1 v1 m)"
      using fresh c1 by (auto simp: holds_value_def x get_set_counter)
    moreover have "gm_get (fold put_value (trs @ [x]) []) t = Some (set_counter c1 v1 m)"
      unfolding get m_def using True by simp
    ultimately show ?thesis using True by (simp only: option.simps) (simp add: x)
  qed
qed

lemma split_prefix: "c \<notin> set t \<Longrightarrow> split_on c (t @ c # r) = t # split_on c r"
  by (induction t) auto

text \<open>The decoded families of a registered subsystem.\<close>

definition values_of :: "metric_type \<times> subsystem \<Rightarrow> (string \<times> string \<times> int) list" where
  "values_of = (\<lambda>(t, s). [(t, MetricCreated, sub_Created s), (t, MetricDeleted, sub_Deleted s),
     (t, MetricErrors, sub_Errors s), (t, MetricRunning, sub_Running s)])"

text \<open>Integers up to \<open>2 ^ 53\<close> are floats.\<close>

definition float_exact :: "int \<Rightarrow> bool" where
  "float_exact i \<longleftrightarrow> \<bar>i\<bar> \<le> 2 ^ 53"

definition subsystem_in_range :: "subsystem \<Rightarrow> bool" where
  "subsystem_in_range s \<longleftrightarrow> float_exact (sub_Created s) \<and> float_exact (sub_Deleted s) \<and>
     float_exact (sub_Errors s) \<and> float_exact (sub_Running s)"

lemma bit_length_le: "n < 2 ^ k \<Longrightarrow> bit_length n \<le> k"
proof (induction k arbitrary: n)
  case 0
  then show ?case by (simp add: bit_length.simps)
next
  case (Suc k)
  then have "n div 2 < 2 ^ k" by simp
  from Suc.IH [OF this] show ?case by (subst bit_length.simps) simp
qed

lemma round_bits_small: "n < 2 ^ 53 \<Longrightarrow> round_bits n = n"
  using bit_length_le [of n 53] by (simp add: round_bits_def)

lemma bit_length_power: "bit_length (2 ^ k) = Suc k"
  by (induction k) (subst bit_length.simps, simp add: bit_length.simps [of 0])+

lemma round_bits_bound: "round_bits (2 ^ 53) = 2 ^ 53" "round_bits (2 ^ 53 + 1) = 2 ^ 53"
proof -
  have "bit_length (2 ^ 53) = 54" "bit_length (2 ^ 53 + 1) = 54"
    using bit_length_power [of 53] bit_length_power [of 52] bit_length.simps [of "2 ^ 53 + 1"] by simp_all
  then show "round_bits (2 ^ 53) = 2 ^ 53" "round_bits (2 ^ 53 + 1) = 2 ^ 53"
    by (simp_all add: round_bits_def Let_def)
qed

lemma float64_exact: "float_exact i \<Longrightarrow> float64_of_int i = of_int i"
  using round_bits_small [of "nat \<bar>i\<bar>"] round_bits_bound
  by (cases "nat \<bar>i\<bar> = 2 ^ 53") (auto simp: float_exact_def float64_of_int_def sgn_if)

text \<open>The next integer is not a float: it is read as the one before.\<close>

lemma float64_rounds: "float64_of_int (2 ^ 53 + 1) = 2 ^ 53"
proof -
  have "nat \<bar>2 ^ 53 + 1 :: int\<bar> = 2 ^ 53 + 1" by simp
  then show ?thesis using round_bits_bound(2) by (simp add: float64_of_int_def)
qed

lemma Ftoi_of_int: "float_exact i \<Longrightarrow> Ftoi conv (Float (float64_of_int i)) = Inr i"
  by (auto simp: float64_exact Ftoi_def go_trunc_def Let_def int64_range_def float_exact_def)

lemma subsystem_decodes:
  assumes "CHR ''_'' \<notin> set t" and "subsystem_in_range s"
  shows "list_all2 (decodes conv) (subsystem_families t s) (values_of (t, s))"
  using assms
  by (simp add: subsystem_families_def values_of_def decodes_def subsystem_in_range_def split_prefix
      family_value_def first_value_def Ftoi_of_int all_counters_def counter_names)

lemma registered_decodes:
  assumes "\<forall>(t, s) \<in> set ps. CHR ''_'' \<notin> set t \<and> subsystem_in_range s"
  shows "list_all2 (decodes conv) (concat (map (\<lambda>(t, s). subsystem_families t s) ps)) (concat (map values_of ps))"
  using assms by (induction ps) (auto intro!: list_all2_appendI subsystem_decodes)

lemma values_distinct:
  assumes "distinct (map fst ps)"
  shows "distinct (map (\<lambda>(t, c, v). (t, c)) (concat (map values_of ps)))"
  using assms by (induction ps) (force simp: values_of_def counter_names)+

lemma values_counters: "\<forall>(t, c, v) \<in> set (concat (map values_of ps)). c \<in> set all_counters"
  by (auto simp: values_of_def all_counters_def)

text \<open>A permutation of decodable families is decodable by the same permutation of the values.\<close>

lemma decodes_perm:
  assumes "list_all2 P xs ys" and "mset xs' = mset xs"
  shows "\<exists>ys'. list_all2 P xs' ys' \<and> mset ys' = mset ys"
  using assms list_all2_reorder_left_invariance [of P xs ys xs'] by blast

lemma holds_value_subsystem:
  assumes "gm_get ps t = Some s" and "gm_wf ps" and "holds_value trs t m" and "set trs = set (concat (map values_of ps))"
  shows "m = metric_of_subsystem s"
proof (rule metric_eqI)
  fix c assume c: "c \<in> set all_counters"
  have "(t, c, get_counter c (metric_of_subsystem s)) \<in> set (values_of (t, s))"
    using c by (auto simp: all_counters_def values_of_def get_counter_def metric_of_subsystem_def counter_names)
  then have "(t, c, get_counter c (metric_of_subsystem s)) \<in> set trs"
    using assms(1,4) by (auto dest: get_mem)
  then show "get_counter c m = get_counter c (metric_of_subsystem s)"
    using assms(3) c by (simp add: holds_value_def)
qed

text \<open>C29: Parsing what the registry gathers from the counters, in any order of the families, gives back
  for every metric type exactly the numbers of its counters, provided the type has no underscore and
  the numbers are at most \<open>2 ^ 53\<close> in absolute value: the registry delivers floats, which
  round larger numbers.\<close>

theorem parseMetrics_roundtrip:
  assumes "gm_wf (mp_subsystems p)" and "mset families = mset (registered_families p)"
    and "\<forall>(t, s) \<in> set (mp_subsystems p). CHR ''_'' \<notin> set t \<and> subsystem_in_range s"
  shows "\<exists>parsed. parseMetrics conv families = Done (Inr parsed) \<and>
    gm_get parsed = (\<lambda>t. map_option metric_of_subsystem (gm_get (mp_subsystems p) t))"
proof -
  let ?ps = "mp_subsystems p"
  obtain trs where trs: "list_all2 (decodes conv) families trs" "mset trs = mset (concat (map values_of ?ps))"
    using decodes_perm [OF registered_decodes [OF assms(3)], of families] assms(2)
    by (auto simp: registered_families_def)
  have set: "set trs = set (concat (map values_of ?ps))"
    using trs(2) by (rule mset_eq_setD)
  have distinct: "distinct (map (\<lambda>(t, c, v). (t, c)) trs)"
    using values_distinct [OF assms(1)] trs(2) by (metis mset_map mset_eq_imp_distinct_iff)
  have counters: "\<forall>(t, c, v) \<in> set trs. c \<in> set all_counters"
    unfolding set by (rule values_counters)
  have keys: "t \<in> fst ` set trs \<longleftrightarrow> gm_get ?ps t \<noteq> None" for t
    unfolding set by (force simp: values_of_def map_of_eq_None_iff)
  have "gm_get (fold put_value trs []) t = map_option metric_of_subsystem (gm_get ?ps t)" for t
    using put_values_get [OF distinct counters, of t] keys [of t] holds_value_subsystem [OF _ assms(1) _ set, of t]
    by (auto split: option.splits)
  then show ?thesis
    using parse_loop_decoded [OF trs(1)] by (auto simp: parseMetrics_def)
qed

definition sample_provider :: metrics_provider where
  "sample_provider = fold (collect GetCollector)
     [CallCreate MetricServices, CallCreate MetricServices, CallDelete MetricServices, CallError MetricVolumes] NewMetricsProvider"

lemma sample_provider_eq: "mp_subsystems sample_provider =
    [(MetricServices, \<lparr>sub_Created = 2, sub_Deleted = 1, sub_Errors = 0, sub_Running = 1\<rparr>),
     (MetricVolumes, \<lparr>sub_Created = 0, sub_Deleted = 0, sub_Errors = 1, sub_Running = 0\<rparr>)]"
  by (simp add: sample_provider_def GetCollector_def provider_Create_def provider_Delete_def provider_Error_def
      with_subsystem_def getSubsystem_def createSubsystem_def NewMetricsProvider_def metric_names)

theorem parseMetrics_roundtrip_witness:
  "\<exists>parsed. parseMetrics (\<lambda>_. 0) (rev (registered_families sample_provider)) = Done (Inr parsed) \<and>
    gm_get parsed MetricServices = Some \<lparr>mt_Created = 2, mt_Deleted = 1, mt_Running = 1, mt_Errors = 0\<rparr>"
proof -
  have "\<exists>parsed. parseMetrics (\<lambda>_. 0) (rev (registered_families sample_provider)) = Done (Inr parsed) \<and>
    gm_get parsed = (\<lambda>t. map_option metric_of_subsystem (gm_get (mp_subsystems sample_provider) t))"
    by (rule parseMetrics_roundtrip)
      (simp_all add: sample_provider_eq metric_names subsystem_in_range_def float_exact_def)
  then show ?thesis
    by (auto simp: sample_provider_eq metric_of_subsystem_def)
qed

end
