(* ===== verification/NetworkManager.thy ===== *)
theory NetworkManager
  imports Network
begin

text \<open>
  The manager and the handler of \<^verbatim>\<open>pkg/network\<close>. The requests of the agents are passed on to the cluster
  API; routes and network changes of the conductor go to the agents through the updater. A goroutine
  that an operation starts is part of its result: what it will do when it runs.
\<close>

record authorize_member_request =
  am_OrganizationId :: string
  am_NetworkId :: string
  am_MemberId :: string
  am_ServiceGroupInstanceId :: string
  am_ServiceApplicationInstanceId :: string
  am_AppInstanceId :: string
  am_IsProxy :: bool

record add_dns_entry_request =
  dns_OrganizationId :: string
  dns_ServiceName :: string
  dns_Ip :: string
  dns_Fqdn :: string
  dns_Tags :: "string list"

record 'v cluster_api_client =
  ca_AuthorizeMember :: "rpc_context \<Rightarrow> authorize_member_request \<Rightarrow> (go_error + unit, 'v) prog"
  ca_AddDNSEntry :: "rpc_context \<Rightarrow> add_dns_entry_request \<Rightarrow> (go_error + unit, 'v) prog"
  ca_AuthorizeZTConnection :: "rpc_context \<Rightarrow> authorize_zt_request \<Rightarrow> (go_error + unit, 'v) prog"

definition AuthorizeNetworkMembership ::
  "('k, 'c, 'v) login_tools \<Rightarrow> 'v cluster_api_client \<Rightarrow> string \<Rightarrow> string \<Rightarrow> string \<Rightarrow> string \<Rightarrow> string \<Rightarrow> string \<Rightarrow> bool \<Rightarrow>
   (go_error option, 'v session) prog" where
  "AuthorizeNetworkMembership t api organizationId appInstanceId serviceGroupInstanceId serviceInstanceId
     networkId memberId isProxy =
     (let req = \<lparr>am_OrganizationId = organizationId, am_NetworkId = networkId, am_MemberId = memberId,
            am_ServiceGroupInstanceId = serviceGroupInstanceId,
            am_ServiceApplicationInstanceId = serviceInstanceId, am_AppInstanceId = appInstanceId,
            am_IsProxy = isProxy\<rparr>
      in and_then (call_with_relogin t (\<lambda>ctx. ca_AuthorizeMember api ctx req)) (\<lambda>r. ret (generic_error r)))"

definition RegisterNetworkEntry ::
  "('k, 'c, 'v) login_tools \<Rightarrow> 'v cluster_api_client \<Rightarrow> (string \<Rightarrow> string) \<Rightarrow>
   string \<Rightarrow> string \<Rightarrow> string \<Rightarrow> string \<Rightarrow> string \<Rightarrow> string \<Rightarrow> string \<Rightarrow> (go_error option, 'v session) prog" where
  "RegisterNetworkEntry t api getenv organizationId appInstanceId networkId serviceName ip
     serviceGroupInstanceId serviceAppInstanceId =
     and_then (lift_outcome (GetNetworkingName serviceName organizationId appInstanceId)) (\<lambda>fqdn.
       let req = \<lparr>dns_OrganizationId = organizationId, dns_ServiceName = serviceName, dns_Ip = ip, dns_Fqdn = fqdn,
             dns_Tags = [
               ''organizationId:'' @ organizationId,
               ''appInstanceId:'' @ appInstanceId,
               ''serviceGroupInstanceId:'' @ serviceGroupInstanceId,
               ''serviceAppInstanceId:'' @ serviceAppInstanceId,
               ''clusterId:'' @ getenv NALEJ_ANNOTATION_CLUSTER_ID,
               ''networkId:'' @ networkId]\<rparr>
       in and_then (call_with_relogin t (\<lambda>ctx. ca_AddDNSEntry api ctx req)) (\<lambda>r. ret (generic_error r)))"

text \<open>The target pods of an application, or why there are none; common to routes and network changes.\<close>

definition no_namespace :: go_error where
  "no_namespace = DError NotFound ''no namespace found for given organization ID and app instance ID''"

record service_route =
  sr_OrganizationId :: string
  sr_AppInstanceId :: string
  sr_ServiceGroupId :: string
  sr_ServiceId :: string
  sr_Vsa :: string
  sr_RedirectToVpn :: string
  sr_Drop :: bool

definition manager_SetServiceRoute ::
  "'v network_updater \<Rightarrow> service_route \<Rightarrow> (go_error option, 'v) prog" where
  "manager_SetServiceRoute u request = with_state (\<lambda>v.
     case nu_GetTargetNamespace u (sr_OrganizationId request) (sr_AppInstanceId request) v of
       (targetNS, exist, Some err) \<Rightarrow> ret (Some err)
     | (targetNS, exist, None) \<Rightarrow>
         if \<not> exist then ret (Some no_namespace)
         else (case nu_GetPodsForApp u targetNS (sr_OrganizationId request) (sr_AppInstanceId request)
                   (sr_ServiceGroupId request) (sr_ServiceId request) v of
             Inl err \<Rightarrow> ret (Some err)
           | Inr pods \<Rightarrow> nu_UpdatePodsRoute u pods
               \<lparr>rt_Vsa = sr_Vsa request, rt_RedirectToVpn = sr_RedirectToVpn request, rt_Drop = sr_Drop request\<rparr>))"

definition sendJoin :: "'v network_updater \<Rightarrow> target_pod list \<Rightarrow> string \<Rightarrow> bool \<Rightarrow> (unit, 'v) prog" where
  "sendJoin u pods networkId isInbound =
     and_then (nu_SendJoinZTConnection u pods networkId isInbound) (\<lambda>err. ret ())"

text \<open>The second component of the result is the started goroutine.\<close>

definition manager_JoinZTNetwork ::
  "'v network_updater \<Rightarrow> zt_network_request \<Rightarrow> (go_error option \<times> (unit, 'v) prog option, 'v) prog" where
  "manager_JoinZTNetwork u request = with_state (\<lambda>v.
     case nu_GetTargetNamespace u (zr_OrganizationId request) (zr_AppInstanceId request) v of
       (targetNS, exist, Some err) \<Rightarrow> ret (Some err, None)
     | (targetNS, exist, None) \<Rightarrow>
         if \<not> exist then ret (Some no_namespace, None)
         else (case nu_GetAllPodsForApp u targetNS (zr_OrganizationId request) (zr_AppInstanceId request)
                   (zr_ServiceId request) v of
             Inl err \<Rightarrow> ret (Some err, None)
           | Inr pods \<Rightarrow> ret (None, Some (sendJoin u pods (zr_NetworkId request) (zr_IsInbound request)))))"

definition manager_LeaveZTNetwork ::
  "'v network_updater \<Rightarrow> zt_network_request \<Rightarrow> (go_error option, 'v) prog" where
  "manager_LeaveZTNetwork u request = with_state (\<lambda>v.
     case nu_GetTargetNamespace u (zr_OrganizationId request) (zr_AppInstanceId request) v of
       (targetNS, exist, Some err) \<Rightarrow> ret (Some err)
     | (targetNS, exist, None) \<Rightarrow>
         if \<not> exist then ret (Some no_namespace)
         else (case nu_GetAllPodsForApp u targetNS (zr_OrganizationId request) (zr_AppInstanceId request)
                   (zr_ServiceId request) v of
             Inl err \<Rightarrow> ret (Some err)
           | Inr pods \<Rightarrow> and_then
               (nu_SendLeaveZTConnection u pods (zr_NetworkId request) (zr_IsInbound request)) (\<lambda>err. ret None)))"

text \<open>The error of the first call is returned only after a second one: other errors are logged.\<close>

definition manager_AuthorizeZTConnection ::
  "('k, 'c, 'v) login_tools \<Rightarrow> 'v cluster_api_client \<Rightarrow> authorize_zt_request \<Rightarrow> (go_error option, 'v session) prog" where
  "manager_AuthorizeZTConnection t api request =
     and_then LoginHelper_GetContext (\<lambda>ctx.
     and_then (outside (ca_AuthorizeZTConnection api ctx request)) (\<lambda>r. case r of
       Inr _ \<Rightarrow> ret None
     | Inl errAuth \<Rightarrow>
         if is_unauthenticated errAuth then
           and_then (RerunAuthentication t) (\<lambda>errLogin.
           and_then LoginHelper_GetContext (\<lambda>ctx2.
           and_then (outside (ca_AuthorizeZTConnection api ctx2 request)) (\<lambda>r2. case r2 of
             Inl errAuth2 \<Rightarrow> ret (Some errAuth2)
           | Inr _ \<Rightarrow> ret None)))
         else ret None))"

section \<open>The handler\<close>

definition ValidSetRoute :: "service_route \<Rightarrow> go_error option" where
  "ValidSetRoute req =
     (if sr_OrganizationId req = [] then Some (DError InvalidArgument ''organization_id must not be empty'')
      else if sr_AppInstanceId req = [] then Some (DError InvalidArgument ''app_instance_id must not be empty'')
      else if sr_ServiceGroupId req = [] then Some (DError InvalidArgument ''service_group_id must not be empty'')
      else if sr_ServiceId req = [] then Some (DError InvalidArgument ''service_id must not be empty'')
      else if sr_Vsa req = [] then Some (DError InvalidArgument ''vsa must not be empty'')
      else if \<not> sr_Drop req then
        (if sr_RedirectToVpn req = [] then Some (DError InvalidArgument ''redirect_to_vpn must not be empty'') else None)
      else None)"

record authorize_network_membership_request =
  anm_OrganizationId :: string
  anm_AppInstanceId :: string
  anm_ServiceGroupInstanceId :: string
  anm_ServiceInstanceId :: string
  anm_NetworkId :: string
  anm_MemberId :: string
  anm_IsProxy :: bool

record register_network_entry_request =
  rne_OrganizationId :: string
  rne_AppInstanceId :: string
  rne_NetworkId :: string
  rne_ServiceName :: string
  rne_ServiceIp :: string
  rne_ServiceGroupInstanceId :: string
  rne_ServiceAppInstanceId :: string

definition handle_AuthorizeNetworkMembership ::
  "('k, 'c, 'v) login_tools \<Rightarrow> 'v cluster_api_client \<Rightarrow> authorize_network_membership_request \<Rightarrow>
   (go_error + unit, 'v session) prog" where
  "handle_AuthorizeNetworkMembership t api r =
     and_then (AuthorizeNetworkMembership t api (anm_OrganizationId r) (anm_AppInstanceId r)
         (anm_ServiceGroupInstanceId r) (anm_ServiceInstanceId r) (anm_NetworkId r) (anm_MemberId r) (anm_IsProxy r))
       (\<lambda>err. case err of
          Some _ \<Rightarrow> ret (Inl (DError Generic
            (''error authorizing member '' @ anm_MemberId r @ '' in network '' @ anm_NetworkId r)))
        | None \<Rightarrow> ret (Inr ()))"

definition handle_RegisterNetworkEntry ::
  "('k, 'c, 'v) login_tools \<Rightarrow> 'v cluster_api_client \<Rightarrow> (string \<Rightarrow> string) \<Rightarrow> register_network_entry_request \<Rightarrow>
   (go_error + unit, 'v session) prog" where
  "handle_RegisterNetworkEntry t api getenv r =
     and_then (RegisterNetworkEntry t api getenv (rne_OrganizationId r) (rne_AppInstanceId r) (rne_NetworkId r)
         (rne_ServiceName r) (rne_ServiceIp r) (rne_ServiceGroupInstanceId r) (rne_ServiceAppInstanceId r))
       (\<lambda>err. case err of
          Some _ \<Rightarrow> ret (Inl (DError Generic ''error registering network entry request''))
        | None \<Rightarrow> ret (Inr ()))"

text \<open>\<open>toGRPC\<close> is the conversion of errors of the library \<^verbatim>\<open>grpc-utils\<close>.\<close>

definition handle_SetServiceRoute ::
  "(go_error \<Rightarrow> go_error) \<Rightarrow> 'v network_updater \<Rightarrow> service_route \<Rightarrow> (go_error + unit, 'v) prog" where
  "handle_SetServiceRoute toGRPC u request =
     (case ValidSetRoute request of
        Some verr \<Rightarrow> ret (Inl (toGRPC verr))
      | None \<Rightarrow> and_then (manager_SetServiceRoute u request) (\<lambda>err. case err of
          Some e \<Rightarrow> ret (Inl (toGRPC e))
        | None \<Rightarrow> ret (Inr ())))"

definition handle_AuthorizeZTConnection ::
  "(go_error \<Rightarrow> go_error) \<Rightarrow> ('k, 'c, 'v) login_tools \<Rightarrow> 'v cluster_api_client \<Rightarrow> authorize_zt_request \<Rightarrow>
   (go_error + unit, 'v session) prog" where
  "handle_AuthorizeZTConnection toGRPC t api request =
     (case ValidateAuthorizeZTConnectionRequest request of
        Some vErr \<Rightarrow> ret (Inl (toGRPC vErr))
      | None \<Rightarrow> and_then (manager_AuthorizeZTConnection t api request) (\<lambda>err. ret (success_or_error err)))"

definition handle_JoinZTNetwork ::
  "(go_error \<Rightarrow> go_error) \<Rightarrow> 'v network_updater \<Rightarrow> zt_network_request \<Rightarrow>
   ((go_error + unit) \<times> (unit, 'v) prog option, 'v) prog" where
  "handle_JoinZTNetwork toGRPC u request =
     (case ValidateJoinZTNetworkRequest request of
        Some vErr \<Rightarrow> ret (Inl (toGRPC vErr), None)
      | None \<Rightarrow> and_then (manager_JoinZTNetwork u request) (\<lambda>(err, job). ret (success_or_error err, job)))"

definition handle_LeaveZTNetwork ::
  "(go_error \<Rightarrow> go_error) \<Rightarrow> 'v network_updater \<Rightarrow> zt_network_request \<Rightarrow> (go_error + unit, 'v) prog" where
  "handle_LeaveZTNetwork toGRPC u request =
     (case ValidateLeaveZTNetworkRequest request of
        Some vErr \<Rightarrow> ret (Inl (toGRPC vErr))
      | None \<Rightarrow> and_then (manager_LeaveZTNetwork u request) (\<lambda>err. ret (success_or_error err)))"

end
