(* ===== verification/NetworkTheorems.thy ===== *)
theory NetworkTheorems
  imports NetworkManager Zerotier
begin

text \<open>
  The properties of the network updater, alone and together with the deployments that the executor and
  the ZeroTier decorator build.
\<close>

section \<open>The target namespace\<close>

lemma target_loop_stored:
  "target_loop items stored var = (stored \<or> list_ex (\<lambda>ns. ne_Phase ns \<noteq> NamespaceTerminating) items,
    if items = [] then var else Some (last items))"
  by (induction items arbitrary: stored var) auto

text \<open>C31: The target namespace is the last one listed, also when that one is terminating and another is
  not: a namespace that is not terminating only decides whether there is a target at all.\<close>

theorem GetTargetNamespace_last:
  "GetTargetNamespace t organizationID appInstanceID v =
    (case at_ListNamespaces t (app_selector organizationID appInstanceID) v of
       Inl err \<Rightarrow> ([], False, Some (DError Generic ''cannot list namespaces''))
     | Inr items \<Rightarrow>
         if items = [] then ([], False, None)
         else if list_ex (\<lambda>ns. ne_Phase ns \<noteq> NamespaceTerminating) items then (ne_Name (last items), True, None)
         else ([], False, Some (DError Internal ''running namespaces not found'')))"
  by (auto simp: GetTargetNamespace_def target_loop_stored split: sum.split)

section \<open>Agents\<close>

text \<open>A running pod of a deployment: Kubernetes makes it from the template.\<close>

definition pod_of :: "string \<Rightarrow> string \<Rightarrow> k8s_deployment \<Rightarrow> pod_entry" where
  "pod_of name ip dep = \<lparr>po_Name = name, po_Labels = dep_Labels dep, po_Containers = pod_Containers (dep_Pod dep),
     po_Phase = PodRunning, po_PodIP = ip\<rparr>"

lemma inbound_labels_get:
  "gm_get (generateContainerLabelsInbound data s) NALEJ_ANNOTATION_ORGANIZATION_ID = Some (dm_OrganizationId data)"
  "gm_get (generateContainerLabelsInbound data s) NALEJ_ANNOTATION_APP_INSTANCE_ID = Some (dm_AppInstanceId data)"
  "gm_get (generateContainerLabelsInbound data s) NALEJ_ANNOTATION_SERVICE_ID = Some (si_ServiceId s)"
  "gm_get (generateContainerLabelsInbound data s) NALEJ_ANNOTATION_SERVICE_GROUP_ID = Some (si_ServiceGroupId s)"
  by (simp_all add: generateContainerLabelsInbound_def gomap_simps go_constants)

lemma get_fold_put_distinct:
  assumes "gm_wf m"
  shows "gm_get (fold (\<lambda>(k, v). gm_put k v) m acc) k = (case gm_get m k of Some v \<Rightarrow> Some v | None \<Rightarrow> gm_get acc k)"
  using assms
proof (induction m arbitrary: acc)
  case (Cons x m)
  obtain a b where "x = (a, b)" by (cases x)
  moreover have "gm_get m a = None" using Cons.prems calculation by (auto simp: map_of_eq_None_iff)
  ultimately show ?case using Cons by (auto simp: gomap_simps split: option.split)
qed simp

lemma inbound_service_name:
  assumes "gm_wf (si_Labels s)"
  shows "gm_get (generateContainerLabelsInbound data s) NALEJ_ANNOTATION_SERVICE_NAME =
    gm_get (si_Labels s) NALEJ_ANNOTATION_SERVICE_NAME"
  by (simp add: generateContainerLabelsInbound_def gomap_simps go_constants get_fold_put_distinct [OF assms]
      split: option.split)

text \<open>The variables of an agent tell its role.\<close>

lemma agent_role:
  assumes "generateContainerVars cfg data s isProxy = Done vars" and "c_Env c = vars" and "po_Phase pod \<noteq> PodFailed"
  shows "proxy_flag pod c = Some isProxy"
proof -
  have "env_lookup vars NALEJ_ENV_IS_PROXY = (True, show_bool isProxy)"
    using assms(1) by (auto simp: generateContainerVars_def bind_outcome_Done_iff go_constants)
  then show ?thesis
    using assms(2,3) by (cases isProxy) (simp_all add: proxy_flag_def hasEnvVar_def show_bool_def ParseBool_def)
qed

lemma own_containers_silent:
  assumes "\<forall>c \<in> set cs. \<not> fst (hasEnvVar c NALEJ_ENV_IS_PROXY)"
  shows "concat (map (\<lambda>c. case proxy_flag pod c of Some b \<Rightarrow> f b c | None \<Rightarrow> []) cs) = []"
  using assms by (auto simp: proxy_flag_def split: prod.splits bool.splits)

lemma service_targets_filter:
  "service_targets pod = filter (\<lambda>p. \<not> tp_OutboundProxy p) (all_targets pod)"
proof -
  have "concat (map (\<lambda>c. case proxy_flag pod c of Some False \<Rightarrow> [NewTargetPod (po_Name pod) (c_Name c) False (po_PodIP pod)] | _ \<Rightarrow> []) cs) =
    filter (\<lambda>p. \<not> tp_OutboundProxy p) (concat (map (\<lambda>c. case proxy_flag pod c of
      Some isProxy \<Rightarrow> [NewTargetPod (po_Name pod) (c_Name c) isProxy (po_PodIP pod)] | None \<Rightarrow> []) cs))" for cs
    by (induction cs) (auto simp: NewTargetPod_def split: option.split bool.split)
  then show ?thesis by (simp add: service_targets_def all_targets_def)
qed

lemma sidecar_targets:
  assumes "generateContainerVars cfg data s False = Done vars"
    and "\<forall>c \<in> set (pod_Containers (dep_Pod dep)). \<not> fst (hasEnvVar c NALEJ_ENV_IS_PROXY)"
  shows "all_targets (pod_of name ip (extend_deployment dns (zt_sidecar img cfg data s vars) dep)) =
    [NewTargetPod name ZtSidecarImageName False ip]"
  using assms(2)
  by (simp add: all_targets_def pod_of_def extend_deployment_def own_containers_silent
      agent_role [OF assms(1)] zt_sidecar_def)

lemma proxy_targets:
  assumes "inbound_deployment img cfg data s = Done dep"
  shows "all_targets (pod_of name ip dep) = [NewTargetPod name (zt_agent_name s) True ip]"
    and "dep_Labels dep = generateContainerLabelsInbound data s"
proof -
  obtain vars where vars: "generateContainerVars cfg data s True = Done vars"
    and dep: "map c_Env (pod_Containers (dep_Pod dep)) = [vars]" "map c_Name (pod_Containers (dep_Pod dep)) = [zt_agent_name s]"
      "dep_Labels dep = generateContainerLabelsInbound data s"
    using assms by (auto simp: inbound_deployment_def bind_outcome_Done_iff)
  show "all_targets (pod_of name ip dep) = [NewTargetPod name (zt_agent_name s) True ip]"
    using dep(1,2) agent_role [OF vars, of _ "pod_of name ip dep"] by (auto simp: all_targets_def pod_of_def)
  show "dep_Labels dep = generateContainerLabelsInbound data s" by (rule dep(3))
qed

text \<open>
  A message to one agent: dial it, and call it until it answers, at most three times. All attempts are at the
  same agent.
\<close>

definition agent_message ::
  "('g, 'v) agent_tools \<Rightarrow> string \<Rightarrow> ('g \<Rightarrow> (go_error option, 'v) prog) \<Rightarrow> string \<Rightarrow> (go_error option, 'v) prog" where
  "agent_message t failure call ip =
     and_then (at_Dial t (ip @ '':'' @ show_int ZtRedirectorPort)) (\<lambda>r. case r of
       Inl err \<Rightarrow> ret (Some (DError Generic ''cannot create connection with unified logging coordinator''))
     | Inr client \<Rightarrow> and_then (send_attempts (at_Sleep t) (call client) 3) (\<lambda>done.
         ret (if done then None else Some (DError Generic failure))))"

definition join_message :: "('g, 'v) agent_tools \<Rightarrow> string \<Rightarrow> bool \<Rightarrow> string \<Rightarrow> (go_error option, 'v) prog" where
  "join_message t networkId isInbound =
     agent_message t ''cannot join into zt-network on pod'' (\<lambda>client. at_JoinZTNetwork t client networkId isInbound)"

definition leave_message :: "('g, 'v) agent_tools \<Rightarrow> string \<Rightarrow> string \<Rightarrow> (go_error option, 'v) prog" where
  "leave_message t networkId =
     agent_message t ''cannot leave zt-network on pod'' (\<lambda>client. at_LeaveZTNetwork t client networkId)"

definition route_message :: "('g, 'v) agent_tools \<Rightarrow> zt_route \<Rightarrow> string \<Rightarrow> (go_error option, 'v) prog" where
  "route_message t route =
     agent_message t ''cannot update route on pod'' (\<lambda>client. at_SetRoute t client route)"

lemma result_of_attempts:
  "and_then (send_attempts sleep call n) (\<lambda>done. if done then ret None else ret (Some e)) =
    and_then (send_attempts sleep call n) (\<lambda>done. ret (if done then None else Some e))"
  by (rule arg_cong [where f = "and_then _"]) auto

lemma dialled:
  "(\<lambda>x. case (case x of Inl err \<Rightarrow> Inl e | Inr c \<Rightarrow> Inr c) of Inl err \<Rightarrow> ret (Some err) | Inr client \<Rightarrow> f client) =
    (\<lambda>x. case x of Inl err \<Rightarrow> ret (Some e) | Inr client \<Rightarrow> f client)"
  by (auto split: sum.split)

lemma send_message:
  "send_join t networkId isInbound target =
    (if tp_OutboundProxy target = isInbound then join_message t networkId isInbound (tp_PodIP target) else ret None)"
  "send_leave t networkId isInbound target =
    (if tp_OutboundProxy target = isInbound then leave_message t networkId (tp_PodIP target) else ret None)"
  "update_pod_route t route target = route_message t route (tp_PodIP target)"
  unfolding send_join_def send_leave_def update_pod_route_def join_message_def leave_message_def route_message_def
    agent_message_def getApplicationNetworkClient_def getSidecarClient_def and_then_assoc result_of_attempts JoinMustBeSent_def
    JoinRetries_def UpdateRetries_def and_then_ret dialled
  by (cases isInbound) auto

lemma on_ok_end: "on_ok m (ret None) = m"
proof
  fix s show "on_ok m (ret None) s = m s"
    by (cases "m s") (auto simp: on_ok_apply ret_def split: option.split)
qed

text \<open>C30: For the deployment of a service with its sidecar and the inbound proxy that the decorator made for
  it, as running pods, and a service that sets no proxy variable itself, the updater finds the two agents: sending a join
  or a leave of an inbound network to what it finds sends it to the proxy and to nobody else, for an outbound network
  to the sidecar and to nobody else, and a route goes to the sidecar only.\<close>

theorem messages_reach_agents_by_role:
  assumes "service_deployment cfg data s = Done dep" and "generateContainerVars cfg data s False = Done vars"
    and "inbound_deployment img cfg data (write_labels data s) = Done proxy"
    and "\<forall>c \<in> set (pod_Containers (dep_Pod dep)). \<not> fst (hasEnvVar c NALEJ_ENV_IS_PROXY)"
    and "at_ListPods t ns v = Inr [pod_of n1 ip1 (extend_deployment dns (zt_sidecar img cfg data s vars) dep), pod_of n2 ip2 proxy]"
  shows "\<exists>targets outbound.
    GetAllPodsForApp t ns (dm_OrganizationId data) (dm_AppInstanceId data) (si_ServiceId s) v = Inr targets \<and>
    SendJoinZTConnection t targets networkId True = join_message t networkId True ip2 \<and>
    SendLeaveZTConnection t targets networkId True = leave_message t networkId ip2 \<and>
    SendJoinZTConnection t targets networkId False = join_message t networkId False ip1 \<and>
    SendLeaveZTConnection t targets networkId False = leave_message t networkId ip1 \<and>
    GetPodsForApp t ns (dm_OrganizationId data) (dm_AppInstanceId data) (si_ServiceGroupId s) (si_ServiceId s) v = Inr outbound \<and>
    UpdatePodsRoute t outbound route = route_message t route ip1"
proof -
  let ?pod = "pod_of n1 ip1 (extend_deployment dns (zt_sidecar img cfg data s vars) dep)"
  let ?sidecar = "NewTargetPod n1 ZtSidecarImageName False ip1" and ?proxy = "NewTargetPod n2 (zt_agent_name s) True ip2"
  have labels: "dep_Labels dep = deployment_labels data s"
    using assms(1) by (rule service_deployment_Done)
  have same: "si_ServiceId (write_labels data s) = si_ServiceId s" "si_ServiceGroupId (write_labels data s) = si_ServiceGroupId s"
    "zt_agent_name (write_labels data s) = zt_agent_name s"
    by (simp_all add: write_labels_def zt_agent_name_def)
  have own: "has_label ?pod NALEJ_ANNOTATION_ORGANIZATION_ID (dm_OrganizationId data)"
    "has_label ?pod NALEJ_ANNOTATION_APP_INSTANCE_ID (dm_AppInstanceId data)"
    "has_label ?pod NALEJ_ANNOTATION_SERVICE_GROUP_ID (si_ServiceGroupId s)"
    "has_label ?pod NALEJ_ANNOTATION_SERVICE_ID (si_ServiceId s)"
    by (simp_all add: has_label_def pod_of_def extend_deployment_def labels deployment_labels_get)
  have agent: "has_label (pod_of n2 ip2 proxy) NALEJ_ANNOTATION_ORGANIZATION_ID (dm_OrganizationId data)"
    "has_label (pod_of n2 ip2 proxy) NALEJ_ANNOTATION_APP_INSTANCE_ID (dm_AppInstanceId data)"
    "has_label (pod_of n2 ip2 proxy) NALEJ_ANNOTATION_SERVICE_GROUP_ID (si_ServiceGroupId s)"
    "has_label (pod_of n2 ip2 proxy) NALEJ_ANNOTATION_SERVICE_ID (si_ServiceId s)"
    using proxy_targets(2) [OF assms(3)] by (simp_all add: has_label_def pod_of_def inbound_labels_get same)
  have "GetAllPodsForApp t ns (dm_OrganizationId data) (dm_AppInstanceId data) (si_ServiceId s) v = Inr [?sidecar, ?proxy]"
    using own agent
    by (simp add: GetAllPodsForApp_def assms(5) sidecar_targets [OF assms(2,4)] proxy_targets(1) [OF assms(3)] same)
  moreover have "GetPodsForApp t ns (dm_OrganizationId data) (dm_AppInstanceId data) (si_ServiceGroupId s) (si_ServiceId s) v =
      Inr [?sidecar]"
    using own agent
    by (simp add: GetPodsForApp_def assms(5) service_targets_filter sidecar_targets [OF assms(2,4)]
        proxy_targets(1) [OF assms(3)] NewTargetPod_def)
  ultimately show ?thesis
    by (simp add: SendJoinZTConnection_def SendLeaveZTConnection_def UpdatePodsRoute_def send_message NewTargetPod_def on_ok_end)
qed

section \<open>The labels of the proxy\<close>

text \<open>\<^verbatim>\<open>selects sel labels\<close>: a selector of Kubernetes selects the pods that have all its labels.\<close>

definition selects :: "labels \<Rightarrow> labels \<Rightarrow> bool" where
  "selects sel labels \<longleftrightarrow> list_all (\<lambda>(k, v). gm_get labels k = Some v) sel"

lemma deployment_labels_wf: "gm_wf (si_Labels s) \<Longrightarrow> gm_wf (deployment_labels data s)"
  by (simp add: deployment_labels_def gomap_wf)

text \<open>C32: Whether the user labels a service decides where its traffic goes. The labels that building a
  deployment writes into the user's own label map are copied to the inbound proxy, so the Kubernetes
  service that is meant for the pods of the service selects the proxy too; for a service without labels of
  the user it does not.\<close>

theorem labelled_service_selects_proxy:
  assumes "inbound_deployment img cfg data (write_labels data s) = Done proxy" and "gm_wf (si_Labels s)"
    and "service_deployment cfg data s = Done dep"
  shows "selects (svc_Selector (service_of_instance data s ports)) (dep_Labels proxy) \<longleftrightarrow>
    si_Labels s \<noteq> [] \<and> selects (svc_Selector (service_of_instance data s ports)) (dep_Labels dep)"
proof (cases "si_Labels s = []")
  case True
  then have "gm_get (dep_Labels proxy) NALEJ_ANNOTATION_SERVICE_NAME = None"
    using inbound_service_name [of s data] by (simp add: proxy_targets(2) [OF assms(1)] write_labels_def)
  then show ?thesis using True by (simp add: selects_def service_of_instance_def selector_labels_def)
next
  case False
  have labels: "dep_Labels dep = deployment_labels data s"
    using assms(3) by (rule service_deployment_Done)
  have w: "si_Labels (write_labels data s) = deployment_labels data s"
    using False by (simp add: write_labels_def)
  have name: "gm_get (dep_Labels proxy) NALEJ_ANNOTATION_SERVICE_NAME = gm_get (dep_Labels dep) NALEJ_ANNOTATION_SERVICE_NAME"
    using inbound_service_name [of "write_labels data s" data] deployment_labels_wf [OF assms(2)]
    by (simp add: proxy_targets(2) [OF assms(1)] w labels)
  then show ?thesis
    using False
    by (simp add: selects_def service_of_instance_def selector_labels_def proxy_targets(2) [OF assms(1)]
        inbound_labels_get labels deployment_labels_get)
qed

text \<open>A service of a real organization, with a label of the user, and the agents for it.\<close>

definition labelled_service :: service_instance where
  "labelled_service = sample_storage_service\<lparr>si_OrganizationId := ''organization'', si_AppInstanceId := ''application'',
     si_Labels := [(''tier'', ''backend'')]\<rparr>"

definition sample_dep :: k8s_deployment where
  "sample_dep = (case service_deployment sample_config (sample_metadata []) labelled_service of Done d \<Rightarrow> d)"

definition sample_vars :: "env_var list" where
  "sample_vars = (case generateContainerVars sample_config (sample_metadata []) labelled_service False of Done vars \<Rightarrow> vars)"

definition sample_proxy :: k8s_deployment where
  "sample_proxy = (case inbound_deployment ''zt'' sample_config (sample_metadata []) (write_labels (sample_metadata []) labelled_service)
     of Done d \<Rightarrow> d)"

lemma sample_dep: "service_deployment sample_config (sample_metadata []) labelled_service = Done sample_dep"
  by (simp add: sample_dep_def service_deployment_def generateAllVolumes_def labelled_service_def sample_storage_service_def)

lemma sample_vars: "generateContainerVars sample_config (sample_metadata []) labelled_service False = Done sample_vars"
  by (simp add: sample_vars_def generateContainerVars_def GetServiceFQDN_def slice_to_def labelled_service_def)

lemma sample_proxy: "inbound_deployment ''zt'' sample_config (sample_metadata [])
    (write_labels (sample_metadata []) labelled_service) = Done sample_proxy"
  by (simp add: sample_proxy_def inbound_deployment_def generateContainerVars_def GetServiceFQDN_def slice_to_def
      labelled_service_def write_labels_def)

lemma sample_own: "\<forall>c \<in> set (pod_Containers (dep_Pod sample_dep)). \<not> fst (hasEnvVar c NALEJ_ENV_IS_PROXY)"
  by (simp add: sample_dep_def service_deployment_def generateAllVolumes_def labelled_service_def sample_storage_service_def
      sample_metadata_def empty_stage_def getEnvVariables_def hasEnvVar_def go_constants)

definition sample_agents :: "(unit, unit) agent_tools" where
  "sample_agents = \<lparr>
     at_ListNamespaces = (\<lambda>sel v. Inr []),
     at_ListPods = (\<lambda>ns v. Inr [pod_of ''db-1'' ''10.0.0.1'' (extend_deployment [] (zt_sidecar ''zt'' sample_config (sample_metadata [])
        labelled_service sample_vars) sample_dep), pod_of ''zt-db-1'' ''10.0.0.2'' sample_proxy]),
     at_Dial = (\<lambda>address. ret (Inr ())), at_SetRoute = (\<lambda>g route. ret None), at_JoinZTNetwork = (\<lambda>g n b. ret None),
     at_LeaveZTNetwork = (\<lambda>g n. ret None), at_Sleep = (\<lambda>v. v)\<rparr>"

lemma sample_list: "at_ListPods sample_agents ''ns'' () = Inr [pod_of ''db-1'' ''10.0.0.1'' (extend_deployment []
    (zt_sidecar ''zt'' sample_config (sample_metadata []) labelled_service sample_vars) sample_dep),
    pod_of ''zt-db-1'' ''10.0.0.2'' sample_proxy]"
  by (simp only: sample_agents_def agent_tools.select_convs)

lemma sample_ids: "dm_OrganizationId (sample_metadata []) = ''organization''" "dm_AppInstanceId (sample_metadata []) = ''a''"
    "si_ServiceId labelled_service = ''svc''"
  by (simp_all add: sample_metadata_def labelled_service_def sample_storage_service_def)

theorem messages_reach_agents_by_role_witness:
  "\<exists>targets. GetAllPodsForApp sample_agents ''ns'' (dm_OrganizationId (sample_metadata [])) (dm_AppInstanceId (sample_metadata []))
      (si_ServiceId labelled_service) () = Inr targets \<and>
    SendJoinZTConnection sample_agents targets ''net'' True = join_message sample_agents ''net'' True ''10.0.0.2'' \<and>
    SendJoinZTConnection sample_agents targets ''net'' False = join_message sample_agents ''net'' False ''10.0.0.1''"
  using messages_reach_agents_by_role [OF sample_dep sample_vars sample_proxy sample_own sample_list, where
      networkId = "''net''" and route = "\<lparr>rt_Vsa = [], rt_RedirectToVpn = [], rt_Drop = False\<rparr>"]
  by (elim exE conjE) (rule exI, intro conjI)

lemma sample_dep_labels: "dep_Labels sample_dep = deployment_labels (sample_metadata []) labelled_service"
  using sample_dep by (rule service_deployment_Done)

lemma sample_selected:
  "selects (svc_Selector (service_of_instance (sample_metadata []) labelled_service [])) (dep_Labels sample_dep)"
proof -
  have "si_ServiceName labelled_service = ''db''" "si_OrganizationId labelled_service = dm_OrganizationId (sample_metadata [])"
    by (simp_all add: labelled_service_def sample_storage_service_def sample_metadata_def)
  moreover have "FormatNameWithHyphen ''db'' = FormatName ''db''" by code_simp
  ultimately show ?thesis
    by (simp add: selects_def service_of_instance_def selector_labels_def sample_dep_labels deployment_labels_get)
qed

theorem labelled_service_selects_proxy_witness:
  "selects (svc_Selector (service_of_instance (sample_metadata []) labelled_service [])) (dep_Labels sample_proxy)"
proof -
  have "gm_wf (si_Labels labelled_service)" "si_Labels labelled_service \<noteq> []"
    by (simp_all add: labelled_service_def)
  then show ?thesis
    using labelled_service_selects_proxy [OF sample_proxy _ sample_dep, of "[]"] sample_selected by simp
qed

end
