(* ===== verification/OfflinePolicy.thy ===== *)
theory OfflinePolicy
  imports Network
begin

text \<open>
  \<^verbatim>\<open>pkg/offline-policy\<close>: when the cluster goes offline every namespace of an application is deleted. The
  namespaces are read once; the deletions go on after an error, and the errors are chained. The trace
  of an error, \<^verbatim>\<open>StackToString\<close>, is a parameter.
\<close>

definition DeleteGracePeriod :: int where "DeleteGracePeriod = 10"

record 'v offline_tools =
  ot_ListNamespaces :: "'v \<Rightarrow> go_error + namespace_entry list"
  ot_DeleteNamespace :: "string \<Rightarrow> int \<Rightarrow> 'v \<Rightarrow> go_error option \<times> 'v"
  ot_ToDerror :: "go_error \<Rightarrow> go_error"
  ot_StackToString :: "go_error \<Rightarrow> string"

definition to_delete :: "namespace_entry \<Rightarrow> bool" where
  "to_delete ns \<longleftrightarrow> ne_Phase ns \<noteq> NamespaceTerminating \<and>
     (\<exists>k \<in> set (map fst (ne_Labels ns)). k = NALEJ_ANNOTATION_APP_INSTANCE_ID)"

definition add_failure :: "'v offline_tools \<Rightarrow> string \<Rightarrow> go_error option \<Rightarrow> go_error option" where
  "add_failure t name finalResult =
     (let thisError = DError Generic (''impossible to delete namespace '' @ name)
      in case finalResult of
           None \<Rightarrow> Some thisError
         | Some _ \<Rightarrow> Some (DError Generic (ot_StackToString t thisError)))"

fun remove_loop ::
  "'v offline_tools \<Rightarrow> namespace_entry list \<Rightarrow> go_error option \<Rightarrow> 'v \<Rightarrow> go_error option \<times> 'v" where
  "remove_loop t [] finalResult v = (finalResult, v)"
| "remove_loop t (ns # rest) finalResult v =
     (if to_delete ns then
        (case ot_DeleteNamespace t (ne_Name ns) DeleteGracePeriod v of
           (None, v') \<Rightarrow> remove_loop t rest finalResult v'
         | (Some err, v') \<Rightarrow> remove_loop t rest (add_failure t (ne_Name ns) finalResult) v')
      else remove_loop t rest finalResult v)"

definition RemoveAll :: "'v offline_tools \<Rightarrow> 'v \<Rightarrow> go_error option \<times> 'v" where
  "RemoveAll t v =
     (case ot_ListNamespaces t v of
        Inl err \<Rightarrow> (Some (ot_ToDerror t err), v)
      | Inr items \<Rightarrow> remove_loop t items None v)"

definition handle_RemoveAll :: "'v offline_tools \<Rightarrow> 'v \<Rightarrow> (go_error + unit) \<times> 'v" where
  "handle_RemoveAll t v = (case RemoveAll t v of (err, v') \<Rightarrow> (success_or_error err, v'))"

section \<open>What is left after going offline\<close>

text \<open>
  The names of the namespaces that are to be deleted, the worlds after deleting a list of names in its order whatever
  the single deletions answer, and the names whose deletion fails on the way.
\<close>

definition application_names :: "namespace_entry list \<Rightarrow> string list" where
  "application_names items = map ne_Name (filter to_delete items)"

definition delete_all :: "'v offline_tools \<Rightarrow> string list \<Rightarrow> 'v \<Rightarrow> 'v" where
  "delete_all t names v = fold (\<lambda>n w. snd (ot_DeleteNamespace t n DeleteGracePeriod w)) names v"

fun failed_deletions :: "'v offline_tools \<Rightarrow> string list \<Rightarrow> 'v \<Rightarrow> string list" where
  "failed_deletions t [] v = []"
| "failed_deletions t (n # ns) v = (case ot_DeleteNamespace t n DeleteGracePeriod v of
     (None, v') \<Rightarrow> failed_deletions t ns v'
   | (Some err, v') \<Rightarrow> n # failed_deletions t ns v')"

lemma failed_subset: "set (failed_deletions t names v) \<subseteq> set names"
  by (induction names arbitrary: v) (auto split: prod.splits option.splits)

lemma remove_loop_all:
  "\<exists>r. remove_loop t items acc v = (r, delete_all t (application_names items) v) \<and>
    (r = None \<longleftrightarrow> acc = None \<and> failed_deletions t (application_names items) v = [])"
proof (induction items arbitrary: acc v)
  case (Cons ns items)
  show ?case
  proof (cases "to_delete ns")
    case True
    obtain err w where del: "ot_DeleteNamespace t (ne_Name ns) DeleteGracePeriod v = (err, w)"
      by (cases "ot_DeleteNamespace t (ne_Name ns) DeleteGracePeriod v")
    show ?thesis
      using Cons.IH [of acc w] Cons.IH [of "add_failure t (ne_Name ns) acc" w] True del
      by (cases err) (auto simp: application_names_def delete_all_def add_failure_def Let_def split: option.splits)
  qed (use Cons.IH [of acc v] in \<open>simp add: application_names_def\<close>)
qed (simp add: application_names_def delete_all_def)

text \<open>
  The active application namespaces of the cluster, and what is relied on of a deletion when nothing else happens to
  the namespaces meanwhile: a success takes the namespace from the active ones, since it is terminating or gone, and
  a failure leaves them as they are.
\<close>

definition active_applications :: "'v offline_tools \<Rightarrow> 'v \<Rightarrow> string set" where
  "active_applications t v = (case ot_ListNamespaces t v of
     Inl err \<Rightarrow> {} | Inr items \<Rightarrow> set (application_names items))"

definition deletions_exact :: "'v offline_tools \<Rightarrow> bool" where
  "deletions_exact t \<longleftrightarrow> (\<forall>n g v err v'. ot_DeleteNamespace t n g v = (err, v') \<longrightarrow>
     active_applications t v' = (if err = None then active_applications t v - {n} else active_applications t v))"

lemma delete_all_active:
  assumes "deletions_exact t" and "distinct names"
  shows "active_applications t (delete_all t names v) =
    (active_applications t v - set names) \<union> (active_applications t v \<inter> set (failed_deletions t names v))"
  using assms(2)
proof (induction names arbitrary: v)
  case (Cons n names)
  obtain err w where del: "ot_DeleteNamespace t n DeleteGracePeriod v = (err, w)"
    by (cases "ot_DeleteNamespace t n DeleteGracePeriod v")
  have active: "active_applications t w = (if err = None then active_applications t v - {n} else active_applications t v)"
    using assms(1) del unfolding deletions_exact_def by blast
  then show ?case
    using failed_subset [of t names w] Cons.IH [of w] Cons.prems del
    by (cases err) (auto simp: delete_all_def)
qed (simp add: delete_all_def)

text \<open>C39: Going offline deletes every active namespace of an application that was listed, in the order of the
  list and also after a failure, and reports success exactly when each of these deletions succeeded. If moreover the
  deletions are all that happens to the namespaces meanwhile (a success takes its namespace from the active ones, a
  failure changes none) and the listed names are distinct, then the applications that are left are exactly those
  whose deletion failed. The operation holds no lock against the handler, so without that condition an application
  may be left that was deployed after the list was read.\<close>

theorem offline_leaves_only_failed:
  assumes "ot_ListNamespaces t v = Inr items" and "RemoveAll t v = (r, v')"
  shows "v' = delete_all t (application_names items) v \<and>
    (r = None \<longleftrightarrow> failed_deletions t (application_names items) v = []) \<and>
    (deletions_exact t \<and> distinct (application_names items) \<longrightarrow>
      active_applications t v' = set (failed_deletions t (application_names items) v))"
proof -
  have v': "v' = delete_all t (application_names items) v"
    and r: "r = None \<longleftrightarrow> failed_deletions t (application_names items) v = []"
    using remove_loop_all [of t items None v] assms by (auto simp: RemoveAll_def)
  have "active_applications t v' = set (failed_deletions t (application_names items) v)"
    if "deletions_exact t" and "distinct (application_names items)"
    using delete_all_active [OF that, of v] failed_subset [of t "application_names items" v] assms(1)
    by (auto simp: v' active_applications_def)
  with v' r show ?thesis by blast
qed

text \<open>A cluster that refuses to delete one of its namespaces.\<close>

definition stubborn_cluster :: "namespace_entry list offline_tools" where
  "stubborn_cluster = \<lparr>ot_ListNamespaces = Inr,
     ot_DeleteNamespace = (\<lambda>n g v. if n = ''stuck'' then (Some (ApiError ApiOther ''timeout''), v)
       else (None, filter (\<lambda>ns. ne_Name ns \<noteq> n) v)),
     ot_ToDerror = id, ot_StackToString = err_text\<rparr>"

definition two_applications :: "namespace_entry list" where
  "two_applications = map (\<lambda>n. \<lparr>ne_Name = n, ne_Labels = [(NALEJ_ANNOTATION_APP_INSTANCE_ID, ''a'')], ne_Phase = NamespaceActive\<rparr>)
     [''stuck'', ''other'']"

theorem offline_leaves_only_failed_witness:
  "\<exists>err v'. RemoveAll stubborn_cluster two_applications = (Some err, v') \<and>
    active_applications stubborn_cluster v' = {''stuck''}"
proof -
  obtain r v' where run: "RemoveAll stubborn_cluster two_applications = (r, v')"
    by (cases "RemoveAll stubborn_cluster two_applications")
  have exact: "deletions_exact stubborn_cluster"
    by (auto simp: deletions_exact_def stubborn_cluster_def active_applications_def application_names_def split: if_splits)
  have names: "application_names two_applications = [''stuck'', ''other'']"
    by (simp add: two_applications_def to_delete_def application_names_def)
  have failed: "failed_deletions stubborn_cluster (application_names two_applications) two_applications = [''stuck'']"
    by (simp add: names) (simp add: stubborn_cluster_def)
  have distinct: "distinct (application_names two_applications)" by (simp add: names)
  have list: "ot_ListNamespaces stubborn_cluster two_applications = Inr two_applications"
    by (simp add: stubborn_cluster_def)
  from offline_leaves_only_failed [OF list run] exact distinct failed
  have "r \<noteq> None \<and> active_applications stubborn_cluster v' = {''stuck''}" by auto
  with run show ?thesis by (cases r) auto
qed

end
