(* ===== verification/Spec2Isabelle.thy ===== *)
theory Spec2Isabelle
  imports ReportTheorems DeployableIds ExpireLogs CommandLine LivenessTheorems EventTheorems MetricsTheorems NetworkTheorems
    OfflinePolicy Proxy
begin

text \<open>
  A model of the deployment manager of a Nalej application cluster, the Go program under
  \<^verbatim>\<open>src/\<close>, with the theorems that say what it does.

  \<^bold>\<open>The program.\<close> A conductor sends deployment fragments: lists of stages, each a list of
  services. The handler (\<^verbatim>\<open>pkg/handler\<close>) validates a request and queues it. The manager takes the
  queued requests one by one, finds the namespace of the application, prepares it, and processes
  the stages in order: it builds the Kubernetes objects of the stage, enters the services into
  the monitored store, deploys, waits until nothing is pending, and retries after undeploying. The executor
  (\<^verbatim>\<open>pkg/kubernetes\<close>) turns a stage into objects and sends them to the cluster; the network decorator
  (\<^verbatim>\<open>pkg/decorators\<close>) extends the objects. Watchers of the cluster (\<^verbatim>\<open>pkg/kubernetes/events\<close>) hand events
  to two dispatchers: one calls the controller, which changes the status of the resources in the
  monitored store (\<^verbatim>\<open>internal/structures/monitor\<close>), the other counts metrics. The monitor helper
  (\<^verbatim>\<open>pkg/monitor\<close>) tells the conductor what changed in the store, through the session of the login helper
  (\<^verbatim>\<open>pkg/login-helper\<close>), which the network manager (\<^verbatim>\<open>pkg/network\<close>) and the proxies (\<^verbatim>\<open>pkg/proxy\<close>) use as well.

  \<^bold>\<open>The theories\<close>, in the order of the code.
  \<^item> \<open>Prelude\<close>: errors of Go as values, panics and blocking (\<open>outcome\<close>), Go maps as association
    lists whose order is the order of iteration, strings, and the program monad in which the operations with
    effects are written, with the rules that an invariant is kept.
  \<^item> \<open>Entities\<close>: \<^verbatim>\<open>internal/entities\<close>, the status types and their translations, the entries of
    the store and their counters, the validation of network requests.
  \<^item> \<open>MonitoredInstances\<close>: every method of \<^verbatim>\<open>memory_monitored_services.go\<close>. \<open>MonitorInvariant\<close> has the
    invariant of the store and that every operation keeps it, \<open>MonitorSpec\<close> an abstract
    specification that it refines, \<open>MonitorProps\<close> the lemmas and \<open>MonitorTheorems\<close> the properties.
    \<open>MonitoredInterface\<close>: the interface of \<^verbatim>\<open>monitored_services.go\<close> as a record of operations, its contract
    as a locale (\<open>monitored_contract\<close>: an implementation refines the specification and answers by its
    view), interpreted on the store in memory; what holds of whole histories is proved from the contract.
  \<^item> \<open>Common\<close>: \<^verbatim>\<open>pkg/common\<close>, \<^verbatim>\<open>pkg/utils/variables.go\<close> and \<^verbatim>\<open>pkg/network/utils.go\<close>: names and labels.
  \<^item> \<open>Config\<close>: \<^verbatim>\<open>pkg/config\<close>: the configuration, its validation and its global instance.
  \<^item> \<open>K8sTypes\<close>: the messages of the conductor, the Kubernetes objects the code fills in, and the
    client of the cluster as a record of functions on an unknown world.
  \<^item> \<open>Deployables\<close>, \<open>Storage\<close>, \<open>Targets\<close>, \<open>Deployments\<close>, \<open>ServiceObjects\<close>: the deployables of
    \<^verbatim>\<open>pkg/kubernetes\<close>, one group of definitions per file: how each is built, deployed and
    undeployed. \<open>KubernetesExecutor\<close>: the namespace, the stage that puts the deployables together, and the executor;
    \<open>ExecutorTheorems\<close>: what the creation of a namespace returns. \<open>DeployableIds\<close>: the identifiers of the deployables.
  \<^item> \<open>Zerotier\<close> and \<open>Istio\<close>: the two network decorators. \<open>IstioTheorems\<close>: what Istio is given stays well formed.
  \<^item> \<open>RequestQueue\<close>: the queue of requests and the loop that serves it.
  \<^item> \<open>Watched\<close>: the watched objects and their kinds. \<open>Controller\<close>: the event functions of
    \<^verbatim>\<open>kubernetes_controller.go\<close>. \<open>Events\<close>: the dispatcher of \<^verbatim>\<open>dispatcher.go\<close>; \<open>ControllerEvents\<close>: the dispatcher of
    the controller. \<open>EventTheorems\<close>: retries, repeated warnings, deleted objects.
    \<open>LivenessTheorems\<close>: ready deployments end the wait of the handler.
  \<^item> \<open>Provider\<close>: \<^verbatim>\<open>provider.go\<close> and \<^verbatim>\<open>watcher.go\<close>; \<open>ProviderTheorems\<close>: which watchers serve which dispatchers.
  \<^item> \<open>Metrics\<close>: the counters of \<^verbatim>\<open>pkg/metrics\<close> and the parsing of gathered metrics. \<open>MetricsTranslator\<close>: events as
    metrics. \<open>MetricsTheorems\<close>: what the numbers are after a sequence of events, and that they are parsed back.
    The registry delivers them as floats of 64 bits, rounded beyond 2 to the power of 53 (\<open>float64_of_int\<close>).
  \<^item> \<open>Handler\<close>: \<^verbatim>\<open>pkg/handler\<close>. \<open>HandlerProps\<close> has the contract between handler and executor as a locale,
    which the Kubernetes executor fulfils with every decorator that fulfils \<open>decorator_contract\<close>, and both decorators
    do, and that the services of a stage are never monitored; \<open>HandlerTheorems\<close> has the properties.
    \<open>HandlerTotal\<close>: that no request goes on for ever, and which requests cannot panic, in a small logic of total
    correctness over the contracts \<open>namespace_decorator\<close> (building a namespace, enough to undeploy) and its extension
    \<open>total_decorator\<close> (deploying as well). \<open>ReportTheorems\<close>: handler, executor, store and monitor helper together:
    a deployment that fails is reported, an application that is undeployed is forgotten. \<open>ExpireLogs\<close>: the goroutine that expires the logs of an application that is gone.
  \<^item> \<open>Login\<close>: \<^verbatim>\<open>pkg/login-helper\<close>. \<open>MonitorHelper\<close>: \<^verbatim>\<open>pkg/monitor\<close>. \<open>LoginTheorems\<close>: how often a login is tried, the two
    forms of an authenticated call, and the rounds of notifications.
  \<^item> \<open>Proxy\<close>, \<open>Network\<close>, \<open>NetworkManager\<close>, \<open>OfflinePolicy\<close>: \<^verbatim>\<open>pkg/proxy\<close>, \<^verbatim>\<open>pkg/network\<close>, \<^verbatim>\<open>pkg/offline-policy\<close>.
    \<open>NetworkTheorems\<close>: which pods get which message. \<open>OfflinePolicy\<close> also says what is left after going offline.
  \<^item> \<open>KubeClient\<close>: \<^verbatim>\<open>kubernetes_utils.go\<close>. \<open>Service\<close>: the flags of \<^verbatim>\<open>run.go\<close> and the start in
    \<^verbatim>\<open>deployment_manager_service.go\<close>. \<open>ServiceTheorems\<close>: the invariant under the configured decorator, and when the
    service starts. \<open>Servers\<close>: the gRPC and HTTP servers, the endpoint of the metrics (\<^verbatim>\<open>internal/collect\<close>), and how the
    process ends. \<open>CommandLine\<close>: the root commands, the configuration file, and the client of \<^verbatim>\<open>cmd/deployment-manager-cli\<close>.

  \<^bold>\<open>State and effects.\<close> The state of an operation is the monitored store and the world of the
  cluster, or the session of the login helper and an outside world. An operation returns \<open>Done\<close> with its result and the
  new state, \<open>Panic\<close> where Go panics, or \<open>Blocked\<close> where it does not return. One operation of the monitored store
  is one step of the model, since the code holds a lock for its whole body; \<open>UpdateAppStatus\<close> and the
  reads of \<open>WaitPendingChecks\<close> take no lock and are one step all the same. Operations of other goroutines come
  between steps, and where the code waits or sends they are given by a schedule.

  \<^bold>\<open>Parameters.\<close> The Kubernetes client, the caches and queues of client-go, the storage fabric, the clients of gRPC,
  TLS, files, the other goroutines and the environment variables are not code of the repository and are arguments of the
  definitions. Nothing is assumed of them except in named hypotheses of single properties.

  \<^bold>\<open>Loops and bounds.\<close> The retries of a stage and of a login terminate by the number of retries left. The recursion of
  \<^verbatim>\<open>DeployableNamespace.Deploy\<close> has fuel 2: the method calls itself only after it created the namespace,
  and the second call then ends the recursion unless the cluster neither finds nor refuses a namespace it
  has just created (\<open>Namespace_Deploy_returns\<close>); \<open>requests_return\<close> carries that to whole requests. The loops that wait for checks, for requests, for events and for the
  ticks of the monitor helper are recursion over their schedules; no result stands
  for a wait whose schedule ends before it does.

  \<^bold>\<open>Not modelled\<close>: logging and the parameters attached to errors, except that the lines of the metrics and the level
  of the log are values; the conversion of requests by gRPC, the parsing of the command line by cobra and viper; the mocks
  and helpers of the tests; \<^verbatim>\<open>Config.Print\<close>, which only logs.
\<close>

end
